(* ===== verification/Prelude.thy ===== *)
theory Prelude
  imports Main "HOL-Library.AList" "HOL-Library.Word" "HOL-Library.Sublist"
begin

text \<open>
  Shared vocabulary of the development: Go's integers and times, the functions of
  package \<open>strings\<close> and \<open>strconv\<close> the sources call, Go maps as association lists,
  the result of a call that may panic or not return, and the collections of facts that carry the
  component proofs.

  Conventions.  A Go \<open>string\<close> is a list of bytes (\<open>string\<close>, a list of \<open>char\<close>).
  A Go map is an association list with distinct keys whose order stands for the
  (unspecified) iteration order of \<open>range\<close>: a theorem about every list is a theorem
  about every order.  \<open>int64\<close> and \<open>time.Duration\<close> are 64-bit words read with
  \<open>sint\<close>; a Go \<open>int\<close> on which the code does no arithmetic that can overflow is an
  \<open>int\<close>.  A \<open>time.Time\<close> is the number of nanoseconds since the Unix epoch.
\<close>


section \<open>Integers and times\<close>

type_synonym int64 = "64 word"
type_synonym duration = int64
type_synonym gotime = int

definition Nanosecond :: duration where "Nanosecond = 1"
definition Millisecond :: duration where "Millisecond = 1000000"
definition Second :: duration where "Second = 1000000000"
definition Minute :: duration where "Minute = 60 * Second"
definition Hour :: duration where "Hour = 60 * Minute"

text \<open>\<open>time.Duration(n) * time.Second\<close>: the product wraps at 64 bits.\<close>

definition seconds :: "int64 \<Rightarrow> duration" where
  "seconds n = n * Second"

definition time_add :: "gotime \<Rightarrow> duration \<Rightarrow> gotime" where
  "time_add t d = t + sint d"

text \<open>The zero \<open>time.Time\<close>: January 1, year 1, 00:00:00 UTC.\<close>

definition zero_time :: gotime where
  "zero_time = - 62135596800 * 1000000000"

definition is_zero_time :: "gotime \<Rightarrow> bool" where
  "is_zero_time t \<longleftrightarrow> t = zero_time"

definition time_after :: "gotime \<Rightarrow> gotime \<Rightarrow> bool" where
  "time_after a b \<longleftrightarrow> b < a"

text \<open>\<open>a.Sub(b)\<close> saturates at the ends of \<open>int64\<close>.\<close>

definition time_sub :: "gotime \<Rightarrow> gotime \<Rightarrow> duration" where
  "time_sub a b = word_of_int (max (- (2 ^ 63)) (min (2 ^ 63 - 1) (a - b)))"

lemma sint_range64: "- (2 ^ 63) \<le> sint (x :: int64) \<and> sint x < 2 ^ 63"
  using sint_range_size [of x] by (simp add: word_size)

lemma sint_of_int64:
  assumes "- (2 ^ 63) \<le> i" "i < 2 ^ 63"
  shows "sint (word_of_int i :: int64) = i"
  using assms by (simp add: sint_sbintrunc' signed_take_bit_int_eq_self)

lemma sint_times_64:
  assumes "- (2 ^ 63) \<le> sint (a :: int64) * sint b" "sint a * sint b < 2 ^ 63"
  shows "sint (a * b) = sint a * sint b"
proof -
  have "a * b = word_of_int (sint a * sint b)"
    by simp
  then show ?thesis
    using sint_of_int64 [OF assms] by metis
qed

lemma sint_Second [simp]: "sint Second = 1000000000"
  by (simp add: Second_def)

lemma sint_time_sub:
  "- (2 ^ 63) \<le> a - b \<Longrightarrow> a - b < 2 ^ 63 \<Longrightarrow> sint (time_sub a b) = a - b"
  by (simp add: time_sub_def sint_of_int64 max_def min_def)

lemma sint_seconds:
  assumes "- 9223372036 \<le> sint n" "sint n \<le> 9223372036"
  shows "sint (seconds n) = sint n * 1000000000"
proof -
  have "sint n * sint Second = sint n * 1000000000"
    by simp
  with assms show ?thesis
    unfolding seconds_def by (subst sint_times_64) simp_all
qed

section \<open>Strings\<close>

definition has_prefix :: "string \<Rightarrow> string \<Rightarrow> bool" where
  "has_prefix s p \<longleftrightarrow> take (length p) s = p"

definition has_suffix :: "string \<Rightarrow> string \<Rightarrow> bool" where
  "has_suffix s p \<longleftrightarrow> has_prefix (rev s) (rev p)"

fun contains :: "string \<Rightarrow> string \<Rightarrow> bool" where
  "contains [] sub = (sub = [])"
| "contains (c # cs) sub = (has_prefix (c # cs) sub \<or> contains cs sub)"

text \<open>\<open>strings.Index\<close>: the position of the first occurrence.\<close>

fun str_index :: "string \<Rightarrow> string \<Rightarrow> nat option" where
  "str_index [] sub = (if sub = [] then Some 0 else None)"
| "str_index (c # cs) sub =
     (if has_prefix (c # cs) sub then Some 0 else map_option Suc (str_index cs sub))"

text \<open>\<open>strings.Split\<close> with a one-byte separator: never empty.\<close>

fun split_on :: "char \<Rightarrow> string \<Rightarrow> string list" where
  "split_on sep [] = [[]]"
| "split_on sep (c # cs) =
     (if c = sep then [] # split_on sep cs
      else (case split_on sep cs of
              [] \<Rightarrow> [[c]]
            | p # ps \<Rightarrow> (c # p) # ps))"

fun join_with :: "string \<Rightarrow> string list \<Rightarrow> string" where
  "join_with sep [] = []"
| "join_with sep [s] = s"
| "join_with sep (s # t # ts) = s @ sep @ join_with sep (t # ts)"

text \<open>
  \<open>strings.ToLower\<close> and \<open>strings.ToUpper\<close> on ASCII: bytes above 127 are left as they
  are, so the model is exact for ASCII strings (Kubernetes kinds and variable names).
\<close>

definition char_lower :: "char \<Rightarrow> char" where
  "char_lower c = (let n = of_char c :: nat in
     if 65 \<le> n \<and> n \<le> 90 then char_of (n + 32) else c)"

definition char_upper :: "char \<Rightarrow> char" where
  "char_upper c = (let n = of_char c :: nat in
     if 97 \<le> n \<and> n \<le> 122 then char_of (n - 32) else c)"

definition to_lower :: "string \<Rightarrow> string" where "to_lower = map char_lower"
definition to_upper :: "string \<Rightarrow> string" where "to_upper = map char_upper"

definition is_digit :: "char \<Rightarrow> bool" where
  "is_digit c \<longleftrightarrow> 48 \<le> (of_char c :: nat) \<and> (of_char c :: nat) \<le> 57"

definition digit_val :: "char \<Rightarrow> int" where
  "digit_val c = int (of_char c) - 48"

text \<open>
  \<open>strings.TrimSpace\<close> on ASCII white space: tab, newline, vertical tab, form feed,
  carriage return and space.
\<close>

definition is_space :: "char \<Rightarrow> bool" where
  "is_space c \<longleftrightarrow> (let n = of_char c :: nat in n = 32 \<or> (9 \<le> n \<and> n \<le> 13))"

definition trim_space :: "string \<Rightarrow> string" where
  "trim_space s = rev (dropWhile is_space (rev (dropWhile is_space s)))"

text \<open>
  \<open>strconv.Atoi\<close>: an optional sign, then one or more digits, within the range of a
  64-bit integer.
\<close>

definition digits_val :: "string \<Rightarrow> int" where
  "digits_val ds = foldl (\<lambda>a c. 10 * a + digit_val c) 0 ds"

definition atoi :: "string \<Rightarrow> int option" where
  "atoi s =
     (let (neg, ds) =
        (case s of
           [] \<Rightarrow> (False, [])
         | c # cs \<Rightarrow> if c = CHR ''-'' then (True, cs)
                    else if c = CHR ''+'' then (False, cs) else (False, c # cs))
      in if ds = [] \<or> \<not> list_all is_digit ds then None
         else let v = (if neg then - digits_val ds else digits_val ds) in
              if - (2 ^ 63) \<le> v \<and> v < 2 ^ 63 then Some v else None)"

text \<open>\<open>strconv.ParseBool\<close>.\<close>

definition parse_bool :: "string \<Rightarrow> bool option" where
  "parse_bool s =
     (if s \<in> {''1'', ''t'', ''T'', ''TRUE'', ''true'', ''True''} then Some True
      else if s \<in> {''0'', ''f'', ''F'', ''FALSE'', ''false'', ''False''} then Some False
      else None)"

text \<open>Decimal printing (\<open>%d\<close>), \<open>strings.EqualFold\<close> and \<open>%q\<close> on ASCII strings.\<close>

fun show_nat :: "nat \<Rightarrow> string" where
  "show_nat n = (if n < 10 then [char_of (n + 48)]
     else show_nat (n div 10) @ [char_of (n mod 10 + 48)])"

declare show_nat.simps [simp del]

definition show_int :: "int \<Rightarrow> string" where
  "show_int i = (if i < 0 then CHR ''-'' # show_nat (nat (- i)) else show_nat (nat i))"

definition equal_fold :: "string \<Rightarrow> string \<Rightarrow> bool" where
  "equal_fold a b \<longleftrightarrow> to_lower a = to_lower b"

definition hex_digit :: "nat \<Rightarrow> char" where
  "hex_digit n = char_of (if n < 10 then n + 48 else n + 87)"

definition quote_char :: "char \<Rightarrow> string" where
  "quote_char c = (let n = of_char c :: nat in
     if n = 34 \<or> n = 92 then [CHR 0x5C, c]
     else if n = 7 then [CHR 0x5C, CHR ''a''] else if n = 8 then [CHR 0x5C, CHR ''b'']
     else if n = 9 then [CHR 0x5C, CHR ''t''] else if n = 10 then [CHR 0x5C, CHR ''n'']
     else if n = 11 then [CHR 0x5C, CHR ''v''] else if n = 12 then [CHR 0x5C, CHR ''f'']
     else if n = 13 then [CHR 0x5C, CHR ''r'']
     else if n < 32 \<or> n = 127 then [CHR 0x5C, CHR ''x'', hex_digit (n div 16), hex_digit (n mod 16)]
     else [c])"

definition go_quote :: "string \<Rightarrow> string" where
  "go_quote s = CHR 0x22 # concat (map quote_char s) @ [CHR 0x22]"

text \<open>\<open>Duration.String\<close>: the fraction without trailing zeros, then hours, minutes and seconds.\<close>

definition fmt_frac :: "nat \<Rightarrow> nat \<Rightarrow> string" where
  "fmt_frac v prec =
     (let ds = (if prec = 0 then [] else show_nat (v mod 10 ^ prec));
          padded = replicate (prec - length ds) (CHR ''0'') @ ds;
          trimmed = rev (dropWhile (\<lambda>c. c = CHR ''0'') (rev padded))
      in if trimmed = [] then [] else CHR ''.'' # trimmed)"

definition fmt_unit :: "nat \<Rightarrow> nat \<Rightarrow> string \<Rightarrow> string" where
  "fmt_unit u prec suf = show_nat (u div 10 ^ prec) @ fmt_frac u prec @ suf"

definition duration_string :: "duration \<Rightarrow> string" where
  "duration_string d =
     (let u = nat \<bar>sint d\<bar>; s = u div 1000000000; m = s div 60; h = m div 60;
          body = (if u = 0 then ''0s''
            else if u < 1000 then fmt_unit u 0 ''ns''
            else if u < 1000000 then fmt_unit u 3 [CHR 0xC2, CHR 0xB5, CHR ''s'']
            else if u < 1000000000 then fmt_unit u 6 ''ms''
            else (if h > 0 then show_nat h @ ''h'' else []) @
                 (if m > 0 then show_nat (m mod 60) @ ''m'' else []) @
                 show_nat (s mod 60) @ fmt_frac u 9 @ ''s'')
      in if sint d < 0 then CHR ''-'' # body else body)"

lemma has_prefix_append [simp]: "has_prefix (p @ s) p"
  by (simp add: has_prefix_def)

lemma has_prefix_iff: "has_prefix s p \<longleftrightarrow> (\<exists>t. s = p @ t)"
  unfolding has_prefix_def by (metis append_eq_conv_conj append_take_drop_id)

lemma has_suffix_append [simp]: "has_suffix (s @ p) p"
  by (simp add: has_suffix_def)

lemma has_suffix_iff: "has_suffix s p \<longleftrightarrow> (\<exists>t. s = t @ p)"
  unfolding has_suffix_def has_prefix_iff
  by (metis rev_append rev_rev_ident)

lemma contains_iff: "contains s sub \<longleftrightarrow> (\<exists>a b. s = a @ sub @ b)"
proof (induction s)
  case Nil
  then show ?case by auto
next
  case (Cons c cs)
  show ?case
  proof
    assume "contains (c # cs) sub"
    then consider "has_prefix (c # cs) sub" | "contains cs sub" by auto
    then show "\<exists>a b. c # cs = a @ sub @ b"
    proof cases
      case 1
      then show ?thesis by (metis append_Nil has_prefix_iff)
    next
      case 2
      then show ?thesis using Cons.IH by (metis append_Cons)
    qed
  next
    assume "\<exists>a b. c # cs = a @ sub @ b"
    then obtain a b where ab: "c # cs = a @ sub @ b" by blast
    show "contains (c # cs) sub"
    proof (cases a)
      case Nil
      with ab have "has_prefix (c # cs) sub" by (auto simp: has_prefix_iff)
      then show ?thesis by simp
    next
      case (Cons x xs)
      with ab show ?thesis using Cons.IH by auto
    qed
  qed
qed

lemma split_on_nonempty [simp]: "split_on sep s \<noteq> []"
  by (cases s) (auto split: list.splits)

lemma split_on_single: "sep \<notin> set s \<Longrightarrow> split_on sep s = [s]"
  by (induction s) auto

lemma split_on_append:
  "sep \<notin> set a \<Longrightarrow> split_on sep (a @ sep # b) = a # split_on sep b"
  by (induction a) auto

lemma split_on_pieces: "p \<in> set (split_on sep s) \<Longrightarrow> sep \<notin> set p"
  by (induction s arbitrary: p) (auto split: list.splits if_splits)

lemma join_split: "join_with [sep] (split_on sep s) = s"
proof (induction s)
  case Nil
  show ?case by simp
next
  case (Cons c cs)
  obtain p ps where sp: "split_on sep cs = p # ps"
    by (metis list.exhaust split_on_nonempty)
  with Cons.IH show ?case
    by (cases ps) auto
qed

lemma split_join:
  "ss \<noteq> [] \<Longrightarrow> \<forall>s \<in> set ss. sep \<notin> set s \<Longrightarrow> split_on sep (join_with [sep] ss) = ss"
proof (induction ss)
  case Nil
  then show ?case by simp
next
  case (Cons s ss)
  then show ?case
    by (cases ss) (auto simp: split_on_single split_on_append)
qed

lemma trim_space_Nil [simp]: "trim_space [] = []"
  by (simp add: trim_space_def)

lemma hd_dropWhile': "dropWhile P xs \<noteq> [] \<Longrightarrow> \<not> P (hd (dropWhile P xs))"
  by (induction xs) auto

lemma trim_space_ends:
  assumes "trim_space s \<noteq> []"
  shows "\<not> is_space (hd (trim_space s))" and "\<not> is_space (last (trim_space s))"
proof -
  let ?l = "dropWhile is_space s"
  let ?r = "dropWhile is_space (rev ?l)"
  from assms have r: "?r \<noteq> []" by (simp add: trim_space_def)
  have l: "?l \<noteq> []"
  proof
    assume "?l = []"
    with r show False by simp
  qed
  have "last (trim_space s) = hd ?r"
    by (simp add: trim_space_def last_rev r)
  with r show "\<not> is_space (last (trim_space s))"
    by (simp add: hd_dropWhile')
  obtain d where d: "rev ?l = d @ ?r"
    by (metis takeWhile_dropWhile_id)
  then have "?l = rev ?r @ rev d"
    by (metis rev_append rev_rev_ident)
  with r have "hd ?l = hd (rev ?r)"
    by (metis hd_append2 rev_is_Nil_conv)
  with l show "\<not> is_space (hd (trim_space s))"
    unfolding trim_space_def using hd_dropWhile' [OF l] by simp
qed

lemma trim_space_id:
  assumes "s = [] \<or> (\<not> is_space (hd s) \<and> \<not> is_space (last s))"
  shows "trim_space s = s"
proof (cases "s = []")
  case True
  then show ?thesis by simp
next
  case False
  with assms have h: "\<not> is_space (hd s)" and t: "\<not> is_space (hd (rev s))"
    by (auto simp: hd_rev)
  from False h have "dropWhile is_space s = s" by (cases s) auto
  moreover from False t have "dropWhile is_space (rev s) = rev s" by (cases "rev s") auto
  ultimately show ?thesis by (simp add: trim_space_def)
qed

lemma trim_space_idem [simp]: "trim_space (trim_space s) = trim_space s"
  using trim_space_ends [of s] trim_space_id [of "trim_space s"] by blast

lemma of_char_char_of_nat: "n < 256 \<Longrightarrow> (of_char (char_of n :: char) :: nat) = n"
  by simp

lemma digit_char: "d < 10 \<Longrightarrow> is_digit (char_of (d + 48)) \<and> digit_val (char_of (d + 48)) = int d"
  for d :: nat
  by (simp add: is_digit_def digit_val_def)

lemma digits_val_snoc: "digits_val (ds @ [c]) = 10 * digits_val ds + digit_val c"
  by (simp add: digits_val_def)

lemma show_nat_nonempty: "show_nat n \<noteq> []"
  by (subst show_nat.simps) simp

lemma show_nat_digits: "list_all is_digit (show_nat n) \<and> digits_val (show_nat n) = int n"
proof (induction n rule: show_nat.induct)
  case (1 n)
  show ?case
  proof (cases "n < 10")
    case True
    then show ?thesis
      using digit_char [of n] by (subst (1 2) show_nat.simps) (simp add: digits_val_def)
  next
    case False
    have "n mod 10 < 10" by simp
    note d = digit_char [OF this]
    from False 1 have "list_all is_digit (show_nat (n div 10))"
      "digits_val (show_nat (n div 10)) = int (n div 10)" by auto
    moreover have "10 * int (n div 10) + int (n mod 10) = int n"
      by (metis mult_div_mod_eq of_nat_add of_nat_mult of_nat_numeral)
    ultimately show ?thesis
      using False d by (subst (1 2) show_nat.simps) (simp add: digits_val_snoc)
  qed
qed

lemma show_nat_hd: "hd (show_nat n) \<noteq> CHR ''-'' \<and> hd (show_nat n) \<noteq> CHR ''+''"
proof -
  have "is_digit (hd (show_nat n))"
    using show_nat_digits [of n] show_nat_nonempty [of n] by (cases "show_nat n") auto
  then show ?thesis by (auto simp: is_digit_def)
qed

text \<open>\<open>strconv.Atoi\<close> reads back what \<open>%d\<close> prints, on the range of \<open>int\<close>.\<close>

lemma atoi_show_int:
  assumes "- (2 ^ 63) \<le> i" "i < 2 ^ 63"
  shows "atoi (show_int i) = Some i"
proof (cases "i < 0")
  case True
  with assms show ?thesis
    using show_nat_digits [of "nat (- i)"] show_nat_nonempty [of "nat (- i)"]
    by (simp add: atoi_def show_int_def)
next
  case False
  obtain c cs where c: "show_nat (nat i) = c # cs"
    using show_nat_nonempty by (metis list.exhaust)
  with show_nat_hd [of "nat i"] have "c \<noteq> CHR ''-''" "c \<noteq> CHR ''+''" by auto
  with c False assms show ?thesis
    using show_nat_digits [of "nat i"] by (simp add: atoi_def show_int_def)
qed

lemma equal_fold_refl [simp]: "equal_fold s s"
  by (simp add: equal_fold_def)

section \<open>Go maps\<close>

type_synonym ('k, 'v) gomap = "('k \<times> 'v) list"

definition gomap_ok :: "('k, 'v) gomap \<Rightarrow> bool" where
  "gomap_ok m \<longleftrightarrow> distinct (map fst m)"

text \<open>\<open>m[k]\<close> of a \<open>map[string]string\<close> without the comma-ok form: the zero value
  when the key is absent.\<close>

definition lookup_str :: "('k, string) gomap \<Rightarrow> 'k \<Rightarrow> string" where
  "lookup_str m k = (case map_of m k of None \<Rightarrow> [] | Some v \<Rightarrow> v)"

definition bump :: "'k \<Rightarrow> ('k, int) gomap \<Rightarrow> ('k, int) gomap" where
  "bump k m = AList.update k (case map_of m k of None \<Rightarrow> 1 | Some n \<Rightarrow> n + 1) m"

lemma gomap_ok_update [simp]: "gomap_ok m \<Longrightarrow> gomap_ok (AList.update k v m)"
  by (simp add: gomap_ok_def distinct_update)

lemma gomap_ok_bump [simp]: "gomap_ok m \<Longrightarrow> gomap_ok (bump k m)"
  by (simp add: bump_def)

lemma map_of_bump:
  "map_of (bump k m) = (map_of m)(k \<mapsto> (case map_of m k of None \<Rightarrow> 1 | Some n \<Rightarrow> n + 1))"
  by (simp add: bump_def update_conv')

text \<open>The sum of the counters of a map, used by the accounting laws.\<close>

definition counts :: "('k, int) gomap \<Rightarrow> int" where
  "counts m = sum_list (map snd m)"

lemma counts_Nil [simp]: "counts [] = 0"
  by (simp add: counts_def)

lemma counts_update:
  "counts (AList.update k v m) = counts m + v - (case map_of m k of None \<Rightarrow> 0 | Some n \<Rightarrow> n)"
  by (induction m) (auto simp: counts_def split: option.splits)

lemma counts_bump [simp]: "counts (bump k m) = counts m + 1"
  by (auto simp: bump_def counts_update split: option.splits)

section \<open>Calls that may panic or not return\<close>

text \<open>A loop that may run for ever is given fuel; a theorem about its result says how much is enough.\<close>

datatype 'a run = Returned 'a | Panicked string | Out_Of_Fuel

section \<open>Lists\<close>

lemma filter_eq_filter: "(\<And>x. x \<in> set xs \<Longrightarrow> P x = Q x) \<Longrightarrow> filter P xs = filter Q xs"
  by (rule filter_cong) auto

lemma length_filter_split:
  "length xs = length (filter P xs) + length (filter (\<lambda>x. \<not> P x) xs)"
  by (induction xs) auto

end
