(* ===== verification/Go_Errors.thy ===== *)
theory Go_Errors
  imports Prelude
begin

text \<open>
  The errors of the program: Go's error interface as a datatype with one constructor
  per concrete error type the sources build or inspect, the \<open>errors\<close> package
  (\<open>Unwrap\<close>, \<open>Is\<close>, \<open>As\<close>) as functions on it, the structured errors of
  \<open>internal/errors/errors.go\<close> and \<open>pkg/errors/errors.go\<close>, and the retry
  classification of \<open>internal/errors/classified.go\<close>.

  A nil error is \<open>None\<close> of \<open>go_error option\<close>.  \<open>Api_Error\<close> stands for an
  apimachinery \<open>StatusError\<close>: the reasons for which \<open>apierrors.IsX\<close> answers true,
  and its message.
\<close>

section \<open>The error values\<close>

datatype api_class =
    Api_NotFound | Api_Conflict | Api_Forbidden | Api_Unauthorized | Api_TooManyRequests
  | Api_ServiceUnavailable | Api_InternalError | Api_ServerTimeout | Api_Timeout
  | Api_Invalid | Api_Gone | Api_MethodNotSupported | Api_AlreadyExists

datatype target_error_type =
    TargetAPINotFound | TargetResourceNotDiscoverable | TargetAccessDenied
  | TargetConfigurationInvalid | TargetTemporarilyUnavailable

fun target_type_string :: "target_error_type \<Rightarrow> string" where
  "target_type_string TargetAPINotFound = ''TARGET_API_NOT_FOUND''"
| "target_type_string TargetResourceNotDiscoverable = ''TARGET_RESOURCE_NOT_DISCOVERABLE''"
| "target_type_string TargetAccessDenied = ''TARGET_ACCESS_DENIED''"
| "target_type_string TargetConfigurationInvalid = ''TARGET_CONFIGURATION_INVALID''"
| "target_type_string TargetTemporarilyUnavailable = ''TARGET_TEMPORARILY_UNAVAILABLE''"

datatype error_class = Transient | Permanent | ResourceExhausted | Other_Class int

fun error_class_string :: "error_class \<Rightarrow> string" where
  "error_class_string Transient = ''transient''"
| "error_class_string Permanent = ''permanent''"
| "error_class_string ResourceExhausted = ''resource_exhausted''"
| "error_class_string (Other_Class n) = ''unknown''"

text \<open>
  \<open>Sentinel\<close> is a package-level \<open>errors.New\<close> variable (its name identifies the
  pointer), \<open>Errors_New\<close> a fresh one, \<open>Errorf p e s\<close> is \<open>fmt.Errorf\<close> with one
  \<open>%w\<close> between the texts \<open>p\<close> and \<open>s\<close>, \<open>Errorf2\<close> one with two \<open>%w\<close>.
\<close>

datatype go_error =
    Sentinel string string
  | Errors_New string
  | Api_Error "api_class list" string
  | Errorf string go_error string
  | Errorf2 go_error string go_error
  | Net_Error bool string
  | Op_Error bool string go_error
  | Context_Error string string "go_error option" "(string, string) gomap"
  | Target_Error target_error_type string string
  | Classified_Error go_error error_class int
  | Code_Error string string "go_error option"

text \<open>\<open>Error()\<close> of each type.\<close>

fun error_string :: "go_error \<Rightarrow> string" where
  "error_string (Sentinel name msg) = msg"
| "error_string (Errors_New msg) = msg"
| "error_string (Api_Error cs msg) = msg"
| "error_string (Errorf p e s) = p @ error_string e @ s"
| "error_string (Errorf2 e1 sep e2) = error_string e1 @ sep @ error_string e2"
| "error_string (Net_Error t msg) = msg"
| "error_string (Op_Error t p e) = p @ error_string e"
| "error_string (Context_Error ty msg None ctx) = msg"
| "error_string (Context_Error ty msg (Some e) ctx) = msg @ '': '' @ error_string e"
| "error_string (Target_Error ty gvk detail) = target_type_string ty @ '': '' @ detail"
| "error_string (Classified_Error e c sc) =
     (if sc > 0
      then ''['' @ error_class_string c @ ''] status '' @ show_int sc @ '': '' @ error_string e
      else ''['' @ error_class_string c @ ''] '' @ error_string e)"
| "error_string (Code_Error code msg None) = ''['' @ code @ ''] '' @ msg"
| "error_string (Code_Error code msg (Some e)) = ''['' @ code @ ''] '' @ msg @ '': '' @ error_string e"

text \<open>\<open>errors.Unwrap\<close>: nil on an error that wraps two.\<close>

fun errors_unwrap :: "go_error \<Rightarrow> go_error option" where
  "errors_unwrap (Errorf p e s) = Some e"
| "errors_unwrap (Op_Error t p e) = Some e"
| "errors_unwrap (Context_Error ty msg oe ctx) = oe"
| "errors_unwrap (Classified_Error e c sc) = Some e"
| "errors_unwrap (Code_Error code msg oe) = oe"
| "errors_unwrap e = None"

text \<open>The tree of an error in the order \<open>errors.Is\<close> and \<open>errors.As\<close> visit it.\<close>

fun err_tree :: "go_error \<Rightarrow> go_error list" where
  "err_tree (Errorf p e s) = Errorf p e s # err_tree e"
| "err_tree (Errorf2 e1 sep e2) = Errorf2 e1 sep e2 # err_tree e1 @ err_tree e2"
| "err_tree (Op_Error t p e) = Op_Error t p e # err_tree e"
| "err_tree (Context_Error ty msg (Some e) ctx) = Context_Error ty msg (Some e) ctx # err_tree e"
| "err_tree (Classified_Error e c sc) = Classified_Error e c sc # err_tree e"
| "err_tree (Code_Error code msg (Some e)) = Code_Error code msg (Some e) # err_tree e"
| "err_tree e = [e]"

fun is_context_error :: "go_error \<Rightarrow> bool" where
  "is_context_error (Context_Error ty msg oe ctx) = True"
| "is_context_error e = False"

fun is_classified_error :: "go_error \<Rightarrow> bool" where
  "is_classified_error (Classified_Error e c sc) = True"
| "is_classified_error e = False"

fun is_target_error :: "go_error \<Rightarrow> bool" where
  "is_target_error (Target_Error ty gvk detail) = True"
| "is_target_error e = False"

fun is_api_error :: "go_error \<Rightarrow> bool" where
  "is_api_error (Api_Error cs msg) = True"
| "is_api_error e = False"

definition errors_as :: "(go_error \<Rightarrow> bool) \<Rightarrow> go_error \<Rightarrow> go_error option" where
  "errors_as P e = List.find P (err_tree e)"

definition errors_is :: "string \<Rightarrow> go_error \<Rightarrow> bool" where
  "errors_is name e \<longleftrightarrow> list_ex (\<lambda>x. case x of Sentinel n m \<Rightarrow> n = name | _ \<Rightarrow> False) (err_tree e)"

text \<open>\<open>apierrors.IsX\<close>: the reasons of the first status error of the tree.\<close>

definition api_is :: "api_class \<Rightarrow> go_error \<Rightarrow> bool" where
  "api_is c e = (case errors_as is_api_error e of
       Some (Api_Error cs msg) \<Rightarrow> c \<in> set cs | _ \<Rightarrow> False)"

lemma err_tree_self [simp]: "\<exists>t. err_tree e = e # t"
proof (cases e)
  case (Context_Error ty msg oe ctx)
  then show ?thesis by (cases oe) auto
next
  case (Code_Error code msg oe)
  then show ?thesis by (cases oe) auto
qed auto

lemma errors_as_self: "P e \<Longrightarrow> errors_as P e = Some e"
proof -
  assume "P e"
  moreover obtain t where "err_tree e = e # t"
    using err_tree_self [of e] by blast
  ultimately show ?thesis by (simp add: errors_as_def)
qed

lemma errors_as_SomeD: "errors_as P e = Some x \<Longrightarrow> P x \<and> x \<in> set (err_tree e)"
  by (auto simp: errors_as_def find_Some_iff)

lemma errors_as_Errorf: "\<not> P (Errorf p e s) \<Longrightarrow> errors_as P (Errorf p e s) = errors_as P e"
  by (simp add: errors_as_def)

lemma errors_is_Errorf [simp]: "errors_is n (Errorf p e s) = errors_is n e"
  by (simp add: errors_is_def)

lemma errors_is_Sentinel [simp]: "errors_is n (Sentinel m s) \<longleftrightarrow> n = m"
  by (auto simp: errors_is_def)

lemma api_is_Api_Error [simp]: "api_is c (Api_Error cs msg) \<longleftrightarrow> c \<in> set cs"
  by (simp add: api_is_def errors_as_def)

lemma api_is_Errorf [simp]: "api_is c (Errorf p e s) = api_is c e"
  by (simp add: api_is_def errors_as_Errorf)

section \<open>Errors with context\<close>

text \<open>\<open>WithContext\<close> and \<open>GetContext\<close> of a \<open>*ContextError\<close>; on another error they
  are the identity (the methods exist on \<open>ContextError\<close> only).\<close>

fun ce_with_context :: "go_error \<Rightarrow> string \<Rightarrow> string \<Rightarrow> go_error" where
  "ce_with_context (Context_Error ty msg oe ctx) k v =
     Context_Error ty msg oe (AList.update k v ctx)"
| "ce_with_context e k v = e"

fun ce_get_context :: "go_error \<Rightarrow> string \<Rightarrow> string" where
  "ce_get_context (Context_Error ty msg oe ctx) k = lookup_str ctx k"
| "ce_get_context e k = []"

definition errors_new :: "string \<Rightarrow> string \<Rightarrow> go_error" where
  "errors_new ty msg = Context_Error ty msg None []"

definition errors_wrap :: "go_error option \<Rightarrow> string \<Rightarrow> string \<Rightarrow> go_error" where
  "errors_wrap e ty msg = Context_Error ty msg e []"

definition with_context :: "go_error \<Rightarrow> string \<Rightarrow> string \<Rightarrow> go_error" where
  "with_context e k v = (case errors_as is_context_error e of
       Some ce \<Rightarrow> ce_with_context ce k v
     | None \<Rightarrow> Context_Error [] (error_string e) (Some e) [(k, v)])"

fun ce_add_all :: "go_error \<Rightarrow> (string, string) gomap \<Rightarrow> go_error" where
  "ce_add_all (Context_Error ty msg oe ctx) kvs =
     Context_Error ty msg oe (foldl (\<lambda>m (k, v). AList.update k v m) ctx kvs)"
| "ce_add_all e kvs = e"

definition with_multiple_context :: "go_error \<Rightarrow> (string, string) gomap \<Rightarrow> go_error" where
  "with_multiple_context e kvs = (case errors_as is_context_error e of
       Some ce \<Rightarrow> ce_add_all ce kvs
     | None \<Rightarrow> Context_Error [] (error_string e) (Some e) kvs)"

definition with_policy :: "go_error \<Rightarrow> string \<Rightarrow> string \<Rightarrow> go_error" where
  "with_policy e ns name =
     with_multiple_context e [(''policy_namespace'', ns), (''policy_name'', name)]"

definition with_resource :: "go_error \<Rightarrow> string \<Rightarrow> string \<Rightarrow> go_error" where
  "with_resource e ns name =
     with_multiple_context e [(''resource_namespace'', ns), (''resource_name'', name)]"

lemma is_context_errorE:
  assumes "is_context_error e"
  obtains ty msg oe ctx where "e = Context_Error ty msg oe ctx"
  using assms by (cases e) auto

lemma map_of_foldl_update:
  "map_of (foldl (\<lambda>m (k, v). AList.update k v m) ctx kvs) k =
     (case map_of (rev kvs) k of Some v \<Rightarrow> Some v | None \<Rightarrow> map_of ctx k)"
  by (induction kvs arbitrary: ctx)
    (auto simp: update_conv' map_add_def split: option.splits)

lemma map_of_rev_distinct: "gomap_ok kvs \<Longrightarrow> map_of (rev kvs) k = map_of kvs k"
proof (induction kvs)
  case (Cons kv kvs)
  obtain a b where kv: "kv = (a, b)" by (cases kv)
  with Cons.prems have "map_of kvs a = None" "gomap_ok kvs"
    by (auto simp: gomap_ok_def map_of_eq_None_iff)
  with Cons.IH kv show ?case
    by (auto simp: map_add_def split: option.splits)
qed simp

text \<open>What a wrapping keeps: it is a context error, and each field reads back.\<close>

lemma is_context_error_with_context [simp]: "is_context_error (with_context e k v)"
  using errors_as_SomeD [of is_context_error e]
  by (auto simp: with_context_def split: option.splits elim!: is_context_errorE)

lemma is_context_error_with_multiple [simp]: "is_context_error (with_multiple_context e kvs)"
  using errors_as_SomeD [of is_context_error e]
  by (auto simp: with_multiple_context_def split: option.splits elim!: is_context_errorE)

lemma get_with_context:
  "is_context_error e \<Longrightarrow>
     ce_get_context (ce_with_context e k v) k' = (if k' = k then v else ce_get_context e k')"
  by (auto elim!: is_context_errorE simp: lookup_str_def update_conv' split: option.splits)

lemma get_add_all:
  assumes "is_context_error e"
  shows "ce_get_context (ce_add_all e kvs) k =
    (case map_of (rev kvs) k of Some v \<Rightarrow> v | None \<Rightarrow> ce_get_context e k)"
  using assms
  by (auto elim!: is_context_errorE simp: lookup_str_def map_of_foldl_update split: option.splits)

lemma with_multiple_of_context:
  "is_context_error e \<Longrightarrow> with_multiple_context e kvs = ce_add_all e kvs"
  by (simp add: with_multiple_context_def errors_as_self)

section \<open>Retry classification\<close>

definition exhaustion_patterns :: "string list" where
  "exhaustion_patterns =
     [''token budget exhausted'', ''budget exceeded'', ''context_length_exceeded'',
      ''exceeds the available context'', ''maximum context length'',
      ''rate limit exceeded'', ''quota exceeded'', ''resource exhausted'']"

definition is_retryable_status :: "int \<Rightarrow> bool" where
  "is_retryable_status code \<longleftrightarrow> code \<in> {429, 502, 503, 504, 500}"

text \<open>The digits of \<open>extractHTTPStatus\<close>: at most three, up to the first non-digit.\<close>

fun status_digits :: "nat \<Rightarrow> int \<Rightarrow> string \<Rightarrow> int" where
  "status_digits 0 code rest = code"
| "status_digits (Suc n) code [] = code"
| "status_digits (Suc n) code (c # cs) =
     (if is_digit c then status_digits n (code * 10 + digit_val c) cs else code)"

fun extract_with_prefixes :: "string list \<Rightarrow> string \<Rightarrow> int" where
  "extract_with_prefixes [] msg = 0"
| "extract_with_prefixes (p # ps) msg =
     (case str_index msg p of
        Some i \<Rightarrow> (let code = status_digits 3 0 (drop (i + length p) msg) in
                   if 100 \<le> code \<and> code < 600 then code else extract_with_prefixes ps msg)
      | None \<Rightarrow> extract_with_prefixes ps msg)"

definition extract_http_status :: "string \<Rightarrow> int" where
  "extract_http_status msg = extract_with_prefixes [''status '', ''http ''] msg"

text \<open>\<open>Timeout()\<close> of the first \<open>net.Error\<close>, or an \<open>OpError\<close>, or a known text.\<close>

definition is_network_error :: "go_error \<Rightarrow> bool" where
  "is_network_error e =
     ((case errors_as (\<lambda>x. case x of Net_Error t m \<Rightarrow> True | Op_Error t p i \<Rightarrow> True | _ \<Rightarrow> False) e of
         Some (Net_Error t m) \<Rightarrow> t | Some (Op_Error t p i) \<Rightarrow> t | _ \<Rightarrow> False)
      \<or> errors_as (\<lambda>x. case x of Op_Error t p i \<Rightarrow> True | _ \<Rightarrow> False) e \<noteq> None
      \<or> list_ex (contains (error_string e))
          [''connection refused'', ''connection reset'', ''broken pipe'', ''no such host'',
           ''i/o timeout''])"

text \<open>
  The unwrapping loop of \<open>classifyWithConfig\<close>: \<open>Inl\<close> a classified error of the tree,
  \<open>Inr\<close> the innermost error.
\<close>

lemma errors_unwrap_size: "errors_unwrap e = Some n \<Longrightarrow> size n < size e"
  by (cases e) auto

function classify_walk :: "go_error \<Rightarrow> go_error + go_error" where
  "classify_walk e =
     (case errors_as is_classified_error e of
        Some ce \<Rightarrow> Inl ce
      | None \<Rightarrow> (case errors_unwrap e of Some n \<Rightarrow> classify_walk n | None \<Rightarrow> Inr e))"
  by pat_completeness auto
termination
  by (relation "measure size") (auto dest: errors_unwrap_size)

declare classify_walk.simps [simp del]

definition classify_message :: "string list \<Rightarrow> go_error \<Rightarrow> go_error \<Rightarrow> go_error" where
  "classify_message pats e inner =
     (let msg = to_lower (error_string inner) in
      if list_ex (contains msg) pats then Classified_Error e ResourceExhausted 0
      else
        let sc = extract_http_status msg in
        if sc > 0 \<and> is_retryable_status sc then Classified_Error e Transient sc
        else if sc > 0 \<and> (sc = 401 \<or> sc = 403) then Classified_Error e Permanent sc
        else if sc > 0 \<and> sc = 404 then Classified_Error e Permanent sc
        else if sc > 0 \<and> sc \<ge> 400 \<and> sc < 500 then Classified_Error e Permanent sc
        else if sc > 0 \<and> sc \<ge> 500 then Classified_Error e Transient sc
        else if is_network_error inner then Classified_Error e Transient 0
        else Classified_Error e Transient 0)"

definition classify_with_config :: "string list \<Rightarrow> go_error option \<Rightarrow> go_error option" where
  "classify_with_config pats oe = (case oe of
       None \<Rightarrow> None
     | Some e \<Rightarrow> (case classify_walk e of
           Inl ce \<Rightarrow> Some ce
         | Inr inner \<Rightarrow> Some (classify_message pats e inner)))"

definition classify_error :: "go_error option \<Rightarrow> go_error option" where
  "classify_error oe = classify_with_config exhaustion_patterns oe"

fun error_class_of :: "go_error \<Rightarrow> error_class option" where
  "error_class_of (Classified_Error e c sc) = Some c"
| "error_class_of e = None"

definition is_transient :: "go_error option \<Rightarrow> bool" where
  "is_transient oe = (case classify_error oe of
     Some ce \<Rightarrow> error_class_of ce = Some Transient | None \<Rightarrow> False)"

definition is_permanent :: "go_error option \<Rightarrow> bool" where
  "is_permanent oe = (case classify_error oe of
     Some ce \<Rightarrow> error_class_of ce = Some Permanent | None \<Rightarrow> False)"

definition is_resource_exhausted :: "go_error option \<Rightarrow> bool" where
  "is_resource_exhausted oe = (case classify_error oe of
     Some ce \<Rightarrow> error_class_of ce = Some ResourceExhausted | None \<Rightarrow> False)"

text \<open>The innermost error, as a specification of the loop.\<close>

function innermost :: "go_error \<Rightarrow> go_error" where
  "innermost e = (case errors_unwrap e of Some n \<Rightarrow> innermost n | None \<Rightarrow> e)"
  by pat_completeness auto
termination
  by (relation "measure size") (auto dest: errors_unwrap_size)

declare innermost.simps [simp del]

lemma errors_as_unwrap:
  "errors_as P e = None \<Longrightarrow> errors_unwrap e = Some n \<Longrightarrow> errors_as P n = None"
proof (cases e)
  case (Context_Error ty msg oe ctx)
  then show "errors_as P e = None \<Longrightarrow> errors_unwrap e = Some n \<Longrightarrow> errors_as P n = None"
    by (auto simp: errors_as_def split: if_splits)
qed (auto simp: errors_as_def split: if_splits)

lemma classify_walk_eq:
  "classify_walk e = (case errors_as is_classified_error e of
     Some ce \<Rightarrow> Inl ce | None \<Rightarrow> Inr (innermost e))"
proof (induction e rule: classify_walk.induct)
  case (1 e)
  show ?case
  proof (cases "errors_as is_classified_error e")
    case (Some ce)
    then show ?thesis by (simp add: classify_walk.simps)
  next
    case None
    then show ?thesis
      using 1 errors_as_unwrap [of is_classified_error e]
      by (subst classify_walk.simps, subst innermost.simps) (auto split: option.splits)
  qed
qed

lemma extract_http_status_range:
  "extract_http_status msg = 0 \<or>
   (100 \<le> extract_http_status msg \<and> extract_http_status msg < 600)"
proof -
  have "extract_with_prefixes ps msg = 0 \<or>
    (100 \<le> extract_with_prefixes ps msg \<and> extract_with_prefixes ps msg < 600)" for ps
    by (induction ps) (auto simp: Let_def split: option.splits)
  then show ?thesis unfolding extract_http_status_def by blast
qed

lemma classify_message_class:
  "error_class_of (classify_message pats e inner) =
     (let msg = to_lower (error_string inner); sc = extract_http_status msg in
      Some (if list_ex (contains msg) pats then ResourceExhausted
            else if 400 \<le> sc \<and> sc < 500 \<and> sc \<noteq> 429 then Permanent else Transient))"
  using extract_http_status_range [of "to_lower (error_string inner)"]
  by (simp add: classify_message_def Let_def is_retryable_status_def)

lemma classify_error_eq:
  "classify_error (Some e) = Some (case errors_as is_classified_error e of
     Some ce \<Rightarrow> ce | None \<Rightarrow> classify_message exhaustion_patterns e (innermost e))"
  by (simp add: classify_error_def classify_with_config_def classify_walk_eq split: option.split)

lemma classify_message_unwrap: "errors_unwrap (classify_message pats e inner) = Some e"
  by (simp add: classify_message_def Let_def)

section \<open>Properties\<close>

text \<open>Wrapping an error with its policy and then its object keeps all four fields readable,
  whatever the error was before (also when it already carried some of these fields).\<close>

theorem error_context_accumulates:
  "let e' = with_resource (with_policy e pns pn) rns rn in
     ce_get_context e' ''policy_namespace'' = pns \<and> ce_get_context e' ''policy_name'' = pn \<and>
     ce_get_context e' ''resource_namespace'' = rns \<and> ce_get_context e' ''resource_name'' = rn"
proof -
  have policy: "ce_get_context (with_policy e pns pn) ''policy_namespace'' = pns"
    "ce_get_context (with_policy e pns pn) ''policy_name'' = pn"
    using errors_as_SomeD [of is_context_error e]
    by (auto simp: with_policy_def with_multiple_context_def get_add_all lookup_str_def
        split: option.split)
  have "is_context_error (with_policy e pns pn)"
    by (simp add: with_policy_def)
  with policy show ?thesis
    by (simp add: with_resource_def with_multiple_of_context get_add_all)
qed

text \<open>The retry class of an error: one that was classified before keeps its class; any other
  is wrapped, and its class is decided by the text of the innermost error alone: exhausted
  when it names one of the budget patterns, permanent for an HTTP status of the 4xx range
  other than 429, transient in every other case.\<close>

theorem classify_error_law:
  "case errors_as is_classified_error e of
     Some ce \<Rightarrow> classify_error (Some e) = Some ce
   | None \<Rightarrow>
      (\<exists>ce. classify_error (Some e) = Some ce \<and> errors_unwrap ce = Some e \<and>
         error_class_of ce =
          (let msg = to_lower (error_string (innermost e)); sc = extract_http_status msg in
           Some (if list_ex (contains msg) exhaustion_patterns then ResourceExhausted
                 else if 400 \<le> sc \<and> sc < 500 \<and> sc \<noteq> 429 then Permanent else Transient)))"
  by (simp add: classify_error_eq classify_message_class classify_message_unwrap split: option.split)

text \<open>A status in the text of a wrapping error is not seen: wrapping an unclassified error
  with any text leaves its class unchanged, so \<open>fmt.Errorf("status 404: %w", err)\<close> is
  retried like \<open>err\<close>.\<close>

theorem wrapping_text_ignored:
  assumes "errors_as is_classified_error e = None"
  shows "map_option error_class_of (classify_error (Some (Errorf p e s))) =
    map_option error_class_of (classify_error (Some e))"
proof -
  have "innermost (Errorf p e s) = innermost e"
    by (subst innermost.simps) simp
  with assms show ?thesis
    by (simp add: classify_error_eq errors_as_Errorf classify_message_class)
qed

theorem wrapping_text_ignored_witness:
  "is_transient (Some (Errorf ''status 404: '' (Errors_New ''connection reset'') []))"
proof -
  have "errors_as is_classified_error (Errors_New ''connection reset'') = None"
    by (simp add: errors_as_def)
  from wrapping_text_ignored [OF this, of "''status 404: ''" "[]"]
  have "map_option error_class_of (classify_error (Some (Errorf ''status 404: '' (Errors_New ''connection reset'') [])))
      = map_option error_class_of (classify_error (Some (Errors_New ''connection reset'')))" .
  moreover have "map_option error_class_of (classify_error (Some (Errors_New ''connection reset''))) = Some (Some Transient)"
    by code_simp
  ultimately show ?thesis by (auto simp: is_transient_def split: option.split)
qed

end
