(* ===== verification/Policy_Types.thy ===== *)
theory Policy_Types
  imports Go_Errors
begin

text \<open>
  The data of the controller: the custom resource of \<open>pkg/api/v1alpha1/types.go\<close>, field
  by field, and what the code observes of a Kubernetes object
  (\<open>*unstructured.Unstructured\<close>).

  An object is third-party data that the sources read through the getters of
  \<open>unstructured.Unstructured\<close> and the helpers \<open>NestedString\<close> and \<open>NestedInt64\<close>; the
  record \<open>uobj\<close> holds the answers of these.  A pointer field is an option: \<open>None\<close> is nil.
\<close>

section \<open>Kubernetes objects as the code observes them\<close>

record gvk =
  gvk_group :: string
  gvk_version :: string
  gvk_kind :: string

record gvr =
  gvr_group :: string
  gvr_version :: string
  gvr_resource :: string

text \<open>A nested read answers the value, whether it was found, and an error when the field
  (or one on the way) has another type.\<close>

type_synonym 'a nested = "'a \<times> bool \<times> go_error option"

record uobj =
  u_name :: string
  u_namespace :: string
  u_kind :: string
  u_uid :: string
  u_gvk :: gvk
  u_labels :: "(string, string) gomap"
  u_annotations :: "(string, string) gomap"
  u_created :: gotime
  u_nested_string :: "string list \<Rightarrow> string nested"
  u_nested_int64 :: "string list \<Rightarrow> int64 nested"

section \<open>The custom resource\<close>

record label_requirement =
  lr_key :: string
  lr_operator :: string
  lr_values :: "string list"

record label_selector =
  ls_match_labels :: "(string, string) gomap"
  ls_match_expressions :: "label_requirement list"

record target_resource =
  tr_api_version :: string
  tr_kind :: string
  tr_namespace :: string
  tr_label_selector :: "label_selector option"
  tr_field_selector :: "(string, string) gomap option"

record ttl_spec =
  ttl_seconds_after_creation :: "int64 option"
  ttl_field_path :: string
  ttl_mappings :: "(string, int64) gomap"
  ttl_default :: "int64 option"
  ttl_relative_to :: string
  ttl_seconds_after :: "int64 option"

record label_condition =
  lc_key :: string
  lc_value :: string
  lc_operator :: string

record annotation_condition =
  ac_key :: string
  ac_value :: string

record field_condition =
  fc_field_path :: string
  fc_operator :: string
  fc_value :: string
  fc_values :: "string list"

record conditions_spec =
  cs_phase :: "string list"
  cs_has_labels :: "label_condition list"
  cs_has_annotations :: "annotation_condition list"
  cs_and :: "field_condition list"

record behavior_spec =
  bh_max_deletions :: int
  bh_batch_size :: int
  bh_dry_run :: bool
  bh_finalizer :: string
  bh_propagation :: string
  bh_grace_period :: "int64 option"
  bh_allow_workload :: bool

record policy_spec =
  ps_target :: target_resource
  ps_ttl :: ttl_spec
  ps_conditions :: "conditions_spec option"
  ps_behavior :: behavior_spec
  ps_interval :: "duration option"
  ps_paused :: bool

record condition =
  cd_type :: string
  cd_status :: string
  cd_observed :: int
  cd_time :: gotime
  cd_reason :: string
  cd_message :: string

record policy_status =
  st_phase :: string
  st_matched :: int
  st_deleted :: int
  st_pending :: int
  st_last_run :: "gotime option"
  st_next_run :: "gotime option"
  st_refusals :: "(string, int) gomap"
  st_conditions :: "condition list"

record policy =
  p_namespace :: string
  p_name :: string
  p_uid :: string
  p_generation :: int
  p_annotations :: "(string, string) gomap"
  p_spec :: policy_spec
  p_status :: policy_status

abbreviation p_target :: "policy \<Rightarrow> target_resource" where
  "p_target p \<equiv> ps_target (p_spec p)"

abbreviation p_behavior :: "policy \<Rightarrow> behavior_spec" where
  "p_behavior p \<equiv> ps_behavior (p_spec p)"

section \<open>Example values\<close>

text \<open>Concrete values on which the witnesses of the development evaluate.\<close>

definition ex_target :: target_resource where
  "ex_target = \<lparr>tr_api_version = ''v1'', tr_kind = ''ConfigMap'', tr_namespace = ''apps'',
     tr_label_selector = None, tr_field_selector = None\<rparr>"

definition ex_ttl :: ttl_spec where
  "ex_ttl = \<lparr>ttl_seconds_after_creation = Some 60, ttl_field_path = [], ttl_mappings = [],
     ttl_default = None, ttl_relative_to = [], ttl_seconds_after = None\<rparr>"

definition ex_behavior :: behavior_spec where
  "ex_behavior = \<lparr>bh_max_deletions = 0, bh_batch_size = 0, bh_dry_run = False,
     bh_finalizer = [], bh_propagation = [], bh_grace_period = None, bh_allow_workload = False\<rparr>"

definition ex_spec :: policy_spec where
  "ex_spec = \<lparr>ps_target = ex_target, ps_ttl = ex_ttl, ps_conditions = None,
     ps_behavior = ex_behavior, ps_interval = None, ps_paused = False\<rparr>"

definition ex_status :: policy_status where
  "ex_status = \<lparr>st_phase = [], st_matched = 0, st_deleted = 0, st_pending = 0,
     st_last_run = None, st_next_run = None, st_refusals = [], st_conditions = []\<rparr>"

definition ex_policy :: policy where
  "ex_policy = \<lparr>p_namespace = ''ops'', p_name = ''sweep'', p_uid = ''policy-1'',
     p_generation = 1, p_annotations = [], p_spec = ex_spec, p_status = ex_status\<rparr>"

definition ex_obj :: uobj where
  "ex_obj = \<lparr>u_name = ''cm'', u_namespace = ''apps'', u_kind = ''ConfigMap'', u_uid = ''u-1'',
     u_gvk = \<lparr>gvk_group = [], gvk_version = ''v1'', gvk_kind = ''ConfigMap''\<rparr>,
     u_labels = [], u_annotations = [], u_created = 0,
     u_nested_string = (\<lambda>path. ([], False, None)),
     u_nested_int64 = (\<lambda>path. (0, False, None))\<rparr>"

lemmas ex_defs = ex_target_def ex_ttl_def ex_behavior_def ex_spec_def ex_status_def
  ex_policy_def ex_obj_def

end
