(* ===== verification/Env_Config.thy ===== *)
theory Env_Config
  imports Go_Errors
begin

text \<open>
  Configuration from the environment: the helpers of \<open>internal/config/env.go\<close>, the
  accumulating validator of \<open>internal/config/validator.go\<close>, the precedence of
  \<open>internal/config/ingester_rate_limit.go\<close> and the controller's own configuration,
  \<open>pkg/config/config.go\<close>.

  \<open>os.Getenv\<close> is a function \<open>getenv\<close> (the empty string when unset).  \<open>url.Parse\<close> is the
  parameter \<open>scheme_of\<close> (\<open>None\<close>: it failed) and \<open>time.ParseDuration\<close> the parameter \<open>pd\<close>.
\<close>

section \<open>Sentinels\<close>

definition config_sentinel :: "string \<Rightarrow> string \<Rightarrow> go_error" where
  "config_sentinel name msg = Sentinel name msg"

definition ErrEnvRequired :: go_error where
  "ErrEnvRequired = config_sentinel ''ErrEnvRequired'' ''environment variable is required but not set''"
definition ErrEnvInvalidInt :: go_error where
  "ErrEnvInvalidInt = config_sentinel ''ErrEnvInvalidInt'' ''environment variable must be an integer''"
definition ErrEnvInvalidBool :: go_error where
  "ErrEnvInvalidBool = config_sentinel ''ErrEnvInvalidBool'' ''environment variable must be a boolean (true/false)''"
definition ErrEnvInvalidURL :: go_error where
  "ErrEnvInvalidURL = config_sentinel ''ErrEnvInvalidURL''
     ''environment variable must be a valid URL (http:// or https://)''"
definition ErrEnvValueNotAllowed :: go_error where
  "ErrEnvValueNotAllowed = config_sentinel ''ErrEnvValueNotAllowed'' ''environment variable value is not allowed''"
definition ErrEnvSecretTooShort :: go_error where
  "ErrEnvSecretTooShort = config_sentinel ''ErrEnvSecretTooShort'' ''environment variable secret is too short''"
definition ErrEnvSecretWeak :: go_error where
  "ErrEnvSecretWeak = config_sentinel ''ErrEnvSecretWeak'' ''environment variable contains weak placeholder text''"
definition ErrEnvAtLeastOne :: go_error where
  "ErrEnvAtLeastOne = config_sentinel ''ErrEnvAtLeastOne''
     ''at least one of the listed environment variables must be set''"
definition ErrProductionDebug :: go_error where
  "ErrProductionDebug = config_sentinel ''ErrProductionDebug'' ''DEBUG must be false in production''"
definition ErrProductionDBSSL :: go_error where
  "ErrProductionDBSSL = config_sentinel ''ErrProductionDBSSL''
     ''DATABASE_URL must use SSL in production (remove sslmode=disable)''"
definition ErrServiceConfigInvalid :: go_error where
  "ErrServiceConfigInvalid = config_sentinel ''ErrServiceConfigInvalid'' ''service configuration validation failed''"
definition ErrEnvInvalidDuration :: go_error where
  "ErrEnvInvalidDuration = config_sentinel ''ErrEnvInvalidDuration'' ''environment variable must be a valid duration''"
definition ErrEnvCSVEmpty :: go_error where
  "ErrEnvCSVEmpty = config_sentinel ''ErrEnvCSVEmpty'' ''environment variable CSV list cannot be empty''"
definition ErrConfigValidationFailed :: go_error where
  "ErrConfigValidationFailed = config_sentinel ''ErrConfigValidationFailed'' ''configuration validation failed''"

text \<open>\<open>%v\<close> of a slice of strings.\<close>

definition show_strings :: "string list \<Rightarrow> string" where
  "show_strings ss = ''['' @ join_with '' '' ss @ '']''"

section \<open>Single variables\<close>

type_synonym getenv = "string \<Rightarrow> string"

definition http_scheme :: "string option \<Rightarrow> bool" where
  "http_scheme os \<longleftrightarrow> os = Some ''http'' \<or> os = Some ''https''"

definition require_env :: "getenv \<Rightarrow> string \<Rightarrow> go_error + string" where
  "require_env getenv key = (let val = getenv key in
     if val = [] then Inl (Errorf (key @ '': '') ErrEnvRequired []) else Inr val)"

definition require_env_with_default :: "getenv \<Rightarrow> string \<Rightarrow> string \<Rightarrow> string" where
  "require_env_with_default getenv key d = (if getenv key \<noteq> [] then getenv key else d)"

definition require_env_int :: "getenv \<Rightarrow> string \<Rightarrow> go_error + int" where
  "require_env_int getenv key = (case require_env getenv key of
       Inl e \<Rightarrow> Inl e
     | Inr val \<Rightarrow> (case atoi val of
           None \<Rightarrow> Inl (Errorf (key @ '': '') ErrEnvInvalidInt ('': '' @ val))
         | Some n \<Rightarrow> Inr n))"

definition require_env_int_with_default :: "getenv \<Rightarrow> string \<Rightarrow> int \<Rightarrow> int" where
  "require_env_int_with_default getenv key d =
     (if getenv key \<noteq> [] then (case atoi (getenv key) of Some n \<Rightarrow> n | None \<Rightarrow> d) else d)"

definition require_env_bool :: "getenv \<Rightarrow> string \<Rightarrow> go_error + bool" where
  "require_env_bool getenv key = (case require_env getenv key of
       Inl e \<Rightarrow> Inl e
     | Inr val \<Rightarrow> (case parse_bool val of
           None \<Rightarrow> Inl (Errorf (key @ '': '') ErrEnvInvalidBool ('': '' @ val))
         | Some b \<Rightarrow> Inr b))"

definition require_env_bool_with_default :: "getenv \<Rightarrow> string \<Rightarrow> bool \<Rightarrow> bool" where
  "require_env_bool_with_default getenv key d =
     (if getenv key \<noteq> [] then (case parse_bool (getenv key) of Some b \<Rightarrow> b | None \<Rightarrow> d) else d)"

definition require_env_url :: "(string \<Rightarrow> string option) \<Rightarrow> getenv \<Rightarrow> string \<Rightarrow> go_error + string" where
  "require_env_url scheme_of getenv key = (case require_env getenv key of
       Inl e \<Rightarrow> Inl e
     | Inr val \<Rightarrow> if \<not> http_scheme (scheme_of val)
                  then Inl (Errorf (key @ '': '') ErrEnvInvalidURL ('': '' @ val)) else Inr val)"

definition require_env_url_with_default ::
  "(string \<Rightarrow> string option) \<Rightarrow> getenv \<Rightarrow> string \<Rightarrow> string \<Rightarrow> string" where
  "require_env_url_with_default scheme_of getenv key d =
     (if getenv key \<noteq> [] \<and> http_scheme (scheme_of (getenv key)) then getenv key else d)"

definition require_env_one_of :: "getenv \<Rightarrow> string \<Rightarrow> string list \<Rightarrow> go_error + string" where
  "require_env_one_of getenv key allowed = (case require_env getenv key of
       Inl e \<Rightarrow> Inl e
     | Inr val \<Rightarrow> if val \<in> set allowed then Inr val
         else Inl (Errorf (key @ '': '') ErrEnvValueNotAllowed
                    ('': allowed '' @ show_strings allowed @ '', got '' @ val)))"

definition require_env_secret :: "getenv \<Rightarrow> string \<Rightarrow> int \<Rightarrow> go_error + string" where
  "require_env_secret getenv key min_length = (case require_env getenv key of
       Inl e \<Rightarrow> Inl e
     | Inr val \<Rightarrow>
        if int (length val) < min_length then
          Inl (Errorf (key @ '': '') ErrEnvSecretTooShort
                ('': need at least '' @ show_int min_length @ '' characters (current ''
                 @ show_int (int (length val)) @ '')''))
        else if contains (to_lower val) ''change-me'' then
          Inl (Errorf (key @ '': '') ErrEnvSecretWeak [])
        else Inr val)"

definition require_at_least_one :: "getenv \<Rightarrow> string list \<Rightarrow> go_error option" where
  "require_at_least_one getenv keys =
     (if list_ex (\<lambda>k. getenv k \<noteq> []) keys then None
      else Some (Errorf [] ErrEnvAtLeastOne ('': '' @ show_strings keys)))"

definition validate_production :: "getenv \<Rightarrow> go_error option" where
  "validate_production getenv =
     (if getenv ''ENVIRONMENT'' \<noteq> ''production'' then None
      else if getenv ''DEBUG'' = ''true'' then Some (Errorf [] ErrProductionDebug [])
      else let db = (if getenv ''DATABASE_URL'' = [] then getenv ''CRDB_DSN''
                     else getenv ''DATABASE_URL'') in
        if db \<noteq> [] \<and> contains db ''sslmode=disable'' then Some (Errorf [] ErrProductionDBSSL [])
        else None)"

definition require_env_duration ::
  "(string \<Rightarrow> duration option) \<Rightarrow> getenv \<Rightarrow> string \<Rightarrow> go_error + duration" where
  "require_env_duration pd getenv key = (case require_env getenv key of
       Inl e \<Rightarrow> Inl e
     | Inr val \<Rightarrow> (case pd val of
           None \<Rightarrow> Inl (Errorf (key @ '': '') ErrEnvInvalidDuration ('': '' @ val))
         | Some d \<Rightarrow> Inr d))"

definition require_env_duration_with_default ::
  "(string \<Rightarrow> duration option) \<Rightarrow> getenv \<Rightarrow> string \<Rightarrow> duration \<Rightarrow> duration" where
  "require_env_duration_with_default pd getenv key d =
     (if getenv key \<noteq> [] then (case pd (getenv key) of Some t \<Rightarrow> t | None \<Rightarrow> d) else d)"

text \<open>The common loop over the parts of a comma-separated list.\<close>

definition csv_parts :: "string \<Rightarrow> string list" where
  "csv_parts val = filter (\<lambda>p. p \<noteq> []) (map trim_space (split_on (CHR '','') val))"

definition require_env_csv :: "getenv \<Rightarrow> string \<Rightarrow> go_error + string list" where
  "require_env_csv getenv key = (case require_env getenv key of
       Inl e \<Rightarrow> Inl e
     | Inr val \<Rightarrow> if csv_parts val = [] then Inl (Errorf (key @ '': '') ErrEnvCSVEmpty [])
                  else Inr (csv_parts val))"

definition require_env_csv_with_default :: "getenv \<Rightarrow> string \<Rightarrow> string list \<Rightarrow> string list" where
  "require_env_csv_with_default getenv key d =
     (if getenv key \<noteq> [] \<and> csv_parts (getenv key) \<noteq> [] then csv_parts (getenv key) else d)"

section \<open>The accumulating validator\<close>

record validation_error =
  ve_field :: string
  ve_message :: string

text \<open>The state of a \<open>Validator\<close> is its list of errors.\<close>

type_synonym validator = "validation_error list"

definition validation_error_string :: "validation_error \<Rightarrow> string" where
  "validation_error_string e = ve_field e @ '': '' @ ve_message e"

definition new_validator :: validator where "new_validator = []"

definition add_error :: "string \<Rightarrow> string \<Rightarrow> validator \<Rightarrow> validator" where
  "add_error key msg v = v @ [\<lparr>ve_field = key, ve_message = msg\<rparr>]"

definition v_require_string :: "getenv \<Rightarrow> string \<Rightarrow> validator \<Rightarrow> string \<times> validator" where
  "v_require_string getenv key v = (let val = getenv key in
     if val = [] then ([], add_error key ''required but not set'' v) else (val, v))"

definition v_optional_string :: "getenv \<Rightarrow> string \<Rightarrow> string \<Rightarrow> validator \<Rightarrow> string \<times> validator" where
  "v_optional_string getenv key d v = (if getenv key = [] then (d, v) else (getenv key, v))"

definition v_require_url ::
  "(string \<Rightarrow> string option) \<Rightarrow> getenv \<Rightarrow> string \<Rightarrow> validator \<Rightarrow> string \<times> validator" where
  "v_require_url scheme_of getenv key v = (let (val, v) = v_require_string getenv key v in
     if val = [] then ([], v)
     else if \<not> http_scheme (scheme_of val) then ([], add_error key (''invalid URL: '' @ val) v)
     else (val, v))"

definition v_optional_url ::
  "(string \<Rightarrow> string option) \<Rightarrow> getenv \<Rightarrow> string \<Rightarrow> string \<Rightarrow> validator \<Rightarrow> string \<times> validator" where
  "v_optional_url scheme_of getenv key d v = (let val = getenv key in
     if val = [] then (d, v)
     else if \<not> http_scheme (scheme_of val) then (d, add_error key (''invalid URL: '' @ val) v)
     else (val, v))"

definition v_require_int :: "getenv \<Rightarrow> string \<Rightarrow> validator \<Rightarrow> int \<times> validator" where
  "v_require_int getenv key v = (let (val, v) = v_require_string getenv key v in
     if val = [] then (0, v)
     else (case atoi val of
         None \<Rightarrow> (0, add_error key (''must be integer, got: '' @ val) v)
       | Some n \<Rightarrow> (n, v)))"

definition v_optional_int :: "getenv \<Rightarrow> string \<Rightarrow> int \<Rightarrow> validator \<Rightarrow> int \<times> validator" where
  "v_optional_int getenv key d v = (let val = getenv key in
     if val = [] then (d, v)
     else (case atoi val of
         None \<Rightarrow> (d, add_error key (''must be integer, got: '' @ val) v)
       | Some n \<Rightarrow> (n, v)))"

definition v_require_bool :: "getenv \<Rightarrow> string \<Rightarrow> validator \<Rightarrow> bool \<times> validator" where
  "v_require_bool getenv key v = (let (val, v) = v_require_string getenv key v in
     if val = [] then (False, v)
     else (case parse_bool val of
         None \<Rightarrow> (False, add_error key (''must be boolean (true/false), got: '' @ val) v)
       | Some b \<Rightarrow> (b, v)))"

definition v_optional_bool :: "getenv \<Rightarrow> string \<Rightarrow> bool \<Rightarrow> validator \<Rightarrow> bool \<times> validator" where
  "v_optional_bool getenv key d v = (let val = getenv key in
     if val = [] then (d, v)
     else (case parse_bool val of
         None \<Rightarrow> (d, add_error key (''must be boolean (true/false), got: '' @ val) v)
       | Some b \<Rightarrow> (b, v)))"

definition duration_shaped :: "string \<Rightarrow> bool" where
  "duration_shaped val \<longleftrightarrow>
     has_suffix val ''s'' \<or> has_suffix val ''m'' \<or> has_suffix val ''h''"

definition v_require_duration :: "getenv \<Rightarrow> string \<Rightarrow> validator \<Rightarrow> string \<times> validator" where
  "v_require_duration getenv key v = (let (val, v) = v_require_string getenv key v in
     if val = [] then ([], v)
     else if \<not> duration_shaped val
       then ([], add_error key (''must be duration (e.g., 30s, 5m, 1h), got: '' @ val) v)
     else (val, v))"

definition v_optional_duration :: "getenv \<Rightarrow> string \<Rightarrow> string \<Rightarrow> validator \<Rightarrow> string \<times> validator" where
  "v_optional_duration getenv key d v = (let val = getenv key in
     if val = [] then (d, v)
     else if \<not> duration_shaped val
       then (d, add_error key (''must be duration (e.g., 30s, 5m, 1h), got: '' @ val) v)
     else (val, v))"

definition v_require_one_of :: "getenv \<Rightarrow> string \<Rightarrow> string list \<Rightarrow> validator \<Rightarrow> string \<times> validator" where
  "v_require_one_of getenv key allowed v = (let (val, v) = v_require_string getenv key v in
     if val = [] then ([], v)
     else if val \<in> set allowed then (val, v)
     else ([], add_error key (''must be one of '' @ show_strings allowed @ '', got: '' @ val) v))"

definition v_require_csv :: "getenv \<Rightarrow> string \<Rightarrow> validator \<Rightarrow> string list \<times> validator" where
  "v_require_csv getenv key v = (let (val, v) = v_require_string getenv key v in
     if val = [] then ([], v)
     else if csv_parts val = [] then ([], add_error key ''CSV list cannot be empty'' v)
     else (csv_parts val, v))"

definition v_optional_csv :: "getenv \<Rightarrow> string \<Rightarrow> string list \<Rightarrow> validator \<Rightarrow> string list \<times> validator" where
  "v_optional_csv getenv key d v = (if getenv key = [] then (d, v) else (csv_parts (getenv key), v))"

definition v_forbid_in_production :: "getenv \<Rightarrow> string \<Rightarrow> validator \<Rightarrow> validator" where
  "v_forbid_in_production getenv key v =
     (if getenv ''ENVIRONMENT'' = ''production'' \<and> getenv key \<noteq> []
      then add_error key ''forbidden in production environment'' v else v)"

definition newline_dash :: string where
  "newline_dash = [CHR 0x0A] @ ''  - ''"

definition v_validate :: "validator \<Rightarrow> go_error option" where
  "v_validate v = (if v = [] then None
     else Some (Errorf [] ErrConfigValidationFailed
            ('':'' @ newline_dash @ join_with newline_dash (map validation_error_string v))))"

definition v_has_errors :: "validator \<Rightarrow> bool" where
  "v_has_errors v \<longleftrightarrow> length v > 0"

section \<open>The service validator\<close>

record service_validator =
  sv_name :: string
  sv_errors :: "string list"

definition new_service_validator :: "string \<Rightarrow> service_validator" where
  "new_service_validator name = \<lparr>sv_name = name, sv_errors = []\<rparr>"

definition sv_record :: "'a \<Rightarrow> (go_error + 'a) \<Rightarrow> service_validator \<Rightarrow> 'a \<times> service_validator" where
  "sv_record zero r v = (case r of
       Inl e \<Rightarrow> (zero, v\<lparr>sv_errors := sv_errors v @ [error_string e]\<rparr>)
     | Inr x \<Rightarrow> (x, v))"

definition sv_require :: "getenv \<Rightarrow> string \<Rightarrow> service_validator \<Rightarrow> string \<times> service_validator" where
  "sv_require getenv key v = sv_record [] (require_env getenv key) v"

definition sv_require_int :: "getenv \<Rightarrow> string \<Rightarrow> service_validator \<Rightarrow> int \<times> service_validator" where
  "sv_require_int getenv key v = sv_record 0 (require_env_int getenv key) v"

definition sv_require_url ::
  "(string \<Rightarrow> string option) \<Rightarrow> getenv \<Rightarrow> string \<Rightarrow> service_validator \<Rightarrow> string \<times> service_validator" where
  "sv_require_url scheme_of getenv key v = sv_record [] (require_env_url scheme_of getenv key) v"

definition sv_require_secret ::
  "getenv \<Rightarrow> string \<Rightarrow> int \<Rightarrow> service_validator \<Rightarrow> string \<times> service_validator" where
  "sv_require_secret getenv key n v = sv_record [] (require_env_secret getenv key n) v"

definition sv_require_at_least_one :: "getenv \<Rightarrow> string list \<Rightarrow> service_validator \<Rightarrow> service_validator" where
  "sv_require_at_least_one getenv keys v = (case require_at_least_one getenv keys of
       Some e \<Rightarrow> v\<lparr>sv_errors := sv_errors v @ [error_string e]\<rparr>
     | None \<Rightarrow> v)"

definition sv_validate :: "service_validator \<Rightarrow> go_error option" where
  "sv_validate v = (if sv_errors v = [] then None
     else Some (Errorf (sv_name v @ '': '') ErrServiceConfigInvalid
            ('':'' @ newline_dash @ join_with newline_dash (sv_errors v))))"

section \<open>The rate limit of an ingester source\<close>

record ingester_rate_limit =
  ir_rpm :: int
  ir_burst :: int
  ir_source :: string

definition get_ingester_rate_limit :: "getenv \<Rightarrow> string \<Rightarrow> string \<Rightarrow> int" where
  "get_ingester_rate_limit getenv source ty =
     (let val = getenv (''RATE_LIMIT_INGESTER_'' @ to_upper source @ ''_'' @ ty) in
      if val = [] then 0 else (case atoi val of None \<Rightarrow> 0 | Some n \<Rightarrow> n))"

text \<open>The CRD configuration is nil or its requests per minute and burst.\<close>

definition load_ingester_rate_limit ::
  "getenv \<Rightarrow> string \<Rightarrow> (int \<times> int) option \<Rightarrow> ingester_rate_limit option" where
  "load_ingester_rate_limit getenv source crd =
     (let (rpm, burst, src) = (case crd of
            Some (r, b) \<Rightarrow> (r, b, if r > 0 then ''crd'' else [])
          | None \<Rightarrow> (0, 0, []));
          (rpm, burst, src) =
            (if rpm = 0 then
               let r = get_ingester_rate_limit getenv source ''RPM'';
                   b = get_ingester_rate_limit getenv source ''BURST'' in
               (r, b, if r > 0 then ''env_per_source'' else src)
             else (rpm, burst, src));
          (rpm, burst, src) =
            (if rpm = 0 then
               let r = get_ingester_rate_limit getenv ''DEFAULT'' ''RPM'';
                   b = (if burst = 0 then get_ingester_rate_limit getenv ''DEFAULT'' ''BURST'' else burst) in
               (r, b, if r > 0 then ''env_default'' else src)
             else (rpm, burst, src))
      in if rpm = 0 then None
         else Some \<lparr>ir_rpm = rpm, ir_burst = burst, ir_source = src\<rparr>)"

text \<open>The adapter of a source's own rate limit, and the limit it loads.\<close>

record source_config_rate_limit =
  sr_observations :: int
  sr_burst :: int

definition sr_get_rpm :: "source_config_rate_limit \<Rightarrow> int" where
  "sr_get_rpm a = sr_observations a"

definition sr_get_burst :: "source_config_rate_limit \<Rightarrow> int" where
  "sr_get_burst a = sr_burst a"

definition new_source_config_adapter :: "int \<Rightarrow> int \<Rightarrow> source_config_rate_limit" where
  "new_source_config_adapter observations burst = \<lparr>sr_observations = observations, sr_burst = burst\<rparr>"

lemma adapter_rate_limit:
  assumes "0 < observations"
  shows "let a = new_source_config_adapter observations burst in
    load_ingester_rate_limit getenv source (Some (sr_get_rpm a, sr_get_burst a)) =
      Some \<lparr>ir_rpm = observations, ir_burst = burst, ir_source = ''crd''\<rparr>"
  using assms
  by (simp add: load_ingester_rate_limit_def new_source_config_adapter_def sr_get_rpm_def sr_get_burst_def)

section \<open>The controller's configuration\<close>

record controller_config =
  cc_cleanup_interval :: duration
  cc_max_deletions :: int
  cc_batch_size :: int
  cc_max_concurrent :: int
  cc_delete_enabled :: bool
  cc_own_namespace :: string
  cc_protected_namespaces :: "string list"

definition new_controller_config :: controller_config where
  "new_controller_config = \<lparr>cc_cleanup_interval = Minute, cc_max_deletions = 10,
     cc_batch_size = 50, cc_max_concurrent = 5, cc_delete_enabled = False,
     cc_own_namespace = [], cc_protected_namespaces = []\<rparr>"

definition load_from_env ::
  "(string \<Rightarrow> duration option) \<Rightarrow> getenv \<Rightarrow> controller_config \<Rightarrow> controller_config \<times> go_error option" where
  "load_from_env pd getenv c0 =
     (let v0 = new_validator;
          (interval, v1) = v_optional_duration getenv ''ZEN_CLEANER_INTERVAL'' [] v0;
          c1 = (if interval \<noteq> [] then
                  (case pd interval of Some d \<Rightarrow> c0\<lparr>cc_cleanup_interval := d\<rparr> | None \<Rightarrow> c0)
                else c0);
          (rate, v2) = v_optional_int getenv ''ZEN_CLEANER_MAX_DELETIONS_PER_SECOND'' 0 v1;
          c2 = (if rate > 0 then c1\<lparr>cc_max_deletions := rate\<rparr> else c1);
          (batch, v3) = v_optional_int getenv ''ZEN_CLEANER_BATCH_SIZE'' 0 v2;
          c3 = (if batch > 0 then c2\<lparr>cc_batch_size := batch\<rparr> else c2);
          (conc, v4) = v_optional_int getenv ''ZEN_CLEANER_MAX_CONCURRENT_EVALUATIONS'' 0 v3;
          c4 = (if conc > 0 then c3\<lparr>cc_max_concurrent := conc\<rparr> else c3);
          del = getenv ''ZEN_CLEANER_DELETE_ENABLED'';
          c5 = (if del \<noteq> [] then
                  (if del \<in> {''false'', ''0'', ''no''} then c4\<lparr>cc_delete_enabled := False\<rparr>
                   else if del \<in> {''true'', ''1'', ''yes''} then c4\<lparr>cc_delete_enabled := True\<rparr>
                   else c4)
                else c4\<lparr>cc_delete_enabled := True\<rparr>);
          prot = getenv ''ZEN_CLEANER_PROTECTED_NAMESPACES'';
          c6 = (if prot \<noteq> [] then
                  c5\<lparr>cc_protected_namespaces := cc_protected_namespaces c5 @ csv_parts prot\<rparr>
                else c5);
          own = getenv ''POD_NAMESPACE'';
          c7 = (if own \<noteq> [] then c6\<lparr>cc_own_namespace := own\<rparr> else c6)
      in (c7, v_validate v4))"

definition with_cleanup_interval :: "duration \<Rightarrow> controller_config \<Rightarrow> controller_config" where
  "with_cleanup_interval d c = c\<lparr>cc_cleanup_interval := d\<rparr>"
definition with_max_deletions :: "int \<Rightarrow> controller_config \<Rightarrow> controller_config" where
  "with_max_deletions n c = c\<lparr>cc_max_deletions := n\<rparr>"
definition with_batch_size :: "int \<Rightarrow> controller_config \<Rightarrow> controller_config" where
  "with_batch_size n c = c\<lparr>cc_batch_size := n\<rparr>"
definition with_max_concurrent :: "int \<Rightarrow> controller_config \<Rightarrow> controller_config" where
  "with_max_concurrent n c = c\<lparr>cc_max_concurrent := n\<rparr>"

lemma csv_parts_clean:
  "p \<in> set (csv_parts val) \<Longrightarrow> p \<noteq> [] \<and> trim_space p = p"
  by (auto simp: csv_parts_def)

lemma v_optional_int_error:
  "snd (v_optional_int getenv key d v) = v \<or>
     (\<exists>m. snd (v_optional_int getenv key d v) = v @ [\<lparr>ve_field = key, ve_message = m\<rparr>])"
  by (auto simp: v_optional_int_def add_error_def Let_def split: option.splits)

lemma v_optional_int_value: "fst (v_optional_int getenv key d v) = require_env_int_with_default getenv key d"
  by (simp add: v_optional_int_def require_env_int_with_default_def Let_def split: option.splits)

text \<open>Each field of the loaded configuration.\<close>

lemma load_from_env_fields:
  fixes pd :: "string \<Rightarrow> duration option"
  defines "int_var \<equiv> \<lambda>getenv key old. (let n = require_env_int_with_default getenv key 0 in
    if n > 0 then n else old)"
  shows
    "cc_batch_size (fst (load_from_env pd getenv c0)) =
       int_var getenv ''ZEN_CLEANER_BATCH_SIZE'' (cc_batch_size c0)"
    "cc_max_deletions (fst (load_from_env pd getenv c0)) =
       int_var getenv ''ZEN_CLEANER_MAX_DELETIONS_PER_SECOND'' (cc_max_deletions c0)"
    "cc_max_concurrent (fst (load_from_env pd getenv c0)) =
       int_var getenv ''ZEN_CLEANER_MAX_CONCURRENT_EVALUATIONS'' (cc_max_concurrent c0)"
    "cc_protected_namespaces (fst (load_from_env pd getenv c0)) = cc_protected_namespaces c0 @
       (if getenv ''ZEN_CLEANER_PROTECTED_NAMESPACES'' \<noteq> []
        then csv_parts (getenv ''ZEN_CLEANER_PROTECTED_NAMESPACES'') else [])"
    "cc_delete_enabled (fst (load_from_env pd getenv c0)) =
       (let del = getenv ''ZEN_CLEANER_DELETE_ENABLED'' in
        if del \<noteq> [] then
          (if del \<in> {''false'', ''0'', ''no''} then False
           else if del \<in> {''true'', ''1'', ''yes''} then True else cc_delete_enabled c0)
        else True)"
  unfolding int_var_def load_from_env_def Let_def
  by (simp_all add: case_prod_beta v_optional_int_value
      if_distrib [of cc_batch_size] if_distrib [of cc_max_deletions] if_distrib [of cc_max_concurrent]
      if_distrib [of cc_protected_namespaces] if_distrib [of cc_delete_enabled]
      option.case_distrib [of cc_batch_size] option.case_distrib [of cc_max_deletions]
      option.case_distrib [of cc_max_concurrent] option.case_distrib [of cc_protected_namespaces]
      option.case_distrib [of cc_delete_enabled]
      del: insert_iff split del: if_split cong del: if_weak_cong)
    (simp_all split: if_split option.split del: insert_iff)

section \<open>Properties\<close>

text \<open>Loading the environment keeps a usable configuration whatever the variables hold:
  the batch size, the rate and the concurrency stay positive when they were, the configured
  protected namespaces are only added to and every added one is trimmed and nonempty, and
  the emergency stop is released exactly by an empty variable or one of true/1/yes (an
  unrecognised value keeps the previous setting, false for a new configuration).\<close>

theorem load_from_env_safe:
  "let c = fst (load_from_env pd getenv c0); del = getenv ''ZEN_CLEANER_DELETE_ENABLED'' in
   (0 < cc_batch_size c0 \<longrightarrow> 0 < cc_batch_size c) \<and>
   (0 < cc_max_deletions c0 \<longrightarrow> 0 < cc_max_deletions c) \<and>
   (0 < cc_max_concurrent c0 \<longrightarrow> 0 < cc_max_concurrent c) \<and>
   (\<exists>added. cc_protected_namespaces c = cc_protected_namespaces c0 @ added \<and>
      (\<forall>ns \<in> set added. ns \<noteq> [] \<and> trim_space ns = ns)) \<and>
   cc_delete_enabled c =
     (if del = [] \<or> del \<in> {''true'', ''1'', ''yes''} then True
      else if del \<in> {''false'', ''0'', ''no''} then False
      else cc_delete_enabled c0)"
  using csv_parts_clean
  by (auto simp: load_from_env_fields Let_def)

text \<open>Every variable is set to an ordinary value.\<close>

definition ex_env :: getenv where
  "ex_env key = (if key = ''ZEN_CLEANER_BATCH_SIZE'' then ''20''
     else if key = ''ZEN_CLEANER_PROTECTED_NAMESPACES'' then '' prod, ,payments'' else [])"

theorem load_from_env_safe_witness:
  "0 < cc_batch_size (fst (load_from_env (\<lambda>s. None) ex_env new_controller_config))"
  using load_from_env_safe [of "\<lambda>s. None" ex_env new_controller_config]
  by (simp add: Let_def new_controller_config_def)

text \<open>The precedence of an ingester's rate limit: no limit is configured exactly when the
  CRD, the per-source variable and the default variable all give 0; otherwise the first of
  these that is not 0 decides, and a negative one decides too, with no source recorded.\<close>

theorem ingester_rate_limit_precedence:
  "let crd_rpm = (case crd of Some (r, b) \<Rightarrow> r | None \<Rightarrow> 0);
       src_rpm = get_ingester_rate_limit getenv source ''RPM'';
       def_rpm = get_ingester_rate_limit getenv ''DEFAULT'' ''RPM'' in
   (case load_ingester_rate_limit getenv source crd of
      None \<Rightarrow> crd_rpm = 0 \<and> src_rpm = 0 \<and> def_rpm = 0
    | Some cfg \<Rightarrow>
        ir_rpm cfg \<noteq> 0 \<and>
        ir_rpm cfg = (if crd_rpm \<noteq> 0 then crd_rpm else if src_rpm \<noteq> 0 then src_rpm else def_rpm) \<and>
        ir_source cfg = (if ir_rpm cfg < 0 then []
          else if crd_rpm \<noteq> 0 then ''crd'' else if src_rpm \<noteq> 0 then ''env_per_source''
          else ''env_default''))"
  by (auto simp: load_ingester_rate_limit_def Let_def split: option.splits prod.splits if_splits)

end
