(* ===== verification/World.thy ===== *)
theory World
  imports Policy_Types Env_Config "HOL-Library.State_Monad"
begin

text \<open>
  The world the controller runs in.  What is not code of the program (the API server, the
  clock, the context, the token bucket of \<open>golang.org/x/time/rate\<close>, the informer caches,
  discovery, the selector algebra and the \<open>String\<close> methods of apimachinery, the local time zone of a formatted time) is the record \<open>cluster\<close>: one function per
  call the sources make, each of which may consult and change an arbitrary environment
  \<open>'w\<close>.  A theorem about every cluster is a theorem about every behaviour of these services.

  The memory of a \<open>PolicyReconciler\<close> and the effects it has had are the record \<open>sys\<close>; the
  operations of the controller are programs of the state monad over it.  The trace lists the
  calls with an outside effect in order: requests to the API server (a \<open>Get\<close> with the UID
  it returned), waits, metrics and events.  Log lines are not modelled.
\<close>

section \<open>Effects\<close>

record limiter =
  lim_limit :: int
  lim_burst :: int

record delete_options =
  do_grace :: "int64 option"
  do_propagation :: string

text \<open>The content of a custom resource as the dynamic client delivers it.\<close>

datatype json = JNull | JBool bool | JStr string | JInt int
  | JObj "(string \<times> json) list" | JList "json list"

datatype effect =
    Eff_Get gvr string string "string option"
  | Eff_Delete gvr string string delete_options
  | Eff_List gvr string
  | Eff_Discovery string
  | Eff_Start_Informer gvr string
  | Eff_Rate_Wait limiter
  | Eff_Sleep duration
  | Eff_Counter string "string list"
  | Eff_Gauge string "string list" int
  | Eff_Event string string string
  | Eff_Status_Update string string "(string \<times> json) list"

section \<open>The environment\<close>

record 'w cluster =
  cl_now :: "'w \<Rightarrow> gotime \<times> 'w"
  cl_ctx :: "'w \<Rightarrow> go_error option \<times> 'w"
  cl_sleep :: "duration \<Rightarrow> 'w \<Rightarrow> go_error option \<times> 'w"
  cl_wait :: "limiter \<Rightarrow> 'w \<Rightarrow> go_error option \<times> 'w"
  cl_get :: "gvr \<Rightarrow> string \<Rightarrow> string \<Rightarrow> 'w \<Rightarrow> (go_error + uobj) \<times> 'w"
  cl_delete :: "gvr \<Rightarrow> string \<Rightarrow> string \<Rightarrow> delete_options \<Rightarrow> 'w \<Rightarrow> go_error option \<times> 'w"
  cl_list :: "gvr \<Rightarrow> string \<Rightarrow> 'w \<Rightarrow> go_error option \<times> 'w"
  cl_mapper :: "(gvk \<Rightarrow> 'w \<Rightarrow> (go_error + gvr) \<times> 'w) option"
  cl_discovery :: "(string \<Rightarrow> 'w \<Rightarrow> (go_error + string \<times> (string \<times> string) list) \<times> 'w) option"
  cl_store :: "string \<Rightarrow> 'w \<Rightarrow> uobj list \<times> 'w"
  cl_sync :: "string \<Rightarrow> 'w \<Rightarrow> (bool \<times> go_error option) \<times> 'w"
  cl_get_policy :: "string \<Rightarrow> string \<Rightarrow> 'w \<Rightarrow> (go_error + policy) \<times> 'w"
  cl_list_policies :: "'w \<Rightarrow> (go_error + policy list) \<times> 'w"
  cl_get_crd :: "string \<Rightarrow> string \<Rightarrow> 'w \<Rightarrow> (go_error + (string \<times> json) list) \<times> 'w"
  cl_update_crd_status :: "string \<Rightarrow> string \<Rightarrow> (string \<times> json) list \<Rightarrow> 'w \<Rightarrow> go_error option \<times> 'w"
  cl_gv_string :: "string \<Rightarrow> string \<Rightarrow> string"
  cl_gvr_string :: "gvr \<Rightarrow> string"
  cl_format_time :: "gotime \<Rightarrow> string"
  cl_status_ctx :: "'w \<Rightarrow> go_error option \<times> 'w"
  cl_parse_time :: "string \<Rightarrow> go_error + gotime"
  cl_selector :: "label_selector \<Rightarrow> go_error + ((string, string) gomap \<Rightarrow> bool)"

section \<open>The memory of the reconciler\<close>

record probe_entry =
  pe_granted :: bool
  pe_class :: target_error_type
  pe_detail :: string
  pe_checked_at :: gotime

text \<open>No code stores a nil rate limiter, so the entries are limiters.  An informer and an
  evaluation service are known by their key; a service reads the store of its informer.\<close>

record 'w sys =
  sy_env :: 'w
  sy_trace :: "effect list"
  sy_gvr_cache :: "(gvk, gvr) gomap"
  sy_limiters :: "(string, limiter) gomap"
  sy_policy_uids :: "(string \<times> string, string) gomap"
  sy_specs :: "(string, policy_spec) gomap"
  sy_probes :: "(string, probe_entry) gomap"
  sy_failures :: "(string, int) gomap"
  sy_services :: "(string, string) gomap"
  sy_informers :: "string list"

type_synonym ('w, 'a) prog = "('w sys, 'a) state"

definition ask :: "('w \<Rightarrow> 'a \<times> 'w) \<Rightarrow> ('w, 'a) prog" where
  "ask f = State (\<lambda>s. let (a, w) = f (sy_env s) in (a, s\<lparr>sy_env := w\<rparr>))"

definition emit :: "effect \<Rightarrow> ('w, unit) prog" where
  "emit e = State (\<lambda>s. ((), s\<lparr>sy_trace := sy_trace s @ [e]\<rparr>))"

definition gets :: "('w sys \<Rightarrow> 'a) \<Rightarrow> ('w, 'a) prog" where
  "gets f = State (\<lambda>s. (f s, s))"

definition modify :: "('w sys \<Rightarrow> 'w sys) \<Rightarrow> ('w, unit) prog" where
  "modify f = State (\<lambda>s. ((), f s))"

lemma run_ask [simp]: "run_state (ask f) s = (fst (f (sy_env s)), s\<lparr>sy_env := snd (f (sy_env s))\<rparr>)"
  by (simp add: ask_def case_prod_beta)

lemma run_emit [simp]: "run_state (emit e) s = ((), s\<lparr>sy_trace := sy_trace s @ [e]\<rparr>)"
  by (simp add: emit_def)

lemma run_gets [simp]: "run_state (gets f) s = (f s, s)"
  by (simp add: gets_def)

lemma run_bind_gets: "run_state (State_Monad.bind (gets f) h) s = run_state (h (f s)) s"
  by simp

lemma run_modify [simp]: "run_state (modify f) s = ((), f s)"
  by (simp add: modify_def)

text \<open>A program that may panic or run out of fuel, then another.\<close>

definition bind_run :: "('w, 'a run) prog \<Rightarrow> ('a \<Rightarrow> ('w, 'b run) prog) \<Rightarrow> ('w, 'b run) prog" where
  "bind_run m f = State_Monad.bind m (\<lambda>x. case x of
       Returned a \<Rightarrow> f a
     | Panicked msg \<Rightarrow> State_Monad.return (Panicked msg)
     | Out_Of_Fuel \<Rightarrow> State_Monad.return Out_Of_Fuel)"

section \<open>Metrics and events\<close>

definition count :: "string \<Rightarrow> ('w, unit) prog" where
  "count name = emit (Eff_Counter name [])"

definition count_with :: "string \<Rightarrow> string list \<Rightarrow> ('w, unit) prog" where
  "count_with name labels = emit (Eff_Counter name labels)"

definition record_policy_phase :: "string \<Rightarrow> int \<Rightarrow> ('w, unit) prog" where
  "record_policy_phase phase n = emit (Eff_Gauge ''zen_cleaner_policies_total'' [phase] n)"

definition record_resource_matched :: "policy \<Rightarrow> ('w, unit) prog" where
  "record_resource_matched p = count_with ''zen_cleaner_resources_matched_total''
     [p_namespace p, p_name p, tr_api_version (p_target p), tr_kind (p_target p)]"

text \<open>The histogram of durations that accompanies the counter is not modelled.\<close>

definition record_resource_deleted :: "policy \<Rightarrow> string \<Rightarrow> ('w, unit) prog" where
  "record_resource_deleted p reason = count_with ''zen_cleaner_resources_deleted_total''
     [p_namespace p, p_name p, tr_api_version (p_target p), tr_kind (p_target p), reason]"

definition record_error :: "string \<Rightarrow> string \<Rightarrow> string \<Rightarrow> ('w, unit) prog" where
  "record_error ns name ty = count_with ''zen_cleaner_errors_total'' [ns, name, ty]"

definition record_informer_count :: "nat \<Rightarrow> ('w, unit) prog" where
  "record_informer_count n = emit (Eff_Gauge ''zen_cleaner_informers_total'' [] (int n))"

definition record_rate_limiter_count :: "nat \<Rightarrow> ('w, unit) prog" where
  "record_rate_limiter_count n = emit (Eff_Gauge ''zen_cleaner_rate_limiters_total'' [] (int n))"

definition record_resources_pending :: "policy \<Rightarrow> int \<Rightarrow> ('w, unit) prog" where
  "record_resources_pending p n = emit (Eff_Gauge ''zen_cleaner_resources_pending_total''
     [p_namespace p, p_name p, tr_api_version (p_target p), tr_kind (p_target p)] n)"

definition record_leader_election_status :: "bool \<Rightarrow> ('w, unit) prog" where
  "record_leader_election_status leader =
     emit (Eff_Gauge ''zen_cleaner_leader_election_status'' [] (if leader then 1 else 0))"

definition record_leader_election_transition :: "('w, unit) prog" where
  "record_leader_election_transition = count ''zen_cleaner_leader_election_transitions_total''"

definition record_safety_refusal :: "string \<Rightarrow> ('w, unit) prog" where
  "record_safety_refusal reason = count_with ''zen_cleaner_safety_refusals_total'' [reason]"

definition record_candidate_considered :: "('w, unit) prog" where
  "record_candidate_considered = count ''zen_cleaner_candidates_considered_total''"

definition record_deletion_attempted :: "('w, unit) prog" where
  "record_deletion_attempted = count ''zen_cleaner_deletions_attempted_total''"

definition record_deletion_failed :: "('w, unit) prog" where
  "record_deletion_failed = count ''zen_cleaner_deletions_failed_total''"

definition record_dry_run_candidate :: "('w, unit) prog" where
  "record_dry_run_candidate = count ''zen_cleaner_dry_run_candidates_total''"

definition record_reconcile_outcome :: "string \<Rightarrow> ('w, unit) prog" where
  "record_reconcile_outcome result = count_with ''zen_cleaner_reconcile_total'' [result]"

text \<open>\<open>apiErrorClass\<close>: a bounded label for an API error.\<close>

definition api_error_class :: "go_error option \<Rightarrow> string" where
  "api_error_class oe = (case oe of
       None \<Rightarrow> ''other''
     | Some e \<Rightarrow>
        if api_is Api_Conflict e then ''conflict''
        else if api_is Api_NotFound e then ''notfound''
        else if api_is Api_Forbidden e then ''forbidden''
        else if api_is Api_Unauthorized e then ''unauthorized''
        else if api_is Api_TooManyRequests e then ''throttled''
        else if api_is Api_ServiceUnavailable e \<or> api_is Api_InternalError e
                \<or> api_is Api_ServerTimeout e \<or> api_is Api_Timeout e then ''server_error''
        else if list_ex (contains (error_string e))
                  [''connection refused'', ''connection reset'', ''TLS handshake'',
                   ''no such host'', ''i/o timeout'', ''EOF'', ''proxy''] then ''network''
        else ''other'')"

definition record_api_error :: "go_error \<Rightarrow> ('w, unit) prog" where
  "record_api_error e = count_with ''zen_cleaner_api_errors_total'' [api_error_class (Some e)]"

text \<open>The recorder's methods do nothing on a nil recorder.\<close>

definition eventf :: "bool \<Rightarrow> string \<Rightarrow> string \<Rightarrow> string \<Rightarrow> ('w, unit) prog" where
  "eventf recorder ty reason msg =
     (if recorder then emit (Eff_Event ty reason msg) else State_Monad.return ())"

definition record_policy_evaluated :: "bool \<Rightarrow> int \<Rightarrow> int \<Rightarrow> int \<Rightarrow> ('w, unit) prog" where
  "record_policy_evaluated recorder matched deleted pending =
     eventf recorder ''Normal'' ''PolicyEvaluated''
       (''Evaluated policy: matched='' @ show_int matched @ '', deleted='' @ show_int deleted
        @ '', pending='' @ show_int pending)"

text \<open>\<open>GetResourceName\<close> of an object with a \<open>GetName\<close> method.\<close>

definition get_resource_name :: "uobj \<Rightarrow> string" where
  "get_resource_name obj = u_name obj"

definition record_resource_deleted_event :: "bool \<Rightarrow> uobj \<Rightarrow> string \<Rightarrow> ('w, unit) prog" where
  "record_resource_deleted_event recorder obj reason =
     eventf recorder ''Normal'' ''ResourceDeleted''
       (''Deleted resource '' @ get_resource_name obj @ '' (reason: '' @ reason @ '')'')"

definition record_evaluation_failed :: "bool \<Rightarrow> go_error \<Rightarrow> ('w, unit) prog" where
  "record_evaluation_failed recorder e =
     eventf recorder ''Warning'' ''EvaluationFailed'' (''Failed to evaluate policy: '' @ error_string e)"

definition record_status_update_failed :: "bool \<Rightarrow> go_error \<Rightarrow> ('w, unit) prog" where
  "record_status_update_failed recorder e =
     eventf recorder ''Warning'' ''StatusUpdateFailed''
       (''Failed to update policy status: '' @ error_string e)"

section \<open>An example world\<close>

text \<open>One object, present while the environment is true; nothing else fails.\<close>

definition not_found :: go_error where
  "not_found = Api_Error [Api_NotFound] ''not found''"

definition ex_cluster :: "bool cluster" where
  "ex_cluster = \<lparr>cl_now = (\<lambda>w. (1000000000000, w)),
     cl_ctx = (\<lambda>w. (None, w)),
     cl_sleep = (\<lambda>d w. (None, w)),
     cl_wait = (\<lambda>l w. (None, w)),
     cl_get = (\<lambda>g ns n w. (if w then Inr ex_obj else Inl not_found, w)),
     cl_delete = (\<lambda>g ns n opts w. (if w then None else Some not_found, False)),
     cl_list = (\<lambda>g ns w. (None, w)),
     cl_mapper = None,
     cl_discovery = None,
     cl_store = (\<lambda>key w. (if w then [ex_obj] else [], w)),
     cl_sync = (\<lambda>key w. ((True, None), w)),
     cl_get_policy = (\<lambda>ns n w. (Inr ex_policy, w)),
     cl_list_policies = (\<lambda>w. (Inr [ex_policy], w)),
     cl_get_crd = (\<lambda>ns n w. (Inr [], w)),
     cl_update_crd_status = (\<lambda>ns n obj w. (None, w)),
     cl_gv_string = (\<lambda>g v. if g = [] then v else g @ ''/'' @ v),
     cl_gvr_string = (\<lambda>g. gvr_group g @ ''/'' @ gvr_version g @ ''/'' @ gvr_resource g),
     cl_format_time = (\<lambda>t. show_int (t div 1000000000)),
     cl_status_ctx = (\<lambda>w. (None, w)),
     cl_parse_time = (\<lambda>s. Inl (Errors_New s)),
     cl_selector = (\<lambda>sel. Inr (\<lambda>labels. ls_match_expressions sel = [] \<and>
        list_all (\<lambda>(k, v). map_of labels k = Some v) (ls_match_labels sel)))\<rparr>"

definition ex_sys :: "bool sys" where
  "ex_sys = \<lparr>sy_env = True, sy_trace = [], sy_gvr_cache = [], sy_limiters = [],
     sy_policy_uids = [], sy_specs = [], sy_probes = [], sy_failures = [], sy_services = [],
     sy_informers = []\<rparr>"

section \<open>What a program emits\<close>

text \<open>
  \<open>emits m R\<close>: from every state, \<open>m\<close> appends to the trace a list of effects related by \<open>R\<close>
  to its result.  The rules compose along the program; \<open>only E m\<close> is the special case that
  every effect satisfies \<open>E\<close>.  A program never removes from the trace.
\<close>

definition emits :: "('w, 'a) prog \<Rightarrow> ('a \<Rightarrow> effect list \<Rightarrow> bool) \<Rightarrow> bool" where
  "emits m R \<longleftrightarrow> (\<forall>s. \<exists>es. sy_trace (snd (run_state m s)) = sy_trace s @ es
     \<and> R (fst (run_state m s)) es)"

definition only :: "(effect \<Rightarrow> bool) \<Rightarrow> ('w, 'a) prog \<Rightarrow> bool" where
  "only E m \<longleftrightarrow> emits m (\<lambda>a es. list_all E es)"

lemma emitsI:
  "(\<And>s. \<exists>es. sy_trace (snd (run_state m s)) = sy_trace s @ es \<and> R (fst (run_state m s)) es)
     \<Longrightarrow> emits m R"
  by (simp add: emits_def)

lemma emitsD:
  assumes "emits m R" "run_state m s = (a, s')"
  obtains es where "sy_trace s' = sy_trace s @ es" "R a es"
  using assms unfolding emits_def by (metis fst_conv snd_conv)

lemma emits_weaken: "emits m R \<Longrightarrow> (\<And>a es. R a es \<Longrightarrow> R' a es) \<Longrightarrow> emits m R'"
  unfolding emits_def by blast

lemma emits_bind:
  assumes "emits m R" "\<And>a. emits (f a) (S a)"
    "\<And>a es b fs. R a es \<Longrightarrow> S a b fs \<Longrightarrow> T b (es @ fs)"
  shows "emits (State_Monad.bind m f) T"
proof (rule emitsI)
  fix s
  obtain a s1 where m: "run_state m s = (a, s1)" by (cases "run_state m s")
  obtain b s2 where f: "run_state (f a) s1 = (b, s2)" by (cases "run_state (f a) s1")
  from assms(1) m obtain es where es: "sy_trace s1 = sy_trace s @ es" "R a es"
    by (rule emitsD)
  from assms(2) f obtain fs where fs: "sy_trace s2 = sy_trace s1 @ fs" "S a b fs"
    by (rule emitsD)
  from m f es fs assms(3) show "\<exists>es. sy_trace (snd (run_state (State_Monad.bind m f) s)) = sy_trace s @ es
      \<and> T (fst (run_state (State_Monad.bind m f) s)) es"
    by auto
qed

text \<open>The same, when the second program's law needs what is known of the answer.\<close>

lemma emits_bind_dep:
  assumes "emits m R" "\<And>a es. R a es \<Longrightarrow> emits (f a) (S a)"
    "\<And>a es b fs. R a es \<Longrightarrow> S a b fs \<Longrightarrow> T b (es @ fs)"
  shows "emits (State_Monad.bind m f) T"
proof (rule emitsI)
  fix s
  obtain a s1 where m: "run_state m s = (a, s1)" by (cases "run_state m s")
  obtain b s2 where f: "run_state (f a) s1 = (b, s2)" by (cases "run_state (f a) s1")
  from assms(1) m obtain es where es: "sy_trace s1 = sy_trace s @ es" "R a es"
    by (rule emitsD)
  from assms(2) [OF es(2)] f obtain fs where fs: "sy_trace s2 = sy_trace s1 @ fs" "S a b fs"
    by (rule emitsD)
  from m f es fs assms(3) show "\<exists>es. sy_trace (snd (run_state (State_Monad.bind m f) s)) = sy_trace s @ es
      \<and> T (fst (run_state (State_Monad.bind m f) s)) es"
    by auto
qed

text \<open>The rule for a first program whose answer and effects are known.\<close>

lemma emits_bind_known:
  assumes "emits m (\<lambda>a es. a = a0 \<and> es = es0)" "emits (f a0) S" "\<And>b fs. S b fs \<Longrightarrow> T b (es0 @ fs)"
  shows "emits (State_Monad.bind m f) T"
proof (rule emitsI)
  fix s
  obtain a s1 where m: "run_state m s = (a, s1)" by (cases "run_state m s")
  with assms(1) have a: "a = a0" "sy_trace s1 = sy_trace s @ es0"
    by (auto elim: emitsD)
  obtain b s2 where f: "run_state (f a0) s1 = (b, s2)" by (cases "run_state (f a0) s1")
  from assms(2) f obtain fs where "sy_trace s2 = sy_trace s1 @ fs" "S b fs"
    by (rule emitsD)
  with m f a assms(3) show "\<exists>es. sy_trace (snd (run_state (State_Monad.bind m f) s)) = sy_trace s @ es
      \<and> T (fst (run_state (State_Monad.bind m f) s)) es"
    by auto
qed

lemma emits_return: "R a [] \<Longrightarrow> emits (State_Monad.return a) R"
  by (rule emitsI) simp

lemma emits_ask: "(\<And>a. R a []) \<Longrightarrow> emits (ask f) R"
  by (rule emitsI) simp

lemma emits_ask_value: "emits (ask f) (\<lambda>a es. es = [] \<and> (\<exists>w. fst (f w) = a))"
  by (rule emitsI) auto

lemma emits_emit: "R () [e] \<Longrightarrow> emits (emit e) R"
  by (rule emitsI) simp

lemma emits_gets: "(\<And>a. R a []) \<Longrightarrow> emits (gets f) R"
  by (rule emitsI) simp

lemma emits_modify: "(\<And>s. sy_trace (f s) = sy_trace s) \<Longrightarrow> R () [] \<Longrightarrow> emits (modify f) R"
  by (rule emitsI) simp

lemma emits_if: "emits m R \<Longrightarrow> emits n R \<Longrightarrow> emits (if b then m else n) R"
  by simp

lemma only_bind: "only E m \<Longrightarrow> (\<And>a. only E (f a)) \<Longrightarrow> only E (State_Monad.bind m f)"
  unfolding only_def by (rule emits_bind [of m _ f "\<lambda>a b fs. list_all E fs"]) auto

lemma only_return: "only E (State_Monad.return a)"
  unfolding only_def by (rule emits_return) simp

lemma only_ask: "only E (ask f)"
  unfolding only_def by (rule emits_ask) simp

lemma only_emit: "E e \<Longrightarrow> only E (emit e)"
  unfolding only_def by (rule emits_emit) simp

lemma only_gets: "only E (gets f)"
  unfolding only_def by (rule emits_gets) simp

lemma only_modify: "(\<And>s. sy_trace (f s) = sy_trace s) \<Longrightarrow> only E (modify f)"
  unfolding only_def by (rule emits_modify) simp_all

lemma only_if: "(b \<Longrightarrow> only E m) \<Longrightarrow> (\<not> b \<Longrightarrow> only E n) \<Longrightarrow> only E (if b then m else n)"
  by simp

lemma only_weaken: "only E m \<Longrightarrow> (\<And>e. E e \<Longrightarrow> F e) \<Longrightarrow> only F m"
  unfolding only_def by (erule emits_weaken) (auto simp: list_all_iff)

lemma onlyD:
  assumes "only E m" "run_state m s = (a, s')"
  shows "\<exists>es. sy_trace s' = sy_trace s @ es \<and> (\<forall>e \<in> set es. E e)"
  using assms unfolding only_def emits_def by (metis fst_conv snd_conv list_all_iff)

lemmas only_rules = only_bind only_return only_ask only_gets only_if

text \<open>What a program leaves as it was: \<open>keeps f m\<close>, for a part \<open>f\<close> of the memory.\<close>

definition keeps :: "('w sys \<Rightarrow> 'b) \<Rightarrow> ('w, 'a) prog \<Rightarrow> bool" where
  "keeps f m \<longleftrightarrow> (\<forall>s. f (snd (run_state m s)) = f s)"

lemma keeps_bind: "keeps f m \<Longrightarrow> (\<And>a. keeps f (h a)) \<Longrightarrow> keeps f (State_Monad.bind m h)"
  by (simp add: keeps_def case_prod_beta)

lemma keeps_return: "keeps f (State_Monad.return a)"
  by (simp add: keeps_def)

lemma keeps_gets: "keeps f (gets g)"
  by (simp add: keeps_def)

lemma keeps_ask: "(\<And>s w. f (s\<lparr>sy_env := w\<rparr>) = f s) \<Longrightarrow> keeps f (ask g)"
  by (simp add: keeps_def)

lemma keeps_emit: "(\<And>s t. f (s\<lparr>sy_trace := t\<rparr>) = f s) \<Longrightarrow> keeps f (emit e)"
  by (simp add: keeps_def)

lemma keeps_modify: "(\<And>s. f (g s) = f s) \<Longrightarrow> keeps f (modify g)"
  by (simp add: keeps_def)

lemma keepsD: "keeps f m \<Longrightarrow> run_state m s = (a, s') \<Longrightarrow> f s' = f s"
  unfolding keeps_def by (metis snd_conv)

lemmas keeps_rules = keeps_bind keeps_return keeps_gets

text \<open>\<open>leads P m Q\<close>: from a memory with \<open>P\<close>, the answer and the memory after \<open>m\<close> satisfy \<open>Q\<close>.\<close>

definition leads :: "('w sys \<Rightarrow> bool) \<Rightarrow> ('w, 'a) prog \<Rightarrow> ('a \<Rightarrow> 'w sys \<Rightarrow> bool) \<Rightarrow> bool" where
  "leads P m Q \<longleftrightarrow> (\<forall>s. P s \<longrightarrow> Q (fst (run_state m s)) (snd (run_state m s)))"

lemma leads_bind:
  "leads P m Q \<Longrightarrow> (\<And>a. leads (Q a) (f a) R) \<Longrightarrow> leads P (State_Monad.bind m f) R"
  by (simp add: leads_def case_prod_beta)

lemma leads_return: "(\<And>s. P s \<Longrightarrow> Q a s) \<Longrightarrow> leads P (State_Monad.return a) Q"
  by (simp add: leads_def)

lemma leads_gets: "(\<And>s. P s \<Longrightarrow> Q (g s) s) \<Longrightarrow> leads P (gets g) Q"
  by (simp add: leads_def)

lemma leads_modify: "(\<And>s. P s \<Longrightarrow> Q () (g s)) \<Longrightarrow> leads P (modify g) Q"
  by (simp add: leads_def)

lemma leads_weaken: "leads P m Q \<Longrightarrow> (\<And>s. P' s \<Longrightarrow> P s) \<Longrightarrow> (\<And>a s. Q a s \<Longrightarrow> Q' a s) \<Longrightarrow> leads P' m Q'"
  by (simp add: leads_def)

lemma leads_keeps: "keeps f m \<Longrightarrow> leads (\<lambda>s. P (f s)) m (\<lambda>a s. P (f s))"
  by (simp add: leads_def keeps_def)

lemma leadsD: "leads P m Q \<Longrightarrow> P s \<Longrightarrow> run_state m s = (a, s') \<Longrightarrow> Q a s'"
  unfolding leads_def by (metis fst_conv snd_conv)

text \<open>\<open>maintains P m\<close>: \<open>P\<close> is an invariant of \<open>m\<close>.\<close>

definition maintains :: "('w sys \<Rightarrow> bool) \<Rightarrow> ('w, 'a) prog \<Rightarrow> bool" where
  "maintains P m \<longleftrightarrow> leads P m (\<lambda>a. P)"

lemma maintains_bind:
  "maintains P m \<Longrightarrow> (\<And>a. maintains P (f a)) \<Longrightarrow> maintains P (State_Monad.bind m f)"
  unfolding maintains_def by (rule leads_bind)

lemma maintains_return: "maintains P (State_Monad.return a)"
  unfolding maintains_def by (rule leads_return)

lemma maintains_gets: "maintains P (gets g)"
  unfolding maintains_def by (rule leads_gets)

lemma maintains_modify: "(\<And>s. P s \<Longrightarrow> P (g s)) \<Longrightarrow> maintains P (modify g)"
  unfolding maintains_def by (rule leads_modify)

lemma maintains_run:
  "maintains P m \<Longrightarrow> (\<And>a. maintains P (f a)) \<Longrightarrow> maintains P (bind_run m f)"
  unfolding bind_run_def by (auto intro!: maintains_bind maintains_return split: run.split)

lemma maintains_if: "(b \<Longrightarrow> maintains P m) \<Longrightarrow> (\<not> b \<Longrightarrow> maintains P n) \<Longrightarrow> maintains P (if b then m else n)"
  by simp

lemma maintainsD: "maintains P m \<Longrightarrow> P s \<Longrightarrow> P (snd (run_state m s))"
  by (simp add: maintains_def leads_def)

lemma keeps_maintains: "(\<And>v. maintains (\<lambda>s. f s = v) m) \<Longrightarrow> keeps f m"
  by (simp add: maintains_def leads_def keeps_def)

lemmas maintains_rules = maintains_bind maintains_return maintains_gets maintains_run maintains_if

text \<open>\<open>answers Q m\<close>: every answer of \<open>m\<close> satisfies \<open>Q\<close>.\<close>

definition answers :: "('a \<Rightarrow> bool) \<Rightarrow> ('w, 'a) prog \<Rightarrow> bool" where
  "answers Q m \<longleftrightarrow> (\<forall>s. Q (fst (run_state m s)))"

lemma answers_bind: "(\<And>a. answers Q (f a)) \<Longrightarrow> answers Q (State_Monad.bind m f)"
  by (simp add: answers_def case_prod_beta)

lemma answers_return: "Q a \<Longrightarrow> answers Q (State_Monad.return a)"
  by (simp add: answers_def)

lemma answers_run:
  "(\<And>a. answers Q (f a)) \<Longrightarrow> (\<And>e. Q (Panicked e)) \<Longrightarrow> Q Out_Of_Fuel \<Longrightarrow> answers Q (bind_run m f)"
  unfolding bind_run_def by (auto intro!: answers_bind answers_return split: run.split)

lemma answersD: "answers Q m \<Longrightarrow> run_state m s = (a, s') \<Longrightarrow> Q a"
  unfolding answers_def by (metis fst_conv)

text \<open>Metrics and events reach neither the API server nor the token bucket.\<close>

definition is_report :: "effect \<Rightarrow> bool" where
  "is_report e = (case e of
       Eff_Counter n ls \<Rightarrow> True | Eff_Gauge n ls v \<Rightarrow> True | Eff_Event ty r m \<Rightarrow> True | _ \<Rightarrow> False)"

fun is_delete :: "effect \<Rightarrow> bool" where
  "is_delete (Eff_Delete g ns n opts) = True"
| "is_delete e = False"

lemma report_not_delete: "is_report e \<Longrightarrow> \<not> is_delete e"
  by (cases e) (simp_all add: is_report_def)

lemmas report_defs = count_def count_with_def record_policy_phase_def record_resource_matched_def
  record_resource_deleted_def record_error_def record_informer_count_def
  record_rate_limiter_count_def record_resources_pending_def record_leader_election_status_def
  record_leader_election_transition_def record_safety_refusal_def
  record_candidate_considered_def record_deletion_attempted_def record_deletion_failed_def
  record_dry_run_candidate_def record_reconcile_outcome_def record_api_error_def eventf_def
  record_policy_evaluated_def record_resource_deleted_event_def record_evaluation_failed_def
  record_status_update_failed_def

lemma only_report:
  "only is_report (record_policy_phase ph n)"
  "only is_report (record_resource_matched p)"
  "only is_report (record_resource_deleted p reason)"
  "only is_report (record_error ns name ty)"
  "only is_report (record_informer_count k)"
  "only is_report (record_rate_limiter_count k)"
  "only is_report (record_resources_pending p n)"
  "only is_report (record_safety_refusal reason)"
  "only is_report record_candidate_considered"
  "only is_report record_deletion_attempted"
  "only is_report record_deletion_failed"
  "only is_report record_dry_run_candidate"
  "only is_report (record_reconcile_outcome reason)"
  "only is_report (record_api_error err)"
  "only is_report (eventf r ty reason msg)"
  "only is_report (record_policy_evaluated r a b c)"
  "only is_report (record_resource_deleted_event r obj reason)"
  "only is_report (record_evaluation_failed r err)"
  "only is_report (record_status_update_failed r err)"
  by (simp_all add: report_defs is_report_def only_emit only_return)

lemma only_report_weaken:
  "only is_report m \<Longrightarrow> (\<And>e. is_report e \<Longrightarrow> E e) \<Longrightarrow> only E m"
  by (rule only_weaken)

lemma api_error_class_bounded:
  "api_error_class oe \<in> {''conflict'', ''notfound'', ''forbidden'', ''unauthorized'', ''throttled'',
     ''server_error'', ''network'', ''other''}"
  by (simp add: api_error_class_def split: option.split)

end
