(* ===== verification/Gvr.thy ===== *)
theory Gvr
  imports World
begin

text \<open>
  Naming the target of a policy: \<open>ParseGVR\<close> and \<open>PluralizeKind\<close> of
  \<open>pkg/validation/gvr.go\<close>, the cached resolver of \<open>pkg/controller/gvr_resolver.go\<close>,
  \<open>resolveGVRForDeletion\<close> and \<open>normalizeNamespace\<close> of \<open>reconciler_helpers.go\<close>, and the
  splitting of an apiVersion in \<open>target_capability.go\<close>.

  \<open>schema.ParseGroupVersion\<close> of apimachinery is the parameter \<open>pgv\<close>; \<open>pgv_ok\<close> states what
  its documentation says of a version without a slash and of a group and a version.
\<close>

section \<open>Parsing\<close>

definition ErrAPIVersionEmpty :: go_error where
  "ErrAPIVersionEmpty = Sentinel ''ErrAPIVersionEmpty'' ''apiVersion cannot be empty''"
definition ErrKindEmpty :: go_error where
  "ErrKindEmpty = Sentinel ''ErrKindEmpty'' ''kind cannot be empty''"
definition ErrInvalidAPIVersionFormat :: go_error where
  "ErrInvalidAPIVersionFormat = Sentinel ''ErrInvalidAPIVersionFormat''
     ''apiVersion must be in format 'v1' (core API) or 'group/v1' (grouped API)''"
definition ErrAPIVersionMultipleSeparators :: go_error where
  "ErrAPIVersionMultipleSeparators = Sentinel ''ErrAPIVersionMultipleSeparators''
     ''apiVersion must have exactly one '/' separator''"
definition ErrAPIVersionGroupEmpty :: go_error where
  "ErrAPIVersionGroupEmpty = Sentinel ''ErrAPIVersionGroupEmpty'' ''apiVersion group cannot be empty''"
definition ErrAPIVersionVersionEmpty :: go_error where
  "ErrAPIVersionVersionEmpty = Sentinel ''ErrAPIVersionVersionEmpty'' ''apiVersion version cannot be empty''"
definition ErrAPIVersionMissingVersion :: go_error where
  "ErrAPIVersionMissingVersion = Sentinel ''ErrAPIVersionMissingVersion''
     ''apiVersion must include a version (e.g., 'v1' or 'apps/v1')''"

definition pluralize_kind :: "string \<Rightarrow> string" where
  "pluralize_kind kind =
     (let lower = to_lower kind in
      if has_suffix lower ''s'' \<or> has_suffix lower ''x'' \<or> has_suffix lower ''z''
         \<or> has_suffix lower ''ch'' \<or> has_suffix lower ''sh'' then lower @ ''es''
      else if has_suffix lower ''y'' \<and> length lower > 1
        then take (length lower - 1) lower @ ''ies''
      else lower @ ''s'')"

definition parse_gvr ::
  "(string \<Rightarrow> go_error + string \<times> string) \<Rightarrow> string \<Rightarrow> string \<Rightarrow> go_error + gvr" where
  "parse_gvr pgv api_version kind =
     (if api_version = [] then Inl (Errorf [] ErrAPIVersionEmpty [])
      else if kind = [] then Inl (Errorf [] ErrKindEmpty [])
      else let parts = split_on (CHR ''/'') api_version in
        if \<not> contains api_version ''/'' \<and> \<not> has_prefix api_version ''v'' then
          Inl (Errorf [] ErrInvalidAPIVersionFormat [])
        else if contains api_version ''/'' \<and> length parts \<noteq> 2 then
          Inl (Errorf [] ErrAPIVersionMultipleSeparators [])
        else if contains api_version ''/'' \<and> parts ! 0 = [] then
          Inl (Errorf [] ErrAPIVersionGroupEmpty [])
        else if contains api_version ''/'' \<and> parts ! 1 = [] then
          Inl (Errorf [] ErrAPIVersionVersionEmpty [])
        else (case pgv api_version of
            Inl e \<Rightarrow> Inl (Errorf ''failed to parse API version: '' e [])
          | Inr (grp, version) \<Rightarrow>
              if version = [] then Inl (Errorf [] ErrAPIVersionMissingVersion [])
              else Inr \<lparr>gvr_group = grp, gvr_version = version,
                        gvr_resource = pluralize_kind kind\<rparr>))"

definition group_of :: "string \<Rightarrow> string" where
  "group_of api_version = (case str_index api_version ''/'' of
       Some i \<Rightarrow> take i api_version | None \<Rightarrow> [])"

definition version_of :: "string \<Rightarrow> string" where
  "version_of api_version = (case str_index api_version ''/'' of
       Some i \<Rightarrow> drop (i + 1) api_version | None \<Rightarrow> api_version)"

text \<open>The second pluralization of the program, used by the capability probe.\<close>

definition pluralize_kind_lower :: "string \<Rightarrow> string" where
  "pluralize_kind_lower kind =
     (if kind = [] then kind
      else let lower = to_lower kind in
        if has_suffix lower ''s'' then lower @ ''es''
        else if has_suffix lower ''y'' then take (length lower - 1) lower @ ''ies''
        else lower @ ''s'')"

definition plural_for_kind :: "string \<Rightarrow> string" where
  "plural_for_kind kind = pluralize_kind_lower kind"

definition normalize_namespace :: "string \<Rightarrow> string" where
  "normalize_namespace namespace =
     (let ns = (if namespace = [] then ''*'' else namespace) in if ns = ''*'' then [] else ns)"

section \<open>The resolver\<close>

definition resolve_with_pluralization :: "gvk \<Rightarrow> gvr" where
  "resolve_with_pluralization k =
     \<lparr>gvr_group = gvk_group k, gvr_version = gvk_version k,
      gvr_resource = pluralize_kind (gvk_kind k)\<rparr>"

definition resolve_gvr :: "'w cluster \<Rightarrow> gvk \<Rightarrow> ('w, go_error + gvr) prog" where
  "resolve_gvr cl k = do {
     cache \<leftarrow> gets sy_gvr_cache;
     case map_of cache k of
       Some g \<Rightarrow> State_Monad.return (Inr g)
     | None \<Rightarrow>
        (case cl_mapper cl of
           Some mapper \<Rightarrow> do {
             r \<leftarrow> ask (mapper k);
             case r of
               Inr g \<Rightarrow> do {
                 modify (\<lambda>s. s\<lparr>sy_gvr_cache := AList.update k g (sy_gvr_cache s)\<rparr>);
                 State_Monad.return (Inr g)
               }
             | Inl e \<Rightarrow> State_Monad.return (Inr (resolve_with_pluralization k))
           }
         | None \<Rightarrow> State_Monad.return (Inr (resolve_with_pluralization k)))
   }"

text \<open>\<open>resolver\<close> is false when the reconciler has no resolver (nil).\<close>

definition resolve_gvr_for_deletion :: "'w cluster \<Rightarrow> bool \<Rightarrow> uobj \<Rightarrow> ('w, gvr) prog" where
  "resolve_gvr_for_deletion cl resolver obj =
     (let fallback = \<lparr>gvr_group = gvk_group (u_gvk obj), gvr_version = gvk_version (u_gvk obj),
                      gvr_resource = pluralize_kind (u_kind obj)\<rparr> in
      if resolver then do {
        r \<leftarrow> resolve_gvr cl (u_gvk obj);
        case r of
          Inr g \<Rightarrow> State_Monad.return g
        | Inl e \<Rightarrow> State_Monad.return fallback
      }
      else State_Monad.return fallback)"

lemma only_resolve_gvr: "only E (resolve_gvr cl k)"
  unfolding resolve_gvr_def
  by (auto intro!: only_rules only_modify split: option.split sum.split)

lemma only_resolve_for_deletion: "only E (resolve_gvr_for_deletion cl b obj)"
  unfolding resolve_gvr_for_deletion_def Let_def
  by (auto intro!: only_rules only_resolve_gvr split: sum.split)

section \<open>Laws of the string functions\<close>

definition pgv_ok :: "(string \<Rightarrow> go_error + string \<times> string) \<Rightarrow> bool" where
  "pgv_ok pgv \<longleftrightarrow>
     (\<forall>v. v \<noteq> [] \<longrightarrow> CHR ''/'' \<notin> set v \<longrightarrow> pgv v = Inr ([], v)) \<and>
     (\<forall>g v. CHR ''/'' \<notin> set g \<longrightarrow> CHR ''/'' \<notin> set v \<longrightarrow> g \<noteq> [] \<longrightarrow>
        pgv (g @ CHR ''/'' # v) = Inr (g, v))"

lemma contains_char: "contains s [c] \<longleftrightarrow> c \<in> set s"
  by (auto simp: contains_iff in_set_conv_decomp)

lemma str_index_single:
  "str_index s [c] = (if c \<in> set s then Some (length (takeWhile (\<lambda>x. x \<noteq> c) s)) else None)"
  by (induction s) (auto simp: has_prefix_def)

lemma takeWhile_neq: "c \<notin> set a \<Longrightarrow> takeWhile (\<lambda>x. x \<noteq> c) (a @ c # b) = a"
  by (induction a) auto

lemma str_index_split: "c \<notin> set a \<Longrightarrow> str_index (a @ c # b) [c] = Some (length a)"
  by (simp add: str_index_single takeWhile_neq)

lemma str_index_absent: "c \<notin> set s \<Longrightarrow> str_index s [c] = None"
  by (simp add: str_index_single)

lemma group_version_join:
  "CHR ''/'' \<notin> set g \<Longrightarrow> group_of (g @ CHR ''/'' # v) = g \<and> version_of (g @ CHR ''/'' # v) = v"
  by (simp add: group_of_def version_of_def str_index_split)

lemma group_version_core:
  "CHR ''/'' \<notin> set v \<Longrightarrow> group_of v = [] \<and> version_of v = v"
  by (simp add: group_of_def version_of_def str_index_absent)

lemma split_on_two:
  assumes "split_on c s = [a, b]"
  shows "s = a @ c # b \<and> c \<notin> set a \<and> c \<notin> set b"
  using join_split [of c s] split_on_pieces [of _ c s] assms by simp

lemma split_on_two_iff:
  "length (split_on c s) = 2 \<longleftrightarrow> (\<exists>a b. s = a @ c # b \<and> c \<notin> set a \<and> c \<notin> set b)"
proof
  assume "length (split_on c s) = 2"
  then obtain a b where "split_on c s = [a, b]"
    by (auto simp: length_Suc_conv numeral_2_eq_2)
  then show "\<exists>a b. s = a @ c # b \<and> c \<notin> set a \<and> c \<notin> set b"
    using split_on_two by blast
next
  assume "\<exists>a b. s = a @ c # b \<and> c \<notin> set a \<and> c \<notin> set b"
  then show "length (split_on c s) = 2"
    by (auto simp: split_on_append split_on_single)
qed

section \<open>Properties\<close>

text \<open>\<open>ParseGVR\<close> accepts exactly the documented forms: a kind that is not empty and either
  a core version without a slash that starts with v, or a nonempty group and a nonempty
  version around the only slash; and its answer is the group and the version that
  \<open>groupOf\<close> and \<open>versionOf\<close> of the capability check read, with the plural of the kind.\<close>

theorem parse_gvr_accepts:
  assumes "pgv_ok pgv"
  shows "parse_gvr pgv api kind = Inr g \<longleftrightarrow>
     kind \<noteq> [] \<and>
     (if CHR ''/'' \<in> set api
      then (\<exists>a b. api = a @ CHR ''/'' # b \<and> CHR ''/'' \<notin> set a \<and> CHR ''/'' \<notin> set b
              \<and> a \<noteq> [] \<and> b \<noteq> [])
      else api \<noteq> [] \<and> has_prefix api ''v'') \<and>
     g = \<lparr>gvr_group = group_of api, gvr_version = version_of api,
          gvr_resource = pluralize_kind kind\<rparr>"
proof (cases "CHR ''/'' \<in> set api")
  case False
  with assms show ?thesis
    by (auto simp: parse_gvr_def contains_char pgv_ok_def group_version_core Let_def)
next
  case slash: True
  then have ne: "api \<noteq> []" by auto
  show ?thesis
  proof (cases "length (split_on (CHR ''/'') api) = 2")
    case False
    with slash ne show ?thesis
      by (auto simp: parse_gvr_def contains_char Let_def split_on_two_iff)
  next
    case True
    then obtain a b where ab: "api = a @ CHR ''/'' # b" "CHR ''/'' \<notin> set a" "CHR ''/'' \<notin> set b"
      by (auto simp: split_on_two_iff)
    then have sp: "split_on (CHR ''/'') api = [a, b]"
      by (simp add: split_on_append split_on_single)
    have uniq: "a' = a \<and> b' = b" if "api = a' @ CHR ''/'' # b'" "CHR ''/'' \<notin> set a'"
      for a' b'
      using group_version_join [OF ab(2), of b] group_version_join [OF that(2), of b'] ab(1) that(1)
      by simp
    have form: "(\<exists>a b. api = a @ CHR ''/'' # b \<and> CHR ''/'' \<notin> set a \<and> CHR ''/'' \<notin> set b
        \<and> a \<noteq> [] \<and> b \<noteq> []) \<longleftrightarrow> a \<noteq> [] \<and> b \<noteq> []"
      using ab uniq by metis
    have gv: "group_of api = a" "version_of api = b"
      using group_version_join [OF ab(2)] ab(1) by auto
    have pgv: "a \<noteq> [] \<Longrightarrow> pgv api = Inr (a, b)"
      using assms ab unfolding pgv_ok_def by blast
    show ?thesis
      unfolding form gv using sp slash ne pgv
      by (auto simp: parse_gvr_def contains_char Let_def)
  qed
qed

definition ex_pgv :: "string \<Rightarrow> go_error + string \<times> string" where
  "ex_pgv s = (case split_on (CHR ''/'') s of
     [v] \<Rightarrow> Inr ([], v) | [g, v] \<Rightarrow> Inr (g, v) | _ \<Rightarrow> Inl (Errors_New ''unexpected GroupVersion string''))"

lemma ex_pgv_ok: "pgv_ok ex_pgv"
  by (simp add: pgv_ok_def ex_pgv_def split_on_single split_on_append)

theorem parse_gvr_accepts_witness:
  "parse_gvr ex_pgv ''apps/v1'' ''Deployment'' = Inr \<lparr>gvr_group = ''apps'', gvr_version = ''v1'',
     gvr_resource = ''deployments''\<rparr>"
proof -
  have *: "group_of ''apps/v1'' = ''apps''" "version_of ''apps/v1'' = ''v1''"
    "pluralize_kind ''Deployment'' = ''deployments''"
    by code_simp+
  have "\<exists>a b. ''apps/v1'' = a @ CHR ''/'' # b \<and> CHR ''/'' \<notin> set a \<and> CHR ''/'' \<notin> set b
      \<and> a \<noteq> [] \<and> b \<noteq> []"
    by (rule exI [of _ "''apps''"], rule exI [of _ "''v1''"]) simp
  with * show ?thesis
    by (intro parse_gvr_accepts [OF ex_pgv_ok, THEN iffD2]) simp
qed

text \<open>The two pluralizations of the program agree on every nonempty kind except those whose
  lower-case form ends in x, z, ch or sh, or is the single letter y: for those the
  capability probe lists another resource than the one the evaluator parses and the
  resolver falls back to.\<close>

theorem pluralizations_agree:
  assumes "kind \<noteq> []"
  shows "pluralize_kind kind = plural_for_kind kind \<longleftrightarrow>
    \<not> (has_suffix (to_lower kind) ''x'' \<or> has_suffix (to_lower kind) ''z'' \<or>
       has_suffix (to_lower kind) ''ch'' \<or> has_suffix (to_lower kind) ''sh'' \<or>
       to_lower kind = ''y'')"
proof -
  let ?L = "to_lower kind"
  have ne: "?L \<noteq> []" using assms by (simp add: to_lower_def)
  have last: "has_suffix ?L [c] \<longleftrightarrow> last ?L = c" for c
    using ne by (auto simp: has_suffix_iff) (metis append_butlast_last_id)
  have last2: "has_suffix ?L [c, d] \<Longrightarrow> last ?L = d" for c d
    by (auto simp: has_suffix_iff)
  have unf: "plural_for_kind kind = (if last ?L = CHR ''s'' then ?L @ ''es''
      else if last ?L = CHR ''y'' then take (length ?L - 1) ?L @ ''ies'' else ?L @ ''s'')"
    using assms by (simp add: plural_for_kind_def pluralize_kind_lower_def Let_def last)
  let ?A = "last ?L = CHR ''x'' \<or> last ?L = CHR ''z'' \<or> has_suffix ?L ''ch'' \<or> has_suffix ?L ''sh''"
  have unf2: "pluralize_kind kind = (if last ?L = CHR ''s'' \<or> ?A then ?L @ ''es''
      else if last ?L = CHR ''y'' \<and> length ?L > 1 then take (length ?L - 1) ?L @ ''ies'' else ?L @ ''s'')"
    by (simp add: pluralize_kind_def Let_def last)
  have one: "last ?L = CHR ''y'' \<Longrightarrow> \<not> length ?L > 1 \<longleftrightarrow> ?L = ''y''"
    using ne by (cases ?L) auto
  have A: "last ?L \<noteq> CHR ''s'' \<and> last ?L \<noteq> CHR ''y''" if ?A
    using that last2 [of "CHR ''c''" "CHR ''h''"] last2 [of "CHR ''s''" "CHR ''h''"]
    by (elim disjE) simp_all
  show ?thesis
  proof (cases ?A)
    case True
    with A [OF True] show ?thesis unfolding unf unf2 last by (simp only: if_True if_False simp_thms) auto
  next
    case False
    then show ?thesis
      using one unfolding unf unf2 last
      by (cases "?L = ''y''"; cases "last ?L = CHR ''y''") simp_all
  qed
qed

theorem pluralizations_agree_witness:
  "pluralize_kind ''Box'' \<noteq> plural_for_kind ''Box''"
proof -
  have "has_suffix (to_lower ''Box'') ''x''" by code_simp
  then show ?thesis using pluralizations_agree [of "''Box''"] by simp
qed

text \<open>The cache of the resolver holds only what the REST mapper confirmed: a resolution
  always answers; it changes the cache only by adding the mapper's answer for this kind,
  and the pluralized fallback is never cached, so a custom resource that discovery learns
  later resolves correctly.\<close>

theorem resolver_caches_confirmed_only:
  "\<exists>g. fst (run_state (resolve_gvr cl k) s) = Inr g \<and>
    (case map_of (sy_gvr_cache s) k of
       Some g0 \<Rightarrow> g = g0 \<and> snd (run_state (resolve_gvr cl k) s) = s
     | None \<Rightarrow>
        (sy_gvr_cache (snd (run_state (resolve_gvr cl k) s)) = sy_gvr_cache s
           \<and> g = resolve_with_pluralization k) \<or>
        (\<exists>mapper w. cl_mapper cl = Some mapper \<and> mapper k (sy_env s) = (Inr g, w) \<and>
           sy_gvr_cache (snd (run_state (resolve_gvr cl k) s)) =
             AList.update k g (sy_gvr_cache s)))"
proof (cases "map_of (sy_gvr_cache s) k")
  case (Some g)
  then show ?thesis by (simp add: resolve_gvr_def)
next
  case none: None
  show ?thesis
  proof (cases "cl_mapper cl")
    case None
    with none show ?thesis by (simp add: resolve_gvr_def)
  next
    case (Some mapper)
    obtain r w where "mapper k (sy_env s) = (r, w)" by fastforce
    with none Some show ?thesis
      by (cases r) (simp_all add: resolve_gvr_def)
  qed
qed

end
