(* ===== verification/Throttle.thy ===== *)
theory Throttle
  imports World
begin

text \<open>
  Rate limiters: \<open>internal/ratelimiter/ratelimiter.go\<close>, the per-policy table of the
  reconciler (\<open>getOrCreateRateLimiterShared\<close> in \<open>pkg/controller/shared.go\<close>, the cleanup of
  \<open>reconciler_lifecycle.go\<close>) and the stand-alone provider of
  \<open>pkg/controller/infrastructure.go\<close>.

  The token bucket itself is \<open>golang.org/x/time/rate\<close>: a limiter is its limit and burst,
  and waiting is a call to the cluster.  The table is a shared map of pointers: changing the
  rate of the limiter that is returned changes the entry.  The interface
  \<open>RateLimiterProvider\<close> is the locale \<open>rate_limiter_provider\<close>.
\<close>

section \<open>A limiter\<close>

definition DefaultMaxPerSecond :: int where "DefaultMaxPerSecond = 10"

definition new_rate_limiter :: "int \<Rightarrow> limiter" where
  "new_rate_limiter n = (let n = (if n \<le> 0 then DefaultMaxPerSecond else n) in
     \<lparr>lim_limit = n, lim_burst = n\<rparr>)"

definition set_rate :: "int \<Rightarrow> limiter \<Rightarrow> limiter" where
  "set_rate n l = (let n = (if n \<le> 0 then DefaultMaxPerSecond else n) in
     l\<lparr>lim_limit := n, lim_burst := n\<rparr>)"

definition get_rate :: "limiter \<Rightarrow> int" where
  "get_rate l = lim_limit l"

definition limiter_wait :: "'w cluster \<Rightarrow> limiter \<Rightarrow> ('w, go_error option) prog" where
  "limiter_wait cl l = do { emit (Eff_Rate_Wait l); ask (cl_wait cl l) }"

lemma set_rate_new: "set_rate n l = new_rate_limiter n"
  by (simp add: set_rate_def new_rate_limiter_def Let_def)

lemma new_rate_limiter_positive: "1 \<le> lim_limit (new_rate_limiter n) \<and>
    lim_burst (new_rate_limiter n) = lim_limit (new_rate_limiter n)"
  by (simp add: new_rate_limiter_def Let_def DefaultMaxPerSecond_def)

lemma only_limiter_wait: "(\<And>l. E (Eff_Rate_Wait l)) \<Longrightarrow> only E (limiter_wait cl l)"
  unfolding limiter_wait_def by (intro only_bind only_emit only_ask)

section \<open>The table of the reconciler\<close>

definition DefaultMaxDeletionsPerSecond :: int where "DefaultMaxDeletionsPerSecond = 10"

definition policy_rate :: "policy \<Rightarrow> int" where
  "policy_rate p = (if bh_max_deletions (p_behavior p) > 0 then bh_max_deletions (p_behavior p)
     else DefaultMaxDeletionsPerSecond)"

definition get_or_create_rate_limiter :: "policy \<Rightarrow> ('w, limiter) prog" where
  "get_or_create_rate_limiter p = do {
     m \<leftarrow> gets sy_limiters;
     case map_of m (p_uid p) of
       Some l \<Rightarrow> do {
         modify (\<lambda>s. s\<lparr>sy_limiters := AList.update (p_uid p) (set_rate (policy_rate p) l) (sy_limiters s)\<rparr>);
         State_Monad.return (set_rate (policy_rate p) l)
       }
     | None \<Rightarrow> do {
         modify (\<lambda>s. s\<lparr>sy_limiters := AList.update (p_uid p) (new_rate_limiter (policy_rate p)) (sy_limiters s)\<rparr>);
         n \<leftarrow> gets (\<lambda>s. length (sy_limiters s));
         record_rate_limiter_count n;
         State_Monad.return (new_rate_limiter (policy_rate p))
       }
   }"

definition cleanup_rate_limiter :: "string \<Rightarrow> ('w, unit) prog" where
  "cleanup_rate_limiter uid = do {
     m \<leftarrow> gets sy_limiters;
     (if map_of m uid \<noteq> None
      then modify (\<lambda>s. s\<lparr>sy_limiters := AList.delete uid (sy_limiters s)\<rparr>)
      else State_Monad.return ());
     n \<leftarrow> gets (\<lambda>s. length (sy_limiters s));
     record_rate_limiter_count n
   }"

lemma run_get_or_create:
  "run_state (get_or_create_rate_limiter p) s =
     (new_rate_limiter (policy_rate p),
      snd (run_state (get_or_create_rate_limiter p) s))"
  by (simp add: get_or_create_rate_limiter_def set_rate_new split: option.split prod.split)

lemma get_or_create_limiters:
  "sy_limiters (snd (run_state (get_or_create_rate_limiter p) s)) =
     AList.update (p_uid p) (new_rate_limiter (policy_rate p)) (sy_limiters s)"
  by (simp add: get_or_create_rate_limiter_def set_rate_new record_rate_limiter_count_def
      split: option.split)

lemma only_get_or_create: "(\<And>e. is_report e \<Longrightarrow> E e) \<Longrightarrow> only E (get_or_create_rate_limiter p)"
  unfolding get_or_create_rate_limiter_def
  by (intro only_rules) (auto intro!: only_rules only_modify intro: only_weaken [OF only_report(6)]
      split: option.split)

lemma only_cleanup_rate_limiter: "(\<And>e. is_report e \<Longrightarrow> E e) \<Longrightarrow> only E (cleanup_rate_limiter uid)"
  unfolding cleanup_rate_limiter_def
  by (intro only_rules only_modify only_weaken [OF only_report(6)]) auto

section \<open>The stand-alone provider\<close>

record limiter_provider =
  lp_limiters :: "(string, limiter) gomap"
  lp_config :: "controller_config option"

definition new_limiter_provider :: "controller_config option \<Rightarrow> limiter_provider" where
  "new_limiter_provider cfg = \<lparr>lp_limiters = [], lp_config = cfg\<rparr>"

definition provider_rate :: "limiter_provider \<Rightarrow> policy \<Rightarrow> int" where
  "provider_rate lp p =
     (let n0 = 10;
          n1 = (case lp_config lp of
                  Some c \<Rightarrow> if cc_max_deletions c > 0 then cc_max_deletions c else n0
                | None \<Rightarrow> n0)
      in if bh_max_deletions (p_behavior p) > 0 then bh_max_deletions (p_behavior p) else n1)"

definition provider_get_or_create :: "limiter_provider \<Rightarrow> policy \<Rightarrow> limiter \<times> limiter_provider" where
  "provider_get_or_create lp p = (case map_of (lp_limiters lp) (p_uid p) of
       Some l \<Rightarrow> (l, lp)
     | None \<Rightarrow> (let l = new_rate_limiter (provider_rate lp p) in
                (l, lp\<lparr>lp_limiters := AList.update (p_uid p) l (lp_limiters lp)\<rparr>)))"

section \<open>The contract\<close>

text \<open>
  \<open>RateLimiterProvider\<close>: the limiter handed out is the one kept for the policy's UID, the
  limiters of the other policies are left alone, the limiter admits at least one operation
  per second when the kept ones do, and asking again hands out the same limiter.
\<close>

locale rate_limiter_provider =
  fixes get :: "'s \<Rightarrow> policy \<Rightarrow> limiter \<times> 's"
    and kept :: "'s \<Rightarrow> string \<Rightarrow> limiter option"
  assumes stored: "kept (snd (get s p)) (p_uid p) = Some (fst (get s p))"
    and frame: "uid \<noteq> p_uid p \<Longrightarrow> kept (snd (get s p)) uid = kept s uid"
    and positive: "(\<And>uid l. kept s uid = Some l \<Longrightarrow> 1 \<le> lim_limit l) \<Longrightarrow> 1 \<le> lim_limit (fst (get s p))"
    and stable: "fst (get (snd (get s p)) p) = fst (get s p)"
begin

definition usable :: "'s \<Rightarrow> bool" where
  "usable s \<longleftrightarrow> (\<forall>uid l. kept s uid = Some l \<longrightarrow> 1 \<le> lim_limit l)"

lemma usable_get: "usable s \<Longrightarrow> usable (snd (get s p))"
  unfolding usable_def by (metis frame option.inject positive stored)

lemma usable_positive: "usable s \<Longrightarrow> 1 \<le> lim_limit (fst (get s p))"
  unfolding usable_def using positive by blast

text \<open>Whatever policies were served before, every limiter admits something.\<close>

lemma usable_foldl: "usable s \<Longrightarrow> usable (foldl (\<lambda>s p. snd (get s p)) s ps)"
  by (induction ps arbitrary: s) (auto simp: usable_get)

lemma isolated: "\<forall>p \<in> set ps. p_uid p \<noteq> uid \<Longrightarrow>
    kept (foldl (\<lambda>s p. snd (get s p)) s ps) uid = kept s uid"
  by (induction ps arbitrary: s) (auto simp: frame)

end

interpretation reconciler_limiters: rate_limiter_provider
  "\<lambda>s p. run_state (get_or_create_rate_limiter p) s" "\<lambda>s. map_of (sy_limiters s)"
proof
  fix s :: "'w sys" and p uid
  have r: "fst (run_state (get_or_create_rate_limiter p) s) = new_rate_limiter (policy_rate p)" for s :: "'w sys"
    by (subst run_get_or_create) simp
  show "map_of (sy_limiters (snd (run_state (get_or_create_rate_limiter p) s))) (p_uid p) =
      Some (fst (run_state (get_or_create_rate_limiter p) s))"
    by (simp add: r get_or_create_limiters update_conv')
  show "uid \<noteq> p_uid p \<Longrightarrow>
      map_of (sy_limiters (snd (run_state (get_or_create_rate_limiter p) s))) uid = map_of (sy_limiters s) uid"
    by (simp add: get_or_create_limiters update_conv')
  show "1 \<le> lim_limit (fst (run_state (get_or_create_rate_limiter p) s))"
    using new_rate_limiter_positive by (simp add: r)
  show "fst (run_state (get_or_create_rate_limiter p) (snd (run_state (get_or_create_rate_limiter p) s))) =
      fst (run_state (get_or_create_rate_limiter p) s)"
    by (simp add: r)
qed

interpretation default_provider: rate_limiter_provider
  provider_get_or_create "\<lambda>lp. map_of (lp_limiters lp)"
proof
  fix lp :: limiter_provider and p
  assume "\<And>uid l. map_of (lp_limiters lp) uid = Some l \<Longrightarrow> 1 \<le> lim_limit l"
  then show "1 \<le> lim_limit (fst (provider_get_or_create lp p))"
    using new_rate_limiter_positive
    by (auto simp: provider_get_or_create_def Let_def split: option.split)
qed (auto simp: provider_get_or_create_def Let_def update_conv' split: option.splits)

section \<open>Properties\<close>

text \<open>A policy is throttled at its own rate: the limiter the reconciler uses for a policy
  admits \<open>maxDeletionsPerSecond\<close> operations when that is positive and 10 otherwise, also
  when an older limiter is in the table or the policy changed; the limiters of all other
  policies are untouched, and the default of the controller's configuration
  (\<open>MaxDeletionsPerSecond\<close>) plays no part.\<close>

theorem limiter_follows_policy:
  "let (l, s') = run_state (get_or_create_rate_limiter p) s in
     get_rate l = (if bh_max_deletions (p_behavior p) > 0 then bh_max_deletions (p_behavior p) else 10) \<and>
     lim_burst l = get_rate l \<and>
     map_of (sy_limiters s') = (map_of (sy_limiters s))(p_uid p \<mapsto> l)"
  using new_rate_limiter_positive [of "policy_rate p"]
  by (subst run_get_or_create)
    (simp add: get_or_create_limiters update_conv' get_rate_def new_rate_limiter_def policy_rate_def
      DefaultMaxDeletionsPerSecond_def DefaultMaxPerSecond_def Let_def)

text \<open>The two providers of the program differ on the operator's default: the stand-alone one
  honours the configured rate for a policy without its own rate, the reconciler's uses 10;
  and the stand-alone one keeps the rate a policy had when it was first seen.\<close>

theorem providers_differ_on_default:
  assumes "bh_max_deletions (p_behavior p) \<le> 0" "0 < cc_max_deletions cfg"
  shows "get_rate (fst (provider_get_or_create (new_limiter_provider (Some cfg)) p)) = cc_max_deletions cfg
    \<and> get_rate (fst (run_state (get_or_create_rate_limiter p) s)) = 10
    \<and> (\<forall>p'. p_uid p' = p_uid p \<longrightarrow>
         fst (provider_get_or_create (snd (provider_get_or_create lp p)) p') = fst (provider_get_or_create lp p))"
  using assms
  by (subst run_get_or_create)
    (auto simp: provider_get_or_create_def new_limiter_provider_def provider_rate_def get_rate_def
      new_rate_limiter_def policy_rate_def DefaultMaxDeletionsPerSecond_def DefaultMaxPerSecond_def
      Let_def update_conv' split: option.splits)

theorem providers_differ_on_default_witness:
  "get_rate (fst (provider_get_or_create
     (new_limiter_provider (Some (new_controller_config\<lparr>cc_max_deletions := 100\<rparr>))) ex_policy)) = 100"
  using providers_differ_on_default [of ex_policy "new_controller_config\<lparr>cc_max_deletions := 100\<rparr>"
      ex_sys "new_limiter_provider None"]
  by (simp add: ex_defs new_controller_config_def)

end
