(* ===== verification/Safety.thy ===== *)
theory Safety
  imports Policy_Types
begin

text \<open>
  The safety gate of \<open>pkg/safety/safety.go\<close>: which objects may never be deleted, and the
  check of a policy's target scope.  The gate is an interface of the program
  (\<open>webhook.TargetGate\<close>, the \<open>safetyGate\<close> field of the reconciler); its contract is the
  locale \<open>object_gate\<close> below, on which the deletion path and the evaluation rest.
\<close>

definition ReasonProtectedNamespace :: string where
  "ReasonProtectedNamespace = ''protected_namespace''"
definition ReasonProtectedKind :: string where "ReasonProtectedKind = ''protected_kind''"
definition ReasonExcludedLabel :: string where "ReasonExcludedLabel = ''excluded_label''"
definition ReasonWorkloadManaged :: string where "ReasonWorkloadManaged = ''workload_managed''"
definition ReasonActiveWorkload :: string where "ReasonActiveWorkload = ''active_workload''"
definition ReasonStaleUID :: string where "ReasonStaleUID = ''stale_uid''"
definition ReasonDeletesDisabled :: string where "ReasonDeletesDisabled = ''deletes_disabled''"
definition ReasonPolicyInvalid :: string where "ReasonPolicyInvalid = ''policy_invalid''"
definition ReasonUnknown :: string where "ReasonUnknown = ''unknown''"

lemmas reason_defs = ReasonProtectedNamespace_def ReasonProtectedKind_def
  ReasonExcludedLabel_def ReasonWorkloadManaged_def ReasonActiveWorkload_def
  ReasonStaleUID_def ReasonDeletesDisabled_def ReasonPolicyInvalid_def ReasonUnknown_def

definition refusal_reasons :: "string list" where
  "refusal_reasons = [ReasonProtectedNamespace, ReasonProtectedKind, ReasonExcludedLabel,
     ReasonWorkloadManaged, ReasonActiveWorkload, ReasonStaleUID, ReasonDeletesDisabled,
     ReasonPolicyInvalid, ReasonUnknown]"

definition ExclusionLabelKey :: string where
  "ExclusionLabelKey = ''zen-cleaner.zen-mesh.io/exclude''"

definition protected_namespaces :: "string list" where
  "protected_namespaces = [''kube-system'', ''kube-public'', ''kube-node-lease'',
     ''kube-flannel'', ''kube-registry'', ''metallb-system'']"

definition hard_protected_kinds :: "string list" where
  "hard_protected_kinds = [''Namespace'', ''PersistentVolume'', ''PersistentVolumeClaim'',
     ''StorageClass'', ''CustomResourceDefinition'', ''ValidatingWebhookConfiguration'',
     ''MutatingWebhookConfiguration'']"

definition workload_kinds :: "string list" where
  "workload_kinds = [''Pod'', ''Job'', ''CronJob'']"

record safety_config =
  sc_protected_namespaces :: "string list"
  sc_own_namespace :: string
  sc_deletes_disabled :: bool

text \<open>The keys of the \<open>map[string]bool\<close> (every value is true).\<close>

record gate =
  gt_cfg :: safety_config
  gt_protected :: "string list"

fun add_protected :: "string list \<Rightarrow> string list \<Rightarrow> string list" where
  "add_protected m [] = m"
| "add_protected m (ns # nss) =
     (let ns = trim_space ns in
      add_protected (if ns \<noteq> [] then List.insert ns m else m) nss)"

definition new_gate :: "safety_config \<Rightarrow> gate" where
  "new_gate cfg =
     (let m0 = protected_namespaces;
          m1 = (if sc_own_namespace cfg \<noteq> [] then List.insert (sc_own_namespace cfg) m0 else m0)
      in \<lparr>gt_cfg = cfg, gt_protected = add_protected m1 (sc_protected_namespaces cfg)\<rparr>)"

definition is_protected_namespace :: "gate \<Rightarrow> string \<Rightarrow> bool" where
  "is_protected_namespace g ns \<longleftrightarrow> ns \<in> set (gt_protected g)"

definition effective_protected_namespaces :: "gate \<Rightarrow> string list" where
  "effective_protected_namespaces g = gt_protected g"

definition is_exclusion_entry :: "string \<Rightarrow> bool" where
  "is_exclusion_entry v \<longleftrightarrow> v = ''true''"

definition excluded_by_label_or_annotation :: "uobj \<Rightarrow> bool" where
  "excluded_by_label_or_annotation obj =
     (if (case map_of (u_labels obj) ExclusionLabelKey of
            Some v \<Rightarrow> is_exclusion_entry v | None \<Rightarrow> False) then True
      else if (case map_of (u_annotations obj) ExclusionLabelKey of
            Some v \<Rightarrow> is_exclusion_entry v | None \<Rightarrow> False) then True
      else False)"

definition evaluate_object :: "gate \<Rightarrow> uobj option \<Rightarrow> behavior_spec \<Rightarrow> bool \<times> string" where
  "evaluate_object g oobj behavior = (case oobj of
       None \<Rightarrow> (False, ReasonUnknown)
     | Some obj \<Rightarrow>
        if u_name obj = [] \<or> u_kind obj = [] then (False, ReasonUnknown)
        else if sc_deletes_disabled (gt_cfg g) then (False, ReasonDeletesDisabled)
        else if u_namespace obj \<noteq> [] \<and> u_namespace obj \<in> set (gt_protected g) then
          (False, ReasonProtectedNamespace)
        else if u_kind obj \<in> set hard_protected_kinds then (False, ReasonProtectedKind)
        else if excluded_by_label_or_annotation obj then (False, ReasonExcludedLabel)
        else if u_kind obj \<in> set workload_kinds \<and> \<not> bh_allow_workload behavior then
          (False, ReasonWorkloadManaged)
        else if u_kind obj = ''Pod'' \<and> bh_allow_workload behavior then
          (let (phase, found, err) = u_nested_string obj [''status'', ''phase''] in
           if \<not> found then (False, ReasonActiveWorkload)
           else if phase = ''Succeeded'' \<or> phase = ''Failed'' then (True, [])
           else (False, ReasonActiveWorkload))
        else (True, []))"

definition evaluate_policy_target :: "gate \<Rightarrow> target_resource \<Rightarrow> bool \<times> string" where
  "evaluate_policy_target g target =
     (if tr_kind target \<in> set hard_protected_kinds then (False, ReasonProtectedKind)
      else if tr_namespace target \<noteq> [] \<and> tr_namespace target \<noteq> ''*''
              \<and> tr_namespace target \<in> set (gt_protected g) then (False, ReasonProtectedNamespace)
      else (True, []))"

definition has_exclusion :: "uobj \<Rightarrow> bool" where
  "has_exclusion obj = excluded_by_label_or_annotation obj"

section \<open>The contract of a gate\<close>

text \<open>The law of the package comment, object by object: what no policy may delete.\<close>

definition untouchable :: "gate \<Rightarrow> uobj \<Rightarrow> bool" where
  "untouchable g obj \<longleftrightarrow>
     u_name obj = [] \<or> u_kind obj = [] \<or>
     sc_deletes_disabled (gt_cfg g) \<or>
     (u_namespace obj \<noteq> [] \<and> is_protected_namespace g (u_namespace obj)) \<or>
     u_kind obj \<in> set hard_protected_kinds \<or>
     map_of (u_labels obj) ExclusionLabelKey = Some ''true'' \<or>
     map_of (u_annotations obj) ExclusionLabelKey = Some ''true''"

definition workload_permitted :: "uobj \<Rightarrow> behavior_spec \<Rightarrow> bool" where
  "workload_permitted obj b \<longleftrightarrow>
     (u_kind obj \<in> set workload_kinds \<longrightarrow> bh_allow_workload b) \<and>
     (u_kind obj = ''Pod'' \<longrightarrow>
        (\<exists>phase err. u_nested_string obj [''status'', ''phase''] = (phase, True, err)
           \<and> (phase = ''Succeeded'' \<or> phase = ''Failed'')))"

text \<open>
  The interface the deletion path and the evaluation call: a decision with a reason.  The
  laws: a nil object is refused, a refused object has a reason of the closed vocabulary, an
  allowed one has none, and an allowed object is neither untouchable nor a workload without
  permission.
\<close>

locale object_gate =
  fixes decide :: "uobj option \<Rightarrow> behavior_spec \<Rightarrow> bool \<times> string"
    and never :: "uobj \<Rightarrow> bool"
  assumes nil_refused: "\<not> fst (decide None b)"
    and allowed_safe: "fst (decide (Some obj) b) \<Longrightarrow> \<not> never obj \<and> workload_permitted obj b"
    and reason_bounded: "snd (decide oobj b) = [] \<and> fst (decide oobj b) \<or>
           snd (decide oobj b) \<in> set refusal_reasons \<and> \<not> fst (decide oobj b)"
begin

lemma refused_reason: "\<not> fst (decide oobj b) \<Longrightarrow> snd (decide oobj b) \<in> set refusal_reasons"
  using reason_bounded [of oobj b] by blast

lemma never_refused: "never obj \<Longrightarrow> \<not> fst (decide (Some obj) b)"
  using allowed_safe by blast

lemma pod_terminal:
  "fst (decide (Some obj) b) \<Longrightarrow> u_kind obj = ''Pod'' \<Longrightarrow>
     bh_allow_workload b \<and> fst (u_nested_string obj [''status'', ''phase'']) \<in> {''Succeeded'', ''Failed''}"
  using allowed_safe [of obj b] by (auto simp: workload_permitted_def workload_kinds_def)

text \<open>Filtering a list of objects through the gate splits it: the rest is refused, each
  with a reason.\<close>

lemma gate_split:
  "length objs = length (filter (\<lambda>x. fst (decide (Some x) b)) objs)
     + length (filter (\<lambda>x. \<not> fst (decide (Some x) b)) objs)"
  by (rule length_filter_split)

end

lemma Pod_workload [simp]: "''Pod'' \<in> set workload_kinds"
  by (simp add: workload_kinds_def)

lemma excluded_iff:
  "excluded_by_label_or_annotation obj \<longleftrightarrow>
     map_of (u_labels obj) ExclusionLabelKey = Some ''true'' \<or>
     map_of (u_annotations obj) ExclusionLabelKey = Some ''true''"
  by (auto simp: excluded_by_label_or_annotation_def is_exclusion_entry_def split: option.splits)

lemma evaluate_object_cases:
  "evaluate_object g (Some obj) b =
     (if \<not> untouchable g obj \<and> workload_permitted obj b then (True, [])
      else (False, snd (evaluate_object g (Some obj) b)))"
  by (auto simp: evaluate_object_def untouchable_def workload_permitted_def excluded_iff
      is_protected_namespace_def Let_def split: prod.splits)

lemma evaluate_object_reason:
  "snd (evaluate_object g oobj b) = [] \<and> fst (evaluate_object g oobj b) \<or>
   snd (evaluate_object g oobj b) \<in> set refusal_reasons \<and> \<not> fst (evaluate_object g oobj b)"
  by (auto simp: evaluate_object_def refusal_reasons_def Let_def split: option.splits prod.splits)

lemma evaluate_object_safe:
  "fst (evaluate_object g (Some obj) b) \<Longrightarrow> \<not> untouchable g obj \<and> workload_permitted obj b"
  by (subst (asm) evaluate_object_cases) (simp split: if_splits)

interpretation safety_gate: object_gate "evaluate_object g" "untouchable g" for g
proof
  show "\<not> fst (evaluate_object g None b)" for b
    by (simp add: evaluate_object_def)
qed (use evaluate_object_safe evaluate_object_reason in blast)+

lemma set_add_protected:
  "set (add_protected m nss) = set m \<union> {trim_space ns |ns. ns \<in> set nss \<and> trim_space ns \<noteq> []}"
  by (induction m nss rule: add_protected.induct) (auto simp: Let_def)

section \<open>Properties\<close>

text \<open>C8. The gate decides exactly its law: an object is allowed if and only if it has a name
  and a kind, the emergency stop is off, its namespace is not protected, its kind is not
  hard-protected, it carries no exclusion entry, a workload kind has the explicit opt-in,
  and a Pod is provably in a terminal phase; and every refusal carries a reason of the
  closed vocabulary, every approval none.\<close>

theorem evaluate_object_law:
  "(fst (evaluate_object g (Some obj) b) \<longleftrightarrow> \<not> untouchable g obj \<and> workload_permitted obj b) \<and>
   (if fst (evaluate_object g (Some obj) b) then snd (evaluate_object g (Some obj) b) = []
    else snd (evaluate_object g (Some obj) b) \<in> set refusal_reasons)"
proof -
  have "fst (evaluate_object g (Some obj) b) \<longleftrightarrow> \<not> untouchable g obj \<and> workload_permitted obj b"
    by (subst evaluate_object_cases) simp
  then show ?thesis
    using evaluate_object_reason [of g "Some obj" b] by auto
qed

text \<open>Configuration can only add protection: a gate built from any configuration
  protects the built-in namespaces, the controller's own namespace and every configured
  namespace (trimmed), and nothing else.\<close>

theorem new_gate_protects:
  "is_protected_namespace (new_gate cfg) ns \<longleftrightarrow>
     ns \<in> set protected_namespaces \<or>
     (ns \<noteq> [] \<and> ns = sc_own_namespace cfg) \<or>
     (ns \<noteq> [] \<and> (\<exists>raw \<in> set (sc_protected_namespaces cfg). ns = trim_space raw))"
  by (auto simp: is_protected_namespace_def new_gate_def Let_def set_add_protected)

end
