(* ===== verification/Backoff.thy ===== *)
theory Backoff
  imports Prelude "HOL-Library.Signed_Division"
begin

text \<open>
  Exponential backoff: \<open>internal/backoff/backoff.go\<close> (the retry loop of deletions) and
  \<open>TargetBackoffFor\<close> of \<open>pkg/controller/target_capability.go\<close> (the requeue delay after a
  failed capability check).

  A \<open>float64\<close> is a pair \<open>(m, e)\<close> that stands for \<open>m * 2 ^ e\<close>; conversions and products round
  to 53 bits, to nearest with ties to even.  The exponent range is not bounded (the values
  of this program are far from both ends), so infinities and NaN do not occur.  A
  conversion to an integer that does not fit is implementation-defined in Go: the parameter
  \<open>oor\<close> is the answer of the platform.
\<close>

section \<open>Floating point\<close>

type_synonym f64 = "int \<times> int"

fun bit_len :: "nat \<Rightarrow> nat" where
  "bit_len n = (if n = 0 then 0 else Suc (bit_len (n div 2)))"

declare bit_len.simps [simp del]

definition rne_shift :: "nat \<Rightarrow> int \<Rightarrow> int" where
  "rne_shift k m = (let q = m div 2 ^ k; r = m mod 2 ^ k in
     if 2 * r < 2 ^ k then q else if 2 * r > 2 ^ k then q + 1
     else if even q then q else q + 1)"

definition round53 :: "int \<times> int \<Rightarrow> f64" where
  "round53 x = (let k = bit_len (nat \<bar>fst x\<bar>) - 53 in (rne_shift k (fst x), snd x + int k))"

definition f64_of_int :: "int \<Rightarrow> f64" where
  "f64_of_int n = round53 (n, 0)"

definition f64_mul :: "f64 \<Rightarrow> f64 \<Rightarrow> f64" where
  "f64_mul a b = round53 (fst a * fst b, snd a + snd b)"

text \<open>Conversion to an integer truncates toward zero.\<close>

definition f64_trunc :: "f64 \<Rightarrow> int" where
  "f64_trunc x = (if snd x \<ge> 0 then fst x * 2 ^ nat (snd x)
     else sgn (fst x) * (\<bar>fst x\<bar> div 2 ^ nat (- snd x)))"

definition f64_to_int64 :: "duration \<Rightarrow> f64 \<Rightarrow> int64" where
  "f64_to_int64 oor x = (let n = f64_trunc x in
     if - (2 ^ 63) \<le> n \<and> n < 2 ^ 63 then word_of_int n else oor)"

definition f64_positive :: "f64 \<Rightarrow> bool" where
  "f64_positive x \<longleftrightarrow> fst x > 0"

text \<open>The constants \<open>2.0\<close> and \<open>0.1\<close> of the default configuration.\<close>

definition f64_two :: f64 where "f64_two = (1, 1)"
definition f64_tenth :: f64 where "f64_tenth = (3602879701896397, - 55)"

section \<open>The retry backoff\<close>

record backoff_config =
  bc_steps :: int
  bc_duration :: duration
  bc_factor :: f64
  bc_jitter :: f64
  bc_cap :: duration

record backoff =
  bo_config :: backoff_config
  bo_step :: int

definition default_backoff_config :: backoff_config where
  "default_backoff_config = \<lparr>bc_steps = 5, bc_duration = 100 * Millisecond,
     bc_factor = f64_two, bc_jitter = f64_tenth, bc_cap = 30 * Second\<rparr>"

definition new_backoff :: "backoff_config \<Rightarrow> backoff" where
  "new_backoff cfg = \<lparr>bo_config = cfg, bo_step = 0\<rparr>"

text \<open>The loop of \<open>Next\<close>, \<open>n\<close> iterations.\<close>

fun grow :: "duration \<Rightarrow> backoff_config \<Rightarrow> nat \<Rightarrow> duration \<Rightarrow> duration" where
  "grow oor cfg 0 d = d"
| "grow oor cfg (Suc n) d =
     (let d' = f64_to_int64 oor (f64_mul (f64_of_int (sint d)) (bc_factor cfg));
          d'' = (if sint d' > sint (bc_cap cfg) then bc_cap cfg else d')
      in grow oor cfg n d'')"

definition next_backoff :: "duration \<Rightarrow> backoff \<Rightarrow> duration \<times> backoff" where
  "next_backoff oor b =
     (let cfg = bo_config b in
      if bo_step b \<ge> bc_steps cfg then (0, b)
      else let d = grow oor cfg (nat (bo_step b)) (bc_duration cfg);
               d' = (if f64_positive (bc_jitter cfg)
                     then let jitter = f64_to_int64 oor (f64_mul (f64_of_int (sint d)) (bc_jitter cfg))
                          in d + word_of_int (sint jitter sdiv 2)
                     else d)
           in (d', b\<lparr>bo_step := bo_step b + 1\<rparr>))"

definition reset_backoff :: "backoff \<Rightarrow> backoff" where
  "reset_backoff b = b\<lparr>bo_step := 0\<rparr>"

definition step_of :: "backoff \<Rightarrow> int" where
  "step_of b = bo_step b"

definition is_exhausted :: "backoff \<Rightarrow> bool" where
  "is_exhausted b \<longleftrightarrow> bo_step b \<ge> bc_steps (bo_config b)"

lemma next_backoff_step [simp]:
  "bo_config (snd (next_backoff oor b)) = bo_config b"
  "bo_step (snd (next_backoff oor b)) = (if is_exhausted b then bo_step b else bo_step b + 1)"
  by (simp_all add: next_backoff_def is_exhausted_def Let_def)

lemma next_exhausted: "is_exhausted b \<Longrightarrow> next_backoff oor b = (0, b)"
  by (simp add: next_backoff_def is_exhausted_def)

text \<open>Repeated calls, for the schedule.\<close>

fun schedule :: "duration \<Rightarrow> nat \<Rightarrow> backoff \<Rightarrow> duration list" where
  "schedule oor 0 b = []"
| "schedule oor (Suc n) b = (let (d, b') = next_backoff oor b in d # schedule oor n b')"

text \<open>Exact arithmetic: numbers below \<open>2 ^ 53\<close> are not rounded.\<close>

lemma bit_len_le: "n < 2 ^ k \<Longrightarrow> bit_len n \<le> k"
proof (induction k arbitrary: n)
  case 0
  then show ?case by (simp add: bit_len.simps)
next
  case (Suc k)
  have "bit_len (n div 2) \<le> k" by (rule Suc.IH) (use Suc.prems in auto)
  then show ?case by (subst bit_len.simps) simp
qed

lemma round53_small: "\<bar>m\<bar> < 2 ^ 53 \<Longrightarrow> round53 (m, e) = (m, e)"
  using bit_len_le [of "nat \<bar>m\<bar>" 53]
  by (simp add: round53_def rne_shift_def Let_def nat_less_iff)

lemma double_exact:
  assumes "0 \<le> sint d" "sint d < 2 ^ 52"
  shows "f64_to_int64 oor (f64_mul (f64_of_int (sint d)) f64_two) = d * 2"
proof -
  have "f64_trunc (f64_mul (f64_of_int (sint d)) f64_two) = sint d * 2"
    using assms by (simp add: f64_of_int_def f64_mul_def f64_two_def round53_small f64_trunc_def)
  with assms show ?thesis
    by (simp add: f64_to_int64_def Let_def)
qed

text \<open>A tenth of the five base delays, rounded to 53 bits, then truncated.\<close>

lemma tenth_values:
  "f64_trunc (f64_mul (f64_of_int 100000000) f64_tenth) = 10000000"
  "f64_trunc (f64_mul (f64_of_int 200000000) f64_tenth) = 20000000"
  "f64_trunc (f64_mul (f64_of_int 400000000) f64_tenth) = 40000000"
  "f64_trunc (f64_mul (f64_of_int 800000000) f64_tenth) = 80000000"
  "f64_trunc (f64_mul (f64_of_int 1600000000) f64_tenth) = 160000000"
  by (simp_all add: f64_of_int_def f64_mul_def f64_tenth_def round53_small f64_trunc_def
      round53_def bit_len.simps rne_shift_def)

lemma grow_double:
  assumes "bc_factor cfg = f64_two" "0 \<le> sint d" "sint d * 2 < 2 ^ 52"
    "sint d * 2 \<le> sint (bc_cap cfg)"
  shows "grow oor cfg (Suc n) d = grow oor cfg n (d * 2)"
proof -
  have "sint (d * 2) = sint d * 2"
    using assms(2,3) sint_times_64 [of d 2] by simp
  with assms show ?thesis by (simp add: double_exact Let_def)
qed

lemma default_grow:
  "grow oor default_backoff_config 0 100000000 = 100000000"
  "grow oor default_backoff_config 1 100000000 = 200000000"
  "grow oor default_backoff_config 2 100000000 = 400000000"
  "grow oor default_backoff_config 3 100000000 = 800000000"
  "grow oor default_backoff_config 4 100000000 = 1600000000"
  by (simp_all add: eval_nat_numeral grow_double default_backoff_config_def Second_def
      del: grow.simps(2))

lemma default_fields:
  "bc_steps default_backoff_config = 5"
  "bc_duration default_backoff_config = 100000000"
  "bc_jitter default_backoff_config = f64_tenth"
  by (simp_all add: default_backoff_config_def Millisecond_def)

lemma tenth_jitter:
  "f64_to_int64 oor (f64_mul (f64_of_int 100000000) f64_tenth) = 10000000"
  "f64_to_int64 oor (f64_mul (f64_of_int 200000000) f64_tenth) = 20000000"
  "f64_to_int64 oor (f64_mul (f64_of_int 400000000) f64_tenth) = 40000000"
  "f64_to_int64 oor (f64_mul (f64_of_int 800000000) f64_tenth) = 80000000"
  "f64_to_int64 oor (f64_mul (f64_of_int 1600000000) f64_tenth) = 160000000"
  by (simp_all add: f64_to_int64_def tenth_values)

lemma default_next:
  assumes "grow oor default_backoff_config (nat i) 100000000 = d" "0 \<le> i" "i < 5"
  shows "next_backoff oor (new_backoff default_backoff_config\<lparr>bo_step := i\<rparr>) =
    (d + word_of_int (sint (f64_to_int64 oor (f64_mul (f64_of_int (sint d)) f64_tenth)) sdiv 2),
     new_backoff default_backoff_config\<lparr>bo_step := i + 1\<rparr>)"
  using assms
  by (simp add: next_backoff_def new_backoff_def default_fields Let_def f64_positive_def)
    (simp add: f64_tenth_def)

lemma default_nexts:
  "next_backoff oor (new_backoff default_backoff_config\<lparr>bo_step := 0\<rparr>)
     = (105000000, new_backoff default_backoff_config\<lparr>bo_step := 1\<rparr>)"
  "next_backoff oor (new_backoff default_backoff_config\<lparr>bo_step := 1\<rparr>)
     = (210000000, new_backoff default_backoff_config\<lparr>bo_step := 2\<rparr>)"
  "next_backoff oor (new_backoff default_backoff_config\<lparr>bo_step := 2\<rparr>)
     = (420000000, new_backoff default_backoff_config\<lparr>bo_step := 3\<rparr>)"
  "next_backoff oor (new_backoff default_backoff_config\<lparr>bo_step := 3\<rparr>)
     = (840000000, new_backoff default_backoff_config\<lparr>bo_step := 4\<rparr>)"
  "next_backoff oor (new_backoff default_backoff_config\<lparr>bo_step := 4\<rparr>)
     = (1680000000, new_backoff default_backoff_config\<lparr>bo_step := 5\<rparr>)"
  using default_next [of oor 0, OF _ order_refl] default_next [of oor 1] default_next [of oor 2]
    default_next [of oor 3] default_next [of oor 4] default_grow [of oor]
  by (simp_all add: tenth_jitter signed_divide_int_def del: grow.simps(2))

text \<open>The number of attempts a fresh default backoff admits.\<close>

lemma default_exhausted:
  "bo_config b = default_backoff_config \<Longrightarrow> is_exhausted b \<longleftrightarrow> 5 \<le> bo_step b"
  by (simp add: is_exhausted_def default_backoff_config_def)

section \<open>The requeue delay of a failing target\<close>

definition targetBackoffBase :: duration where "targetBackoffBase = 30 * Second"
definition targetBackoffCap :: duration where "targetBackoffCap = 10 * Minute"

text \<open>The loop \<open>for i := 1; i < n; i++\<close>, \<open>k\<close> iterations left.\<close>

fun double_capped :: "nat \<Rightarrow> duration \<Rightarrow> duration" where
  "double_capped 0 d = (if sint d > sint targetBackoffCap then targetBackoffCap else d)"
| "double_capped (Suc k) d =
     (let d' = d * 2 in
      if sint d' \<ge> sint targetBackoffCap then targetBackoffCap else double_capped k d')"

definition target_backoff_for :: "int \<Rightarrow> duration" where
  "target_backoff_for failures =
     (let n = (if failures < 1 then 1 else failures) in
      double_capped (nat (n - 1)) targetBackoffBase)"

lemma target_backoff_consts: "targetBackoffBase = 30000000000" "targetBackoffCap = 600000000000"
  by (simp_all add: targetBackoffBase_def targetBackoffCap_def Minute_def Second_def)

lemma double_capped_spec:
  "0 < sint d \<Longrightarrow> sint d \<le> 600000000000 \<Longrightarrow>
     sint (double_capped k d) = min (sint d * 2 ^ k) 600000000000"
proof (induction k arbitrary: d)
  case 0
  then show ?case by (simp add: target_backoff_consts)
next
  case (Suc k)
  have two: "sint (d * 2) = sint d * 2"
    using Suc.prems sint_times_64 [of d 2] by simp
  show ?case
  proof (cases "sint d * 2 \<ge> 600000000000")
    case True
    have "sint d * 1 \<le> sint d * 2 ^ k"
      using Suc.prems by (intro mult_left_mono) simp_all
    with True have "300000000000 \<le> sint d * 2 ^ k"
      by linarith
    with True two show ?thesis
      by (simp add: Let_def target_backoff_consts min_absorb2)
  next
    case False
    with two Suc.prems Suc.IH [of "d * 2"] show ?thesis
      by (simp add: Let_def target_backoff_consts mult.assoc)
  qed
qed

section \<open>Properties\<close>

text \<open>The schedule of the default backoff: the five delays are 105, 210, 420, 840 and
  1680 milliseconds (100 ms doubled, plus half of the ten per cent jitter), every further
  call answers 0, and the float arithmetic never leaves the range of \<open>int64\<close>, so the
  platform's out-of-range conversion plays no part.\<close>

theorem default_backoff_schedule:
  "schedule oor (5 + n) (new_backoff default_backoff_config) =
     map (\<lambda>ms. ms * Millisecond) [105, 210, 420, 840, 1680] @ replicate n 0"
proof -
  let ?b = "\<lambda>i. new_backoff default_backoff_config\<lparr>bo_step := i\<rparr>"
  have stop: "schedule oor n (?b 5) = replicate n 0"
    by (induction n)
      (simp_all add: next_exhausted is_exhausted_def new_backoff_def default_backoff_config_def)
  have "schedule oor (Suc (Suc (Suc (Suc (Suc n))))) (?b 0) =
     map (\<lambda>ms. ms * Millisecond) [105, 210, 420, 840, 1680] @ replicate n 0"
    by (simp add: default_nexts stop Millisecond_def)
  moreover have "?b 0 = new_backoff default_backoff_config"
    by (simp add: new_backoff_def)
  moreover have "5 + n = Suc (Suc (Suc (Suc (Suc n))))" by simp
  ultimately show ?thesis by metis
qed

text \<open>C36. The requeue delay after the n-th consecutive capability failure is exactly
  \<open>min (30s * 2^(n-1)) 10min\<close>, with no overflow however many failures there were; a count
  below 1 counts as 1.\<close>

theorem target_backoff_closed_form:
  "sint (target_backoff_for failures) =
     min (30000000000 * 2 ^ nat (max failures 1 - 1)) 600000000000"
  using double_capped_spec [of targetBackoffBase "nat (max failures 1 - 1)"]
  by (cases "failures < 1") (simp_all add: target_backoff_for_def target_backoff_consts max_def)

end
