(* ===== verification/Deletion.thy ===== *)
theory Deletion
  imports Gvr Throttle Safety Backoff
begin

text \<open>
  Deleting objects: the single choke point \<open>performResourceDeletion\<close> with its safety gate
  and live UID precondition (\<open>pkg/controller/reconciler_helpers.go\<close>), \<open>deleteResource\<close>
  (\<open>reconciler_deletion.go\<close>), the retry loop and the batch loop
  (\<open>deleteResourceWithBackoffShared\<close> and \<open>deleteBatchShared\<close> of \<open>shared.go\<close>).

  The record \<open>reconciler\<close> holds the fields of \<open>PolicyReconciler\<close> that are set once: which
  collaborators are present (a nil one is \<open>None\<close> or false), the configuration, the
  platform's out-of-range float conversion for the backoff, the configuration of the status
  updater, and the trust anchor's key of the integrity overlay (\<open>policyIntegrity\<close>).
\<close>

record reconciler =
  rc_gate :: "gate option"
  rc_config :: "controller_config option"
  rc_recorder :: bool
  rc_resolver :: bool
  rc_client :: bool
  rc_status :: bool
  rc_oor :: duration
  rc_status_config :: controller_config
  rc_integrity :: "string option"

definition ex_reconciler :: reconciler where
  "ex_reconciler = \<lparr>rc_gate = Some (new_gate \<lparr>sc_protected_namespaces = [],
       sc_own_namespace = ''cleaner'', sc_deletes_disabled = False\<rparr>),
     rc_config = Some new_controller_config, rc_recorder = True, rc_resolver = True,
     rc_client = True, rc_status = True, rc_oor = 0,
     rc_status_config = new_controller_config, rc_integrity = None\<rparr>"

section \<open>One object\<close>

definition get_deletion_propagation_policy :: "string \<Rightarrow> string" where
  "get_deletion_propagation_policy s =
     (if s = ''Foreground'' then ''Foreground'' else if s = ''Orphan'' then ''Orphan''
      else ''Background'')"

definition build_delete_options :: "policy \<Rightarrow> delete_options" where
  "build_delete_options p =
     \<lparr>do_grace = bh_grace_period (p_behavior p),
      do_propagation = get_deletion_propagation_policy (bh_propagation (p_behavior p))\<rparr>"

definition api_get :: "'w cluster \<Rightarrow> gvr \<Rightarrow> string \<Rightarrow> string \<Rightarrow> ('w, go_error + uobj) prog" where
  "api_get cl g ns name = do {
     r \<leftarrow> ask (cl_get cl g ns name);
     emit (Eff_Get g ns name (case r of Inr o' \<Rightarrow> Some (u_uid o') | Inl e \<Rightarrow> None));
     State_Monad.return r
   }"

definition api_delete ::
  "'w cluster \<Rightarrow> gvr \<Rightarrow> string \<Rightarrow> string \<Rightarrow> delete_options \<Rightarrow> ('w, go_error option) prog" where
  "api_delete cl g ns name opts = do {
     emit (Eff_Delete g ns name opts);
     ask (cl_delete cl g ns name opts)
   }"

text \<open>\<open>Inr None\<close>: the object is gone.\<close>

definition get_live_for_precondition ::
  "'w cluster \<Rightarrow> uobj \<Rightarrow> gvr \<Rightarrow> ('w, go_error + uobj option) prog" where
  "get_live_for_precondition cl obj g = do {
     r \<leftarrow> api_get cl g (u_namespace obj) (u_name obj);
     State_Monad.return (case r of
         Inl e \<Rightarrow> if api_is Api_NotFound e then Inr None else Inl e
       | Inr live \<Rightarrow> Inr (Some live))
   }"

type_synonym decision = "uobj option \<Rightarrow> behavior_spec \<Rightarrow> bool \<times> string"

definition ErrStaleUID :: go_error where
  "ErrStaleUID = Sentinel ''ErrStaleUID''
     ''stale observation: live UID differs from the observed UID; deletion refused''"

definition perform_resource_deletion ::
  "'w cluster \<Rightarrow> decision option \<Rightarrow> uobj \<Rightarrow> gvr \<Rightarrow> delete_options \<Rightarrow> behavior_spec
     \<Rightarrow> ('w, go_error option) prog" where
  "perform_resource_deletion cl gate obj g opts behavior =
     (let checked = do {
        lr \<leftarrow> get_live_for_precondition cl obj g;
        case lr of
          Inl e \<Rightarrow> do { record_api_error e; State_Monad.return (Some e) }
        | Inr None \<Rightarrow> State_Monad.return None
        | Inr (Some live) \<Rightarrow>
            if u_uid live \<noteq> u_uid obj then do {
              record_safety_refusal ReasonStaleUID;
              State_Monad.return None
            }
            else do {
              record_deletion_attempted;
              oe \<leftarrow> api_delete cl g (u_namespace obj) (u_name obj) opts;
              case oe of
                None \<Rightarrow> State_Monad.return None
              | Some e \<Rightarrow>
                  if \<not> api_is Api_NotFound e then do {
                    record_deletion_failed;
                    record_api_error e;
                    State_Monad.return (Some e)
                  }
                  else State_Monad.return None
            }
        }
      in case gate of
        None \<Rightarrow> checked
      | Some decide \<Rightarrow>
          (let (allowed, reason) = decide (Some obj) behavior in
           if \<not> allowed then do {
             record_safety_refusal reason;
             State_Monad.return None
           }
           else checked))"

definition rc_decide :: "reconciler \<Rightarrow> decision option" where
  "rc_decide r = map_option evaluate_object (rc_gate r)"

definition delete_resource ::
  "'w cluster \<Rightarrow> reconciler \<Rightarrow> limiter \<Rightarrow> policy \<Rightarrow> uobj \<Rightarrow> ('w, go_error option) prog" where
  "delete_resource cl r l p obj = do {
     w \<leftarrow> limiter_wait cl l;
     case w of
       Some e \<Rightarrow> State_Monad.return (Some e)
     | None \<Rightarrow>
        if bh_dry_run (p_behavior p) then do {
          record_dry_run_candidate;
          State_Monad.return None
        }
        else do {
          g \<leftarrow> resolve_gvr_for_deletion cl (rc_resolver r) obj;
          perform_resource_deletion cl (rc_decide r) obj g (build_delete_options p) (p_behavior p)
        }
   }"

section \<open>Retrying\<close>

definition ErrNoDeleter :: go_error where
  "ErrNoDeleter = Sentinel ''ErrNoDeleter'' ''no deleter provided''"

definition retryable :: "go_error \<Rightarrow> bool" where
  "retryable e \<longleftrightarrow> api_is Api_Timeout e \<or> api_is Api_ServerTimeout e
     \<or> api_is Api_TooManyRequests e \<or> api_is Api_ServiceUnavailable e"

text \<open>\<open>fmt.Errorf\<close> with \<open>%w\<close> of a nil error wraps nothing.\<close>

definition retries_failed :: "go_error option \<Rightarrow> go_error" where
  "retries_failed le = (case le of
       Some e \<Rightarrow> Errorf ''deletion failed after retries: '' e []
     | None \<Rightarrow> Errors_New ''deletion failed after retries: %!w(<nil>)'')"

text \<open>The loop \<open>for !b.IsExhausted()\<close>; \<open>dc\<close> and \<open>dn\<close> are the deleter with and without a
  context, one of which the caller provides.\<close>

function retry_loop ::
  "'w cluster \<Rightarrow> duration \<Rightarrow> ('w, go_error option) prog option \<Rightarrow> ('w, go_error option) prog option
     \<Rightarrow> backoff \<Rightarrow> go_error option \<Rightarrow> ('w, go_error option) prog" where
  "retry_loop cl oor dc dn b le =
     (if is_exhausted b then State_Monad.return (Some (retries_failed le))
      else do {
        c \<leftarrow> ask (cl_ctx cl);
        case c of
          Some e \<Rightarrow> State_Monad.return (Some e)
        | None \<Rightarrow>
           (case (case dc of Some d \<Rightarrow> Some d | None \<Rightarrow> dn) of
              None \<Rightarrow> State_Monad.return (Some (Errorf [] ErrNoDeleter []))
            | Some delete \<Rightarrow> do {
                oe \<leftarrow> delete;
                case oe of
                  None \<Rightarrow> State_Monad.return None
                | Some e \<Rightarrow>
                    if retryable e then
                      (if fst (next_backoff oor b) = 0
                       then State_Monad.return (Some (retries_failed (Some e)))
                       else do {
                         emit (Eff_Sleep (fst (next_backoff oor b)));
                         c' \<leftarrow> ask (cl_sleep cl (fst (next_backoff oor b)));
                         case c' of
                           Some e' \<Rightarrow> State_Monad.return (Some e')
                         | None \<Rightarrow> retry_loop cl oor dc dn (snd (next_backoff oor b)) (Some e)
                       })
                    else if api_is Api_NotFound e then State_Monad.return None
                    else State_Monad.return (Some e)
              })
      })"
  by pat_completeness auto
termination
  by (relation "measure (\<lambda>(cl, oor, dc, dn, b, le). nat (bc_steps (bo_config b) - bo_step b))")
    (auto simp: is_exhausted_def)

declare retry_loop.simps [simp del]

definition delete_with_backoff_shared ::
  "'w cluster \<Rightarrow> duration \<Rightarrow> ('w, go_error option) prog option \<Rightarrow> ('w, go_error option) prog option
     \<Rightarrow> ('w, go_error option) prog" where
  "delete_with_backoff_shared cl oor dc dn =
     retry_loop cl oor dc dn (new_backoff default_backoff_config) None"

definition delete_resource_with_backoff ::
  "'w cluster \<Rightarrow> reconciler \<Rightarrow> limiter \<Rightarrow> policy \<Rightarrow> uobj \<Rightarrow> ('w, go_error option) prog" where
  "delete_resource_with_backoff cl r l p obj =
     delete_with_backoff_shared cl (rc_oor r) (Some (delete_resource cl r l p obj)) None"

text \<open>The exported function of \<open>backoff.go\<close>: despite its name it tries once.\<close>

definition package_delete_with_backoff ::
  "'w cluster \<Rightarrow> reconciler \<Rightarrow> limiter \<Rightarrow> policy \<Rightarrow> uobj \<Rightarrow> ('w, go_error option) prog" where
  "package_delete_with_backoff cl r l p obj = delete_resource cl r l p obj"

section \<open>A batch\<close>

text \<open>The error of a failed deletion: policy and object as context, then its type is set.\<close>

fun set_error_type :: "string \<Rightarrow> go_error \<Rightarrow> go_error" where
  "set_error_type ty (Context_Error t msg oe ctx) = Context_Error ty msg oe ctx"
| "set_error_type ty e = e"

definition deletion_failed_error :: "policy \<Rightarrow> uobj \<Rightarrow> go_error \<Rightarrow> go_error" where
  "deletion_failed_error p obj e =
     set_error_type ''deletion_failed''
       (with_resource (with_policy e (p_namespace p) (p_name p)) (u_namespace obj) (u_name obj))"

text \<open>The body of the loop for one object, and what it adds to the result.\<close>

datatype batch_item = Item_Deleted | Item_Dry_Run | Item_Error go_error

definition delete_batch_item ::
  "'w cluster \<Rightarrow> bool \<Rightarrow> (uobj \<Rightarrow> ('w, go_error option) prog) \<Rightarrow> policy \<Rightarrow> limiter
     \<Rightarrow> (string, string) gomap \<Rightarrow> uobj \<Rightarrow> ('w, batch_item) prog" where
  "delete_batch_item cl recorder del p l reasons obj = do {
     w \<leftarrow> limiter_wait cl l;
     case w of
       Some e \<Rightarrow> State_Monad.return (Item_Error (Errorf ''rate limiter error: '' e []))
     | None \<Rightarrow> do {
         oe \<leftarrow> del obj;
         case oe of
           Some e \<Rightarrow> do {
             record_error (p_namespace p) (p_name p) ''deletion_failed'';
             State_Monad.return (Item_Error (deletion_failed_error p obj e))
           }
         | None \<Rightarrow>
             if bh_dry_run (p_behavior p) then State_Monad.return Item_Dry_Run
             else do {
               record_resource_deleted p (lookup_str reasons (u_uid obj));
               record_resource_deleted_event recorder obj (lookup_str reasons (u_uid obj));
               State_Monad.return Item_Deleted
             }
       }
   }"

text \<open>\<open>i\<close> is the index of the object; the context is polled every 50 objects.\<close>

fun delete_batch_loop ::
  "'w cluster \<Rightarrow> bool \<Rightarrow> (uobj \<Rightarrow> ('w, go_error option) prog) \<Rightarrow> policy \<Rightarrow> limiter
     \<Rightarrow> (string, string) gomap \<Rightarrow> nat \<Rightarrow> int \<Rightarrow> go_error list \<Rightarrow> uobj list
     \<Rightarrow> ('w, int \<times> go_error list) prog" where
  "delete_batch_loop cl recorder del p l reasons i cnt errs [] = State_Monad.return (cnt, errs)"
| "delete_batch_loop cl recorder del p l reasons i cnt errs (obj # rest) = do {
     stop \<leftarrow> (if i mod 50 = 0 then ask (cl_ctx cl) else State_Monad.return None);
     case stop of
       Some e \<Rightarrow> State_Monad.return (cnt, errs)
     | None \<Rightarrow> do {
         item \<leftarrow> delete_batch_item cl recorder del p l reasons obj;
         case item of
           Item_Error e \<Rightarrow>
             delete_batch_loop cl recorder del p l reasons (i + 1) cnt (errs @ [e]) rest
         | Item_Dry_Run \<Rightarrow>
             delete_batch_loop cl recorder del p l reasons (i + 1) cnt errs rest
         | Item_Deleted \<Rightarrow>
             delete_batch_loop cl recorder del p l reasons (i + 1) (cnt + 1) errs rest
       }
   }"

definition delete_batch_shared ::
  "'w cluster \<Rightarrow> bool \<Rightarrow> (uobj \<Rightarrow> ('w, go_error option) prog) \<Rightarrow> policy \<Rightarrow> limiter
     \<Rightarrow> (string, string) gomap \<Rightarrow> uobj list \<Rightarrow> ('w, int \<times> go_error list) prog" where
  "delete_batch_shared cl recorder del p l reasons batch =
     delete_batch_loop cl recorder del p l reasons 0 0 [] batch"

section \<open>Traces of deletions\<close>

definition ndel :: "effect list \<Rightarrow> nat" where
  "ndel es = length (filter is_delete es)"

fun is_wait :: "effect \<Rightarrow> bool" where
  "is_wait (Eff_Rate_Wait l) = True"
| "is_wait e = False"

definition nwait :: "effect list \<Rightarrow> nat" where
  "nwait es = length (filter is_wait es)"

text \<open>
  \<open>deletes_ok P es\<close>: every DELETE of \<open>es\<close> directly follows, apart from the attempt counter,
  a read of the same object that returned a UID with \<open>P namespace name UID\<close>.
\<close>

definition deletes_ok :: "(string \<Rightarrow> string \<Rightarrow> string \<Rightarrow> bool) \<Rightarrow> effect list \<Rightarrow> bool" where
  "deletes_ok P es \<longleftrightarrow> (\<forall>pre g ns n opts post. es = pre @ Eff_Delete g ns n opts # post \<longrightarrow>
     (\<exists>pre' uid. pre = pre' @ [Eff_Get g ns n (Some uid),
          Eff_Counter ''zen_cleaner_deletions_attempted_total'' []] \<and> P ns n uid))"

lemma ndel_append [simp]: "ndel (es @ fs) = ndel es + ndel fs"
  by (simp add: ndel_def)

lemma ndel_Cons [simp]: "ndel (e # es) = (if is_delete e then 1 else 0) + ndel es"
  by (simp add: ndel_def)

lemma ndel_Nil [simp]: "ndel [] = 0"
  by (simp add: ndel_def)

lemma nwait_append [simp]: "nwait (es @ fs) = nwait es + nwait fs"
  by (simp add: nwait_def)

lemma nwait_Cons [simp]: "nwait (e # es) = (if is_wait e then 1 else 0) + nwait es"
  by (simp add: nwait_def)

lemma nwait_Nil [simp]: "nwait [] = 0"
  by (simp add: nwait_def)

lemma deletes_ok_append:
  assumes "deletes_ok P es" "deletes_ok P fs"
  shows "deletes_ok P (es @ fs)"
  unfolding deletes_ok_def
proof (intro allI impI)
  fix pre g ns n opts post
  assume eq: "es @ fs = pre @ Eff_Delete g ns n opts # post"
  then consider us where "es = pre @ Eff_Delete g ns n opts # us"
    | us where "pre = es @ us" "fs = us @ Eff_Delete g ns n opts # post"
    by (auto simp: append_eq_append_conv2 append_eq_Cons_conv Cons_eq_append_conv)
  then show "\<exists>pre' uid. pre = pre' @ [Eff_Get g ns n (Some uid),
      Eff_Counter ''zen_cleaner_deletions_attempted_total'' []] \<and> P ns n uid"
  proof cases
    case 1
    with assms(1) show ?thesis unfolding deletes_ok_def by blast
  next
    case 2
    with assms(2) obtain pre' uid where "us = pre' @ [Eff_Get g ns n (Some uid),
      Eff_Counter ''zen_cleaner_deletions_attempted_total'' []]" "P ns n uid"
      unfolding deletes_ok_def by blast
    with 2(1) show ?thesis
      by (intro exI [of _ "es @ pre'"] exI [of _ uid]) simp
  qed
qed

lemma deletes_ok_none: "list_all (\<lambda>e. \<not> is_delete e) es \<Longrightarrow> deletes_ok P es"
  by (auto simp: deletes_ok_def)

lemma deletes_ok_Nil [simp]: "deletes_ok P []"
  by (rule deletes_ok_none) simp

lemma deletes_ok_Cons: "\<not> is_delete e \<Longrightarrow> deletes_ok P es \<Longrightarrow> deletes_ok P (e # es)"
  using deletes_ok_append [of P "[e]" es] deletes_ok_none [of "[e]" P] by simp

lemma deletes_ok_mono: "deletes_ok P es \<Longrightarrow> (\<And>ns n u. P ns n u \<Longrightarrow> Q ns n u) \<Longrightarrow> deletes_ok Q es"
  unfolding deletes_ok_def by (elim all_forward imp_forward) blast+

text \<open>\<open>guarded P m\<close>: every DELETE of \<open>m\<close> directly follows a read that returned a UID with \<open>P\<close>.\<close>

definition guarded :: "(string \<Rightarrow> string \<Rightarrow> string \<Rightarrow> bool) \<Rightarrow> ('w, 'a) prog \<Rightarrow> bool" where
  "guarded P m \<longleftrightarrow> emits m (\<lambda>a es. deletes_ok P es)"

lemma guarded_bind: "guarded P m \<Longrightarrow> (\<And>a. guarded P (f a)) \<Longrightarrow> guarded P (State_Monad.bind m f)"
  unfolding guarded_def
  by (rule emits_bind [where R = "\<lambda>a. deletes_ok P" and S = "\<lambda>a b. deletes_ok P"])
    (auto intro: deletes_ok_append)

lemma guarded_bind_dep:
  assumes "emits m R" "\<And>a es. R a es \<Longrightarrow> deletes_ok P es" "\<And>a es. R a es \<Longrightarrow> guarded P (f a)"
  shows "guarded P (State_Monad.bind m f)"
  unfolding guarded_def
  by (rule emits_bind_dep [OF assms(1) assms(3) [unfolded guarded_def]])
    (auto intro: deletes_ok_append assms(2))

lemma guarded_return: "guarded P (State_Monad.return a)"
  unfolding guarded_def by (rule emits_return) simp

lemma guarded_run: "guarded P m \<Longrightarrow> (\<And>a. guarded P (f a)) \<Longrightarrow> guarded P (bind_run m f)"
  unfolding bind_run_def by (auto intro!: guarded_bind guarded_return split: run.split)

lemma guarded_if: "guarded P m \<Longrightarrow> guarded P n \<Longrightarrow> guarded P (if b then m else n)"
  by simp

lemma guarded_mono: "guarded P m \<Longrightarrow> (\<And>ns n uid. P ns n uid \<Longrightarrow> Q ns n uid) \<Longrightarrow> guarded Q m"
  unfolding guarded_def by (erule emits_weaken) (erule deletes_ok_mono)

lemma guarded_only: "only E m \<Longrightarrow> (\<And>e. E e \<Longrightarrow> \<not> is_delete e) \<Longrightarrow> guarded P m"
  unfolding guarded_def only_def
  by (erule emits_weaken) (auto intro: deletes_ok_none simp: list_all_iff)

lemma deletes_ok_single:
  assumes "P ns n uid"
  shows "deletes_ok P [Eff_Get g ns n (Some uid),
    Eff_Counter ''zen_cleaner_deletions_attempted_total'' [], Eff_Delete g ns n opts]"
  unfolding deletes_ok_def
proof (intro allI impI)
  fix pre g' ns' n' opts' post
  assume "[Eff_Get g ns n (Some uid), Eff_Counter ''zen_cleaner_deletions_attempted_total'' [],
      Eff_Delete g ns n opts] = pre @ Eff_Delete g' ns' n' opts' # post"
  then have "pre = [Eff_Get g ns n (Some uid), Eff_Counter ''zen_cleaner_deletions_attempted_total'' []]"
    "g' = g" "ns' = ns" "n' = n"
    by (auto simp: Cons_eq_append_conv)
  with assms show "\<exists>pre' uid. pre = pre' @ [Eff_Get g' ns' n' (Some uid),
      Eff_Counter ''zen_cleaner_deletions_attempted_total'' []] \<and> P ns' n' uid"
    by auto
qed

lemma nodel_report: "list_all is_report es \<Longrightarrow> ndel es = 0 \<and> list_all (\<lambda>e. \<not> is_delete e) es"
  using report_not_delete by (auto simp: ndel_def list_all_iff filter_empty_conv)

section \<open>What the choke point emits\<close>

text \<open>The body after the gate: at most one DELETE, guarded by the UID of the decision.\<close>

definition this_object :: "uobj \<Rightarrow> string \<Rightarrow> string \<Rightarrow> string \<Rightarrow> bool" where
  "this_object obj ns n uid \<longleftrightarrow> ns = u_namespace obj \<and> n = u_name obj \<and> uid = u_uid obj"

lemma run_live:
  "run_state (get_live_for_precondition cl obj g) s =
    (let (r, w) = cl_get cl g (u_namespace obj) (u_name obj) (sy_env s) in
      ((case r of Inl e \<Rightarrow> if api_is Api_NotFound e then Inr None else Inl e
        | Inr live \<Rightarrow> Inr (Some live)),
       s\<lparr>sy_env := w, sy_trace := sy_trace s @ [Eff_Get g (u_namespace obj) (u_name obj)
          (case r of Inr o' \<Rightarrow> Some (u_uid o') | Inl e \<Rightarrow> None)]\<rparr>))"
  by (simp add: get_live_for_precondition_def api_get_def case_prod_beta)

lemma sequence_guarded:
  assumes "list_all (\<lambda>e. \<not> is_delete e) fs"
  shows "deletes_ok (this_object obj) ([Eff_Get g (u_namespace obj) (u_name obj) (Some (u_uid obj)),
      Eff_Counter ''zen_cleaner_deletions_attempted_total'' [],
      Eff_Delete g (u_namespace obj) (u_name obj) opts] @ fs)"
  using assms by (intro deletes_ok_append deletes_ok_single deletes_ok_none) (auto simp: this_object_def)

text \<open>Past the gate, or with none.\<close>

lemma perform_ungated:
  "emits (perform_resource_deletion cl None obj g opts b)
     (\<lambda>r es. deletes_ok (this_object obj) es \<and> ndel es \<le> 1 \<and> nwait es = 0)"
proof (rule emitsI)
  fix s :: "'a sys"
  let ?R = "\<lambda>es. deletes_ok (this_object obj) es \<and> ndel es \<le> 1 \<and> nwait es = 0"
  obtain r w where get: "cl_get cl g (u_namespace obj) (u_name obj) (sy_env s) = (r, w)"
    by fastforce
  obtain oe w' where del: "cl_delete cl g (u_namespace obj) (u_name obj) opts w = (oe, w')"
    by fastforce
  note D = perform_resource_deletion_def run_live Let_def report_defs
  show "\<exists>es. sy_trace (snd (run_state (perform_resource_deletion cl None obj g opts b) s)) = sy_trace s @ es \<and> ?R es"
  proof (cases "\<exists>live. r = Inr live \<and> u_uid live = u_uid obj")
    case True
    with get del sequence_guarded [of "[]"] sequence_guarded [of "[_, _]"] show ?thesis
      by (auto simp: D api_delete_def split: option.split)
  next
    case False
    with get show ?thesis
      by (cases r) (auto simp: D deletes_ok_Cons)
  qed
qed

lemma perform_emits:
  "emits (perform_resource_deletion cl gate obj g opts b)
     (\<lambda>r es. deletes_ok (\<lambda>ns n uid. this_object obj ns n uid \<and>
          (\<forall>decide. gate = Some decide \<longrightarrow> fst (decide (Some obj) b))) es \<and>
        ndel es \<le> 1 \<and> nwait es = 0)"
proof (cases "\<exists>decide. gate = Some decide \<and> \<not> fst (decide (Some obj) b)")
  case True
  then show ?thesis
    by (auto intro!: emitsI deletes_ok_Cons simp: perform_resource_deletion_def Let_def case_prod_beta
        record_safety_refusal_def count_with_def)
next
  case False
  then have "perform_resource_deletion cl gate obj g opts b = perform_resource_deletion cl None obj g opts b"
    by (auto simp: perform_resource_deletion_def Let_def case_prod_beta split: option.split)
  then show ?thesis
    using False by (auto intro!: emits_weaken [OF perform_ungated] elim!: deletes_ok_mono)
qed

text \<open>A client of the gate's contract: an object the law protects is never deleted.\<close>

context object_gate
begin

lemma perform_untouchable:
  assumes "never obj"
  shows "emits (perform_resource_deletion cl (Some decide) obj g opts b) (\<lambda>r es. r = None \<and> ndel es = 0)"
proof (rule emitsI)
  fix s :: "'a sys"
  from assms have "\<not> fst (decide (Some obj) b)" by (rule never_refused)
  then show "\<exists>es. sy_trace (snd (run_state (perform_resource_deletion cl (Some decide) obj g opts b) s)) = sy_trace s @ es
      \<and> fst (run_state (perform_resource_deletion cl (Some decide) obj g opts b) s) = None \<and> ndel es = 0"
    by (simp add: perform_resource_deletion_def Let_def case_prod_beta record_safety_refusal_def count_with_def)
qed

end

section \<open>What the loops emit\<close>

lemma report_trace: "emits m (\<lambda>a es. list_all is_report es) \<Longrightarrow>
    emits m (\<lambda>a es. list_all is_report es \<and> ndel es = 0 \<and> nwait es = 0 \<and> deletes_ok P es)"
proof (erule emits_weaken)
  fix a es
  assume r: "list_all is_report es"
  then have "nwait es = 0"
    by (induction es) (auto simp: is_report_def split: effect.splits)
  with r show "list_all is_report es \<and> ndel es = 0 \<and> nwait es = 0 \<and> deletes_ok P es"
    using nodel_report [OF r] deletes_ok_none by blast
qed

text \<open>The resolver emits nothing, the limiter its wait.\<close>

lemma emits_resolve_for_deletion:
  "emits (resolve_gvr_for_deletion cl b obj) (\<lambda>g es. es = [])"
  using only_resolve_for_deletion [of "\<lambda>e. False" cl b obj]
  by (auto simp: only_def list_all_iff elim!: emits_weaken)

lemma emits_limiter_wait:
  "emits (limiter_wait cl l) (\<lambda>r es. es = [Eff_Rate_Wait l])"
  by (rule emitsI) (simp add: limiter_wait_def)

text \<open>The decision of the reconciler's gate, if it has one.\<close>

definition gate_allows :: "reconciler \<Rightarrow> policy \<Rightarrow> uobj \<Rightarrow> bool" where
  "gate_allows r p obj \<longleftrightarrow> (case rc_gate r of
     None \<Rightarrow> True | Some g \<Rightarrow> fst (evaluate_object g (Some obj) (p_behavior p)))"

definition may_delete :: "reconciler \<Rightarrow> policy \<Rightarrow> uobj \<Rightarrow> string \<Rightarrow> string \<Rightarrow> string \<Rightarrow> bool" where
  "may_delete r p obj ns n uid \<longleftrightarrow>
     this_object obj ns n uid \<and> gate_allows r p obj \<and> \<not> bh_dry_run (p_behavior p)"

lemma delete_resource_emits:
  "emits (delete_resource cl r l p obj)
     (\<lambda>oe es. deletes_ok (may_delete r p obj) es \<and> ndel es \<le> 1 \<and> nwait es = 1)"
proof -
  have wait: "deletes_ok (may_delete r p obj) [Eff_Rate_Wait l]"
    by (rule deletes_ok_none) simp
  have perform: "emits (perform_resource_deletion cl (rc_decide r) obj g (build_delete_options p) (p_behavior p))
      (\<lambda>oe es. deletes_ok (may_delete r p obj) es \<and> ndel es \<le> 1 \<and> nwait es = 0)"
    if "\<not> bh_dry_run (p_behavior p)" for g
    by (rule emits_weaken [OF perform_emits])
      (use that in \<open>auto simp: may_delete_def gate_allows_def rc_decide_def split: option.splits
        elim!: deletes_ok_mono\<close>)
  show ?thesis
    unfolding delete_resource_def
  proof (rule emits_bind [OF emits_limiter_wait, where S = "\<lambda>w oe es.
      deletes_ok (may_delete r p obj) es \<and> ndel es \<le> 1 \<and> nwait es = 0"])
    fix w
    show "emits (case w of
         None \<Rightarrow> if bh_dry_run (p_behavior p) then State_Monad.bind record_dry_run_candidate
                   (\<lambda>_. State_Monad.return None)
           else State_Monad.bind (resolve_gvr_for_deletion cl (rc_resolver r) obj)
             (\<lambda>g. perform_resource_deletion cl (rc_decide r) obj g (build_delete_options p) (p_behavior p))
       | Some e \<Rightarrow> State_Monad.return (Some e))
      (\<lambda>oe es. deletes_ok (may_delete r p obj) es \<and> ndel es \<le> 1 \<and> nwait es = 0)"
    proof (cases w)
      case (Some e)
      then show ?thesis by (auto intro!: emits_return)
    next
      case None
      show ?thesis
      proof (cases "bh_dry_run (p_behavior p)")
        case True
        with None show ?thesis
          by (auto intro!: emitsI deletes_ok_none simp: record_dry_run_candidate_def count_def)
      next
        case False
        with None show ?thesis
          by (simp, intro emits_bind [OF emits_resolve_for_deletion perform [OF False]]) simp
      qed
    qed
  next
    fix w es oe fs
    assume "es = [Eff_Rate_Wait l]" "deletes_ok (may_delete r p obj) fs \<and> ndel fs \<le> 1 \<and> nwait fs = 0"
    then show "deletes_ok (may_delete r p obj) (es @ fs) \<and> ndel (es @ fs) \<le> 1 \<and> nwait (es @ fs) = 1"
      using deletes_ok_append [OF wait] by simp
  qed
qed

text \<open>Waiting between two attempts.\<close>

lemma emits_sleep_then:
  assumes "emits m R" "\<And>oe fs. R oe fs \<Longrightarrow> T oe (Eff_Sleep d # fs)" "\<And>e. R (Some e) []"
  shows "emits (State_Monad.bind (emit (Eff_Sleep d)) (\<lambda>_. State_Monad.bind (ask f) (\<lambda>c. case c of
      Some e \<Rightarrow> State_Monad.return (Some e) | None \<Rightarrow> m))) T"
proof (rule emits_bind [where S = "\<lambda>u. R"])
  show "emits (emit (Eff_Sleep d)) (\<lambda>u es. es = [Eff_Sleep d])"
    by (rule emits_emit) simp
  show "emits (State_Monad.bind (ask f) (\<lambda>c. case c of
      Some e \<Rightarrow> State_Monad.return (Some e) | None \<Rightarrow> m)) R" for u
    by (rule emits_bind [OF emits_ask [of "\<lambda>a es. es = []"], where S = "\<lambda>c. R"])
      (use assms(1,3) in \<open>auto intro: emits_return split: option.split\<close>)
qed (use assms(2) in auto)

text \<open>
  The retry loop, for any deleter whose runs emit guarded deletions: at most one DELETE per
  remaining step, and a nil answer means that the deleter ran.
\<close>

text \<open>What follows an attempt.\<close>

abbreviation retry_after ::
  "'w cluster \<Rightarrow> duration \<Rightarrow> ('w, go_error option) prog option \<Rightarrow> ('w, go_error option) prog option
     \<Rightarrow> backoff \<Rightarrow> go_error option \<Rightarrow> ('w, go_error option) prog" where
  "retry_after cl oor dc dn b oe \<equiv> (case oe of
       None \<Rightarrow> State_Monad.return None
     | Some e \<Rightarrow> if retryable e then
         (if fst (next_backoff oor b) = 0 then State_Monad.return (Some (retries_failed (Some e)))
          else State_Monad.bind (emit (Eff_Sleep (fst (next_backoff oor b)))) (\<lambda>_.
            State_Monad.bind (ask (cl_sleep cl (fst (next_backoff oor b)))) (\<lambda>c'. case c' of
              Some e' \<Rightarrow> State_Monad.return (Some e')
            | None \<Rightarrow> retry_loop cl oor dc dn (snd (next_backoff oor b)) (Some e))))
         else if api_is Api_NotFound e then State_Monad.return None
         else State_Monad.return (Some e))"

lemma retry_loop_live:
  "\<not> is_exhausted b \<Longrightarrow> (case dc of Some d \<Rightarrow> Some d | None \<Rightarrow> dn) = Some d \<Longrightarrow>
     retry_loop cl oor dc dn b le = State_Monad.bind (ask (cl_ctx cl)) (\<lambda>c. case c of
       Some e \<Rightarrow> State_Monad.return (Some e)
     | None \<Rightarrow> State_Monad.bind d (retry_after cl oor dc dn b))"
  by (subst retry_loop.simps) simp

lemma retry_after_emits:
  assumes "\<And>e. retryable e \<Longrightarrow> fst (next_backoff oor b) \<noteq> 0 \<Longrightarrow>
      emits (retry_loop cl oor dc dn (snd (next_backoff oor b)) (Some e)) (\<lambda>oe es. deletes_ok P es \<and> ndel es \<le> n)"
  shows "emits (retry_after cl oor dc dn b oe) (\<lambda>oe es. deletes_ok P es \<and> ndel es \<le> n)"
proof (cases "\<exists>e. oe = Some e \<and> retryable e \<and> fst (next_backoff oor b) \<noteq> 0")
  case False
  then show ?thesis
    by (auto intro!: emits_return split: option.split)
next
  case True
  then obtain e where e: "oe = Some e" "retryable e" "fst (next_backoff oor b) \<noteq> 0" by blast
  show ?thesis
    unfolding e(1) using e(2,3)
    by (simp, intro emits_sleep_then [OF assms [OF e(2,3)]]) (auto intro: deletes_ok_Cons)
qed

lemma retry_loop_emits:
  assumes "\<And>d. dc = Some d \<or> dn = Some d \<Longrightarrow>
      emits d (\<lambda>oe es. deletes_ok P es \<and> ndel es \<le> 1 \<and> 1 \<le> nwait es)"
  shows "emits (retry_loop cl oor dc dn b le)
     (\<lambda>oe es. deletes_ok P es \<and> ndel es \<le> nat (bc_steps (bo_config b) - bo_step b) \<and>
        (oe = None \<longrightarrow> 1 \<le> nwait es))"
  using assms
proof (induction cl oor dc dn b le rule: retry_loop.induct)
  case (1 cl oor dc dn b le)
  let ?k = "nat (bc_steps (bo_config b) - bo_step b)"
  let ?R = "\<lambda>oe es. deletes_ok P es \<and> ndel es \<le> ?k \<and> (oe = None \<longrightarrow> 1 \<le> nwait es)"
  have ctx: "emits (ask (cl_ctx cl)) (\<lambda>c es. es = [])"
    by (rule emits_ask) simp
  show ?case
  proof (cases "is_exhausted b \<or> (case dc of Some d \<Rightarrow> Some d | None \<Rightarrow> dn) = None")
    case True
    then show ?thesis
      by (subst retry_loop.simps)
        (auto intro!: emits_bind [OF ctx, where S = "\<lambda>c. ?R"] emits_return split: option.splits)
  next
    case False
    then obtain d where live: "\<not> is_exhausted b" "(case dc of Some d \<Rightarrow> Some d | None \<Rightarrow> dn) = Some d"
      by fastforce
    then have d: "emits d (\<lambda>oe es. deletes_ok P es \<and> ndel es \<le> 1 \<and> 1 \<le> nwait es)"
      using 1(2) by (auto split: option.splits)
    have k: "1 \<le> ?k"
      "nat (bc_steps (bo_config (snd (next_backoff oor b))) - bo_step (snd (next_backoff oor b))) = ?k - 1"
      using live(1) by (simp_all add: is_exhausted_def nat_diff_distrib)
    have "emits (retry_after cl oor dc dn b oe) (\<lambda>oe es. deletes_ok P es \<and> ndel es \<le> ?k - 1)" for oe
      by (intro retry_after_emits emits_weaken [OF 1(1) [OF live _ _ 1(2)]]) (use k(2) in auto)
    then have "emits (State_Monad.bind d (retry_after cl oor dc dn b)) ?R"
      by (rule emits_bind [OF d]) (use k(1) in \<open>auto intro: deletes_ok_append\<close>)
    then show ?thesis
      unfolding retry_loop_live [OF live]
      by (auto intro!: emits_bind [OF ctx, where S = "\<lambda>c. ?R"] emits_return split: option.split)
  qed
qed

section \<open>The contract of a batch deleter\<close>

text \<open>
  The interface \<open>BatchDeleter\<close> of \<open>shared.go\<close>: a method that deletes one object under a
  policy and a limiter.  The laws: each DELETE it sends is guarded and permitted by \<open>may\<close>,
  it sends at most \<open>attempts\<close> of them, and it answers nil only after having waited for the
  limiter.  What a batch does follows from these alone.
\<close>

locale batch_deleter =
  fixes delete_one :: "limiter \<Rightarrow> policy \<Rightarrow> uobj \<Rightarrow> ('w, go_error option) prog"
    and may :: "policy \<Rightarrow> uobj \<Rightarrow> string \<Rightarrow> string \<Rightarrow> string \<Rightarrow> bool"
    and attempts :: nat
  assumes guarded: "emits (delete_one l p obj) (\<lambda>oe es. deletes_ok (may p obj) es \<and>
      ndel es \<le> attempts \<and> (oe = None \<longrightarrow> 1 \<le> nwait es))"
begin

definition batch_rel ::
  "policy \<Rightarrow> uobj list \<Rightarrow> int \<Rightarrow> go_error list \<Rightarrow> int \<times> go_error list \<Rightarrow> effect list \<Rightarrow> bool" where
  "batch_rel p objs cnt errs res es \<longleftrightarrow>
     deletes_ok (\<lambda>ns n uid. \<exists>obj \<in> set objs. may p obj ns n uid) es \<and>
     ndel es \<le> attempts * length objs \<and>
     cnt \<le> fst res \<and> length errs \<le> length (snd res) \<and>
     fst res - cnt + int (length (snd res) - length errs) \<le> int (length objs) \<and>
     (bh_dry_run (p_behavior p) \<longrightarrow> fst res = cnt) \<and>
     2 * (fst res - cnt) \<le> int (nwait es)"

lemma batch_rel_refl: "batch_rel p objs cnt errs (cnt, errs) []"
  by (simp add: batch_rel_def)

text \<open>One object that sent \<open>es\<close> (its wait and its deletion), then the rest of the batch.\<close>

lemma batch_rel_step:
  assumes "batch_rel p rest cnt' errs' res fs" "deletes_ok (may p obj) es" "ndel es \<le> attempts"
    "cnt \<le> cnt'" "length errs \<le> length errs'"
    "cnt' - cnt + int (length errs' - length errs) \<le> 1"
    "bh_dry_run (p_behavior p) \<longrightarrow> cnt' = cnt" "2 * (cnt' - cnt) \<le> int (nwait es)"
  shows "batch_rel p (obj # rest) cnt errs res (es @ fs)"
proof -
  have "deletes_ok (\<lambda>ns n uid. \<exists>o' \<in> set (obj # rest). may p o' ns n uid) es"
    using assms(2) by (rule deletes_ok_mono) auto
  moreover have "deletes_ok (\<lambda>ns n uid. \<exists>o' \<in> set rest. may p o' ns n uid) fs"
    using assms(1) by (simp add: batch_rel_def)
  then have "deletes_ok (\<lambda>ns n uid. \<exists>o' \<in> set (obj # rest). may p o' ns n uid) fs"
    by (rule deletes_ok_mono) auto
  ultimately have "deletes_ok (\<lambda>ns n uid. \<exists>o' \<in> set (obj # rest). may p o' ns n uid) (es @ fs)"
    by (rule deletes_ok_append)
  then show ?thesis
    using assms by (auto simp: batch_rel_def of_nat_diff)
qed

lemma emits_reports:
  assumes "only is_report m" "\<And>a es. list_all is_report es \<Longrightarrow> ndel es = 0 \<Longrightarrow> nwait es = 0 \<Longrightarrow>
    (\<And>P. deletes_ok P es) \<Longrightarrow> R a es"
  shows "emits m R"
proof (rule emits_weaken)
  show "emits m (\<lambda>a es. list_all is_report es \<and> ndel es = 0 \<and> nwait es = 0 \<and> deletes_ok (\<lambda>a b c. False) es)"
    using assms(1) unfolding only_def by (rule report_trace)
  fix a es
  assume "list_all is_report es \<and> ndel es = 0 \<and> nwait es = 0 \<and> deletes_ok (\<lambda>a b c. False) es"
  then show "R a es"
    by (intro assms(2)) (auto elim: deletes_ok_mono)
qed

lemma item_emits:
  "emits (delete_batch_item cl recorder (delete_one l p) p l reasons obj)
     (\<lambda>item es. deletes_ok (may p obj) es \<and> ndel es \<le> attempts \<and>
        (item = Item_Deleted \<longrightarrow> 2 \<le> nwait es \<and> \<not> bh_dry_run (p_behavior p)))"
proof -
  let ?Q = "\<lambda>item es. list_all is_report es \<and> (item = Item_Deleted \<longrightarrow> \<not> bh_dry_run (p_behavior p))"
  have tail: "emits (case oe of
        Some e \<Rightarrow> State_Monad.bind (record_error (p_namespace p) (p_name p) ''deletion_failed'')
                    (\<lambda>u. State_Monad.return (Item_Error (deletion_failed_error p obj e)))
      | None \<Rightarrow> if bh_dry_run (p_behavior p) then State_Monad.return Item_Dry_Run
          else State_Monad.bind (record_resource_deleted p (lookup_str reasons (u_uid obj))) (\<lambda>u.
            State_Monad.bind (record_resource_deleted_event recorder obj (lookup_str reasons (u_uid obj)))
              (\<lambda>u. State_Monad.return Item_Deleted)))
      (\<lambda>item es. ndel es = 0 \<and> deletes_ok (may p obj) es \<and>
         (item = Item_Deleted \<longrightarrow> oe = None \<and> \<not> bh_dry_run (p_behavior p)))" for oe
    by (rule emitsI) (auto simp: report_defs intro: deletes_ok_none split: option.split)
  have del: "emits (State_Monad.bind (delete_one l p obj) (\<lambda>oe. case oe of
        Some e \<Rightarrow> State_Monad.bind (record_error (p_namespace p) (p_name p) ''deletion_failed'')
                    (\<lambda>u. State_Monad.return (Item_Error (deletion_failed_error p obj e)))
      | None \<Rightarrow> if bh_dry_run (p_behavior p) then State_Monad.return Item_Dry_Run
          else State_Monad.bind (record_resource_deleted p (lookup_str reasons (u_uid obj))) (\<lambda>u.
            State_Monad.bind (record_resource_deleted_event recorder obj (lookup_str reasons (u_uid obj)))
              (\<lambda>u. State_Monad.return Item_Deleted))))
      (\<lambda>item es. deletes_ok (may p obj) es \<and> ndel es \<le> attempts \<and>
        (item = Item_Deleted \<longrightarrow> 1 \<le> nwait es \<and> \<not> bh_dry_run (p_behavior p)))"
    by (rule emits_bind [OF guarded tail]) (auto intro: deletes_ok_append)
  show ?thesis
    unfolding delete_batch_item_def
    by (rule emits_bind [OF emits_limiter_wait, where S = "\<lambda>w item es.
          deletes_ok (may p obj) es \<and> ndel es \<le> attempts \<and>
          (item = Item_Deleted \<longrightarrow> 1 \<le> nwait es \<and> \<not> bh_dry_run (p_behavior p))"])
      (use del in \<open>auto intro: emits_return deletes_ok_Cons split: option.split\<close>)
qed

lemma batch_loop_emits:
  "emits (delete_batch_loop cl recorder (delete_one l p) p l reasons i cnt errs objs)
     (batch_rel p objs cnt errs)"
proof (induction objs arbitrary: i cnt errs)
  case Nil
  show ?case by (simp add: emits_return batch_rel_refl)
next
  case (Cons obj rest)
  let ?next = "delete_batch_loop cl recorder (delete_one l p) p l reasons (i + 1)"
  let ?S = "\<lambda>item. case item of Item_Error e \<Rightarrow> batch_rel p rest cnt (errs @ [e])
      | Item_Dry_Run \<Rightarrow> batch_rel p rest cnt errs
      | Item_Deleted \<Rightarrow> batch_rel p rest (cnt + 1) errs"
  have cont: "emits (case item of Item_Error e \<Rightarrow> ?next cnt (errs @ [e]) rest
      | Item_Dry_Run \<Rightarrow> ?next cnt errs rest
      | Item_Deleted \<Rightarrow> ?next (cnt + 1) errs rest) (?S item)" for item
    using Cons.IH by (cases item) auto
  have body: "emits (State_Monad.bind (delete_batch_item cl recorder (delete_one l p) p l reasons obj)
      (\<lambda>item. case item of Item_Error e \<Rightarrow> ?next cnt (errs @ [e]) rest
      | Item_Dry_Run \<Rightarrow> ?next cnt errs rest
      | Item_Deleted \<Rightarrow> ?next (cnt + 1) errs rest)) (batch_rel p (obj # rest) cnt errs)"
  proof (rule emits_bind [OF item_emits cont])
    fix item es res fs
    assume A: "deletes_ok (may p obj) es \<and> ndel es \<le> attempts \<and>
        (item = Item_Deleted \<longrightarrow> 2 \<le> nwait es \<and> \<not> bh_dry_run (p_behavior p))" and B: "?S item res fs"
    show "batch_rel p (obj # rest) cnt errs res (es @ fs)"
    proof (cases item)
      case Item_Deleted
      with A B show ?thesis by (intro batch_rel_step [of p rest "cnt + 1" errs]) auto
    next
      case Item_Dry_Run
      with A B show ?thesis by (intro batch_rel_step [of p rest cnt errs]) auto
    next
      case (Item_Error e)
      with A B show ?thesis by (intro batch_rel_step [of p rest cnt "errs @ [e]"]) auto
    qed
  qed
  have stop: "emits (if i mod 50 = 0 then ask (cl_ctx cl) else State_Monad.return None) (\<lambda>a es. es = [])"
    by (auto intro: emits_ask emits_return)
  have refl: "batch_rel p (obj # rest) cnt errs (cnt, errs) []"
    by (rule batch_rel_refl)
  show ?case
    unfolding delete_batch_loop.simps
    by (rule emits_bind [OF stop, where S = "\<lambda>c. batch_rel p (obj # rest) cnt errs"])
      (use body refl in \<open>auto intro: emits_return split: option.split\<close>)
qed

lemma batch_emits:
  "emits (delete_batch_shared cl recorder (delete_one l p) p l reasons objs) (batch_rel p objs 0 [])"
  unfolding delete_batch_shared_def by (rule batch_loop_emits)

end

section \<open>The reconciler as a batch deleter\<close>

lemma backoff_emits:
  "emits (delete_resource_with_backoff cl r l p obj)
     (\<lambda>oe es. deletes_ok (may_delete r p obj) es \<and> ndel es \<le> 5 \<and> (oe = None \<longrightarrow> 1 \<le> nwait es))"
proof -
  have "emits d (\<lambda>oe es. deletes_ok (may_delete r p obj) es \<and> ndel es \<le> 1 \<and> 1 \<le> nwait es)"
    if "Some (delete_resource cl r l p obj) = Some d \<or> None = Some d" for d
    using that by (auto intro!: emits_weaken [OF delete_resource_emits])
  then show ?thesis
    unfolding delete_resource_with_backoff_def delete_with_backoff_shared_def
    by (rule emits_weaken [OF retry_loop_emits])
      (auto simp: new_backoff_def default_backoff_config_def)
qed

interpretation reconciler_deleter: batch_deleter "delete_resource_with_backoff cl r" "may_delete r" 5
  for cl :: "'w cluster" and r
  by unfold_locales (rule backoff_emits)

text \<open>A deletion attempt of a refused object: the limiter, the refusal, a nil answer.\<close>

lemma delete_resource_refused:
  assumes "rc_gate r = Some g" "\<not> fst (evaluate_object g (Some obj) (p_behavior p))"
    "\<not> bh_dry_run (p_behavior p)" "\<And>w. fst (cl_wait cl l w) = None"
  shows "fst (run_state (delete_resource cl r l p obj) s) = None"
proof -
  obtain gv s' where "run_state (resolve_gvr_for_deletion cl (rc_resolver r) obj)
      (s\<lparr>sy_env := snd (cl_wait cl l (sy_env s)), sy_trace := sy_trace s @ [Eff_Rate_Wait l]\<rparr>) = (gv, s')"
    by fastforce
  with assms show ?thesis
    by (simp add: delete_resource_def limiter_wait_def rc_decide_def perform_resource_deletion_def
        Let_def case_prod_beta record_safety_refusal_def count_with_def)
qed

text \<open>One round of the retry loop when the error is retryable and nothing is cancelled.\<close>

lemma retry_round:
  assumes "\<not> is_exhausted b" "next_backoff oor b = (d, b')" "d \<noteq> 0" "retryable e"
    "emits del (\<lambda>oe es. oe = Some e \<and> es = D)"
    "\<And>w. fst (cl_ctx cl w) = None" "\<And>t w. fst (cl_sleep cl t w) = None"
    "emits (retry_loop cl oor (Some del) None b' (Some e)) R"
  shows "emits (retry_loop cl oor (Some del) None b le) (\<lambda>oe es. \<exists>fs. es = D @ Eff_Sleep d # fs \<and> R oe fs)"
proof -
  have ctx: "emits (ask (cl_ctx cl)) (\<lambda>a es. a = None \<and> es = [])"
    and sleep: "emits (ask (cl_sleep cl d)) (\<lambda>a es. a = None \<and> es = [])"
    using assms(6,7) by (auto intro: emitsI)
  have wait: "emits (emit (Eff_Sleep d)) (\<lambda>u es. u = () \<and> es = [Eff_Sleep d])"
    by (rule emits_emit) simp
  show ?thesis
    using assms(1-4)
    by (subst retry_loop.simps, simp)
      (rule emits_bind_known [OF ctx, where S = "\<lambda>oe es. \<exists>fs. es = D @ Eff_Sleep d # fs \<and> R oe fs"], simp,
        rule emits_bind_known [OF assms(5), where S = "\<lambda>oe es. \<exists>fs. es = Eff_Sleep d # fs \<and> R oe fs"], simp,
        rule emits_bind_known [OF wait, where S = R],
        rule emits_bind_known [OF sleep, where S = R], simp_all add: assms(8))
qed

section \<open>Properties\<close>

text \<open>C24. Retrying is bounded and exact: if the deleter keeps failing with a retryable API error
  and nothing is cancelled, it is called five times, with waits of 105, 210, 420, 840 and
  1680 milliseconds after the attempts, and the loop returns the last error wrapped; it
  never loops for ever (the function is total).\<close>

theorem retry_exhausts:
  assumes "emits del (\<lambda>oe es. oe = Some e \<and> es = D)" "retryable e"
    "\<And>w. fst (cl_ctx cl w) = None" "\<And>t w. fst (cl_sleep cl t w) = None"
  shows "emits (delete_with_backoff_shared cl oor (Some del) None)
    (\<lambda>oe es. oe = Some (Errorf ''deletion failed after retries: '' e []) \<and>
       es = concat (map (\<lambda>ms. D @ [Eff_Sleep (ms * Millisecond)]) [105, 210, 420, 840, 1680]))"
proof -
  let ?b = "\<lambda>i. new_backoff default_backoff_config\<lparr>bo_step := i\<rparr>"
  have live: "\<not> is_exhausted (?b i)" if "i < 5" for i
    using that by (simp add: default_exhausted new_backoff_def)
  have fin: "emits (retry_loop cl oor (Some del) None (?b 5) (Some e))
      (\<lambda>oe es. oe = Some (Errorf ''deletion failed after retries: '' e []) \<and> es = [])"
    by (subst retry_loop.simps)
      (simp add: default_exhausted new_backoff_def emits_return retries_failed_def)
  note round = retry_round [OF live _ _ assms(2,1,3,4)]
  note r5 = round [of 4, OF _ default_nexts(5) _ fin, simplified]
  note r4 = round [of 3, OF _ default_nexts(4) _ r5, simplified]
  note r3 = round [of 2, OF _ default_nexts(3) _ r4, simplified]
  note r2 = round [of 1, OF _ default_nexts(2) _ r3, simplified]
  note r1 = round [of 0, OF _ default_nexts(1) _ r2, of None, simplified]
  have "?b 0 = new_backoff default_backoff_config" by (simp add: new_backoff_def)
  with r1 show ?thesis
    unfolding delete_with_backoff_shared_def
    by (auto simp: Millisecond_def elim!: emits_weaken)
qed

theorem retry_exhausts_witness:
  "emits (delete_with_backoff_shared ex_cluster 0
      (Some (State_Monad.return (Some (Api_Error [Api_Timeout] ''timeout'')))) None)
    (\<lambda>oe es. oe = Some (Errorf ''deletion failed after retries: '' (Api_Error [Api_Timeout] ''timeout'') [])
       \<and> length es = 5)"
proof -
  have "emits (State_Monad.return (Some (Api_Error [Api_Timeout] ''timeout'')) :: (bool, go_error option) prog)
      (\<lambda>oe es. oe = Some (Api_Error [Api_Timeout] ''timeout'') \<and> es = [])"
    by (rule emits_return) simp
  from retry_exhausts [OF this, of ex_cluster 0] show ?thesis
    by (auto simp: ex_cluster_def retryable_def elim!: emits_weaken)
qed




text \<open>An object the gate refuses is nevertheless counted as deleted: the choke point answers
  nil for a refusal, so the batch counts it (in the status, the metrics and an event)
  although no DELETE is sent.\<close>

theorem refused_counts_as_deleted:
  assumes "rc_gate r = Some g" "\<not> fst (evaluate_object g (Some obj) (p_behavior p))"
    "\<not> bh_dry_run (p_behavior p)"
    "\<And>w. fst (cl_wait cl l w) = None" "\<And>w. fst (cl_ctx cl w) = None"
  shows "\<exists>es. run_state (delete_batch_shared cl recorder (delete_resource_with_backoff cl r l p) p l reasons [obj]) s
      = ((1, []), snd (run_state (delete_batch_shared cl recorder
           (delete_resource_with_backoff cl r l p) p l reasons [obj]) s)) \<and>
    sy_trace (snd (run_state (delete_batch_shared cl recorder
           (delete_resource_with_backoff cl r l p) p l reasons [obj]) s)) = sy_trace s @ es \<and>
    ndel es = 0"
proof -
  let ?m = "delete_batch_shared cl recorder (delete_resource_with_backoff cl r l p) p l reasons [obj]"
  have nil: "fst (run_state (delete_resource_with_backoff cl r l p obj) t) = None" for t
  proof -
    obtain c t' where "cl_ctx cl (sy_env t) = (c, t')" by fastforce
    moreover from this assms(5) [of "sy_env t"] have "c = None" by simp
    moreover have "fst (run_state (delete_resource cl r l p obj) t'') = None" for t''
      using assms(1-4) by (rule delete_resource_refused)
    ultimately show ?thesis
      by (auto simp: delete_resource_with_backoff_def delete_with_backoff_shared_def
          default_exhausted new_backoff_def retry_loop.simps case_prod_beta)
  qed
  have one: "fst (run_state ?m s) = (1, [])"
    using assms(3-5) nil
    by (auto simp: delete_batch_shared_def delete_batch_item_def limiter_wait_def case_prod_beta
        report_defs)
  obtain es where es: "sy_trace (snd (run_state ?m s)) = sy_trace s @ es"
    and "reconciler_deleter.batch_rel r p [obj] 0 [] (fst (run_state ?m s)) es"
    using reconciler_deleter.batch_emits surjective_pairing by (rule emitsD)
  then have "deletes_ok (\<lambda>ns n uid. may_delete r p obj ns n uid) es"
    by (simp add: reconciler_deleter.batch_rel_def)
  moreover have "\<not> may_delete r p obj ns n uid" for ns n uid
    using assms(1,2) by (simp add: may_delete_def gate_allows_def)
  ultimately have "ndel es = 0"
    by (auto simp: ndel_def filter_empty_conv deletes_ok_def in_set_conv_decomp elim!: is_delete.elims)
  with one es show ?thesis
    by (intro exI [of _ es]) (simp add: prod_eq_iff)
qed

theorem refused_counts_as_deleted_witness:
  "\<exists>es. sy_trace (snd (run_state (delete_batch_shared ex_cluster True (delete_resource_with_backoff ex_cluster
      ex_reconciler (new_rate_limiter 10) ex_policy) ex_policy (new_rate_limiter 10) []
      [ex_obj\<lparr>u_namespace := ''kube-system''\<rparr>]) ex_sys)) = sy_trace ex_sys @ es \<and> ndel es = 0"
proof -
  have "\<not> fst (evaluate_object (new_gate \<lparr>sc_protected_namespaces = [], sc_own_namespace = ''cleaner'',
      sc_deletes_disabled = False\<rparr>) (Some (ex_obj\<lparr>u_namespace := ''kube-system''\<rparr>)) (p_behavior ex_policy))"
    by code_simp
  then show ?thesis
    using refused_counts_as_deleted [where r = ex_reconciler and obj = "ex_obj\<lparr>u_namespace := ''kube-system''\<rparr>"
        and p = ex_policy and cl = ex_cluster and l = "new_rate_limiter 10" and recorder = True
        and reasons = "[]" and s = ex_sys]
    by (auto simp: ex_reconciler_def ex_cluster_def ex_policy_def ex_spec_def ex_behavior_def)
qed

end
