(* ===== verification/Status.thy ===== *)
theory Status
  imports Deletion
begin

text \<open>
  What operators see of a policy: \<open>pkg/controller/status_updater.go\<close> (the counters, the
  phase, the conditions and the promised next run, merged into the status subresource of
  the custom resource), \<open>updateConditionReceipt\<close> and the requeue intervals of
  \<open>reconciler.go\<close>.

  The custom resource is the JSON object the dynamic client returns; a Go map of it is an
  association list.  Formatting a time in the controller's time zone is \<open>cl_format_time\<close>.
\<close>

section \<open>Intervals\<close>

definition DefaultCleanupInterval :: duration where "DefaultCleanupInterval = 1 * Minute"

definition effective_evaluation_interval :: "policy option \<Rightarrow> duration \<Rightarrow> duration" where
  "effective_evaluation_interval op dflt = (case op of
       Some p \<Rightarrow> (case ps_interval (p_spec p) of
           Some d \<Rightarrow> if sint d > 0 then d else dflt
         | None \<Rightarrow> dflt)
     | None \<Rightarrow> dflt)"

definition config_interval :: "controller_config option \<Rightarrow> duration" where
  "config_interval oc = (case oc of Some c \<Rightarrow> cc_cleanup_interval c | None \<Rightarrow> DefaultCleanupInterval)"

definition get_requeue_interval :: "reconciler \<Rightarrow> duration" where
  "get_requeue_interval r = config_interval (rc_config r)"

definition get_requeue_interval_for_policy :: "reconciler \<Rightarrow> policy \<Rightarrow> duration" where
  "get_requeue_interval_for_policy r p =
     effective_evaluation_interval (Some p) (config_interval (rc_config r))"

section \<open>The status object\<close>

type_synonym json_obj = "(string \<times> json) list"

definition policy_status_error :: "go_error \<Rightarrow> string \<Rightarrow> string \<Rightarrow> policy \<Rightarrow> go_error" where
  "policy_status_error e code msg p =
     ce_with_context (ce_with_context (errors_wrap (Some e) code msg)
       ''policy_namespace'' (p_namespace p)) ''policy_name'' (p_name p)"

definition apply_next_gc_run ::
  "(gotime \<Rightarrow> string) \<Rightarrow> policy \<Rightarrow> gotime \<Rightarrow> duration \<Rightarrow> json_obj \<times> json_obj \<Rightarrow> json_obj \<times> json_obj" where
  "apply_next_gc_run fmt p now interval st = (case st of (crd, status) \<Rightarrow>
     if ps_paused (p_spec p) then
       (case map_of crd ''status'' of
          Some (JObj existing) \<Rightarrow>
            (AList.update ''status'' (JObj (AList.delete ''nextGCRun'' existing)) crd, status)
        | _ \<Rightarrow> (crd, status))
     else (crd, AList.update ''nextGCRun''
            (JStr (fmt (time_add now (effective_evaluation_interval (Some p) interval)))) status))"

text \<open>The loop over the counters stops after eight entries.\<close>

fun cap_refusals :: "nat \<Rightarrow> (string, int) gomap \<Rightarrow> json_obj \<Rightarrow> json_obj" where
  "cap_refusals n [] out = out"
| "cap_refusals n ((reason, cnt) # rest) out =
     (if n \<ge> 8 then out else cap_refusals (n + 1) rest (AList.update reason (JInt cnt) out))"

definition capped_refusals :: "(string, int) gomap \<Rightarrow> json_obj" where
  "capped_refusals refusals = cap_refusals 0 refusals []"

definition status_phase_for :: "policy \<Rightarrow> string" where
  "status_phase_for p =
     (let phase = (if ps_paused (p_spec p) then ''Paused'' else ''Active'') in
      if st_phase (p_status p) = ''Error'' then ''Error'' else phase)"

definition condition_obj :: "string \<Rightarrow> string \<Rightarrow> string \<Rightarrow> string \<Rightarrow> string \<Rightarrow> json" where
  "condition_obj ty status time reason msg =
     JObj [(''type'', JStr ty), (''status'', JStr status), (''lastTransitionTime'', JStr time),
           (''reason'', JStr reason), (''message'', JStr msg)]"

definition status_conditions_for :: "string \<Rightarrow> string \<Rightarrow> json list" where
  "status_conditions_for phase now =
     (if phase = ''Error'' then
        [condition_obj ''Ready'' ''False'' now ''PolicyError'' ''Policy evaluation encountered errors'',
         condition_obj ''Error'' ''True'' now ''EvaluationFailed''
           ''Policy evaluation failed - check logs for details'']
      else if phase = ''Paused'' then
        [condition_obj ''Ready'' ''False'' now ''PolicyPaused'' ''Policy is paused'']
      else
        [condition_obj ''Ready'' ''True'' now ''PolicyActive''
           ''Policy is active and processing resources''])"

definition merge_status :: "json_obj \<Rightarrow> json_obj \<Rightarrow> json_obj" where
  "merge_status crd status = (case map_of crd ''status'' of
       Some (JObj existing) \<Rightarrow>
         AList.update ''status'' (JObj (foldl (\<lambda>m (k, v). AList.update k v m) existing status)) crd
     | _ \<Rightarrow> AList.update ''status'' (JObj status) crd)"

definition build_status :: "(gotime \<Rightarrow> string) \<Rightarrow> policy \<Rightarrow> gotime \<Rightarrow> duration \<Rightarrow> int \<Rightarrow> int \<Rightarrow> int
     \<Rightarrow> (string, int) gomap \<Rightarrow> json_obj \<Rightarrow> json_obj" where
  "build_status fmt p now interval matched deleted pending refusals crd =
     (let s0 = [(''resourcesMatched'', JInt matched), (''resourcesDeleted'', JInt deleted),
                (''resourcesPending'', JInt pending), (''lastGCRun'', JStr (fmt now))];
          (crd, s1) = apply_next_gc_run fmt p now interval (crd, s0);
          s2 = (if length refusals > 0
                then AList.update ''lastCycleRefusals'' (JObj (capped_refusals refusals)) s1 else s1);
          phase = status_phase_for p;
          s3 = AList.update ''phase'' (JStr phase) s2;
          s4 = AList.update ''conditions'' (JList (status_conditions_for phase (fmt now))) s3
      in merge_status crd s4)"

definition update_status ::
  "'w cluster \<Rightarrow> controller_config option \<Rightarrow> policy \<Rightarrow> int \<Rightarrow> int \<Rightarrow> int \<Rightarrow> (string, int) gomap
     \<Rightarrow> ('w, go_error option) prog" where
  "update_status cl cfg p matched deleted pending refusals = do {
     r \<leftarrow> ask (cl_get_crd cl (p_namespace p) (p_name p));
     case r of
       Inl e \<Rightarrow> State_Monad.return
         (Some (policy_status_error e ''status_get_failed'' ''failed to get ZenCleanerPolicy CRD'' p))
     | Inr crd \<Rightarrow> do {
         now \<leftarrow> ask (cl_now cl);
         let crd' = build_status (cl_format_time cl) p now (config_interval cfg)
                      matched deleted pending refusals crd;
         emit (Eff_Status_Update (p_namespace p) (p_name p) crd');
         oe \<leftarrow> ask (cl_update_crd_status cl (p_namespace p) (p_name p) crd');
         State_Monad.return (case oe of
             None \<Rightarrow> None
           | Some e \<Rightarrow> Some (policy_status_error e ''status_update_failed''
                                ''failed to update ZenCleanerPolicy status'' p))
       }
   }"

section \<open>A single condition\<close>

definition bool_status :: "bool \<Rightarrow> string" where
  "bool_status v = (if v then ''True'' else ''False'')"

definition has_condition_type :: "string \<Rightarrow> json \<Rightarrow> bool" where
  "has_condition_type ty c = (case c of
     JObj o' \<Rightarrow> map_of o' ''type'' = Some (JStr ty) | _ \<Rightarrow> False)"

text \<open>The loop that replaces the first condition of the type; \<open>None\<close> when there is none.\<close>

fun replace_condition :: "string \<Rightarrow> json \<Rightarrow> json list \<Rightarrow> json list option" where
  "replace_condition ty new [] = None"
| "replace_condition ty new (c # cs) =
     (if has_condition_type ty c then Some (new # cs)
      else map_option ((#) c) (replace_condition ty new cs))"

definition set_condition :: "string \<Rightarrow> json \<Rightarrow> json list \<Rightarrow> json list" where
  "set_condition ty new conds =
     (let cs = (case replace_condition ty new conds of Some cs \<Rightarrow> cs | None \<Rightarrow> conds @ [new]) in
      if length cs > 16 then drop (length cs - 16) cs else cs)"

definition condition_status :: "string \<Rightarrow> string \<Rightarrow> string \<Rightarrow> string \<Rightarrow> bool \<Rightarrow> json_obj \<Rightarrow> json_obj" where
  "condition_status now ty reason msg permanent crd =
     (let existing = (case map_of crd ''status'' of Some (JObj e) \<Rightarrow> e | _ \<Rightarrow> []);
          conds = (case map_of existing ''conditions'' of Some (JList cs) \<Rightarrow> cs | _ \<Rightarrow> []);
          st = AList.update ''conditions''
                 (JList (set_condition ty (condition_obj ty (bool_status permanent) now reason msg) conds))
                 existing;
          st = (if permanent then AList.update ''phase'' (JStr ''Error'') st else st)
      in AList.update ''status'' (JObj st) crd)"

definition update_target_condition ::
  "'w cluster \<Rightarrow> policy \<Rightarrow> string \<Rightarrow> string \<Rightarrow> string \<Rightarrow> bool \<Rightarrow> ('w, go_error option) prog" where
  "update_target_condition cl p ty reason msg permanent = do {
     r \<leftarrow> ask (cl_get_crd cl (p_namespace p) (p_name p));
     case r of
       Inl e \<Rightarrow> State_Monad.return (Some (errors_wrap (Some e) ''target_condition_get_failed''
                  ''failed to get ZenCleanerPolicy CRD''))
     | Inr crd \<Rightarrow> do {
         now \<leftarrow> ask (cl_now cl);
         let crd' = condition_status (cl_format_time cl now) ty reason msg permanent crd;
         emit (Eff_Status_Update (p_namespace p) (p_name p) crd');
         oe \<leftarrow> ask (cl_update_crd_status cl (p_namespace p) (p_name p) crd');
         State_Monad.return (case oe of
             None \<Rightarrow> None
           | Some e \<Rightarrow> Some (errors_wrap (Some e) ''target_condition_update_failed''
                                ''failed to update target condition''))
       }
   }"

text \<open>A failed write is logged only.\<close>

definition update_condition_receipt ::
  "'w cluster \<Rightarrow> reconciler \<Rightarrow> policy \<Rightarrow> string \<Rightarrow> string \<Rightarrow> string \<Rightarrow> bool \<Rightarrow> ('w, unit) prog" where
  "update_condition_receipt cl r p ty reason msg permanent =
     (if \<not> rc_status r then State_Monad.return ()
      else do {
        oe \<leftarrow> update_target_condition cl p ty reason msg permanent;
        State_Monad.return ()
      })"

fun is_status :: "effect \<Rightarrow> bool" where
  "is_status (Eff_Status_Update ns n o') = True"
| "is_status e = False"

lemma only_update_status: "only is_status (update_status cl cfg p m d q refusals)"
  unfolding update_status_def Let_def
  by (intro only_rules) (auto intro!: only_rules only_emit split: sum.split)

lemma only_update_target_condition: "only is_status (update_target_condition cl p ty reason msg permanent)"
  unfolding update_target_condition_def Let_def
  by (intro only_rules) (auto intro!: only_rules only_emit split: sum.split)

lemma only_update_condition_receipt: "only is_status (update_condition_receipt cl r p ty reason msg permanent)"
  unfolding update_condition_receipt_def
  by (intro only_rules only_update_target_condition)

section \<open>Laws\<close>

text \<open>A field of the status of the custom resource.\<close>

definition status_field :: "json_obj \<Rightarrow> string \<Rightarrow> json option" where
  "status_field crd k = (case map_of crd ''status'' of
     Some (JObj st) \<Rightarrow> map_of st k | _ \<Rightarrow> None)"

lemma status_field_merge:
  "gomap_ok status \<Longrightarrow> status_field (merge_status crd status) k =
     (case map_of status k of Some v \<Rightarrow> Some v | None \<Rightarrow> status_field crd k)"
  by (simp add: status_field_def merge_status_def update_conv' map_of_foldl_update
      map_of_rev_distinct split: option.split json.split)

lemma status_field_apply:
  "status_field (fst (apply_next_gc_run fmt p now interval (crd, status))) k =
     (if ps_paused (p_spec p) \<and> k = ''nextGCRun'' then None else status_field crd k)"
  if "\<exists>st. map_of crd ''status'' = Some (JObj st)"
  using that
  by (auto simp: status_field_def apply_next_gc_run_def update_conv' delete_conv' split: option.splits)

lemma status_field_apply_none:
  "\<nexists>st. map_of crd ''status'' = Some (JObj st) \<Longrightarrow>
     fst (apply_next_gc_run fmt p now interval (crd, status)) = crd"
  by (auto simp: apply_next_gc_run_def split: option.splits json.splits)

lemma status_field_apply_any:
  "status_field (fst (apply_next_gc_run fmt p now interval (crd, status))) k =
     (if ps_paused (p_spec p) \<and> k = ''nextGCRun'' then None else status_field crd k)"
proof (cases "\<exists>st. map_of crd ''status'' = Some (JObj st)")
  case True
  then show ?thesis by (rule status_field_apply)
next
  case False
  have "status_field crd k = None"
    using False by (auto simp: status_field_def split: option.splits json.splits)
  with status_field_apply_none [OF False] show ?thesis by simp
qed

lemma set_condition_bounded: "length (set_condition ty new conds) \<le> 16"
  by (simp add: set_condition_def Let_def)

lemma replace_condition_None: "replace_condition ty new cs = None \<longleftrightarrow> \<not> list_ex (has_condition_type ty) cs"
  by (induction cs) auto

lemma replace_condition_Some:
  "replace_condition ty new cs = Some cs' \<Longrightarrow>
     \<exists>a c b. cs = a @ c # b \<and> cs' = a @ new # b \<and> has_condition_type ty c
       \<and> \<not> list_ex (has_condition_type ty) a"
proof (induction cs arbitrary: cs')
  case Nil
  then show ?case by simp
next
  case (Cons x cs)
  show ?case
  proof (cases "has_condition_type ty x")
    case True
    with Cons.prems show ?thesis by (intro exI [of _ "[]"]) auto
  next
    case False
    with Cons.prems obtain cs'' where cs'': "replace_condition ty new cs = Some cs''" "cs' = x # cs''"
      by auto
    from Cons.IH [OF cs''(1)] obtain a c b where
      "cs = a @ c # b \<and> cs'' = a @ new # b \<and> has_condition_type ty c \<and> \<not> list_ex (has_condition_type ty) a"
      by blast
    with cs''(2) False show ?thesis
      by (intro exI [of _ "x # a"] exI [of _ c] exI [of _ b]) simp
  qed
qed

text \<open>The fields of the status that \<open>UpdateStatus\<close> writes.\<close>

lemma build_status_field:
  "status_field (build_status fmt p now interval m d q refusals crd) k =
     (if k = ''conditions'' then Some (JList (status_conditions_for (status_phase_for p) (fmt now)))
      else if k = ''phase'' then Some (JStr (status_phase_for p))
      else if k = ''lastCycleRefusals'' \<and> refusals \<noteq> [] then Some (JObj (capped_refusals refusals))
      else if k = ''nextGCRun'' then
        (if ps_paused (p_spec p) then None
         else Some (JStr (fmt (time_add now (effective_evaluation_interval (Some p) interval)))))
      else if k = ''resourcesMatched'' then Some (JInt m)
      else if k = ''resourcesDeleted'' then Some (JInt d)
      else if k = ''resourcesPending'' then Some (JInt q)
      else if k = ''lastGCRun'' then Some (JStr (fmt now))
      else status_field crd k)"
proof -
  let ?s0 = "[(''resourcesMatched'', JInt m), (''resourcesDeleted'', JInt d),
                (''resourcesPending'', JInt q), (''lastGCRun'', JStr (fmt now))]"
  obtain crd' s1 where a: "apply_next_gc_run fmt p now interval (crd, ?s0) = (crd', s1)"
    by fastforce
  have crd': "status_field crd' j = (if ps_paused (p_spec p) \<and> j = ''nextGCRun'' then None else status_field crd j)" for j
    using status_field_apply_any [of fmt p now interval crd ?s0 j] a by simp
  have s1: "s1 = (if ps_paused (p_spec p) then ?s0 else AList.update ''nextGCRun''
      (JStr (fmt (time_add now (effective_evaluation_interval (Some p) interval)))) ?s0)"
    using a by (auto simp: apply_next_gc_run_def split: option.splits json.splits if_splits)
  have ok: "gomap_ok s1"
    unfolding s1 by (simp add: gomap_ok_def)
  show ?thesis
    unfolding build_status_def Let_def a prod.case
    by (subst status_field_merge) (use ok in simp, simp add: crd' s1 update_conv')
qed

section \<open>Properties\<close>

text \<open>The status is truthful about the schedule: after a status write the next run of an
  active policy is promised for now plus exactly the interval the reconciler requeues with
  (the policy's own when it is positive, the controller's otherwise), a paused policy has
  no promise, and the counters are those of the evaluation.\<close>

theorem next_run_matches_requeue:
  "let crd' = build_status fmt p now (config_interval (rc_config r)) m d q refusals crd in
     status_field crd' ''nextGCRun'' =
       (if ps_paused (p_spec p) then None
        else Some (JStr (fmt (time_add now (get_requeue_interval_for_policy r p))))) \<and>
     status_field crd' ''resourcesMatched'' = Some (JInt m) \<and>
     status_field crd' ''resourcesDeleted'' = Some (JInt d) \<and>
     status_field crd' ''resourcesPending'' = Some (JInt q)"
  by (simp add: build_status_field get_requeue_interval_for_policy_def)

text \<open>A status write is never repeated: the same evaluation a tick of the formatted clock later
  writes another document, so each one changes the object the controller watches.\<close>

theorem status_write_moves:
  assumes "fmt now' \<noteq> fmt now"
  shows "build_status fmt p now' interval m d q refusals (build_status fmt p now interval m d q refusals crd) \<noteq>
     build_status fmt p now interval m d q refusals crd"
proof
  assume "build_status fmt p now' interval m d q refusals (build_status fmt p now interval m d q refusals crd) =
     build_status fmt p now interval m d q refusals crd"
  from arg_cong [OF this, of "\<lambda>crd. status_field crd ''lastGCRun''"] assms show False
    by (simp add: build_status_field)
qed

theorem status_write_moves_witness:
  "build_status show_int ex_policy 1 60 0 0 0 [] (build_status show_int ex_policy 0 60 0 0 0 [] []) \<noteq>
     build_status show_int ex_policy 0 60 0 0 0 [] []"
  by (rule status_write_moves) code_simp

text \<open>Three things a status write does to the earlier status: the refusals of an earlier
  cycle stay when this cycle refused nothing, although the field is documented as the most
  recent cycle's; an Error phase stays Error with Ready False after every successful
  evaluation; and all conditions of other types (TargetReady, PolicyDrifted) are dropped.\<close>

theorem status_write_keeps_and_drops:
  "status_field (build_status fmt p now interval m d q [] crd) ''lastCycleRefusals'' =
     status_field crd ''lastCycleRefusals'' \<and>
   (st_phase (p_status p) = ''Error'' \<longrightarrow>
     status_field (build_status fmt p now interval m d q refusals crd) ''phase'' = Some (JStr ''Error'')) \<and>
   (\<forall>cs c. status_field (build_status fmt p now interval m d q refusals crd) ''conditions'' = Some (JList cs) \<longrightarrow>
      c \<in> set cs \<longrightarrow> has_condition_type ''Ready'' c \<or> has_condition_type ''Error'' c)"
  by (auto simp: build_status_field status_phase_for_def status_conditions_for_def has_condition_type_def
      condition_obj_def split: if_splits)

theorem status_write_keeps_and_drops_witness:
  "status_field (build_status show_int (ex_policy\<lparr>p_status := ex_status\<lparr>st_phase := ''Error''\<rparr>\<rparr>)
     0 60 0 0 0 [] []) ''phase'' = Some (JStr ''Error'')"
  using status_write_keeps_and_drops [where fmt = show_int and now = 0 and interval = 60 and m = 0
      and d = 0 and q = 0 and crd = "[]" and refusals = "[]"
      and p = "ex_policy\<lparr>p_status := ex_status\<lparr>st_phase := ''Error''\<rparr>\<rparr>"]
  by simp

text \<open>C38. Recording a condition is bounded and local: the list never exceeds sixteen entries; a
  condition of the same type is replaced in place and every other one kept in its order, and
  a new type is appended, dropping the oldest only beyond sixteen.\<close>

theorem set_condition_law:
  "length (set_condition ty new conds) \<le> 16 \<and>
   (length conds \<le> 16 \<longrightarrow> list_ex (has_condition_type ty) conds \<longrightarrow>
      (\<exists>a c b. conds = a @ c # b \<and> has_condition_type ty c \<and> \<not> list_ex (has_condition_type ty) a \<and>
         set_condition ty new conds = a @ new # b)) \<and>
   (\<not> list_ex (has_condition_type ty) conds \<longrightarrow>
      set_condition ty new conds = drop (length conds + 1 - 16) (conds @ [new]))"
proof (intro conjI impI)
  show "length (set_condition ty new conds) \<le> 16"
    by (rule set_condition_bounded)
next
  assume len: "length conds \<le> 16" and ex: "list_ex (has_condition_type ty) conds"
  then obtain cs where cs: "replace_condition ty new conds = Some cs"
    using replace_condition_None by (metis option.exhaust)
  from replace_condition_Some [OF cs] obtain a c b where abc:
    "conds = a @ c # b" "cs = a @ new # b" "has_condition_type ty c" "\<not> list_ex (has_condition_type ty) a"
    by blast
  with cs len have "set_condition ty new conds = a @ new # b"
    by (simp add: set_condition_def)
  with abc show "\<exists>a c b. conds = a @ c # b \<and> has_condition_type ty c \<and>
      \<not> list_ex (has_condition_type ty) a \<and> set_condition ty new conds = a @ new # b"
    by blast
next
  assume "\<not> list_ex (has_condition_type ty) conds"
  then have "replace_condition ty new conds = None"
    by (simp add: replace_condition_None)
  then show "set_condition ty new conds = drop (length conds + 1 - 16) (conds @ [new])"
    by (auto simp: set_condition_def Let_def)
qed

theorem set_condition_law_witness:
  "set_condition ''Ready'' (JStr ''new'') [condition_obj ''Ready'' ''True'' [] [] []] = [JStr ''new'']"
  using set_condition_law [of "''Ready''" "JStr ''new''" "[condition_obj ''Ready'' ''True'' [] [] []]"]
  by (auto simp: has_condition_type_def condition_obj_def Cons_eq_append_conv)

end
