(* ===== verification/Target_Capability.thy ===== *)
theory Target_Capability
  imports Status
begin

text \<open>
  The capability gate of \<open>pkg/controller/target_capability.go\<close>: before an informer is
  created the target is classified (malformed, API not served, resource not discoverable,
  access denied, unavailable) by discovery and a one-object list; grants are cached, failures
  are counted for the backoff and shown as a condition of the policy.

  The resources discovery lists are pairs of a kind and a resource name.
\<close>

section \<open>Errors\<close>

text \<open>\<open>ConditionReason\<close> and \<open>Retryable\<close> of a \<open>*TargetCapabilityError\<close>.\<close>

fun condition_reason :: "go_error \<Rightarrow> string" where
  "condition_reason (Target_Error ty gvk detail) = target_type_string ty"
| "condition_reason e = []"

fun target_retryable :: "go_error \<Rightarrow> bool" where
  "target_retryable (Target_Error ty gvk detail) = (ty = TargetTemporarilyUnavailable)"
| "target_retryable e = False"

definition classify_discovery_error :: "go_error \<Rightarrow> gvk \<Rightarrow> target_error_type \<times> string" where
  "classify_discovery_error e k =
     (if api_is Api_NotFound e
      then (TargetAPINotFound, ''API group/version '' @ go_quote (gvk_group k @ ''/'' @ gvk_version k)
              @ '' is not served by this cluster'')
      else (TargetTemporarilyUnavailable, ''discovery failed: '' @ error_string e))"

definition classify_list_error ::
  "(gvr \<Rightarrow> string) \<Rightarrow> go_error \<Rightarrow> gvr \<Rightarrow> string \<Rightarrow> target_error_type \<times> string" where
  "classify_list_error gvr_string e g ns =
     (if api_is Api_Forbidden e then
        (TargetAccessDenied, ''list of '' @ gvr_string g @ '' in namespace '' @ go_quote ns
           @ '' is forbidden for the configured identity'')
      else if api_is Api_NotFound e then
        (TargetResourceNotDiscoverable, ''resource '' @ gvr_string g @ '' not found'')
      else if api_is Api_ServiceUnavailable e \<or> api_is Api_Timeout e \<or> api_is Api_TooManyRequests e then
        (TargetTemporarilyUnavailable, ''API temporarily unavailable: '' @ error_string e)
      else if contains (to_lower (error_string e)) ''connection refused''
              \<or> contains (to_lower (error_string e)) ''timeout'' then
        (TargetTemporarilyUnavailable, ''API temporarily unavailable: '' @ error_string e)
      else (TargetTemporarilyUnavailable, ''list probe failed: '' @ error_string e))"

section \<open>The probe\<close>

definition targetProbeCacheTTL :: duration where "targetProbeCacheTTL = 5 * Minute"

definition probe_key :: "string \<Rightarrow> string \<Rightarrow> string" where
  "probe_key gvk ns = gvk @ ''|'' @ ns"

definition record_probe :: "string \<Rightarrow> string \<Rightarrow> target_error_type \<Rightarrow> string \<Rightarrow> go_error option" where
  "record_probe gvk ns class detail = Some (Target_Error class gvk detail)"

definition record_probe_granted ::
  "'w cluster \<Rightarrow> string \<Rightarrow> string \<Rightarrow> ('w, go_error option) prog" where
  "record_probe_granted cl gvk ns = do {
     now \<leftarrow> ask (cl_now cl);
     modify (\<lambda>s. s\<lparr>sy_probes := AList.update (probe_key gvk ns)
        \<lparr>pe_granted = True, pe_class = TargetAPINotFound, pe_detail = [], pe_checked_at = now\<rparr>
        (sy_probes s)\<rparr>);
     State_Monad.return None
   }"

definition target_gvk :: "policy \<Rightarrow> gvk" where
  "target_gvk p = \<lparr>gvk_group = group_of (tr_api_version (p_target p)),
     gvk_version = version_of (tr_api_version (p_target p)), gvk_kind = tr_kind (p_target p)\<rparr>"

definition target_gvk_string :: "policy \<Rightarrow> string" where
  "target_gvk_string p = gvk_group (target_gvk p) @ ''/'' @ gvk_kind (target_gvk p)"

definition target_malformed :: "policy \<Rightarrow> bool" where
  "target_malformed p \<longleftrightarrow> trim_space (tr_api_version (p_target p)) = []
     \<or> trim_space (tr_kind (p_target p)) = [] \<or> gvk_version (target_gvk p) = []"

text \<open>The loop over \<open>gvList.APIResources\<close>.\<close>

fun find_resource :: "string \<Rightarrow> (string \<times> string) list \<Rightarrow> string option" where
  "find_resource kind [] = None"
| "find_resource kind ((k, name) # rest) =
     (if equal_fold k kind \<and> \<not> contains name ''/'' then Some name else find_resource kind rest)"

text \<open>Steps 1 and 2, discovery: the resource name, or the classified failure.\<close>

definition discover_target :: "'w cluster \<Rightarrow> policy \<Rightarrow> ('w, go_error + string) prog" where
  "discover_target cl p =
     (let k = target_gvk p; ks = target_gvk_string p in
      case cl_discovery cl of
        None \<Rightarrow> State_Monad.return (Inr (plural_for_kind (gvk_kind k)))
      | Some discover \<Rightarrow> do {
          let gv = cl_gv_string cl (gvk_group k) (gvk_version k);
          emit (Eff_Discovery gv);
          r \<leftarrow> ask (discover gv);
          State_Monad.return (case r of
              Inl e \<Rightarrow> (case classify_discovery_error e k of
                  (class, detail) \<Rightarrow> Inl (Target_Error class ks detail))
            | Inr (served, resources) \<Rightarrow>
                (case find_resource (gvk_kind k) resources of
                   Some name \<Rightarrow> Inr name
                 | None \<Rightarrow> Inl (Target_Error TargetResourceNotDiscoverable ks
                     (''kind '' @ go_quote (gvk_kind k) @ '' is not served by group/version ''
                      @ go_quote served))))
        })"

text \<open>Step 3, the list probe: in the API both \<open>NamespaceAll\<close> and the empty namespace list all.\<close>

definition list_probe :: "'w cluster \<Rightarrow> policy \<Rightarrow> string \<Rightarrow> ('w, go_error option) prog" where
  "list_probe cl p plural =
     (let k = target_gvk p; ks = target_gvk_string p;
          g = \<lparr>gvr_group = gvk_group k, gvr_version = gvk_version k, gvr_resource = plural\<rparr>;
          ns = normalize_namespace (tr_namespace (p_target p));
          scope = (if ns = [] \<or> ns = ''*'' then [] else ns) in do {
        emit (Eff_List g scope);
        oe \<leftarrow> ask (cl_list cl g scope);
        case oe of
          Some e \<Rightarrow> (case classify_list_error (cl_gvr_string cl) e g ns of
              (class, detail) \<Rightarrow> State_Monad.return (record_probe ks ns class detail))
        | None \<Rightarrow> record_probe_granted cl ks ns
      })"

definition probe_target :: "'w cluster \<Rightarrow> policy \<Rightarrow> ('w, go_error option) prog" where
  "probe_target cl p = do {
     r \<leftarrow> discover_target cl p;
     case r of
       Inl e \<Rightarrow> State_Monad.return (Some e)
     | Inr plural \<Rightarrow> list_probe cl p plural
   }"

definition validate_target_capability :: "'w cluster \<Rightarrow> policy \<Rightarrow> ('w, go_error option) prog" where
  "validate_target_capability cl p =
     (let ks = target_gvk_string p in
      if target_malformed p then
        State_Monad.return (Some (Target_Error TargetConfigurationInvalid ks
          (''apiVersion '' @ go_quote (tr_api_version (p_target p)) @ '' / kind ''
           @ go_quote (tr_kind (p_target p)) @ '' is malformed'')))
      else do {
        probes \<leftarrow> gets sy_probes;
        case map_of probes (probe_key ks (tr_namespace (p_target p))) of
          None \<Rightarrow> probe_target cl p
        | Some entry \<Rightarrow> do {
            now \<leftarrow> ask (cl_now cl);
            if sint (time_sub now (pe_checked_at entry)) < sint targetProbeCacheTTL then
              State_Monad.return (if pe_granted entry then None
                else Some (Target_Error (pe_class entry) ks (pe_detail entry)))
            else probe_target cl p
          }
      })"

section \<open>Failures and conditions\<close>

definition record_target_failure :: "string \<Rightarrow> ('w, int) prog" where
  "record_target_failure uid = do {
     modify (\<lambda>s. s\<lparr>sy_failures := bump uid (sy_failures s)\<rparr>);
     gets (\<lambda>s. case map_of (sy_failures s) uid of Some n \<Rightarrow> n | None \<Rightarrow> 0)
   }"

definition clear_target_failure :: "string \<Rightarrow> ('w, unit) prog" where
  "clear_target_failure uid = modify (\<lambda>s. s\<lparr>sy_failures := AList.delete uid (sy_failures s)\<rparr>)"

definition target_failure_count :: "string \<Rightarrow> ('w, int) prog" where
  "target_failure_count uid = gets (\<lambda>s. case map_of (sy_failures s) uid of Some n \<Rightarrow> n | None \<Rightarrow> 0)"

definition truncate_condition_message :: "string \<Rightarrow> string" where
  "truncate_condition_message msg = (if length msg \<le> 512 then msg else take 512 msg)"

text \<open>The second parameter of the recorded error is its class and detail; \<open>None\<close> is nil.\<close>

definition reconcile_target_condition ::
  "'w cluster \<Rightarrow> reconciler \<Rightarrow> policy \<Rightarrow> (target_error_type \<times> string) option \<Rightarrow> ('w, unit) prog" where
  "reconcile_target_condition cl r p tc =
     (if \<not> rc_status r then State_Monad.return ()
      else (case tc of
          None \<Rightarrow> update_condition_receipt cl r p ''TargetReady'' ''TargetAvailable''
                    ''target API/resource is served and listable'' False
        | Some (class, detail) \<Rightarrow>
            update_condition_receipt cl r p ''TargetReady'' (target_type_string class)
              (truncate_condition_message detail) (class = TargetConfigurationInvalid)))"

definition capability_failure :: "policy \<Rightarrow> go_error \<Rightarrow> string \<Rightarrow> string \<Rightarrow> int \<Rightarrow> go_error" where
  "capability_failure p tc class gvk cnt =
     ce_with_context (ce_with_context (ce_with_context
       (errors_wrap (Some tc) class (''target capability validation failed (attempt '' @ show_int cnt
          @ '', next retry in '' @ duration_string (target_backoff_for cnt) @ '')''))
       ''policy_namespace'' (p_namespace p)) ''policy_name'' (p_name p)) ''target'' gvk"

definition validate_target_or_classify ::
  "'w cluster \<Rightarrow> reconciler \<Rightarrow> policy \<Rightarrow> ('w, go_error option) prog" where
  "validate_target_or_classify cl r p = do {
     oe \<leftarrow> validate_target_capability cl p;
     case oe of
       None \<Rightarrow> do {
         clear_target_failure (p_uid p);
         reconcile_target_condition cl r p None;
         State_Monad.return None
       }
     | Some e \<Rightarrow>
         (let (class, gvk, detail) = (case e of
                Target_Error class gvk detail \<Rightarrow> (class, gvk, detail)
              | _ \<Rightarrow> (TargetTemporarilyUnavailable, [], error_string e)) in do {
            reconcile_target_condition cl r p (Some (class, detail));
            cnt \<leftarrow> record_target_failure (p_uid p);
            State_Monad.return (Some (capability_failure p (Target_Error class gvk detail)
              (target_type_string class) gvk cnt))
          })
   }"

section \<open>Laws\<close>

fun is_probe :: "effect \<Rightarrow> bool" where
  "is_probe (Eff_Discovery gv) = True"
| "is_probe (Eff_List g ns) = True"
| "is_probe e = False"

lemma only_probe_granted: "only E (record_probe_granted cl gvk ns)"
  unfolding record_probe_granted_def
  by (intro only_rules only_modify) simp

lemma only_discover: "only is_probe (discover_target cl p)"
  unfolding discover_target_def Let_def
  by (auto intro!: only_rules only_emit split: option.split)

lemma only_list_probe: "only is_probe (list_probe cl p plural)"
  unfolding list_probe_def Let_def
  by (intro only_rules) (auto intro!: only_rules only_emit only_probe_granted split: option.split prod.split)

lemma only_probe_target: "only is_probe (probe_target cl p)"
  unfolding probe_target_def
  by (intro only_rules only_discover) (auto intro!: only_rules only_list_probe split: sum.split)

lemma only_validate: "only is_probe (validate_target_capability cl p)"
  unfolding validate_target_capability_def Let_def
  by (auto intro!: only_rules only_probe_target split: option.split)

lemma keeps_status_write:
  "(\<And>s w. f (s\<lparr>sy_env := w\<rparr>) = f s) \<Longrightarrow> (\<And>s t. f (s\<lparr>sy_trace := t\<rparr>) = f s) \<Longrightarrow>
     keeps f (update_condition_receipt cl r p ty reason msg permanent)"
  unfolding update_condition_receipt_def update_target_condition_def Let_def
  by (auto intro!: keeps_rules keeps_ask keeps_emit split: sum.split)

lemma keeps_condition:
  "(\<And>s w. f (s\<lparr>sy_env := w\<rparr>) = f s) \<Longrightarrow> (\<And>s t. f (s\<lparr>sy_trace := t\<rparr>) = f s) \<Longrightarrow>
     keeps f (reconcile_target_condition cl r p tc)"
  unfolding reconcile_target_condition_def
  by (auto intro!: keeps_rules keeps_status_write split: option.split prod.split)

text \<open>The discovery step by cases.\<close>

lemma run_discover:
  assumes "run_state (discover_target cl p) s = (r, s')"
  shows "sy_probes s' = sy_probes s" "sy_failures s' = sy_failures s"
    "cl_discovery cl = None \<Longrightarrow> r = Inr (plural_for_kind (gvk_kind (target_gvk p))) \<and> s' = s"
    "cl_discovery cl = Some d \<Longrightarrow> sy_trace s' = sy_trace s @
        [Eff_Discovery (cl_gv_string cl (gvk_group (target_gvk p)) (gvk_version (target_gvk p)))]"
    "cl_discovery cl = Some d \<Longrightarrow> r = Inr name \<Longrightarrow> \<exists>w served rs w'.
        d (cl_gv_string cl (gvk_group (target_gvk p)) (gvk_version (target_gvk p))) w = (Inr (served, rs), w')
        \<and> find_resource (gvk_kind (target_gvk p)) rs = Some name"
    "r = Inl e \<Longrightarrow> cl_discovery cl \<noteq> None \<and> (\<exists>class detail. e = Target_Error class (target_gvk_string p) detail)"
  using assms
  by (auto simp: discover_target_def Let_def case_prod_beta
      split: option.splits sum.splits prod.splits intro!: exI prod_eqI)

definition target_scope :: "policy \<Rightarrow> string" where
  "target_scope p = normalize_namespace (tr_namespace (p_target p))"

definition target_gvr :: "policy \<Rightarrow> string \<Rightarrow> gvr" where
  "target_gvr p plural = \<lparr>gvr_group = gvk_group (target_gvk p),
     gvr_version = gvk_version (target_gvk p), gvr_resource = plural\<rparr>"

definition granted_at :: "gotime \<Rightarrow> probe_entry" where
  "granted_at now = \<lparr>pe_granted = True, pe_class = TargetAPINotFound, pe_detail = [], pe_checked_at = now\<rparr>"

lemma scope_not_star: "target_scope p \<noteq> ''*''"
  by (simp add: target_scope_def normalize_namespace_def Let_def)

lemma list_probe_eq:
  "list_probe cl p plural = do {
     emit (Eff_List (target_gvr p plural) (target_scope p));
     oe \<leftarrow> ask (cl_list cl (target_gvr p plural) (target_scope p));
     case oe of
       Some e \<Rightarrow> (case classify_list_error (cl_gvr_string cl) e (target_gvr p plural) (target_scope p) of
           (class, detail) \<Rightarrow> State_Monad.return (record_probe (target_gvk_string p) (target_scope p) class detail))
     | None \<Rightarrow> record_probe_granted cl (target_gvk_string p) (target_scope p)
   }"
proof -
  have "(if target_scope p = [] \<or> target_scope p = ''*'' then [] else target_scope p) = target_scope p"
    using scope_not_star [of p] by simp
  then show ?thesis
    unfolding list_probe_def Let_def target_gvr_def [symmetric] target_scope_def [symmetric] by simp
qed

lemma run_list_probe:
  assumes "run_state (list_probe cl p plural) s = (r, s')"
  shows "sy_trace s' = sy_trace s @ [Eff_List (target_gvr p plural) (target_scope p)]"
    "sy_failures s' = sy_failures s"
    "r = None \<Longrightarrow> (\<exists>w w'. cl_list cl (target_gvr p plural) (target_scope p) w = (None, w')) \<and>
       (\<exists>now. sy_probes s' = AList.update (probe_key (target_gvk_string p) (target_scope p))
          (granted_at now) (sy_probes s))"
    "r = Some e \<Longrightarrow> sy_probes s' = sy_probes s \<and> (\<exists>class detail. e = Target_Error class (target_gvk_string p) detail)"
proof -
  obtain oe w where l: "cl_list cl (target_gvr p plural) (target_scope p) (sy_env s) = (oe, w)"
    by fastforce
  note defs = list_probe_eq case_prod_beta record_probe_def record_probe_granted_def granted_at_def
  from assms l show "sy_trace s' = sy_trace s @ [Eff_List (target_gvr p plural) (target_scope p)]"
    "sy_failures s' = sy_failures s"
    by (auto simp: defs split: option.splits)
  from assms l show "r = None \<Longrightarrow> (\<exists>w w'. cl_list cl (target_gvr p plural) (target_scope p) w = (None, w')) \<and>
       (\<exists>now. sy_probes s' = AList.update (probe_key (target_gvk_string p) (target_scope p))
          (granted_at now) (sy_probes s))"
    by (auto simp: defs split: option.splits)
  from assms l show "r = Some e \<Longrightarrow> sy_probes s' = sy_probes s \<and>
      (\<exists>class detail. e = Target_Error class (target_gvk_string p) detail)"
    by (auto simp: defs split: option.splits)
qed

definition probed :: "effect list \<Rightarrow> effect list \<Rightarrow> bool" where
  "probed t t' \<longleftrightarrow> (\<exists>es. t' = t @ es \<and> es \<noteq> [] \<and> list_all is_probe es)"

text \<open>A permitted list of the target, with a name discovery serves when there is discovery.\<close>

definition listable :: "'w cluster \<Rightarrow> policy \<Rightarrow> string \<Rightarrow> bool" where
  "listable cl p plural \<longleftrightarrow>
     (\<exists>w w'. cl_list cl (target_gvr p plural) (target_scope p) w = (None, w')) \<and>
     (case cl_discovery cl of
        None \<Rightarrow> plural = plural_for_kind (gvk_kind (target_gvk p))
      | Some d \<Rightarrow> \<exists>w served rs w'.
          d (cl_gv_string cl (gvk_group (target_gvk p)) (gvk_version (target_gvk p))) w = (Inr (served, rs), w')
          \<and> find_resource (gvk_kind (target_gvk p)) rs = Some plural)"

lemma probe_target_step:
  assumes "run_state (discover_target cl p) s = (d, s1)"
  shows "run_state (probe_target cl p) s = (case d of Inl e \<Rightarrow> (Some e, s1)
      | Inr plural \<Rightarrow> run_state (list_probe cl p plural) s1)"
  by (simp add: probe_target_def assms split: sum.split)

lemma probe_target_probed:
  assumes "run_state (probe_target cl p) s = (r, s')"
  shows "probed (sy_trace s) (sy_trace s')"
proof -
  obtain d s1 where d: "run_state (discover_target cl p) s = (d, s1)"
    by (cases "run_state (discover_target cl p) s")
  note step = probe_target_step [OF d] and D = run_discover [OF d]
  obtain es where es: "sy_trace s1 = sy_trace s @ es" "list_all is_probe es"
    using onlyD [OF only_discover d] by (auto simp: list_all_iff)
  show ?thesis
  proof (cases d)
    case (Inl e)
    moreover have "es \<noteq> []" if "cl_discovery cl \<noteq> None"
      using D(4) es that by fastforce
    ultimately show ?thesis
      using assms step es D(6) [OF Inl] unfolding probed_def by fastforce
  next
    case (Inr plural)
    with assms step have "run_state (list_probe cl p plural) s1 = (r, s')" by simp
    from run_list_probe(1) [OF this] es show ?thesis unfolding probed_def
      by (intro exI [of _ "es @ [Eff_List (target_gvr p plural) (target_scope p)]"]) simp
  qed
qed

lemma run_probe_target:
  assumes "run_state (probe_target cl p) s = (r, s')"
  shows "probed (sy_trace s) (sy_trace s')" "sy_failures s' = sy_failures s"
    "r = None \<Longrightarrow> (\<exists>plural. listable cl p plural \<and>
         (\<exists>es. sy_trace s' = es @ [Eff_List (target_gvr p plural) (target_scope p)])) \<and>
       (\<exists>now. sy_probes s' = AList.update (probe_key (target_gvk_string p) (target_scope p))
          (granted_at now) (sy_probes s))"
    "r = Some e \<Longrightarrow> sy_probes s' = sy_probes s \<and> (\<exists>class detail. e = Target_Error class (target_gvk_string p) detail)"
proof -
  obtain d s1 where d: "run_state (discover_target cl p) s = (d, s1)"
    by (cases "run_state (discover_target cl p) s")
  note step = probe_target_step [OF d] and D = run_discover [OF d]
  show "probed (sy_trace s) (sy_trace s')"
    by (rule probe_target_probed [OF assms])
  show "sy_failures s' = sy_failures s"
    using assms step D(2) by (auto split: sum.splits dest: run_list_probe(2))
  show "r = None \<Longrightarrow> (\<exists>plural. listable cl p plural \<and>
         (\<exists>es. sy_trace s' = es @ [Eff_List (target_gvr p plural) (target_scope p)])) \<and>
       (\<exists>now. sy_probes s' = AList.update (probe_key (target_gvk_string p) (target_scope p))
          (granted_at now) (sy_probes s))"
  proof -
    assume r: "r = None"
    with assms step obtain plural where Inr: "d = Inr plural"
      and l: "run_state (list_probe cl p plural) s1 = (None, s')"
      by (cases d) auto
    have "listable cl p plural"
      unfolding listable_def
      using run_list_probe(3) [OF l refl] D(3,5) Inr by (auto split: option.split)
    with run_list_probe(1) [OF l] run_list_probe(3) [OF l refl] D(1) show ?thesis by auto
  qed
  show "r = Some e \<Longrightarrow> sy_probes s' = sy_probes s \<and> (\<exists>class detail. e = Target_Error class (target_gvk_string p) detail)"
  proof -
    assume r: "r = Some e"
    show ?thesis
    proof (cases d)
      case (Inl e')
      with assms step r D(1) D(6) [OF Inl] show ?thesis by auto
    next
      case (Inr plural)
      with assms step r have "run_state (list_probe cl p plural) s1 = (Some e, s')" by simp
      from run_list_probe(4) [OF this refl] D(1) show ?thesis by simp
    qed
  qed
qed

text \<open>The cache holds grants only.\<close>

definition grants_only :: "'w sys \<Rightarrow> bool" where
  "grants_only s \<longleftrightarrow> (\<forall>k e. map_of (sy_probes s) k = Some e \<longrightarrow> pe_granted e)"

definition fresh_grant :: "'w cluster \<Rightarrow> policy \<Rightarrow> 'w sys \<Rightarrow> bool" where
  "fresh_grant cl p s \<longleftrightarrow> (\<exists>entry.
     map_of (sy_probes s) (probe_key (target_gvk_string p) (tr_namespace (p_target p))) = Some entry
     \<and> pe_granted entry
     \<and> sint (time_sub (fst (cl_now cl (sy_env s))) (pe_checked_at entry)) < sint targetProbeCacheTTL)"

lemma run_validate:
  assumes "run_state (validate_target_capability cl p) s = (r, s')"
  obtains (malformed) detail where "target_malformed p" "s' = s"
      "r = Some (Target_Error TargetConfigurationInvalid (target_gvk_string p) detail)"
  | (cached) entry where "\<not> target_malformed p"
      "map_of (sy_probes s) (probe_key (target_gvk_string p) (tr_namespace (p_target p))) = Some entry"
      "sint (time_sub (fst (cl_now cl (sy_env s))) (pe_checked_at entry)) < sint targetProbeCacheTTL"
      "r = (if pe_granted entry then None
         else Some (Target_Error (pe_class entry) (target_gvk_string p) (pe_detail entry)))"
      "sy_probes s' = sy_probes s" "sy_failures s' = sy_failures s" "sy_trace s' = sy_trace s"
  | (probe) w where "\<not> target_malformed p"
      "run_state (probe_target cl p) (s\<lparr>sy_env := w\<rparr>) = (r, s')"
proof (cases "target_malformed p")
  case True
  with assms malformed show thesis
    by (auto simp: validate_target_capability_def Let_def)
next
  case False
  let ?key = "probe_key (target_gvk_string p) (tr_namespace (p_target p))"
  show thesis
  proof (cases "map_of (sy_probes s) ?key")
    case None
    with False assms probe [of "sy_env s"] show thesis
      by (simp add: validate_target_capability_def Let_def)
  next
    case (Some entry)
    show thesis
    proof (cases "sint (time_sub (fst (cl_now cl (sy_env s))) (pe_checked_at entry)) < sint targetProbeCacheTTL")
      case True
      with False Some assms show thesis
        by (intro cached) (auto simp: validate_target_capability_def Let_def)
    next
      case no: False
      with False Some assms probe show thesis
        by (simp add: validate_target_capability_def Let_def)
    qed
  qed
qed

lemma validate_error_form:
  assumes "run_state (validate_target_capability cl p) s = (Some e, s')"
  shows "\<exists>class detail. e = Target_Error class (target_gvk_string p) detail"
  using assms
proof (cases rule: run_validate)
  case (probe w)
  from run_probe_target(4) [OF probe(2) refl] show ?thesis by blast
qed (auto split: if_splits)

lemma keeps_failures_validate: "keeps sy_failures (validate_target_capability cl p)"
  unfolding keeps_def
proof
  fix s :: "'a sys"
  obtain r s' where "run_state (validate_target_capability cl p) s = (r, s')"
    by (cases "run_state (validate_target_capability cl p) s")
  moreover from this have "sy_failures s' = sy_failures s"
    by (cases rule: run_validate) (auto dest: run_probe_target(2))
  ultimately show "sy_failures (snd (run_state (validate_target_capability cl p) s)) = sy_failures s"
    by simp
qed

lemma capability_failure_law:
  "let (oe, s1) = run_state (validate_target_capability cl p) s;
       (r, s') = run_state (validate_target_or_classify cl rc p) s;
       n = (case map_of (sy_failures s) (p_uid p) of Some n \<Rightarrow> n + 1 | None \<Rightarrow> 1) in
     (case oe of
        None \<Rightarrow> r = None \<and> map_of (sy_failures s') (p_uid p) = None
      | Some e \<Rightarrow> map_of (sy_failures s') (p_uid p) = Some n \<and>
          (\<exists>e'. r = Some e' \<and> errors_unwrap e' = Some e \<and>
             ce_get_context e' ''policy_namespace'' = p_namespace p \<and>
             ce_get_context e' ''policy_name'' = p_name p \<and>
             error_string e' = ''target capability validation failed (attempt '' @ show_int n @
               '', next retry in '' @ duration_string (target_backoff_for n) @ ''): '' @ error_string e)) \<and>
     (\<forall>uid. uid \<noteq> p_uid p \<longrightarrow> map_of (sy_failures s') uid = map_of (sy_failures s) uid)"
proof -
  obtain oe s1 where v: "run_state (validate_target_capability cl p) s = (oe, s1)"
    by (cases "run_state (validate_target_capability cl p) s")
  have f1: "sy_failures s1 = sy_failures s"
    using keepsD [OF keeps_failures_validate v] .
  have cond: "keeps sy_failures (reconcile_target_condition cl rc p tc)" for tc
    by (rule keeps_condition) simp_all
  show ?thesis
  proof (cases oe)
    case None
    then have "run_state (validate_target_or_classify cl rc p) s =
        (None, snd (run_state (reconcile_target_condition cl rc p None)
          (s1\<lparr>sy_failures := AList.delete (p_uid p) (sy_failures s1)\<rparr>)))"
      by (simp add: validate_target_or_classify_def v clear_target_failure_def case_prod_beta)
    with None v f1 cond [of None] show ?thesis
      by (simp add: keeps_def delete_conv')
  next
    case (Some e)
    with v validate_error_form obtain cls detail where
      e: "e = Target_Error cls (target_gvk_string p) detail" by blast
    let ?s2 = "snd (run_state (reconcile_target_condition cl rc p (Some (cls, detail))) s1)"
    have f2: "sy_failures ?s2 = sy_failures s"
      using cond f1 by (simp add: keeps_def)
    let ?n = "case map_of (sy_failures s) (p_uid p) of Some n \<Rightarrow> n + 1 | None \<Rightarrow> 1"
    have "run_state (validate_target_or_classify cl rc p) s =
        (Some (capability_failure p e (target_type_string cls) (target_gvk_string p) ?n),
         ?s2\<lparr>sy_failures := bump (p_uid p) (sy_failures s)\<rparr>)"
      using f2 by (simp add: validate_target_or_classify_def v Some e record_target_failure_def
          case_prod_beta map_of_bump split: option.split)
    with Some v show ?thesis
      by (simp add: map_of_bump capability_failure_def errors_wrap_def lookup_str_def
          split: option.split)
  qed
qed

section \<open>Properties\<close>



text \<open>Recovery needs no operator: the cache only ever holds grants, so a failure other than
  a malformed target is never answered from memory: every failing check has asked the API
  server again and leaves the cache as it was.\<close>

theorem failures_always_probe_again:
  assumes "grants_only s" "run_state (validate_target_capability cl p) s = (r, s')"
  shows "grants_only s' \<and>
    (\<forall>e. r = Some e \<longrightarrow> sy_probes s' = sy_probes s \<and>
       (if target_malformed p then s' = s else probed (sy_trace s) (sy_trace s')))"
  using assms(2)
proof (cases rule: run_validate)
  case (malformed detail)
  with assms(1) show ?thesis by simp
next
  case (cached entry)
  with assms(1) show ?thesis by (auto simp: grants_only_def split: if_splits)
next
  case (probe w)
  note P = run_probe_target [OF probe(2)]
  have "grants_only s'"
  proof (cases r)
    case None
    with P(3) assms(1) show ?thesis
      by (auto simp: grants_only_def update_conv' granted_at_def split: if_splits)
  next
    case (Some e)
    with P(4) assms(1) show ?thesis by (simp add: grants_only_def)
  qed
  with P probe(1) show ?thesis by simp
qed

theorem failures_always_probe_again_witness:
  "let p = ex_policy\<lparr>p_spec := ex_spec\<lparr>ps_target := ex_target\<lparr>tr_kind := []\<rparr>\<rparr>\<rparr> in
     \<exists>e. fst (run_state (validate_target_capability ex_cluster p) ex_sys) = Some e
       \<and> snd (run_state (validate_target_capability ex_cluster p) ex_sys) = ex_sys"
proof -
  define p where "p = ex_policy\<lparr>p_spec := ex_spec\<lparr>ps_target := ex_target\<lparr>tr_kind := []\<rparr>\<rparr>\<rparr>"
  have m: "target_malformed p"
    by (simp add: p_def target_malformed_def)
  obtain r s' where r: "run_state (validate_target_capability ex_cluster p) ex_sys = (r, s')"
    by (cases "run_state (validate_target_capability ex_cluster p) ex_sys")
  have "grants_only ex_sys"
    by (simp add: grants_only_def ex_sys_def)
  from failures_always_probe_again [OF this r] m have "\<forall>e. r = Some e \<longrightarrow> s' = ex_sys"
    by simp
  moreover have "\<exists>e. r = Some e"
    using r m by (auto simp: validate_target_capability_def Let_def)
  ultimately show ?thesis using r by (auto simp: p_def Let_def)
qed

text \<open>The cache never serves a policy whose target namespace is written with the wildcard:
  a grant is stored under the normalized namespace but looked up under the written one, so
  each check of such a policy goes to the API server, also directly after a grant.\<close>

theorem wildcard_never_cached:
  assumes "tr_namespace (p_target p) = ''*''" "\<not> target_malformed p"
    "map_of (sy_probes s) (probe_key (target_gvk_string p) ''*'') = None"
    "run_state (validate_target_capability cl p) s = (r, s')"
  shows "probed (sy_trace s) (sy_trace s') \<and>
    map_of (sy_probes s') (probe_key (target_gvk_string p) ''*'') = None"
  using assms(4)
proof (cases rule: run_validate)
  case (probe w)
  note P = run_probe_target [OF probe(2)]
  have "target_scope p = []"
    using assms(1) by (simp add: target_scope_def normalize_namespace_def)
  with P(3,4) assms(3) have "map_of (sy_probes s') (probe_key (target_gvk_string p) ''*'') = None"
    by (cases r) (auto simp: update_conv' probe_key_def)
  with P(1) show ?thesis by simp
qed (use assms in simp_all)

theorem wildcard_never_cached_witness:
  "let p = ex_policy\<lparr>p_spec := ex_spec\<lparr>ps_target := ex_target\<lparr>tr_namespace := ''*''\<rparr>\<rparr>\<rparr>;
       s' = snd (run_state (validate_target_capability ex_cluster p) ex_sys) in
     probed (sy_trace ex_sys) (sy_trace s')"
proof -
  define p where "p = ex_policy\<lparr>p_spec := ex_spec\<lparr>ps_target := ex_target\<lparr>tr_namespace := ''*''\<rparr>\<rparr>\<rparr>"
  have "\<not> target_malformed p"
    unfolding p_def by code_simp
  moreover obtain r s' where r: "run_state (validate_target_capability ex_cluster p) ex_sys = (r, s')"
    by (cases "run_state (validate_target_capability ex_cluster p) ex_sys")
  ultimately have "probed (sy_trace ex_sys) (sy_trace s')"
    using wildcard_never_cached [of p ex_sys ex_cluster r s'] by (simp add: p_def ex_sys_def)
  with r show ?thesis by (simp add: p_def Let_def)
qed

text \<open>C27. What the gate records: it refuses exactly when the check fails; then the count of
  consecutive failures of the policy grows by one, the error wraps the classified one and
  names the policy, the attempt and the backoff of that attempt; on success the count is
  cleared; the counts of other policies never change.\<close>

theorem capability_failures_counted:
  "let (oe, s1) = run_state (validate_target_capability cl p) s;
       (r, s') = run_state (validate_target_or_classify cl rc p) s;
       n = (case map_of (sy_failures s) (p_uid p) of Some n \<Rightarrow> n + 1 | None \<Rightarrow> 1) in
     (case oe of
        None \<Rightarrow> r = None \<and> map_of (sy_failures s') (p_uid p) = None
      | Some e \<Rightarrow> map_of (sy_failures s') (p_uid p) = Some n \<and>
          (\<exists>e'. r = Some e' \<and> errors_unwrap e' = Some e \<and>
             ce_get_context e' ''policy_namespace'' = p_namespace p \<and>
             ce_get_context e' ''policy_name'' = p_name p \<and>
             error_string e' = ''target capability validation failed (attempt '' @ show_int n @
               '', next retry in '' @ duration_string (target_backoff_for n) @ ''): '' @ error_string e)) \<and>
     (\<forall>uid. uid \<noteq> p_uid p \<longrightarrow> map_of (sy_failures s') uid = map_of (sy_failures s) uid)"
  by (rule capability_failure_law)

theorem capability_failures_counted_witness:
  "map_of (sy_failures (snd (run_state (validate_target_or_classify ex_cluster ex_reconciler ex_policy) ex_sys)))
     ''other'' = None"
  using capability_failures_counted [of ex_cluster ex_policy ex_sys ex_reconciler]
  by (simp add: Let_def case_prod_beta ex_policy_def ex_sys_def)

end
