(* ===== verification/Receipts.thy ===== *)
theory Receipts
  imports Deletion "HOL-Library.Multiset" "HOL-Library.List_Lexorder" "HOL-Library.Char_ord"
begin

text \<open>
  Execution receipts: \<open>pkg/controller/execution_receipt.go\<close> (result classes, the overall
  status, the plan digest, \<open>DeleteWithReceipt\<close>) and \<open>execution_path.go\<close>
  (\<open>ExecuteWithReceipt\<close>, the path a reconcile deletes through), with \<open>deleteBatch\<close> of
  \<open>reconciler_deletion.go\<close>.

  The digest is SHA-256 cut to sixteen bytes and printed in hex: the parameter \<open>hash\<close>.
  Go's \<open>sort.Strings\<close> orders by bytes: the library's lexicographic order on lists of
  characters.
\<close>

section \<open>Receipts\<close>

datatype object_result_class =
  ResultSucceeded | ResultAlreadyAbsent | ResultSkippedPreconditionMismatch | ResultFailed

record object_result =
  or_namespace :: string
  or_kind :: string
  or_name :: string
  or_uid :: string
  or_class :: object_result_class
  or_detail :: string

record execution_receipt =
  er_version :: string
  er_plan_digest :: string
  er_started :: gotime
  er_completed :: gotime
  er_results :: "object_result list"
  er_overall :: string

record policy_ref =
  pr_namespace :: string
  pr_name :: string
  pr_uid :: string

record execution_receipt_v2 = execution_receipt +
  er_policy_ref :: policy_ref

fun compute_overall_from :: "string \<Rightarrow> object_result list \<Rightarrow> string" where
  "compute_overall_from status [] = status"
| "compute_overall_from status (r # rs) =
     (case or_class r of
        ResultFailed \<Rightarrow> ''FAILED''
      | ResultSkippedPreconditionMismatch \<Rightarrow> compute_overall_from ''PARTIAL'' rs
      | ResultSucceeded \<Rightarrow> compute_overall_from status rs
      | ResultAlreadyAbsent \<Rightarrow> compute_overall_from status rs)"

definition compute_overall :: "object_result list \<Rightarrow> string" where
  "compute_overall rs = compute_overall_from ''SUCCEEDED'' rs"

definition plan_id :: "uobj \<Rightarrow> string" where
  "plan_id o' = u_namespace o' @ ''/'' @ u_kind o' @ ''/'' @ u_name o' @ ''/'' @ u_uid o'"

text \<open>\<open>%v\<close> of a slice of strings: blanks between them, in brackets.\<close>

definition plan_digest :: "(string \<Rightarrow> string) \<Rightarrow> uobj list \<Rightarrow> string" where
  "plan_digest hash objs = hash (''['' @ join_with '' '' (sort (map plan_id objs)) @ '']'')"

definition object_result_for :: "uobj \<Rightarrow> object_result_class \<Rightarrow> string \<Rightarrow> object_result" where
  "object_result_for o' class detail =
     \<lparr>or_namespace = u_namespace o', or_kind = u_kind o', or_name = u_name o', or_uid = u_uid o',
      or_class = class, or_detail = detail\<rparr>"

section \<open>Deleting with a receipt\<close>

text \<open>
  \<open>DeleteWithReceipt\<close> works with a \<open>client.Client\<close>: \<open>get\<close> reads the object of a kind,
  namespace and name; \<open>delete\<close> deletes the object just read.
\<close>

definition delete_one_with_receipt ::
  "(gvk \<Rightarrow> string \<Rightarrow> string \<Rightarrow> 'w \<Rightarrow> (go_error + uobj) \<times> 'w)
     \<Rightarrow> (uobj \<Rightarrow> 'w \<Rightarrow> go_error option \<times> 'w) \<Rightarrow> uobj \<Rightarrow> 'w \<Rightarrow> object_result \<times> 'w" where
  "delete_one_with_receipt get del obj w =
     (let (r, w1) = get (u_gvk obj) (u_namespace obj) (u_name obj) w in
      case r of
        Inl e \<Rightarrow>
          if api_is Api_NotFound e
          then (object_result_for obj ResultAlreadyAbsent ''already absent'', w1)
          else (object_result_for obj ResultFailed (''get failed: '' @ error_string e), w1)
      | Inr current \<Rightarrow>
          if u_uid obj \<noteq> [] \<and> u_uid current \<noteq> u_uid obj
          then (object_result_for obj ResultSkippedPreconditionMismatch
                  ''UID changed since plan (stale plan protection)'', w1)
          else (case del current w1 of
              (Some e, w2) \<Rightarrow>
                if api_is Api_NotFound e
                then (object_result_for obj ResultAlreadyAbsent ''already absent'', w2)
                else (object_result_for obj ResultFailed (''delete failed: '' @ error_string e), w2)
            | (None, w2) \<Rightarrow> (object_result_for obj ResultSucceeded [], w2)))"

fun delete_all_with_receipt ::
  "(gvk \<Rightarrow> string \<Rightarrow> string \<Rightarrow> 'w \<Rightarrow> (go_error + uobj) \<times> 'w)
     \<Rightarrow> (uobj \<Rightarrow> 'w \<Rightarrow> go_error option \<times> 'w) \<Rightarrow> uobj list \<Rightarrow> 'w \<Rightarrow> object_result list \<times> 'w" where
  "delete_all_with_receipt get del [] w = ([], w)"
| "delete_all_with_receipt get del (obj # rest) w =
     (let (r, w1) = delete_one_with_receipt get del obj w;
          (rs, w2) = delete_all_with_receipt get del rest w1 in (r # rs, w2))"

definition delete_with_receipt ::
  "(string \<Rightarrow> string) \<Rightarrow> ('w \<Rightarrow> gotime \<times> 'w) \<Rightarrow> (gvk \<Rightarrow> string \<Rightarrow> string \<Rightarrow> 'w \<Rightarrow> (go_error + uobj) \<times> 'w)
     \<Rightarrow> (uobj \<Rightarrow> 'w \<Rightarrow> go_error option \<times> 'w) \<Rightarrow> uobj list \<Rightarrow> 'w \<Rightarrow> execution_receipt \<times> 'w" where
  "delete_with_receipt hash now get del planned w =
     (let (t0, w0) = now w;
          (rs, w1) = delete_all_with_receipt get del planned w0;
          (t1, w2) = now w1
      in (\<lparr>er_version = ''v1'', er_plan_digest = plan_digest hash planned, er_started = t0,
           er_completed = t1, er_results = rs, er_overall = compute_overall rs\<rparr>, w2))"

section \<open>The delete path of the reconciler\<close>

definition object_key :: "uobj \<Rightarrow> string" where
  "object_key o' = u_namespace o' @ ''/'' @ u_kind o' @ ''/'' @ u_name o'"

definition uid_mismatch :: "string \<Rightarrow> string \<Rightarrow> bool" where
  "uid_mismatch planned current \<longleftrightarrow> planned \<noteq> [] \<and> current \<noteq> planned"

text \<open>An empty namespace addresses a cluster-scoped object in both forms of the read.\<close>

definition read_object :: "'w cluster \<Rightarrow> reconciler \<Rightarrow> uobj \<Rightarrow> ('w, go_error + uobj) prog" where
  "read_object cl r obj = do {
     g \<leftarrow> resolve_gvr_for_deletion cl (rc_resolver r) obj;
     api_get cl g (u_namespace obj) (u_name obj)
   }"

fun pre_read ::
  "'w cluster \<Rightarrow> reconciler \<Rightarrow> (string, string) gomap \<Rightarrow> (string, bool) gomap \<Rightarrow> uobj list
     \<Rightarrow> ('w, (string, string) gomap \<times> (string, bool) gomap) prog" where
  "pre_read cl r uids present [] = State_Monad.return (uids, present)"
| "pre_read cl r uids present (obj # rest) = do {
     x \<leftarrow> read_object cl r obj;
     pre_read cl r (AList.update (object_key obj) (u_uid obj) uids)
       (AList.update (object_key obj) (\<not> isl x) present) rest
   }"

definition classify_observed ::
  "(string, string) gomap \<Rightarrow> (string, bool) gomap \<Rightarrow> uobj \<Rightarrow> go_error + uobj \<Rightarrow> object_result" where
  "classify_observed uids present obj x =
     (case x of
        Inl e \<Rightarrow>
          if api_is Api_NotFound e then
            (if map_of present (object_key obj) = Some True
             then object_result_for obj ResultSucceeded ''absent after execution (effect confirmed)''
             else object_result_for obj ResultAlreadyAbsent ''already absent (idempotent)'')
          else object_result_for obj ResultFailed (''post-execution read failed: '' @ error_string e)
      | Inr current \<Rightarrow>
          if uid_mismatch (lookup_str uids (object_key obj)) (u_uid current)
          then object_result_for obj ResultSkippedPreconditionMismatch ''UID changed since planning''
          else object_result_for obj ResultFailed ''still present with planned UID after delete path'')"

fun post_read ::
  "'w cluster \<Rightarrow> reconciler \<Rightarrow> (string, string) gomap \<Rightarrow> (string, bool) gomap \<Rightarrow> uobj list
     \<Rightarrow> ('w, object_result list) prog" where
  "post_read cl r uids present [] = State_Monad.return []"
| "post_read cl r uids present (obj # rest) = do {
     x \<leftarrow> read_object cl r obj;
     rs \<leftarrow> post_read cl r uids present rest;
     State_Monad.return (classify_observed uids present obj x # rs)
   }"

definition run_batch ::
  "'w cluster \<Rightarrow> reconciler \<Rightarrow> policy \<Rightarrow> limiter \<Rightarrow> (string, string) gomap \<Rightarrow> uobj list
     \<Rightarrow> ('w, int \<times> go_error list) prog" where
  "run_batch cl r p l reasons batch =
     delete_batch_shared cl (rc_recorder r) (delete_resource_with_backoff cl r l p) p l reasons batch"

text \<open>The second loop, which classifies what is observed after the deletions.\<close>

definition finish_receipt ::
  "'w cluster \<Rightarrow> (string \<Rightarrow> string) \<Rightarrow> reconciler \<Rightarrow> uobj list \<Rightarrow> policy \<Rightarrow> gotime
     \<Rightarrow> (string, string) gomap \<times> (string, bool) gomap \<Rightarrow> int \<times> go_error list
     \<Rightarrow> ('w, int \<times> go_error list \<times> execution_receipt_v2 option) prog" where
  "finish_receipt cl hash r batch p t0 planned res = do {
     rs \<leftarrow> post_read cl r (fst planned) (snd planned) batch;
     t1 \<leftarrow> ask (cl_now cl);
     State_Monad.return (fst res, snd res, Some \<lparr>er_version = ''v1'',
       er_plan_digest = plan_digest hash batch, er_started = t0, er_completed = t1,
       er_results = rs, er_overall = compute_overall rs,
       er_policy_ref = \<lparr>pr_namespace = p_namespace p, pr_name = p_name p, pr_uid = p_uid p\<rparr>\<rparr>)
   }"

definition execute_with_receipt ::
  "'w cluster \<Rightarrow> (string \<Rightarrow> string) \<Rightarrow> reconciler \<Rightarrow> uobj list \<Rightarrow> policy \<Rightarrow> limiter
     \<Rightarrow> (string, string) gomap \<Rightarrow> ('w, int \<times> go_error list \<times> execution_receipt_v2 option) prog" where
  "execute_with_receipt cl hash r batch p l reasons =
     (if bh_dry_run (p_behavior p) then do {
        res \<leftarrow> run_batch cl r p l reasons batch;
        State_Monad.return (fst res, snd res, None)
      }
      else do {
        t0 \<leftarrow> ask (cl_now cl);
        planned \<leftarrow> pre_read cl r [] [] batch;
        res \<leftarrow> run_batch cl r p l reasons batch;
        finish_receipt cl hash r batch p t0 planned res
      })"

definition receipt_message :: "execution_receipt_v2 \<Rightarrow> string" where
  "receipt_message rc = ''plan='' @ er_plan_digest rc @ '' overall='' @ er_overall rc
     @ '' effects='' @ show_nat (length (er_results rc))"

definition delete_batch ::
  "'w cluster \<Rightarrow> (string \<Rightarrow> string) \<Rightarrow> reconciler \<Rightarrow> uobj list \<Rightarrow> policy \<Rightarrow> limiter
     \<Rightarrow> (string, string) gomap \<Rightarrow> ('w, int \<times> go_error list) prog" where
  "delete_batch cl hash r batch p l reasons = do {
     (n, errs, receipt) \<leftarrow> execute_with_receipt cl hash r batch p l reasons;
     (case receipt of
        Some rc \<Rightarrow>
          if rc_recorder r \<and> rc_client r
          then eventf (rc_recorder r) ''Normal'' ''PolicyExecutionReceipt'' (receipt_message rc)
          else State_Monad.return ()
      | None \<Rightarrow> State_Monad.return ());
     State_Monad.return (n, errs)
   }"

section \<open>Laws\<close>

lemma compute_overall_from_eq:
  "compute_overall_from status rs =
     (if ResultFailed \<in> or_class ` set rs then ''FAILED''
      else if ResultSkippedPreconditionMismatch \<in> or_class ` set rs then ''PARTIAL'' else status)"
  by (induction rs arbitrary: status) (auto split: object_result_class.split)

lemma plan_digest_perm: "mset xs = mset ys \<Longrightarrow> plan_digest hash xs = plan_digest hash ys"
proof -
  assume "mset xs = mset ys"
  then have "mset (map plan_id xs) = mset (map plan_id ys)" by (metis mset_map)
  then have "sort (map plan_id xs) = sort (map plan_id ys)"
    by (metis sorted_list_of_multiset_mset)
  then show ?thesis by (simp add: plan_digest_def)
qed

fun is_get :: "effect \<Rightarrow> bool" where
  "is_get (Eff_Get g ns n u) = True"
| "is_get e = False"

lemma is_get_not: "is_get e \<Longrightarrow> \<not> is_delete e \<and> \<not> is_wait e"
  by (cases e) auto

lemma only_read_object: "only is_get (read_object cl r obj)"
  unfolding read_object_def api_get_def
  by (intro only_rules only_resolve_for_deletion only_emit) simp

lemma only_pre_read: "only is_get (pre_read cl r uids present batch)"
  by (induction batch arbitrary: uids present) (auto intro!: only_rules only_read_object)

lemma only_post_read: "only is_get (post_read cl r uids present batch)"
  by (induction batch) (auto intro!: only_rules only_read_object)

text \<open>The reads of a batch: one per object, in order, with the UIDs they returned.\<close>

fun reads :: "uobj list \<Rightarrow> string option list \<Rightarrow> effect list \<Rightarrow> bool" where
  "reads [] as es \<longleftrightarrow> as = [] \<and> es = []"
| "reads (obj # rest) as es \<longleftrightarrow> (\<exists>g a as' es'. as = a # as' \<and>
     es = Eff_Get g (u_namespace obj) (u_name obj) a # es' \<and> reads rest as' es')"

lemma reads_length: "reads batch as es \<Longrightarrow> length as = length batch \<and> length es = length batch"
  by (induction batch as es rule: reads.induct) auto

lemma reads_gets: "reads batch as es \<Longrightarrow> list_all is_get es"
  by (induction batch as es rule: reads.induct) auto

lemma only_emits_nil: "emits m R \<Longrightarrow> (\<And>a es. R a es \<Longrightarrow> es = []) \<Longrightarrow> emits m (\<lambda>a es. es = [])"
  by (rule emits_weaken)

lemma emits_resolve: "emits (resolve_gvr_for_deletion cl b obj) (\<lambda>g es. es = [])"
  using only_resolve_for_deletion [of "\<lambda>e. False" cl b obj]
  unfolding only_def by (rule emits_weaken) (auto simp: list_all_iff)

lemma emits_read_object:
  "emits (read_object cl r obj) (\<lambda>x es. \<exists>g. es = [Eff_Get g (u_namespace obj) (u_name obj)
     (case x of Inr o' \<Rightarrow> Some (u_uid o') | Inl e \<Rightarrow> None)])"
  unfolding read_object_def
  by (rule emits_bind [OF emits_resolve, where S = "\<lambda>g x es. es = [Eff_Get g (u_namespace obj) (u_name obj)
     (case x of Inr o' \<Rightarrow> Some (u_uid o') | Inl e \<Rightarrow> None)]"])
    (auto simp: api_get_def intro: emitsI)

lemma emits_pre_read:
  assumes "distinct (map object_key batch)"
  shows "emits (pre_read cl r uids present batch) (\<lambda>res es. \<exists>as. reads batch as es \<and>
     (\<forall>(obj, a) \<in> set (zip batch as). map_of (fst res) (object_key obj) = Some (u_uid obj) \<and>
        map_of (snd res) (object_key obj) = Some (a \<noteq> None)) \<and>
     (\<forall>k. k \<notin> object_key ` set batch \<longrightarrow>
        map_of (fst res) k = map_of uids k \<and> map_of (snd res) k = map_of present k))"
  using assms
proof (induction batch arbitrary: uids present)
  case Nil
  show ?case by (simp add: emits_return)
next
  case (Cons obj rest)
  then have IH: "emits (pre_read cl r u pr rest) (\<lambda>res es. \<exists>as. reads rest as es \<and>
     (\<forall>(obj, a) \<in> set (zip rest as). map_of (fst res) (object_key obj) = Some (u_uid obj) \<and>
        map_of (snd res) (object_key obj) = Some (a \<noteq> None)) \<and>
     (\<forall>k. k \<notin> object_key ` set rest \<longrightarrow>
        map_of (fst res) k = map_of u k \<and> map_of (snd res) k = map_of pr k))" for u pr
    by simp
  show ?case
    unfolding pre_read.simps
  proof (rule emits_bind [OF emits_read_object IH], elim exE conjE)
    fix x es res fs g as
    assume es: "es = [Eff_Get g (u_namespace obj) (u_name obj) (case x of Inl e \<Rightarrow> None | Inr o' \<Rightarrow> Some (u_uid o'))]"
      and reads: "reads rest as fs"
      and inr: "\<forall>(obj, a) \<in> set (zip rest as). map_of (fst res) (object_key obj) = Some (u_uid obj) \<and>
        map_of (snd res) (object_key obj) = Some (a \<noteq> None)"
      and out: "\<forall>k. k \<notin> object_key ` set rest \<longrightarrow>
        map_of (fst res) k = map_of (AList.update (object_key obj) (u_uid obj) uids) k \<and>
        map_of (snd res) k = map_of (AList.update (object_key obj) (\<not> isl x) present) k"
    let ?a = "case x of Inl e \<Rightarrow> None | Inr o' \<Rightarrow> Some (u_uid o')"
    have "object_key obj \<notin> object_key ` set rest"
      using Cons.prems by auto
    with out have "map_of (fst res) (object_key obj) = Some (u_uid obj)"
      "map_of (snd res) (object_key obj) = Some (?a \<noteq> None)"
      by (auto simp: update_conv' split: sum.split)
    moreover have "\<forall>k. k \<notin> object_key ` set (obj # rest) \<longrightarrow>
        map_of (fst res) k = map_of uids k \<and> map_of (snd res) k = map_of present k"
      using out by (auto simp: update_conv')
    ultimately show "\<exists>as. reads (obj # rest) as (es @ fs) \<and>
       (\<forall>(obj, a) \<in> set (zip (obj # rest) as). map_of (fst res) (object_key obj) = Some (u_uid obj) \<and>
          map_of (snd res) (object_key obj) = Some (a \<noteq> None)) \<and>
       (\<forall>k. k \<notin> object_key ` set (obj # rest) \<longrightarrow>
          map_of (fst res) k = map_of uids k \<and> map_of (snd res) k = map_of present k)"
      using es reads inr by (intro exI [of _ "?a # as"]) auto
  qed
qed

text \<open>An answer of the final read with the UID it returned.\<close>

definition answer_uid :: "go_error + uobj \<Rightarrow> string option" where
  "answer_uid x = (case x of Inr o' \<Rightarrow> Some (u_uid o') | Inl e \<Rightarrow> None)"

lemma emits_post_read:
  "emits (post_read cl r uids present batch) (\<lambda>rs es. \<exists>xs. length xs = length batch \<and>
     reads batch (map answer_uid xs) es \<and> rs = map2 (classify_observed uids present) batch xs)"
proof (induction batch)
  case Nil
  show ?case by (simp add: emits_return)
next
  case (Cons obj rest)
  have tail: "emits (State_Monad.bind (post_read cl r uids present rest)
        (\<lambda>rs. State_Monad.return (classify_observed uids present obj x # rs)))
      (\<lambda>rs es. \<exists>xs. length xs = length rest \<and> reads rest (map answer_uid xs) es \<and>
         rs = map2 (classify_observed uids present) (obj # rest) (x # xs))" for x
    by (rule emits_bind [OF Cons.IH, where S = "\<lambda>rs rs' es. es = [] \<and> rs' = classify_observed uids present obj x # rs"])
      (auto intro: emits_return)
  show ?case
    unfolding post_read.simps
  proof (rule emits_bind [OF emits_read_object tail], elim exE conjE)
    fix x es rs fs g xs
    assume "es = [Eff_Get g (u_namespace obj) (u_name obj) (case x of Inl e \<Rightarrow> None | Inr o' \<Rightarrow> Some (u_uid o'))]"
      "length xs = length rest" "reads rest (map answer_uid xs) fs"
      "rs = map2 (classify_observed uids present) (obj # rest) (x # xs)"
    then show "\<exists>xs. length xs = length (obj # rest) \<and> reads (obj # rest) (map answer_uid xs) (es @ fs) \<and>
       rs = map2 (classify_observed uids present) (obj # rest) xs"
      by (intro exI [of _ "x # xs"]) (simp add: answer_uid_def)
  qed
qed

lemma only_get_none: "list_all is_get es \<Longrightarrow> deletes_ok P es \<and> ndel es = 0 \<and> nwait es = 0"
  using is_get_not by (auto simp: ndel_def nwait_def list_all_iff filter_empty_conv intro!: deletes_ok_none)

text \<open>What a batch run of the reconciler guarantees, with or without a receipt.\<close>

definition batch_ok :: "reconciler \<Rightarrow> policy \<Rightarrow> uobj list \<Rightarrow> int \<times> go_error list \<Rightarrow> effect list \<Rightarrow> bool" where
  "batch_ok r p objs res es \<longleftrightarrow>
     deletes_ok (\<lambda>ns n uid. \<exists>obj \<in> set objs. may_delete r p obj ns n uid) es \<and>
     ndel es \<le> 5 * length objs \<and> 0 \<le> fst res \<and>
     fst res + int (length (snd res)) \<le> int (length objs) \<and>
     (bh_dry_run (p_behavior p) \<longrightarrow> fst res = 0) \<and> 2 * fst res \<le> int (nwait es)"

lemma run_batch_ok: "emits (run_batch cl r p l reasons batch) (batch_ok r p batch)"
  unfolding run_batch_def
  by (rule emits_weaken [OF reconciler_deleter.batch_emits])
    (simp add: reconciler_deleter.batch_rel_def batch_ok_def)

lemma batch_ok_quiet:
  assumes "batch_ok r p objs res es" "\<And>P. deletes_ok P pre" "\<And>P. deletes_ok P post" "ndel pre = 0" "ndel post = 0"
  shows "batch_ok r p objs res (pre @ es @ post)"
  using assms by (auto simp: batch_ok_def intro!: deletes_ok_append)

lemma batch_ok_gets:
  "batch_ok r p objs res es \<Longrightarrow> list_all is_get pre \<Longrightarrow> list_all is_get post \<Longrightarrow>
     batch_ok r p objs res (pre @ es @ post)"
  by (rule batch_ok_quiet) (auto simp: only_get_none)

text \<open>The receipt as a function of the answers.\<close>

definition receipt_for ::
  "(string \<Rightarrow> string) \<Rightarrow> policy \<Rightarrow> uobj list \<Rightarrow> object_result list \<Rightarrow> execution_receipt_v2 \<Rightarrow> bool" where
  "receipt_for hash p batch rs rc \<longleftrightarrow>
     er_plan_digest rc = plan_digest hash batch \<and> er_results rc = rs \<and>
     er_overall rc = compute_overall rs \<and>
     er_policy_ref rc = \<lparr>pr_namespace = p_namespace p, pr_name = p_name p, pr_uid = p_uid p\<rparr>"

lemma emits_execute_dry:
  assumes "bh_dry_run (p_behavior p)"
  shows "emits (execute_with_receipt cl hash r batch p l reasons)
    (\<lambda>x es. batch_ok r p batch (fst x, fst (snd x)) es \<and> snd (snd x) = None)"
  unfolding execute_with_receipt_def using assms
  by (simp, intro emits_bind [OF run_batch_ok, where S = "\<lambda>a b es. b = (fst a, snd a, None) \<and> es = []"])
    (auto intro!: emits_return)

lemma emits_now: "emits (ask (cl_now cl)) (\<lambda>t es. es = [])"
  by (rule emits_ask) simp

text \<open>The results of the second loop, for the answers \<open>xs\<close> of its reads.\<close>

definition observed ::
  "(string \<Rightarrow> string) \<Rightarrow> policy \<Rightarrow> uobj list \<Rightarrow> (string, string) gomap \<times> (string, bool) gomap
     \<Rightarrow> execution_receipt_v2 option \<Rightarrow> effect list \<Rightarrow> bool" where
  "observed hash p batch planned rcpt es \<longleftrightarrow> (\<exists>xs rc. length xs = length batch \<and>
     reads batch (map answer_uid xs) es \<and> rcpt = Some rc \<and>
     receipt_for hash p batch (map2 (classify_observed (fst planned) (snd planned)) batch xs) rc)"

lemma emits_finish:
  "emits (finish_receipt cl hash r batch p t0 planned res)
     (\<lambda>x es. (fst x, fst (snd x)) = res \<and> observed hash p batch planned (snd (snd x)) es)"
proof -
  have fin: "emits (State_Monad.bind (ask (cl_now cl)) (\<lambda>t1. State_Monad.return (fst res, snd res, Some
        \<lparr>er_version = ''v1'', er_plan_digest = plan_digest hash batch, er_started = t0, er_completed = t1,
          er_results = rs, er_overall = compute_overall rs,
          er_policy_ref = \<lparr>pr_namespace = p_namespace p, pr_name = p_name p, pr_uid = p_uid p\<rparr>\<rparr>)))
      (\<lambda>x es. es = [] \<and> (fst x, fst (snd x)) = res \<and>
         (\<exists>rc. snd (snd x) = Some rc \<and> receipt_for hash p batch rs rc))" for rs
    by (rule emitsI) (auto simp: receipt_for_def)
  show ?thesis
    unfolding finish_receipt_def
    by (rule emits_bind [OF emits_post_read fin]) (auto simp: observed_def)
qed

lemma emits_execute_live:
  assumes "\<not> bh_dry_run (p_behavior p)" "emits (pre_read cl r [] [] batch) S"
  shows "emits (execute_with_receipt cl hash r batch p l reasons)
    (\<lambda>x es. \<exists>pre mid post planned. es = pre @ mid @ post \<and> S planned pre \<and>
       batch_ok r p batch (fst x, fst (snd x)) mid \<and> observed hash p batch planned (snd (snd x)) post)"
proof -
  have mid: "emits (State_Monad.bind (run_batch cl r p l reasons batch)
        (finish_receipt cl hash r batch p t0 planned))
      (\<lambda>x es. \<exists>mid post. es = mid @ post \<and> batch_ok r p batch (fst x, fst (snd x)) mid \<and>
         observed hash p batch planned (snd (snd x)) post)" for t0 planned
    by (rule emits_bind [OF run_batch_ok emits_finish]) auto
  have pre: "emits (State_Monad.bind (pre_read cl r [] [] batch) (\<lambda>planned.
        State_Monad.bind (run_batch cl r p l reasons batch) (finish_receipt cl hash r batch p t0 planned)))
      (\<lambda>x es. \<exists>pre mid post planned. es = pre @ mid @ post \<and> S planned pre \<and>
         batch_ok r p batch (fst x, fst (snd x)) mid \<and> observed hash p batch planned (snd (snd x)) post)" for t0
    by (rule emits_bind [OF assms(2) mid]) blast
  show ?thesis
    unfolding execute_with_receipt_def using assms(1)
    by (simp, intro emits_bind [OF emits_now pre]) simp
qed

lemma observed_gets: "observed hash p batch planned rcpt es \<Longrightarrow> list_all is_get es"
  by (auto simp: observed_def intro: reads_gets)

lemma emits_execute:
  "emits (execute_with_receipt cl hash r batch p l reasons) (\<lambda>x es. batch_ok r p batch (fst x, fst (snd x)) es)"
proof (cases "bh_dry_run (p_behavior p)")
  case True
  show ?thesis
    by (rule emits_weaken [OF emits_execute_dry [OF True]]) simp
next
  case False
  have pre: "emits (pre_read cl r [] [] batch) (\<lambda>res es. list_all is_get es)"
    using only_pre_read unfolding only_def by blast
  show ?thesis
    by (rule emits_weaken [OF emits_execute_live [OF False pre]])
      (auto intro: batch_ok_gets observed_gets)
qed

lemma delete_batch_ok: "emits (delete_batch cl hash r batch p l reasons) (batch_ok r p batch)"
proof -
  have tail: "emits (State_Monad.bind (case rcpt of
        Some rc \<Rightarrow> if rc_recorder r \<and> rc_client r
          then eventf (rc_recorder r) ''Normal'' ''PolicyExecutionReceipt'' (receipt_message rc)
          else State_Monad.return ()
      | None \<Rightarrow> State_Monad.return ()) (\<lambda>u. State_Monad.return (n, errs)))
      (\<lambda>res es. res = (n, errs) \<and> list_all is_report es)" for rcpt n errs
    by (rule emitsI) (auto simp: eventf_def is_report_def split: option.split)
  have "emits (delete_batch cl hash r batch p l reasons) (\<lambda>res es. \<exists>fs gs. es = fs @ gs \<and>
      batch_ok r p batch res fs \<and> list_all is_report gs)"
    unfolding delete_batch_def
    by (rule emits_bind [OF emits_execute, where S = "\<lambda>x res es. res = (fst x, fst (snd x)) \<and> list_all is_report es"])
      (use tail in \<open>auto simp: case_prod_beta\<close>)
  then show ?thesis
  proof (rule emits_weaken, elim exE conjE)
    fix res es fs gs
    assume "es = fs @ gs" "batch_ok r p batch res fs" "list_all is_report gs"
    then show "batch_ok r p batch res es"
      using batch_ok_quiet [of r p batch res fs "[]" gs] nodel_report [of gs] deletes_ok_none by simp
  qed
qed

section \<open>Deleting against a store\<close>

text \<open>An API server that is a map from kind, namespace and name to objects.\<close>

type_synonym store = "gvk \<times> string \<times> string \<Rightarrow> uobj option"

definition store_key :: "uobj \<Rightarrow> gvk \<times> string \<times> string" where
  "store_key o' = (u_gvk o', u_namespace o', u_name o')"

definition store_get :: "gvk \<Rightarrow> string \<Rightarrow> string \<Rightarrow> store \<Rightarrow> (go_error + uobj) \<times> store" where
  "store_get k ns n st = ((case st (k, ns, n) of Some o' \<Rightarrow> Inr o' | None \<Rightarrow> Inl not_found), st)"

definition store_del :: "uobj \<Rightarrow> store \<Rightarrow> go_error option \<times> store" where
  "store_del o' st = (None, st(store_key o' := None))"

definition store_ok :: "store \<Rightarrow> bool" where
  "store_ok st \<longleftrightarrow> (\<forall>k o'. st k = Some o' \<longrightarrow> store_key o' = k)"

text \<open>The planned object is the one stored, or the plan did not pin a UID.\<close>

definition pinned :: "store \<Rightarrow> uobj \<Rightarrow> bool" where
  "pinned st obj \<longleftrightarrow> u_uid obj = [] \<or> (\<exists>o'. st (store_key obj) = Some o' \<and> u_uid o' = u_uid obj)"

lemma delete_one_store:
  assumes "store_ok st"
  shows "snd (delete_one_with_receipt store_get store_del obj st) =
      (if pinned st obj then st(store_key obj := None) else st)"
    "or_class (fst (delete_one_with_receipt store_get store_del obj st)) =
      (if st (store_key obj) = None then ResultAlreadyAbsent
       else if pinned st obj then ResultSucceeded else ResultSkippedPreconditionMismatch)"
proof -
  have get: "store_get (u_gvk obj) (u_namespace obj) (u_name obj) st =
      ((case st (store_key obj) of Some o' \<Rightarrow> Inr o' | None \<Rightarrow> Inl not_found), st)"
    by (simp add: store_get_def store_key_def)
  have both: "snd (delete_one_with_receipt store_get store_del obj st) =
        (if pinned st obj then st(store_key obj := None) else st) \<and>
      or_class (fst (delete_one_with_receipt store_get store_del obj st)) =
        (if st (store_key obj) = None then ResultAlreadyAbsent
         else if pinned st obj then ResultSucceeded else ResultSkippedPreconditionMismatch)"
  proof (cases "st (store_key obj)")
    case None
    then have "st(store_key obj := None) = st" by auto
    with None get show ?thesis
      by (simp add: delete_one_with_receipt_def not_found_def object_result_for_def)
  next
    case (Some o')
    with assms have key: "store_key o' = store_key obj" unfolding store_ok_def by blast
    from Some have pin: "pinned st obj \<longleftrightarrow> u_uid obj = [] \<or> u_uid o' = u_uid obj"
      by (auto simp: pinned_def)
    with Some get key show ?thesis
      by (auto simp: delete_one_with_receipt_def store_del_def object_result_for_def)
  qed
  then show "snd (delete_one_with_receipt store_get store_del obj st) =
      (if pinned st obj then st(store_key obj := None) else st)" by blast
  from both show "or_class (fst (delete_one_with_receipt store_get store_del obj st)) =
      (if st (store_key obj) = None then ResultAlreadyAbsent
       else if pinned st obj then ResultSucceeded else ResultSkippedPreconditionMismatch)" by blast
qed

lemma store_ok_remove: "store_ok st \<Longrightarrow> store_ok (st(k := None))"
  by (auto simp: store_ok_def)

text \<open>Against a state where no stored object is pinned any more nothing changes.\<close>

definition drained :: "uobj list \<Rightarrow> store \<Rightarrow> bool" where
  "drained planned st \<longleftrightarrow> (\<forall>obj \<in> set planned. pinned st obj \<longrightarrow> st (store_key obj) = None)"

lemma drained_remove: "drained planned st \<Longrightarrow> drained planned (st(k := None))"
  by (auto simp: drained_def pinned_def)

lemma delete_all_drained:
  "store_ok st \<Longrightarrow> drained planned st \<Longrightarrow>
     snd (delete_all_with_receipt store_get store_del planned st) = st \<and>
     (\<forall>res \<in> set (fst (delete_all_with_receipt store_get store_del planned st)).
        or_class res \<in> {ResultAlreadyAbsent, ResultSkippedPreconditionMismatch})"
proof (induction planned)
  case Nil
  show ?case by simp
next
  case (Cons obj rest)
  have "snd (delete_one_with_receipt store_get store_del obj st) = st"
    using Cons.prems by (auto simp: delete_one_store drained_def)
  moreover have "or_class (fst (delete_one_with_receipt store_get store_del obj st)) \<noteq> ResultSucceeded"
    "or_class (fst (delete_one_with_receipt store_get store_del obj st)) \<noteq> ResultFailed"
    using Cons.prems by (auto simp: delete_one_store drained_def)
  ultimately show ?case
    using Cons.IH Cons.prems
    by (auto simp: case_prod_beta drained_def intro: object_result_class.exhaust)
qed

lemma delete_all_store:
  "store_ok st \<Longrightarrow> store_ok (snd (delete_all_with_receipt store_get store_del planned st)) \<and>
     drained planned (snd (delete_all_with_receipt store_get store_del planned st)) \<and>
     (\<forall>ps. drained ps st \<longrightarrow> drained ps (snd (delete_all_with_receipt store_get store_del planned st))) \<and>
     snd (delete_all_with_receipt store_get store_del planned st) =
       (\<lambda>k. if \<exists>obj \<in> set planned. store_key obj = k \<and> pinned st obj then None else st k)"
proof (induction planned arbitrary: st)
  case Nil
  then show ?case by (simp add: drained_def)
next
  case (Cons obj rest)
  let ?st1 = "snd (delete_one_with_receipt store_get store_del obj st)"
  let ?st2 = "snd (delete_all_with_receipt store_get store_del rest ?st1)"
  have st1: "?st1 = (if pinned st obj then st(store_key obj := None) else st)"
    using Cons.prems by (rule delete_one_store)
  have ok1: "store_ok ?st1"
    using Cons.prems by (simp add: st1 store_ok_remove)
  note IH = Cons.IH [OF ok1]
  from IH have keep: "drained ps ?st1 \<Longrightarrow> drained ps ?st2" for ps by blast
  have "drained [obj] ?st1"
    by (auto simp: st1 drained_def pinned_def)
  with keep IH have obj: "drained [obj] ?st2" and rest: "drained rest ?st2" by blast+
  have "drained ps st \<Longrightarrow> drained ps ?st1" for ps
    using st1 drained_remove by metis
  with keep have mono: "drained ps st \<Longrightarrow> drained ps ?st2" for ps by blast
  have pin: "pinned ?st1 o' \<longleftrightarrow> pinned st o' \<and> (store_key o' = store_key obj \<and> pinned st obj \<longrightarrow> u_uid o' = [])" for o'
    by (auto simp: st1 pinned_def)
  have st2: "?st2 = (\<lambda>k. if \<exists>obj \<in> set rest. store_key obj = k \<and> pinned ?st1 obj then None else ?st1 k)"
    using IH by blast
  have "?st2 = (\<lambda>k. if \<exists>o' \<in> set (obj # rest). store_key o' = k \<and> pinned st o' then None else st k)"
  proof
    fix k
    have "?st2 k = (if \<exists>obj \<in> set rest. store_key obj = k \<and> pinned ?st1 obj then None else ?st1 k)"
      using st2 by (rule fun_cong)
    then show "?st2 k = (if \<exists>o' \<in> set (obj # rest). store_key o' = k \<and> pinned st o' then None else st k)"
      unfolding pin by (auto simp: st1)
  qed
  moreover have "snd (delete_all_with_receipt store_get store_del (obj # rest) st) = ?st2"
    by (simp add: case_prod_beta)
  moreover have "drained (obj # rest) ?st2"
    using obj rest by (simp add: drained_def)
  ultimately show ?case
    using IH mono by metis
qed

section \<open>Properties\<close>



text \<open>The dry-run law: a batch yields a receipt exactly when the policy is not a dry run, and
  a dry run counts no deletion and sends no DELETE.\<close>

theorem dry_run_no_receipt:
  "case run_state (execute_with_receipt cl hash r batch p l reasons) s of ((n, errs, rcpt), s') \<Rightarrow>
     (rcpt = None \<longleftrightarrow> bh_dry_run (p_behavior p)) \<and>
     (\<exists>es. sy_trace s' = sy_trace s @ es \<and> (bh_dry_run (p_behavior p) \<longrightarrow> n = 0 \<and> ndel es = 0))"
proof -
  obtain x s' where run: "run_state (execute_with_receipt cl hash r batch p l reasons) s = (x, s')"
    by fastforce
  obtain n errs rcpt where x: "x = (n, errs, rcpt)" by (cases x) auto
  show ?thesis
  proof (cases "bh_dry_run (p_behavior p)")
    case True
    obtain es where es: "sy_trace s' = sy_trace s @ es"
      and "batch_ok r p batch (fst x, fst (snd x)) es \<and> snd (snd x) = None"
      using emits_execute_dry [OF True] run by (rule emitsD)
    then have ok: "deletes_ok (\<lambda>ns n uid. \<exists>obj \<in> set batch. may_delete r p obj ns n uid) es" "n = 0" "rcpt = None"
      using True x by (auto simp: batch_ok_def)
    have "ndel es = 0"
      using ok(1) True
      by (auto simp: ndel_def filter_empty_conv deletes_ok_def may_delete_def in_set_conv_decomp elim!: is_delete.elims)
    with True ok es run x show ?thesis by auto
  next
    case False
    have "emits (pre_read cl r [] [] batch) (\<lambda>a es. True)"
      using only_pre_read [of cl r "[]" "[]" batch] unfolding only_def by (rule emits_weaken) simp
    from emits_execute_live [OF False this] run obtain es where "sy_trace s' = sy_trace s @ es"
      "\<exists>pre mid post planned. es = pre @ mid @ post \<and> True \<and>
       batch_ok r p batch (fst x, fst (snd x)) mid \<and> observed hash p batch planned (snd (snd x)) post"
      by (rule emitsD)
    with False run x show ?thesis by (auto simp: observed_def)
  qed
qed

theorem dry_run_no_receipt_witness:
  "\<exists>errs s'. run_state (execute_with_receipt ex_cluster id ex_reconciler [ex_obj]
     (ex_policy\<lparr>p_spec := ex_spec\<lparr>ps_behavior := ex_behavior\<lparr>bh_dry_run := True\<rparr>\<rparr>\<rparr>) (new_rate_limiter 10) []) ex_sys
     = ((0, errs, None), s')"
  using dry_run_no_receipt [where cl = ex_cluster and hash = id and r = ex_reconciler and batch = "[ex_obj]"
      and p = "ex_policy\<lparr>p_spec := ex_spec\<lparr>ps_behavior := ex_behavior\<lparr>bh_dry_run := True\<rparr>\<rparr>\<rparr>"
      and l = "new_rate_limiter 10" and reasons = "[]" and s = ex_sys]
  by (auto split: prod.splits)

text \<open>The overall status of a receipt is the worst class of its results (a failure, else a
  skipped object, else success), and the plan digest identifies the planned set: it does not
  depend on the order the objects were planned in.\<close>

theorem receipt_summary_law:
  "compute_overall rs =
     (if ResultFailed \<in> or_class ` set rs then ''FAILED''
      else if ResultSkippedPreconditionMismatch \<in> or_class ` set rs then ''PARTIAL''
      else ''SUCCEEDED'') \<and>
   (mset xs = mset ys \<longrightarrow> plan_digest hash xs = plan_digest hash ys)"
  by (simp add: compute_overall_def compute_overall_from_eq) (blast intro: plan_digest_perm)

theorem receipt_summary_law_witness:
  "plan_digest id [ex_obj, ex_obj\<lparr>u_name := ''a''\<rparr>] = plan_digest id [ex_obj\<lparr>u_name := ''a''\<rparr>, ex_obj]"
  using receipt_summary_law [where xs = "[ex_obj, ex_obj\<lparr>u_name := ''a''\<rparr>]"
      and ys = "[ex_obj\<lparr>u_name := ''a''\<rparr>, ex_obj]" and hash = id] by simp

text \<open>C21. The restart law of \<open>DeleteWithReceipt\<close>, against an API server that is a map: the run
  removes exactly the planned objects whose UID still matches the plan, and running the same
  plan again changes nothing and reports no object SUCCEEDED or FAILED.\<close>

theorem delete_with_receipt_restart:
  assumes "store_ok st"
  shows "let st' = snd (delete_all_with_receipt store_get store_del planned st);
             again = delete_all_with_receipt store_get store_del planned st' in
     st' = (\<lambda>k. if \<exists>obj \<in> set planned. store_key obj = k \<and> pinned st obj then None else st k) \<and>
     snd again = st' \<and>
     (\<forall>res \<in> set (fst again). or_class res \<in> {ResultAlreadyAbsent, ResultSkippedPreconditionMismatch})"
proof -
  note A = delete_all_store [OF assms, of planned]
  from A have ok: "store_ok (snd (delete_all_with_receipt store_get store_del planned st))"
    and dr: "drained planned (snd (delete_all_with_receipt store_get store_del planned st))"
    by blast+
  from A delete_all_drained [OF ok dr] show ?thesis
    unfolding Let_def by blast
qed

theorem delete_with_receipt_restart_witness:
  "let st = (\<lambda>k. if k = store_key ex_obj then Some ex_obj else None) in
     snd (delete_all_with_receipt store_get store_del [ex_obj] st) (store_key ex_obj) = None"
proof -
  have "store_ok (\<lambda>k. if k = store_key ex_obj then Some ex_obj else None)"
    by (simp add: store_ok_def)
  from delete_with_receipt_restart [OF this, of "[ex_obj]"] show ?thesis
    by (simp add: Let_def pinned_def)
qed

end
