(* ===== verification/Ttl.thy ===== *)
theory Ttl
  imports Policy_Types
begin

text \<open>
  Expiration of an object: \<open>internal/ttl/evaluator.go\<close> (the four TTL modes in their order
  of precedence, \<open>parseFieldPath\<close>), the conversion and the path parser of the controller
  (\<open>pkg/controller/shared.go\<close>, \<open>field_path.go\<close>).

  \<open>time.Parse(time.RFC3339, s)\<close> is the parameter \<open>parse\<close>, and \<open>now\<close> is the answer of the
  one \<open>time.Now()\<close> a call makes.  Durations are 64-bit: \<open>time.Duration(n) * time.Second\<close> is
  \<open>seconds n\<close>, which wraps.
\<close>

section \<open>The TTL specification of the library\<close>

record ttl_config =
  tc_seconds_after_creation :: "int64 option"
  tc_field_path :: string
  tc_mappings :: "(string, int64) gomap"
  tc_default :: "int64 option"
  tc_relative_to :: string
  tc_seconds_after :: "int64 option"

definition convert_to_local_ttl_spec :: "ttl_spec \<Rightarrow> ttl_config" where
  "convert_to_local_ttl_spec s =
     \<lparr>tc_seconds_after_creation = ttl_seconds_after_creation s,
      tc_field_path = ttl_field_path s,
      tc_mappings = ttl_mappings s,
      tc_default = ttl_default s,
      tc_relative_to = ttl_relative_to s,
      tc_seconds_after = ttl_seconds_after s\<rparr>"

definition ErrNoValidTTLConfiguration :: go_error where
  "ErrNoValidTTLConfiguration =
     Sentinel ''ErrNoValidTTLConfiguration'' ''no valid TTL configuration''"
definition ErrFieldPathNotFound :: go_error where
  "ErrFieldPathNotFound = Sentinel ''ErrFieldPathNotFound'' ''field path not found''"
definition ErrNoMappingForFieldValue :: go_error where
  "ErrNoMappingForFieldValue =
     Sentinel ''ErrNoMappingForFieldValue'' ''no TTL mapping for field value''"
definition ErrRelativeTimestampFieldNotFound :: go_error where
  "ErrRelativeTimestampFieldNotFound =
     Sentinel ''ErrRelativeTimestampFieldNotFound'' ''relative timestamp field not found''"
definition ErrInvalidTimestampFormat :: go_error where
  "ErrInvalidTimestampFormat =
     Sentinel ''ErrInvalidTimestampFormat'' ''invalid timestamp format (expected RFC3339)''"
definition ErrRelativeTTLExpired :: go_error where
  "ErrRelativeTTLExpired = Sentinel ''ErrRelativeTTLExpired'' ''relative TTL already expired''"

lemmas ttl_errors = ErrNoValidTTLConfiguration_def ErrFieldPathNotFound_def
  ErrNoMappingForFieldValue_def ErrRelativeTimestampFieldNotFound_def
  ErrInvalidTimestampFormat_def ErrRelativeTTLExpired_def

section \<open>Field paths\<close>

text \<open>The scan of \<open>parseFieldPath\<close>: \<open>cur\<close> is the segment being built; a backslash
  before a dot writes the dot.\<close>

fun scan_field_path :: "string \<Rightarrow> string \<Rightarrow> string list" where
  "scan_field_path cur [] = [cur]"
| "scan_field_path cur [c] =
     (if c = CHR ''.'' then [cur, []] else [cur @ [c]])"
| "scan_field_path cur (c # d # cs) =
     (if c = CHR 0x5C \<and> d = CHR ''.'' then scan_field_path (cur @ [CHR ''.'']) cs
      else if c = CHR ''.'' then cur # scan_field_path [] (d # cs)
      else scan_field_path (cur @ [c]) (d # cs))"

definition parse_field_path :: "string \<Rightarrow> string list" where
  "parse_field_path path = (if path = [] then [] else scan_field_path [] path)"

text \<open>The path parser of the controller: \<open>strings.Split(path, ".")\<close> on a nonempty path.\<close>

definition controller_field_path :: "string \<Rightarrow> string list" where
  "controller_field_path path = (if path = [] then [] else split_on (CHR ''.'') path)"

section \<open>The four modes\<close>

definition fixed_ttl_expiration :: "uobj \<Rightarrow> ttl_config \<Rightarrow> gotime \<times> bool" where
  "fixed_ttl_expiration obj spec = (case tc_seconds_after_creation spec of
       None \<Rightarrow> (zero_time, False)
     | Some n \<Rightarrow> (time_add (u_created obj) (seconds n), True))"

definition mapped_ttl_for_value :: "ttl_config \<Rightarrow> string \<Rightarrow> go_error + int64" where
  "mapped_ttl_for_value spec v = (case map_of (tc_mappings spec) v of
       Some t \<Rightarrow> Inr t
     | None \<Rightarrow> (case tc_default spec of
           Some d \<Rightarrow> Inr d
         | None \<Rightarrow> Inl (Errorf [] ErrNoMappingForFieldValue ('': '' @ v))))"

text \<open>\<open>None\<close>: this mode does not apply to the specification (\<open>handled\<close> is false).\<close>

definition field_ttl_expiration :: "uobj \<Rightarrow> ttl_config \<Rightarrow> (go_error + gotime) option" where
  "field_ttl_expiration obj spec =
     (if tc_field_path spec = [] then None
      else let path = parse_field_path (tc_field_path spec);
               created = u_created obj;
               (value, found, err) = u_nested_int64 obj path in
        if err = None \<and> found then Some (Inr (time_add created (seconds value)))
        else let (str, found, err) = u_nested_string obj path in
          if err = None \<and> found \<and> length (tc_mappings spec) > 0 then
            Some (case mapped_ttl_for_value spec str of
                Inl e \<Rightarrow> Inl e
              | Inr t \<Rightarrow> Inr (time_add created (seconds t)))
          else (case tc_default spec of
              Some d \<Rightarrow> if \<not> found then Some (Inr (time_add created (seconds d)))
                        else Some (Inl (Errorf [] ErrFieldPathNotFound ('': '' @ tc_field_path spec)))
            | None \<Rightarrow> Some (Inl (Errorf [] ErrFieldPathNotFound ('': '' @ tc_field_path spec)))))"

definition relative_ttl_expiration ::
  "(string \<Rightarrow> go_error + gotime) \<Rightarrow> gotime \<Rightarrow> uobj \<Rightarrow> ttl_config \<Rightarrow> (go_error + gotime) option" where
  "relative_ttl_expiration parse now obj spec =
     (case tc_seconds_after spec of
        None \<Rightarrow> None
      | Some n \<Rightarrow>
        if tc_relative_to spec = [] then None
        else let (str, found, err) = u_nested_string obj (parse_field_path (tc_relative_to spec)) in
          if err \<noteq> None \<or> \<not> found then
            Some (Inl (Errorf [] ErrRelativeTimestampFieldNotFound ('': '' @ tc_relative_to spec)))
          else (case parse str of
              Inl e \<Rightarrow> Some (Inl (Errorf2 ErrInvalidTimestampFormat '': '' e))
            | Inr ts \<Rightarrow>
                let expiration = time_add ts (seconds n) in
                if time_after now expiration then Some (Inl (Errorf [] ErrRelativeTTLExpired []))
                else Some (Inr expiration)))"

definition calculate_expiration_time ::
  "(string \<Rightarrow> go_error + gotime) \<Rightarrow> gotime \<Rightarrow> uobj \<Rightarrow> ttl_config option \<Rightarrow> go_error + gotime" where
  "calculate_expiration_time parse now obj ospec = (case ospec of
       None \<Rightarrow> Inl ErrNoValidTTLConfiguration
     | Some spec \<Rightarrow>
        (let (expiration, handled) = fixed_ttl_expiration obj spec in
         if handled then Inr expiration
         else (case field_ttl_expiration obj spec of
             Some r \<Rightarrow> r
           | None \<Rightarrow> (case relative_ttl_expiration parse now obj spec of
                 Some r \<Rightarrow> r
               | None \<Rightarrow> Inl (Errorf [] ErrNoValidTTLConfiguration [])))))"

text \<open>\<open>IsExpired\<close> asks the clock a second time (\<open>now2\<close>).\<close>

definition is_expired ::
  "(string \<Rightarrow> go_error + gotime) \<Rightarrow> gotime \<Rightarrow> gotime \<Rightarrow> uobj \<Rightarrow> ttl_config option \<Rightarrow> go_error + bool" where
  "is_expired parse now now2 obj ospec =
     (case calculate_expiration_time parse now obj ospec of
        Inl e \<Rightarrow> Inl e
      | Inr t \<Rightarrow> if is_zero_time t then Inr False else Inr (time_after now2 t))"

definition calculate_expiration_time_shared ::
  "(string \<Rightarrow> go_error + gotime) \<Rightarrow> gotime \<Rightarrow> uobj \<Rightarrow> ttl_spec \<Rightarrow> go_error + gotime" where
  "calculate_expiration_time_shared parse now obj spec =
     calculate_expiration_time parse now obj (Some (convert_to_local_ttl_spec spec))"

section \<open>Laws of the path parser\<close>

text \<open>Escaping a key: the dots get a backslash.\<close>

definition escape_segment :: "string \<Rightarrow> string" where
  "escape_segment s = concat (map (\<lambda>c. if c = CHR ''.'' then [CHR 0x5C, CHR ''.''] else [c]) s)"

lemma escape_segment_Cons:
  "escape_segment (c # s) = (if c = CHR ''.'' then [CHR 0x5C, CHR ''.''] else [c]) @ escape_segment s"
  by (simp add: escape_segment_def)

lemma escape_segment_Nil [simp]: "escape_segment [] = []"
  by (simp add: escape_segment_def)

lemma scan_plain:
  "c \<noteq> CHR 0x5C \<Longrightarrow> c \<noteq> CHR ''.'' \<Longrightarrow> scan_field_path cur (c # s) = scan_field_path (cur @ [c]) s"
  by (cases s) auto

lemma scan_escaped:
  "CHR 0x5C \<notin> set s \<Longrightarrow>
     scan_field_path cur (escape_segment s @ t) = scan_field_path (cur @ s) t"
proof (induction s arbitrary: cur)
  case Nil
  then show ?case by simp
next
  case (Cons c s)
  show ?case
  proof (cases "c = CHR ''.''")
    case True
    with Cons show ?thesis by (simp add: escape_segment_Cons)
  next
    case False
    moreover from Cons.prems have "c \<noteq> CHR 0x5C" by auto
    ultimately show ?thesis
      using Cons by (simp add: escape_segment_Cons scan_plain)
  qed
qed

lemma scan_dot: "scan_field_path cur (CHR ''.'' # s) = cur # scan_field_path [] s"
  by (cases s) auto

lemma scan_join_escaped:
  assumes "segs \<noteq> []" "\<forall>s \<in> set segs. CHR 0x5C \<notin> set s"
  shows "scan_field_path [] (join_with ''.'' (map escape_segment segs)) = segs"
  using assms
proof (induction segs)
  case Nil
  then show ?case by simp
next
  case (Cons s segs)
  show ?case
  proof (cases segs)
    case Nil
    with Cons.prems scan_escaped [of s "[]" "[]"] show ?thesis by simp
  next
    case (Cons t ts)
    with Cons.IH Cons.prems scan_escaped [of s "[]" "CHR ''.'' # join_with ''.'' (map escape_segment segs)"]
    show ?thesis by (simp add: scan_dot)
  qed
qed

lemma scan_eq_split:
  "CHR 0x5C \<notin> set s \<Longrightarrow>
     scan_field_path cur s = (case split_on (CHR ''.'') s of p # ps \<Rightarrow> (cur @ p) # ps)"
proof (induction s arbitrary: cur)
  case Nil
  then show ?case by simp
next
  case (Cons c s)
  obtain p ps where sp: "split_on (CHR ''.'') s = p # ps"
    by (metis list.exhaust split_on_nonempty)
  moreover from Cons.prems have "c \<noteq> CHR 0x5C" by auto
  ultimately show ?case
    using Cons by (cases "c = CHR ''.''") (simp_all add: scan_dot scan_plain)
qed

section \<open>Deadlines without the clock\<close>

text \<open>
  The abstract contract of the evaluator: the instant after which the object may be
  deleted, \<open>None\<close> when the specification gives none for this object.  It does not look
  at the clock; \<open>calculate_expiration_time\<close> does (the relative mode answers an error once
  the instant has passed), and agrees with it otherwise.
\<close>

definition ttl_deadline ::
  "(string \<Rightarrow> go_error + gotime) \<Rightarrow> uobj \<Rightarrow> ttl_config \<Rightarrow> gotime option" where
  "ttl_deadline parse obj spec =
     (case tc_seconds_after_creation spec of
        Some n \<Rightarrow> Some (time_add (u_created obj) (seconds n))
      | None \<Rightarrow>
        (case field_ttl_expiration obj spec of
           Some (Inr t) \<Rightarrow> Some t
         | Some (Inl e) \<Rightarrow> None
         | None \<Rightarrow>
           (case tc_seconds_after spec of
              None \<Rightarrow> None
            | Some n \<Rightarrow>
              if tc_relative_to spec = [] then None
              else (case u_nested_string obj (parse_field_path (tc_relative_to spec)) of
                  (str, True, None) \<Rightarrow>
                    (case parse str of Inr ts \<Rightarrow> Some (time_add ts (seconds n)) | Inl e \<Rightarrow> None)
                | _ \<Rightarrow> None))))"

lemma field_ttl_never_relative_expired:
  "field_ttl_expiration obj spec = Some (Inl e) \<Longrightarrow> \<not> errors_is ''ErrRelativeTTLExpired'' e"
  by (auto simp: field_ttl_expiration_def mapped_ttl_for_value_def ttl_errors Let_def
      split: if_splits option.splits prod.splits sum.splits)

text \<open>The parser's own errors are not the sentinel of this package.\<close>

definition parse_ok :: "(string \<Rightarrow> go_error + gotime) \<Rightarrow> bool" where
  "parse_ok parse \<longleftrightarrow> (\<forall>s e. parse s = Inl e \<longrightarrow> \<not> errors_is ''ErrRelativeTTLExpired'' e)"

lemma errors_is_Errorf2 [simp]: "errors_is n (Errorf2 a s b) \<longleftrightarrow> errors_is n a \<or> errors_is n b"
  by (simp add: errors_is_def)

lemma relative_ttl_deadline:
  assumes "parse_ok parse" "tc_seconds_after_creation spec = None"
    "field_ttl_expiration obj spec = None"
    "relative_ttl_expiration parse now obj spec = Some r"
  shows "(case r of
      Inl e \<Rightarrow> (if errors_is ''ErrRelativeTTLExpired'' e
                then (\<exists>d. ttl_deadline parse obj spec = Some d \<and> d < now)
                else ttl_deadline parse obj spec = None)
    | Inr t \<Rightarrow> ttl_deadline parse obj spec = Some t \<and> now \<le> t)"
  using assms
  by (auto simp: relative_ttl_expiration_def ttl_deadline_def ttl_errors Let_def parse_ok_def
      time_after_def split: if_splits option.splits prod.splits sum.splits bool.splits)

lemma relative_ttl_none:
  assumes "tc_seconds_after_creation spec = None" "field_ttl_expiration obj spec = None"
    "relative_ttl_expiration parse now obj spec = None"
  shows "ttl_deadline parse obj spec = None"
  using assms
  by (auto simp: relative_ttl_expiration_def ttl_deadline_def Let_def
      split: if_splits option.splits prod.splits sum.splits)

text \<open>The outcome of the evaluator in terms of the deadline.\<close>

lemma calculate_deadline:
  assumes "parse_ok parse"
  shows "(case calculate_expiration_time parse now obj (Some spec) of
      Inl e \<Rightarrow> (if errors_is ''ErrRelativeTTLExpired'' e
                then (\<exists>d. ttl_deadline parse obj spec = Some d \<and> d < now)
                else ttl_deadline parse obj spec = None)
    | Inr t \<Rightarrow> ttl_deadline parse obj spec = Some t)"
proof (cases "tc_seconds_after_creation spec")
  case (Some n)
  then show ?thesis
    by (simp add: calculate_expiration_time_def fixed_ttl_expiration_def ttl_deadline_def)
next
  case none: None
  show ?thesis
  proof (cases "field_ttl_expiration obj spec")
    case (Some r)
    with none show ?thesis
      using field_ttl_never_relative_expired [of obj spec]
      by (cases r) (simp_all add: calculate_expiration_time_def fixed_ttl_expiration_def ttl_deadline_def)
  next
    case field: None
    show ?thesis
    proof (cases "relative_ttl_expiration parse now obj spec")
      case None
      then show ?thesis
        using none field relative_ttl_none [OF none field None]
        by (simp add: calculate_expiration_time_def fixed_ttl_expiration_def ttl_errors)
    next
      case (Some r)
      with none field relative_ttl_deadline [OF assms none field Some] show ?thesis
        by (cases r) (simp_all add: calculate_expiration_time_def fixed_ttl_expiration_def)
    qed
  qed
qed

section \<open>Properties\<close>

text \<open>The fixed TTL is exact: for every number of seconds up to 9223372036 (about 292
  years) the expiration is the creation time plus that many seconds, whatever the other
  fields of the specification say: the fixed mode has precedence over the field and the
  relative mode.\<close>

theorem fixed_ttl_exact:
  assumes "ttl_seconds_after_creation spec = Some n"
    "- 9223372036 \<le> sint n" "sint n \<le> 9223372036"
  shows "calculate_expiration_time_shared parse now obj spec =
    Inr (u_created obj + sint n * 1000000000)"
  using assms
  by (simp add: calculate_expiration_time_shared_def calculate_expiration_time_def
      convert_to_local_ttl_spec_def fixed_ttl_expiration_def time_add_def sint_seconds)

theorem fixed_ttl_exact_witness:
  "calculate_expiration_time_shared (\<lambda>s. Inl (Errors_New s)) 0 ex_obj ex_ttl = Inr 60000000000"
  using fixed_ttl_exact [of ex_ttl 60 "\<lambda>s. Inl (Errors_New s)" 0 ex_obj]
  by (simp add: ex_defs)





text \<open>The two path parsers of the program (\<open>internal/ttl\<close> and
  \<open>pkg/controller/field_path.go\<close>) agree on every path without a backslash; and the
  controller's cannot produce a segment that contains a dot, so the escapes the TTL parser
  accepts have no meaning in selectors and conditions.\<close>

theorem field_path_parsers:
  "(CHR 0x5C \<notin> set path \<longrightarrow> controller_field_path path = parse_field_path path) \<and>
   (\<forall>seg. seg \<in> set (controller_field_path path) \<longrightarrow> CHR ''.'' \<notin> set seg)"
proof -
  obtain p ps where "split_on (CHR ''.'') path = p # ps"
    by (metis list.exhaust split_on_nonempty)
  then show ?thesis
    using scan_eq_split [of path "[]"] split_on_pieces [of _ "CHR ''.''" path]
    by (auto simp: controller_field_path_def parse_field_path_def split: if_splits)
qed

theorem field_path_parsers_witness:
  "controller_field_path ''spec.severity'' = parse_field_path ''spec.severity''"
  using field_path_parsers [of "''spec.severity''"] by simp

end
