(* ===== verification/Matching.thy ===== *)
theory Matching
  imports Ttl
begin

text \<open>
  Which objects a policy selects: the selectors and the conditions of
  \<open>pkg/controller/shared.go\<close> (\<open>matchesSelectorsShared\<close>, \<open>meetsConditionsShared\<close> and their
  parts) and the comparison of label selectors of \<open>label_selectors.go\<close>.

  \<open>metav1.LabelSelectorAsSelector\<close> and \<open>Matches\<close> are third-party: the parameter
  \<open>selector\<close> answers an error or the predicate on labels.
\<close>

section \<open>Selectors\<close>

type_synonym selector_fn = "label_selector \<Rightarrow> go_error + ((string, string) gomap \<Rightarrow> bool)"

text \<open>The loop over \<open>MatchFields\<close>.\<close>

fun match_fields :: "uobj \<Rightarrow> (string, string) gomap \<Rightarrow> bool" where
  "match_fields obj [] = True"
| "match_fields obj ((key, value) # rest) =
     (let (field, found, err) = u_nested_string obj (controller_field_path key) in
      if err \<noteq> None \<or> \<not> found \<or> field \<noteq> value then False else match_fields obj rest)"

definition matches_selectors :: "selector_fn \<Rightarrow> uobj \<Rightarrow> target_resource \<Rightarrow> bool" where
  "matches_selectors selector obj target =
     (let namespace = (if tr_namespace target = [] then ''*'' else tr_namespace target) in
      if namespace \<noteq> ''*'' \<and> u_namespace obj \<noteq> namespace then False
      else if (case tr_label_selector target of
                 None \<Rightarrow> False
               | Some ls \<Rightarrow> (case selector ls of
                     Inl e \<Rightarrow> True
                   | Inr sel \<Rightarrow> \<not> sel (u_labels obj))) then False
      else (case tr_field_selector target of
          None \<Rightarrow> True
        | Some fs \<Rightarrow> match_fields obj fs))"

section \<open>Conditions\<close>

definition meets_phase_conditions :: "uobj \<Rightarrow> string list \<Rightarrow> bool" where
  "meets_phase_conditions obj phases =
     (if phases = [] then True
      else let (phase, found, err) = u_nested_string obj [''status'', ''phase''] in
        if \<not> found then False else list_ex (\<lambda>p. phase = p) phases)"

fun meets_label_conditions :: "(string, string) gomap \<Rightarrow> label_condition list \<Rightarrow> bool" where
  "meets_label_conditions labels [] = True"
| "meets_label_conditions labels (c # cs) =
     (let ov = map_of labels (lc_key c) in
      if lc_operator c = ''Exists'' then
        (if ov = None then False else meets_label_conditions labels cs)
      else if lc_operator c = ''Equals'' \<or> lc_operator c = [] then
        (if ov \<noteq> Some (lc_value c) then False else meets_label_conditions labels cs)
      else if lc_operator c = ''In'' then
        (case ov of
           None \<Rightarrow> False
         | Some v \<Rightarrow>
            (let found = (if lc_value c \<noteq> [] then v = lc_value c else False) in
             if \<not> found then False else meets_label_conditions labels cs))
      else if lc_operator c = ''NotIn'' then
        (case ov of
           None \<Rightarrow> meets_label_conditions labels cs
         | Some v \<Rightarrow> if v = lc_value c then False else meets_label_conditions labels cs)
      else False)"

fun meets_annotation_conditions :: "(string, string) gomap \<Rightarrow> annotation_condition list \<Rightarrow> bool" where
  "meets_annotation_conditions anns [] = True"
| "meets_annotation_conditions anns (c # cs) =
     (case map_of anns (ac_key c) of
        None \<Rightarrow> False
      | Some v \<Rightarrow> if v \<noteq> ac_value c then False else meets_annotation_conditions anns cs)"

definition matches_field_operator :: "string \<Rightarrow> field_condition \<Rightarrow> bool" where
  "matches_field_operator v c =
     (if fc_operator c = ''Equals'' then v = fc_value c
      else if fc_operator c = ''NotEquals'' then v \<noteq> fc_value c
      else if fc_operator c = ''In'' then list_ex (\<lambda>x. v = x) (fc_values c)
      else if fc_operator c = ''NotIn'' then \<not> list_ex (\<lambda>x. v = x) (fc_values c)
      else False)"

fun meets_field_conditions :: "uobj \<Rightarrow> field_condition list \<Rightarrow> bool" where
  "meets_field_conditions obj [] = True"
| "meets_field_conditions obj (c # cs) =
     (let (v, found, err) = u_nested_string obj (controller_field_path (fc_field_path c)) in
      if \<not> found then False
      else if \<not> matches_field_operator v c then False
      else meets_field_conditions obj cs)"

definition meets_conditions :: "uobj \<Rightarrow> conditions_spec \<Rightarrow> bool" where
  "meets_conditions obj cs =
     (if \<not> meets_phase_conditions obj (cs_phase cs) then False
      else if \<not> meets_label_conditions (u_labels obj) (cs_has_labels cs) then False
      else if \<not> meets_annotation_conditions (u_annotations obj) (cs_has_annotations cs) then False
      else if \<not> meets_field_conditions obj (cs_and cs) then False
      else True)"

section \<open>Comparing selectors\<close>

definition match_labels_equal :: "(string, string) gomap \<Rightarrow> (string, string) gomap \<Rightarrow> bool" where
  "match_labels_equal a b =
     (if length a \<noteq> length b then False
      else list_all (\<lambda>(k, v). lookup_str b k = v) a)"

definition label_selector_requirement_equal :: "label_requirement \<Rightarrow> label_requirement \<Rightarrow> bool" where
  "label_selector_requirement_equal a b =
     (if lr_key a \<noteq> lr_key b \<or> lr_operator a \<noteq> lr_operator b
         \<or> length (lr_values a) \<noteq> length (lr_values b) then False
      else list_all2 (=) (lr_values a) (lr_values b))"

definition match_expressions_equal :: "label_requirement list \<Rightarrow> label_requirement list \<Rightarrow> bool" where
  "match_expressions_equal a b =
     (if length a \<noteq> length b then False else list_all2 label_selector_requirement_equal a b)"

definition label_selectors_equal :: "label_selector option \<Rightarrow> label_selector option \<Rightarrow> bool" where
  "label_selectors_equal a b = (case (a, b) of
       (None, None) \<Rightarrow> True
     | (Some x, Some y) \<Rightarrow>
        (if \<not> match_labels_equal (ls_match_labels x) (ls_match_labels y) then False
         else match_expressions_equal (ls_match_expressions x) (ls_match_expressions y))
     | _ \<Rightarrow> False)"

section \<open>Laws\<close>

text \<open>What one condition asks of an object, without the loops.\<close>

definition label_condition_holds :: "(string, string) gomap \<Rightarrow> label_condition \<Rightarrow> bool" where
  "label_condition_holds labels c \<longleftrightarrow>
     (lc_operator c = ''Exists'' \<and> map_of labels (lc_key c) \<noteq> None) \<or>
     (lc_operator c \<in> {''Equals'', []} \<and> map_of labels (lc_key c) = Some (lc_value c)) \<or>
     (lc_operator c = ''In'' \<and> lc_value c \<noteq> [] \<and> map_of labels (lc_key c) = Some (lc_value c)) \<or>
     (lc_operator c = ''NotIn'' \<and> map_of labels (lc_key c) \<noteq> Some (lc_value c))"

definition field_condition_holds :: "uobj \<Rightarrow> field_condition \<Rightarrow> bool" where
  "field_condition_holds obj c \<longleftrightarrow>
     (\<exists>v err. u_nested_string obj (controller_field_path (fc_field_path c)) = (v, True, err) \<and>
        ((fc_operator c = ''Equals'' \<and> v = fc_value c) \<or>
         (fc_operator c = ''NotEquals'' \<and> v \<noteq> fc_value c) \<or>
         (fc_operator c = ''In'' \<and> v \<in> set (fc_values c)) \<or>
         (fc_operator c = ''NotIn'' \<and> v \<notin> set (fc_values c))))"

lemma match_fields_iff:
  "match_fields obj fs \<longleftrightarrow>
     (\<forall>(k, v) \<in> set fs. u_nested_string obj (controller_field_path k) = (v, True, None))"
  by (induction fs rule: match_fields.induct) (auto split: prod.splits)

lemma meets_label_conditions_iff:
  "meets_label_conditions labels cs \<longleftrightarrow> (\<forall>c \<in> set cs. label_condition_holds labels c)"
proof (induction cs)
  case Nil
  then show ?case by simp
next
  case (Cons c cs)
  consider "lc_operator c = ''Exists''" | "lc_operator c = ''Equals''" | "lc_operator c = []"
    | "lc_operator c = ''In''" | "lc_operator c = ''NotIn''"
    | "lc_operator c \<notin> {''Exists'', ''Equals'', [], ''In'', ''NotIn''}"
    by blast
  then have "meets_label_conditions labels (c # cs) \<longleftrightarrow>
      label_condition_holds labels c \<and> meets_label_conditions labels cs"
    by cases (simp_all add: label_condition_holds_def Let_def split: option.split, blast+)
  with Cons.IH show ?case by simp
qed

lemma meets_annotation_conditions_iff:
  "meets_annotation_conditions anns cs \<longleftrightarrow> (\<forall>c \<in> set cs. map_of anns (ac_key c) = Some (ac_value c))"
  by (induction cs) (auto split: option.splits)

lemma meets_field_conditions_iff:
  "meets_field_conditions obj cs \<longleftrightarrow> (\<forall>c \<in> set cs. field_condition_holds obj c)"
proof (induction cs)
  case Nil
  then show ?case by simp
next
  case (Cons c cs)
  obtain v found err where n: "u_nested_string obj (controller_field_path (fc_field_path c)) = (v, found, err)"
    by (metis prod_cases3)
  consider "fc_operator c = ''Equals''" | "fc_operator c = ''NotEquals''" | "fc_operator c = ''In''"
    | "fc_operator c = ''NotIn''" | "fc_operator c \<notin> {''Equals'', ''NotEquals'', ''In'', ''NotIn''}"
    by blast
  then have "matches_field_operator v c \<longleftrightarrow>
     (fc_operator c = ''Equals'' \<and> v = fc_value c) \<or>
     (fc_operator c = ''NotEquals'' \<and> v \<noteq> fc_value c) \<or>
     (fc_operator c = ''In'' \<and> v \<in> set (fc_values c)) \<or>
     (fc_operator c = ''NotIn'' \<and> v \<notin> set (fc_values c))"
    by cases (simp_all add: matches_field_operator_def list_ex_iff)
  with n have "field_condition_holds obj c \<longleftrightarrow> found \<and> matches_field_operator v c"
    unfolding field_condition_holds_def by auto
  with Cons.IH n show ?case by simp
qed

lemma list_all2_eq_iff: "list_all2 (=) xs ys \<longleftrightarrow> xs = ys"
  by (simp add: list.rel_eq)

lemma requirement_equal_iff: "label_selector_requirement_equal a b \<longleftrightarrow> a = b"
  by (auto simp: label_selector_requirement_equal_def list_all2_eq_iff)

lemma match_expressions_equal_iff: "match_expressions_equal a b \<longleftrightarrow> a = b"
proof -
  have "label_selector_requirement_equal = (=)"
    by (intro ext) (rule requirement_equal_iff)
  then show ?thesis
    by (auto simp: match_expressions_equal_def list_all2_eq_iff)
qed

lemma match_labels_equal_sound:
  assumes "gomap_ok a" "gomap_ok b" "\<forall>(k, v) \<in> set a. v \<noteq> []"
  shows "match_labels_equal a b \<longleftrightarrow> map_of a = map_of b"
proof
  assume eq: "match_labels_equal a b"
  then have len: "length a = length b" and look: "\<forall>(k, v) \<in> set a. lookup_str b k = v"
    by (auto simp: match_labels_equal_def list_all_iff split: if_splits)
  have sub: "set a \<subseteq> set b"
  proof
    fix kv
    assume kv: "kv \<in> set a"
    obtain k v where "kv = (k, v)" by fastforce
    with kv look assms(3) have "lookup_str b k = v" "v \<noteq> []" by auto
    with \<open>kv = (k, v)\<close> show "kv \<in> set b"
      by (auto simp: lookup_str_def split: option.splits dest: map_of_SomeD)
  qed
  have "card (set a) = length a" "card (set b) = length b"
    using assms(1,2) by (auto simp: gomap_ok_def distinct_map intro: distinct_card)
  with len sub have "set a = set b"
    by (intro card_subset_eq) auto
  with assms(1,2) show "map_of a = map_of b"
    by (simp add: gomap_ok_def map_of_inject_set)
next
  assume "map_of a = map_of b"
  with assms(1,2) have s: "set a = set b"
    by (simp add: gomap_ok_def map_of_inject_set)
  have "length a = length b"
    using assms(1,2) s by (metis distinct_card distinct_map gomap_ok_def)
  moreover have "lookup_str b k = v" if "(k, v) \<in> set a" for k v
    using that s assms(2) by (simp add: lookup_str_def gomap_ok_def)
  ultimately show "match_labels_equal a b"
    by (auto simp: match_labels_equal_def list_all_iff)
qed

section \<open>Properties\<close>

text \<open>An object is selected exactly when its namespace is the target's (an empty namespace
  and the star select all), its labels satisfy the label selector, and every field of the
  field selector is a string with the given value; a selector that does not compile selects
  nothing.\<close>

theorem matches_selectors_law:
  "matches_selectors selector obj target \<longleftrightarrow>
     (tr_namespace target \<in> {[], ''*''} \<or> u_namespace obj = tr_namespace target) \<and>
     (\<forall>ls. tr_label_selector target = Some ls \<longrightarrow>
        (\<exists>sel. selector ls = Inr sel \<and> sel (u_labels obj))) \<and>
     (\<forall>fs k v. tr_field_selector target = Some fs \<longrightarrow> (k, v) \<in> set fs \<longrightarrow>
        u_nested_string obj (controller_field_path k) = (v, True, None))"
  by (auto simp: matches_selectors_def match_fields_iff Let_def split: option.splits sum.splits)

theorem matches_selectors_law_witness:
  "matches_selectors (\<lambda>ls. Inl (Errors_New [])) ex_obj ex_target"
  using matches_selectors_law [of "\<lambda>ls. Inl (Errors_New [])" ex_obj ex_target]
  by (simp add: ex_defs)

text \<open>The conditions are a conjunction over everything the specification lists: one of the
  phases (or none listed), every label, annotation and field condition with the documented
  meaning of its operator; an operator outside the implemented vocabulary makes the
  condition fail, so nothing is deleted.\<close>

theorem meets_conditions_law:
  "meets_conditions obj cs \<longleftrightarrow>
     (cs_phase cs = [] \<or>
        (\<exists>phase err. u_nested_string obj [''status'', ''phase''] = (phase, True, err)
           \<and> phase \<in> set (cs_phase cs))) \<and>
     (\<forall>c \<in> set (cs_has_labels cs). label_condition_holds (u_labels obj) c) \<and>
     (\<forall>c \<in> set (cs_has_annotations cs). map_of (u_annotations obj) (ac_key c) = Some (ac_value c)) \<and>
     (\<forall>c \<in> set (cs_and cs). field_condition_holds obj c)"
  by (auto simp: meets_conditions_def meets_label_conditions_iff meets_annotation_conditions_iff
      meets_field_conditions_iff meets_phase_conditions_def list_ex_iff split: prod.splits)

definition ex_conditions :: conditions_spec where
  "ex_conditions = \<lparr>cs_phase = [], cs_has_labels = [], cs_has_annotations = [], cs_and = []\<rparr>"

theorem meets_conditions_law_witness:
  "meets_conditions ex_obj ex_conditions"
  using meets_conditions_law [of ex_obj ex_conditions]
  by (simp add: ex_conditions_def)

text \<open>The operator Exists, which the API type documents for field conditions, is not
  implemented: a policy with such a condition deletes nothing, whatever the object holds.\<close>

theorem field_exists_never_met:
  assumes "c \<in> set (cs_and cs)" "fc_operator c = ''Exists''"
  shows "\<not> meets_conditions obj cs"
proof
  assume "meets_conditions obj cs"
  then have "meets_field_conditions obj (cs_and cs)"
    by (simp add: meets_conditions_def split: if_splits)
  with assms show False
    by (auto simp: meets_field_conditions_iff field_condition_holds_def)
qed

theorem field_exists_never_met_witness:
  "\<not> meets_conditions ex_obj (ex_conditions\<lparr>cs_and := [\<lparr>fc_field_path = ''spec.ttl'',
      fc_operator = ''Exists'', fc_value = [], fc_values = []\<rparr>]\<rparr>)"
  by (rule field_exists_never_met [of "\<lparr>fc_field_path = ''spec.ttl'',
      fc_operator = ''Exists'', fc_value = [], fc_values = []\<rparr>"]) (simp_all add: ex_conditions_def)

text \<open>Comparing two label selectors is equality of what they select by, when no match label
  of the first has an empty value: same labels in any order and the same expressions in the
  same order.\<close>

theorem label_selectors_equal_law:
  assumes "gomap_ok (ls_match_labels a)" "gomap_ok (ls_match_labels b)"
    "\<forall>(k, v) \<in> set (ls_match_labels a). v \<noteq> []"
  shows "label_selectors_equal (Some a) (Some b) \<longleftrightarrow>
    map_of (ls_match_labels a) = map_of (ls_match_labels b) \<and>
    ls_match_expressions a = ls_match_expressions b"
  using match_labels_equal_sound [OF assms]
  by (simp add: label_selectors_equal_def match_expressions_equal_iff)

theorem label_selectors_equal_law_witness:
  "\<not> label_selectors_equal
      (Some \<lparr>ls_match_labels = [(''a'', ''1'')], ls_match_expressions = []\<rparr>)
      (Some \<lparr>ls_match_labels = [(''b'', ''1'')], ls_match_expressions = []\<rparr>)"
  by (subst label_selectors_equal_law) (simp_all add: gomap_ok_def fun_eq_iff exI [of _ "''a''"])

text \<open>With an empty value it is not: two selectors on different keys count as equal, so the
  change from one to the other is not seen as a change of the target.\<close>

theorem label_selectors_equal_empty_values:
  assumes "k1 \<noteq> k2"
  shows "label_selectors_equal
      (Some \<lparr>ls_match_labels = [(k1, [])], ls_match_expressions = es\<rparr>)
      (Some \<lparr>ls_match_labels = [(k2, [])], ls_match_expressions = es\<rparr>)
    \<and> map_of [(k1, [] :: string)] \<noteq> map_of [(k2, [])]"
  using assms
  by (simp add: label_selectors_equal_def match_labels_equal_def lookup_str_def
      match_expressions_equal_iff fun_eq_iff) blast

theorem label_selectors_equal_empty_values_witness:
  "label_selectors_equal
      (Some \<lparr>ls_match_labels = [(''a'', [])], ls_match_expressions = []\<rparr>)
      (Some \<lparr>ls_match_labels = [(''b'', [])], ls_match_expressions = []\<rparr>)"
  using label_selectors_equal_empty_values [of "''a''" "''b''" "[]"] by simp

end
