(* ===== verification/Evaluation.thy ===== *)
theory Evaluation
  imports Receipts Status Matching
begin

text \<open>
  One evaluation of a policy: \<open>PolicyEvaluationService\<close> of
  \<open>pkg/controller/evaluate_policy_refactored.go\<close> with its injected dependencies, the shared
  path of \<open>evaluate_policy_shared.go\<close>, \<open>shouldDelete\<close> of \<open>reconciler_deletion.go\<close>,
  \<open>batch_config.go\<close> and the listers of \<open>adapters.go\<close> and \<open>infrastructure.go\<close>.

  The injected interfaces are the fields of \<open>evaluation_service\<close>; a nil limiter, status
  updater or gate is \<open>None\<close>.  The status updater is known by its configuration.  The
  duration histogram is not modelled.  Capacities of slices and maps have no effect.
\<close>

section \<open>The service\<close>

record 'w evaluation_service =
  es_list :: "gvr \<Rightarrow> string \<Rightarrow> ('w, go_error + uobj list) prog"
  es_matches :: "uobj \<Rightarrow> target_resource \<Rightarrow> bool"
  es_meets :: "uobj \<Rightarrow> conditions_spec \<Rightarrow> bool"
  es_limiter :: "policy \<Rightarrow> ('w, limiter option) prog"
  es_delete_batch :: "uobj list \<Rightarrow> policy \<Rightarrow> limiter \<Rightarrow> (string, string) gomap \<Rightarrow> ('w, int \<times> go_error list) prog"
  es_status :: "controller_config option"
  es_gate :: "decision option"
  es_recorder :: bool
  es_config :: "controller_config option"

definition ReasonTTLExpired :: string where "ReasonTTLExpired = ''ttl_expired''"
definition ReasonNotExpired :: string where "ReasonNotExpired = ''not_expired''"
definition ReasonNoTTL :: string where "ReasonNoTTL = ''no_ttl''"
definition ReasonConditionNotMet :: string where "ReasonConditionNotMet = ''condition_not_met''"

definition DefaultBatchSize :: int where "DefaultBatchSize = 50"

definition resolve_batch_size :: "policy \<Rightarrow> controller_config option \<Rightarrow> int" where
  "resolve_batch_size p cfg =
     (let batch = DefaultBatchSize;
          batch = (case cfg of Some c \<Rightarrow> cc_batch_size c | None \<Rightarrow> batch)
      in if bh_batch_size (p_behavior p) > 0 then bh_batch_size (p_behavior p) else batch)"

text \<open>The verdict on a calculated expiration, at the time \<open>now\<close>.\<close>

definition expiry_verdict :: "gotime \<Rightarrow> go_error + gotime \<Rightarrow> bool \<times> string" where
  "expiry_verdict now x = (case x of
       Inl e \<Rightarrow> if errors_is ''ErrRelativeTTLExpired'' e then (True, ReasonTTLExpired) else (False, ReasonNoTTL)
     | Inr t \<Rightarrow> if is_zero_time t then (False, ReasonNoTTL)
         else if time_after now t then (True, ReasonTTLExpired)
         else (False, ReasonNotExpired))"

text \<open>The clock is read for the calculation (of use to the relative mode only) and again for
  the verdict.\<close>

definition should_delete :: "'w cluster \<Rightarrow> uobj \<Rightarrow> policy \<Rightarrow> ('w, bool \<times> string) prog" where
  "should_delete cl obj p = do {
     now1 \<leftarrow> ask (cl_now cl);
     let x = calculate_expiration_time_shared (cl_parse_time cl) now1 obj (ps_ttl (p_spec p));
     now2 \<leftarrow> ask (cl_now cl);
     State_Monad.return (expiry_verdict now2 x)
   }"

section \<open>Building the plan\<close>

record plan =
  pl_matched :: int
  pl_pending :: int
  pl_delete :: "uobj list"
  pl_reasons :: "(string, string) gomap"
  pl_refusals :: "(string, int) gomap"

definition empty_plan :: plan where
  "empty_plan = \<lparr>pl_matched = 0, pl_pending = 0, pl_delete = [], pl_reasons = [], pl_refusals = []\<rparr>"

text \<open>The body of the loop for one object.\<close>

definition evaluate_one ::
  "'w cluster \<Rightarrow> 'w evaluation_service \<Rightarrow> policy \<Rightarrow> plan \<Rightarrow> uobj \<Rightarrow> ('w, plan) prog" where
  "evaluate_one cl svc p pl obj =
     (if \<not> es_matches svc obj (p_target p) then State_Monad.return pl
      else do {
        record_resource_matched p;
        let pl1 = pl\<lparr>pl_matched := pl_matched pl + 1\<rparr>;
        case (case es_gate svc of Some decide \<Rightarrow> decide (Some obj) (p_behavior p) | None \<Rightarrow> (True, [])) of
          (allowed, refusal) \<Rightarrow>
            if \<not> allowed then do {
              record_safety_refusal refusal;
              State_Monad.return (pl1\<lparr>pl_refusals := bump refusal (pl_refusals pl1)\<rparr>)
            }
            else if (case ps_conditions (p_spec p) of Some cs \<Rightarrow> \<not> es_meets svc obj cs | None \<Rightarrow> False)
            then State_Monad.return (pl1\<lparr>pl_pending := pl_pending pl1 + 1\<rparr>)
            else do {
              record_candidate_considered;
              (yes, reason) \<leftarrow> should_delete cl obj p;
              State_Monad.return
                (if \<not> yes then pl1\<lparr>pl_pending := pl_pending pl1 + 1\<rparr>
                 else pl1\<lparr>pl_delete := pl_delete pl1 @ [obj],
                          pl_reasons := AList.update (u_uid obj) reason (pl_reasons pl1)\<rparr>)
            }
      })"

text \<open>The loop over the resources, for the body \<open>one\<close>: the context is polled every 100.\<close>

fun plan_loop ::
  "'w cluster \<Rightarrow> (plan \<Rightarrow> uobj \<Rightarrow> ('w, plan) prog) \<Rightarrow> nat \<Rightarrow> plan \<Rightarrow> uobj list \<Rightarrow> ('w, plan) prog" where
  "plan_loop cl one i pl [] = State_Monad.return pl"
| "plan_loop cl one i pl (obj # rest) = do {
     stop \<leftarrow> (if i mod 100 = 0 then ask (cl_ctx cl) else State_Monad.return None);
     case stop of
       Some e \<Rightarrow> State_Monad.return pl
     | None \<Rightarrow> do {
         pl' \<leftarrow> one pl obj;
         plan_loop cl one (i + 1) pl' rest
       }
   }"

definition evaluate_resources ::
  "'w cluster \<Rightarrow> 'w evaluation_service \<Rightarrow> policy \<Rightarrow> uobj list \<Rightarrow> ('w, plan) prog" where
  "evaluate_resources cl svc p objs = do {
     stop \<leftarrow> ask (cl_ctx cl);
     case stop of
       Some e \<Rightarrow> State_Monad.return empty_plan
     | None \<Rightarrow> plan_loop cl (evaluate_one cl svc p) 0 empty_plan objs
   }"

section \<open>Executing the plan\<close>

fun record_batch_errors :: "bool \<Rightarrow> go_error list \<Rightarrow> ('w, unit) prog" where
  "record_batch_errors recorder [] = State_Monad.return ()"
| "record_batch_errors recorder (e # es) = do {
     record_evaluation_failed recorder e;
     record_batch_errors recorder es
   }"

text \<open>
  The loop \<open>for i := 0; i < len; i += batchSize\<close>.  A batch size of zero never advances: each
  round of the loop takes one unit of fuel.  Slicing with an end before the start panics.
\<close>

fun delete_loop ::
  "nat \<Rightarrow> 'w cluster \<Rightarrow> (uobj list \<Rightarrow> ('w, int \<times> go_error list) prog) \<Rightarrow> bool \<Rightarrow> policy \<Rightarrow> int \<Rightarrow> int
     \<Rightarrow> int \<Rightarrow> uobj list \<Rightarrow> ('w, int run) prog" where
  "delete_loop 0 cl del recorder p bs i cnt objs = State_Monad.return Out_Of_Fuel"
| "delete_loop (Suc n) cl del recorder p bs i cnt objs =
     (if \<not> i < int (length objs) then State_Monad.return (Returned cnt)
      else do {
        stop \<leftarrow> ask (cl_ctx cl);
        case stop of
          Some e \<Rightarrow> State_Monad.return (Returned cnt)
        | None \<Rightarrow>
           (let stop_at = (if i + bs > int (length objs) then int (length objs) else i + bs) in
            if stop_at < i then State_Monad.return (Panicked ''slice bounds out of range'')
            else do {
              (d, errs) \<leftarrow> del (take (nat (stop_at - i)) (drop (nat i) objs));
              (if length errs > 0 then record_error (p_namespace p) (p_name p) ''deletion_failed''
               else State_Monad.return ());
              record_batch_errors recorder errs;
              delete_loop n cl del recorder p bs (i + bs) (cnt + d) objs
            })
      })"

definition delete_resources_in_batches ::
  "nat \<Rightarrow> 'w cluster \<Rightarrow> 'w evaluation_service \<Rightarrow> policy \<Rightarrow> uobj list \<Rightarrow> (string, string) gomap
     \<Rightarrow> ('w, int run) prog" where
  "delete_resources_in_batches fuel cl svc p objs reasons = do {
     stop \<leftarrow> ask (cl_ctx cl);
     case stop of
       Some e \<Rightarrow> State_Monad.return (Returned 0)
     | None \<Rightarrow> do {
         ol \<leftarrow> es_limiter svc p;
         case ol of
           None \<Rightarrow> State_Monad.return (Returned 0)
         | Some l \<Rightarrow> delete_loop fuel cl (\<lambda>batch. es_delete_batch svc batch p l reasons)
             (es_recorder svc) p (resolve_batch_size p (es_config svc)) 0 0 objs
       }
   }"

definition policy_error :: "go_error \<Rightarrow> string \<Rightarrow> string \<Rightarrow> policy \<Rightarrow> go_error" where
  "policy_error e code msg p =
     ce_with_context (ce_with_context (errors_wrap (Some e) code msg)
       ''policy_namespace'' (p_namespace p)) ''policy_name'' (p_name p)"

text \<open>\<open>cl_status_ctx\<close> is \<open>statusCtx.Err()\<close> after the update.\<close>

definition update_policy_status ::
  "'w cluster \<Rightarrow> controller_config option \<Rightarrow> bool \<Rightarrow> policy \<Rightarrow> int \<Rightarrow> int \<Rightarrow> int \<Rightarrow> (string, int) gomap
     \<Rightarrow> ('w, go_error option) prog" where
  "update_policy_status cl updater recorder p matched deleted pending refusals = (case updater of
       None \<Rightarrow> State_Monad.return None
     | Some cfg \<Rightarrow> do {
         oe \<leftarrow> update_status cl (Some cfg) p matched deleted pending refusals;
         case oe of
           None \<Rightarrow> State_Monad.return None
         | Some e \<Rightarrow> do {
             c \<leftarrow> ask (cl_status_ctx cl);
             case c of
               Some e' \<Rightarrow> State_Monad.return None
             | None \<Rightarrow> do {
                 let e' = policy_error e ''status_update_failed'' ''failed to update policy status'' p;
                 record_error (p_namespace p) (p_name p) ''status_update_failed'';
                 record_status_update_failed recorder e';
                 State_Monad.return (Some e')
               }
           }
       })"

section \<open>The evaluation\<close>

text \<open>The status and the event that close an evaluation.\<close>

definition finish_evaluation ::
  "'w cluster \<Rightarrow> controller_config option \<Rightarrow> bool \<Rightarrow> policy \<Rightarrow> int \<Rightarrow> int \<Rightarrow> int \<Rightarrow> (string, int) gomap
     \<Rightarrow> ('w, go_error option run) prog" where
  "finish_evaluation cl updater recorder p matched deleted pending refusals = do {
     (if pending > 0 then record_resources_pending p pending else State_Monad.return ());
     oe \<leftarrow> update_policy_status cl updater recorder p matched deleted pending refusals;
     case oe of
       Some e \<Rightarrow> State_Monad.return (Returned (Some e))
     | None \<Rightarrow> do {
         record_policy_evaluated recorder matched deleted pending;
         State_Monad.return (Returned None)
       }
   }"

definition evaluate_policy ::
  "nat \<Rightarrow> 'w cluster \<Rightarrow> (string \<Rightarrow> go_error + string \<times> string) \<Rightarrow> 'w evaluation_service \<Rightarrow> policy
     \<Rightarrow> ('w, go_error option run) prog" where
  "evaluate_policy fuel cl pgv svc p =
     (case parse_gvr pgv (tr_api_version (p_target p)) (tr_kind (p_target p)) of
        Inl e \<Rightarrow> do {
          record_error (p_namespace p) (p_name p) ''invalid_gvr'';
          State_Monad.return (Returned (Some (policy_error e ''invalid_gvr'' ''failed to parse GVR'' p)))
        }
      | Inr g \<Rightarrow> do {
          let ns = (if tr_namespace (p_target p) = [] then ''*'' else tr_namespace (p_target p));
          r \<leftarrow> es_list svc g ns;
          case r of
            Inl e \<Rightarrow> do {
              record_error (p_namespace p) (p_name p) ''list_resources_failed'';
              State_Monad.return (Returned (Some (policy_error e ''list_resources_failed''
                ''failed to list resources'' p)))
            }
          | Inr objs \<Rightarrow> do {
              pl \<leftarrow> evaluate_resources cl svc p objs;
              bind_run (if length (pl_delete pl) > 0
                 then delete_resources_in_batches fuel cl svc p (pl_delete pl) (pl_reasons pl)
                 else State_Monad.return (Returned 0))
               (\<lambda>deleted. finish_evaluation cl (es_status svc) (es_recorder svc) p (pl_matched pl)
                  deleted (pl_pending pl) (pl_refusals pl))
            }
        })"

section \<open>What a plan contains\<close>

text \<open>The decision on one object, for two readings of the clock.\<close>

definition expired_at :: "'w cluster \<Rightarrow> policy \<Rightarrow> gotime \<Rightarrow> gotime \<Rightarrow> uobj \<Rightarrow> bool" where
  "expired_at cl p now1 now2 obj = fst (expiry_verdict now2
     (calculate_expiration_time_shared (cl_parse_time cl) now1 obj (ps_ttl (p_spec p))))"

definition gate_passes :: "'w evaluation_service \<Rightarrow> policy \<Rightarrow> uobj \<Rightarrow> bool" where
  "gate_passes svc p obj = (case es_gate svc of
     Some decide \<Rightarrow> fst (decide (Some obj) (p_behavior p)) | None \<Rightarrow> True)"

definition conditions_met :: "'w evaluation_service \<Rightarrow> policy \<Rightarrow> uobj \<Rightarrow> bool" where
  "conditions_met svc p obj = (case ps_conditions (p_spec p) of
     Some cs \<Rightarrow> es_meets svc obj cs | None \<Rightarrow> True)"

definition candidate :: "'w evaluation_service \<Rightarrow> policy \<Rightarrow> uobj \<Rightarrow> bool" where
  "candidate svc p obj \<longleftrightarrow> es_matches svc obj (p_target p) \<and> gate_passes svc p obj \<and> conditions_met svc p obj"

text \<open>An object the evaluation may plan: a candidate found expired by some readings of the clock.\<close>

definition plannable :: "'w cluster \<Rightarrow> 'w evaluation_service \<Rightarrow> policy \<Rightarrow> uobj \<Rightarrow> bool" where
  "plannable cl svc p obj \<longleftrightarrow> candidate svc p obj \<and>
     (\<exists>w1 w2. expired_at cl p (fst (cl_now cl w1)) (fst (cl_now cl w2)) obj)"

definition balanced :: "plan \<Rightarrow> bool" where
  "balanced pl \<longleftrightarrow> pl_matched pl = counts (pl_refusals pl) + pl_pending pl + int (length (pl_delete pl))"

definition plan_ok :: "'w cluster \<Rightarrow> 'w evaluation_service \<Rightarrow> policy \<Rightarrow> uobj list \<Rightarrow> plan \<Rightarrow> bool" where
  "plan_ok cl svc p objs pl \<longleftrightarrow> balanced pl \<and> subseq (pl_delete pl) objs \<and> 0 \<le> pl_pending pl \<and>
     pl_matched pl \<le> int (length objs) \<and>
     (\<forall>obj \<in> set (pl_delete pl). plannable cl svc p obj \<and>
        map_of (pl_reasons pl) (u_uid obj) = Some ReasonTTLExpired)"

lemma expiry_verdict_reason: "fst (expiry_verdict now x) \<Longrightarrow> snd (expiry_verdict now x) = ReasonTTLExpired"
  by (auto simp: expiry_verdict_def split: sum.splits if_splits)

lemma run_should_delete:
  "run_state (should_delete cl obj p) s =
     (let (now1, w1) = cl_now cl (sy_env s); (now2, w2) = cl_now cl w1 in
      (expiry_verdict now2 (calculate_expiration_time_shared (cl_parse_time cl) now1 obj (ps_ttl (p_spec p))),
       s\<lparr>sy_env := w2\<rparr>))"
  by (simp add: should_delete_def case_prod_beta)

text \<open>The body of the loop by cases, for the plan before it.\<close>

definition plan_step :: "'w cluster \<Rightarrow> 'w evaluation_service \<Rightarrow> policy \<Rightarrow> uobj \<Rightarrow> gotime \<Rightarrow> gotime \<Rightarrow> plan \<Rightarrow> plan" where
  "plan_step cl svc p obj now1 now2 pl =
     (if \<not> es_matches svc obj (p_target p) then pl
      else let pl1 = pl\<lparr>pl_matched := pl_matched pl + 1\<rparr> in
        if \<not> gate_passes svc p obj then pl1\<lparr>pl_refusals := bump
             (case es_gate svc of Some decide \<Rightarrow> snd (decide (Some obj) (p_behavior p)) | None \<Rightarrow> [])
             (pl_refusals pl1)\<rparr>
        else if \<not> conditions_met svc p obj \<or> \<not> expired_at cl p now1 now2 obj
        then pl1\<lparr>pl_pending := pl_pending pl1 + 1\<rparr>
        else pl1\<lparr>pl_delete := pl_delete pl1 @ [obj],
                 pl_reasons := AList.update (u_uid obj) ReasonTTLExpired (pl_reasons pl1)\<rparr>)"

lemma run_evaluate_one:
  "\<exists>w1 w2 es. fst (run_state (evaluate_one cl svc p pl obj) s) =
       plan_step cl svc p obj (fst (cl_now cl w1)) (fst (cl_now cl w2)) pl \<and>
     sy_trace (snd (run_state (evaluate_one cl svc p pl obj) s)) = sy_trace s @ es \<and> list_all is_report es"
proof -
  let ?w1 = "sy_env s"
  let ?w2 = "snd (cl_now cl (sy_env s))"
  show ?thesis
    by (intro exI [of _ ?w1] exI [of _ ?w2])
      (auto simp: evaluate_one_def plan_step_def gate_passes_def conditions_met_def expired_at_def
        report_defs is_report_def run_should_delete case_prod_beta Let_def expiry_verdict_reason
        split: option.split)
qed

lemma plan_step_ok:
  assumes "plan_ok cl svc p objs pl"
  shows "plan_ok cl svc p (objs @ [obj]) (plan_step cl svc p obj (fst (cl_now cl w1)) (fst (cl_now cl w2)) pl)"
proof -
  have keep: "subseq (pl_delete pl) (objs @ [obj])"
    using assms by (auto simp: plan_ok_def intro: list_emb_prefix)
  have add: "subseq (pl_delete pl @ [obj]) (objs @ [obj])"
    using assms by (simp add: plan_ok_def list_emb_append_mono)
  show ?thesis
    using assms keep add
    by (auto simp: plan_step_def plan_ok_def balanced_def plannable_def candidate_def update_conv' Let_def)
qed

lemma plan_ok_more: "plan_ok cl svc p objs pl \<Longrightarrow> plan_ok cl svc p (objs @ rest) pl"
  by (auto simp: plan_ok_def intro: list_emb_prefix)

lemma empty_plan_ok: "plan_ok cl svc p objs empty_plan"
  by (simp add: plan_ok_def balanced_def empty_plan_def)

text \<open>
  What a body of the loop has to do: one step of the plan, for some readings of the clock,
  and nothing but reports.
\<close>

locale plan_builder =
  fixes cl :: "'w cluster" and svc :: "'w evaluation_service" and p :: policy
    and one :: "plan \<Rightarrow> uobj \<Rightarrow> ('w, plan) prog"
  assumes step: "\<exists>w1 w2 es. fst (run_state (one pl obj) s) =
       plan_step cl svc p obj (fst (cl_now cl w1)) (fst (cl_now cl w2)) pl \<and>
     sy_trace (snd (run_state (one pl obj) s)) = sy_trace s @ es \<and> list_all is_report es"
begin

lemma one_emits:
  "plan_ok cl svc p objs pl \<Longrightarrow> emits (one pl obj)
     (\<lambda>pl' es. plan_ok cl svc p (objs @ [obj]) pl' \<and> list_all is_report es)"
proof (rule emitsI)
  fix s
  assume ok: "plan_ok cl svc p objs pl"
  obtain w1 w2 es where "fst (run_state (one pl obj) s) =
      plan_step cl svc p obj (fst (cl_now cl w1)) (fst (cl_now cl w2)) pl"
    "sy_trace (snd (run_state (one pl obj) s)) = sy_trace s @ es" "list_all is_report es"
    using step [of pl obj s] by blast
  with plan_step_ok [OF ok] show "\<exists>es. sy_trace (snd (run_state (one pl obj) s)) = sy_trace s @ es \<and>
      plan_ok cl svc p (objs @ [obj]) (fst (run_state (one pl obj) s)) \<and> list_all is_report es"
    by metis
qed

lemma loop_emits:
  "plan_ok cl svc p before pl \<Longrightarrow> emits (plan_loop cl one i pl objs)
     (\<lambda>pl' es. plan_ok cl svc p (before @ objs) pl' \<and> list_all is_report es)"
proof (induction objs arbitrary: before pl i)
  case Nil
  then show ?case by (simp add: emits_return)
next
  case (Cons obj rest)
  have poll: "emits (if i mod 100 = 0 then ask (cl_ctx cl) else State_Monad.return None) (\<lambda>a es. es = [])"
    by (auto intro: emits_ask emits_return)
  have one_step: "emits (one pl obj)
      (\<lambda>pl' es. plan_ok cl svc p (before @ [obj]) pl' \<and> list_all is_report es)"
    using Cons.prems by (rule one_emits)
  have body: "emits (State_Monad.bind (one pl obj)
        (\<lambda>pl'. plan_loop cl one (i + 1) pl' rest))
      (\<lambda>pl' es. plan_ok cl svc p (before @ obj # rest) pl' \<and> list_all is_report es)"
  proof (rule emitsI)
    fix s
    obtain pl1 s1 where first: "run_state (one pl obj) s = (pl1, s1)" by fastforce
    obtain pl2 s2 where two: "run_state (plan_loop cl one (i + 1) pl1 rest) s1 = (pl2, s2)" by fastforce
    obtain es where es: "sy_trace s1 = sy_trace s @ es" "plan_ok cl svc p (before @ [obj]) pl1 \<and> list_all is_report es"
      using one_step first by (rule emitsD)
    obtain fs where "sy_trace s2 = sy_trace s1 @ fs"
      "plan_ok cl svc p ((before @ [obj]) @ rest) pl2 \<and> list_all is_report fs"
      using Cons.IH [of "before @ [obj]" pl1 "i + 1"] es(2) two by (auto elim: emitsD)
    with first two es show "\<exists>es. sy_trace (snd (run_state (State_Monad.bind (one pl obj)
        (\<lambda>pl'. plan_loop cl one (i + 1) pl' rest)) s)) = sy_trace s @ es \<and>
      plan_ok cl svc p (before @ obj # rest) (fst (run_state (State_Monad.bind (one pl obj)
        (\<lambda>pl'. plan_loop cl one (i + 1) pl' rest)) s)) \<and> list_all is_report es"
      by simp
  qed
  show ?case
    unfolding plan_loop.simps
    by (rule emits_bind [OF poll, where S = "\<lambda>c pl' es. plan_ok cl svc p (before @ obj # rest) pl' \<and> list_all is_report es"])
      (use body plan_ok_more [OF Cons.prems] in \<open>auto intro!: emits_return split: option.split\<close>)
qed

lemma loop_emits_empty:
  "emits (plan_loop cl one 0 empty_plan objs) (\<lambda>pl es. plan_ok cl svc p objs pl \<and> list_all is_report es)"
  using loop_emits [OF empty_plan_ok [of cl svc p "[]"]] by simp

text \<open>Under a clock that stands still and a context that is not cancelled the loop is a fold.\<close>

lemma loop_fold:
  assumes "\<And>w. fst (cl_now cl w) = now" "\<And>w. fst (cl_ctx cl w) = None"
  shows "fst (run_state (plan_loop cl one i pl objs) s) =
     foldl (\<lambda>pl obj. plan_step cl svc p obj now now pl) pl objs"
proof (induction objs arbitrary: i pl s)
  case Nil
  show ?case by simp
next
  case (Cons obj rest)
  have "fst (run_state (one pl obj) t) = plan_step cl svc p obj now now pl" for t
    using step [of pl obj t] assms(1) by auto
  then show ?case
    using assms(2) Cons.IH by (simp add: case_prod_beta)
qed

end

interpretation service_plan: plan_builder cl svc p "evaluate_one cl svc p"
  for cl :: "'w cluster" and svc p
  by unfold_locales (rule run_evaluate_one)

lemma evaluate_resources_emits:
  "emits (evaluate_resources cl svc p objs) (\<lambda>pl es. plan_ok cl svc p objs pl \<and> list_all is_report es)"
proof -
  have poll: "emits (ask (cl_ctx cl)) (\<lambda>a es. es = [])"
    by (rule emits_ask) simp
  note loop = service_plan.loop_emits_empty [of cl svc p objs]
  show ?thesis
    unfolding evaluate_resources_def
    by (rule emits_bind [OF poll, where S = "\<lambda>c pl es. plan_ok cl svc p objs pl \<and> list_all is_report es"])
      (use loop empty_plan_ok in \<open>auto intro!: emits_return split: option.split\<close>)
qed

section \<open>Batches\<close>

text \<open>The consecutive slices of a list.\<close>

function chunks :: "nat \<Rightarrow> 'a list \<Rightarrow> 'a list list" where
  "chunks k xs = (if k = 0 \<or> xs = [] then [] else take k xs # chunks k (drop k xs))"
  by pat_completeness auto
termination
  by (relation "measure (\<lambda>(k, xs). length xs)") auto

declare chunks.simps [simp del]

lemma concat_chunks: "0 < k \<Longrightarrow> concat (chunks k xs) = xs"
  by (induction k xs rule: chunks.induct) (subst chunks.simps, simp)

lemma chunk_length: "c \<in> set (chunks k xs) \<Longrightarrow> 1 \<le> length c \<and> length c \<le> k"
proof (induction k xs rule: chunks.induct)
  case (1 k xs)
  show ?case
  proof (cases "k = 0 \<or> xs = []")
    case True
    with 1(2) show ?thesis by (subst (asm) chunks.simps) auto
  next
    case False
    with 1(2) have "c = take k xs \<or> c \<in> set (chunks k (drop k xs))"
      by (subst (asm) chunks.simps) simp
    with 1(1) [OF False] False show ?thesis
      by (auto simp: Suc_le_eq min_def)
  qed
qed

text \<open>The loop over the slices, as a specification of the loop over the index.\<close>

fun delete_chunks ::
  "'w cluster \<Rightarrow> (uobj list \<Rightarrow> ('w, int \<times> go_error list) prog) \<Rightarrow> bool \<Rightarrow> policy \<Rightarrow> int
     \<Rightarrow> uobj list list \<Rightarrow> ('w, int run) prog" where
  "delete_chunks cl del recorder p cnt [] = State_Monad.return (Returned cnt)"
| "delete_chunks cl del recorder p cnt (c # cs) = do {
     stop \<leftarrow> ask (cl_ctx cl);
     case stop of
       Some e \<Rightarrow> State_Monad.return (Returned cnt)
     | None \<Rightarrow> do {
         (d, errs) \<leftarrow> del c;
         (if length errs > 0 then record_error (p_namespace p) (p_name p) ''deletion_failed''
          else State_Monad.return ());
         record_batch_errors recorder errs;
         delete_chunks cl del recorder p (cnt + d) cs
       }
   }"

lemma delete_loop_chunks:
  assumes "0 < bs" "0 \<le> i" "nat (int (length objs) - i) < n"
  shows "delete_loop n cl del recorder p bs i cnt objs =
     delete_chunks cl del recorder p cnt (chunks (nat bs) (drop (nat i) objs))"
  using assms(2,3)
proof (induction n arbitrary: i cnt)
  case 0
  then show ?case by simp
next
  case (Suc n)
  show ?case
  proof (cases "i < int (length objs)")
    case False
    then have "drop (nat i) objs = []" using Suc.prems by simp
    with False show ?thesis by (simp add: chunks.simps)
  next
    case True
    let ?stop = "if i + bs > int (length objs) then int (length objs) else i + bs"
    have slice: "take (nat (?stop - i)) (drop (nat i) objs) = take (nat bs) (drop (nat i) objs)"
    proof (cases "i + bs > int (length objs)")
      case True
      then show ?thesis using Suc.prems(1) by (simp add: nat_diff_distrib)
    next
      case False
      then show ?thesis by simp
    qed
    have no: "\<not> ?stop < i" using True assms(1) by auto
    have ch: "chunks (nat bs) (drop (nat i) objs) =
        take (nat bs) (drop (nat i) objs) # chunks (nat bs) (drop (nat (i + bs)) objs)"
      using True assms(1) Suc.prems(1)
      by (subst chunks.simps) (auto simp: nat_add_distrib add.commute)
    have IH: "delete_loop n cl del recorder p bs (i + bs) c objs =
        delete_chunks cl del recorder p c (chunks (nat bs) (drop (nat (i + bs)) objs))" for c
      using Suc.IH [of "i + bs" c] Suc.prems assms(1) True by simp
    show ?thesis
      unfolding ch delete_chunks.simps delete_loop.simps Let_def slice IH
      using True no by simp
  qed
qed

text \<open>A batch size of zero never advances.\<close>

lemma delete_loop_zero:
  assumes "i < int (length objs)" "\<And>w. fst (cl_ctx cl w) = None"
  shows "fst (run_state (delete_loop n cl del recorder p 0 i cnt objs) s) = Out_Of_Fuel"
  using assms
proof (induction n arbitrary: cnt s)
  case 0
  show ?case by simp
next
  case (Suc n)
  then show ?case
    by (simp add: Let_def case_prod_beta)
qed

lemma only_record_batch_errors: "only is_report (record_batch_errors recorder errs)"
  by (induction errs) (auto intro!: only_rules only_report)

section \<open>The contract of the dependencies\<close>

text \<open>
  What the evaluation relies on: listing and the limiter send no DELETE; the batch deleter
  sends only DELETEs that are guarded and permitted by \<open>may\<close>, at most \<open>attempts\<close> per
  object, and its counts stay within the batch.
\<close>

locale evaluation_deps =
  fixes svc :: "'w evaluation_service"
    and may :: "policy \<Rightarrow> uobj \<Rightarrow> string \<Rightarrow> string \<Rightarrow> string \<Rightarrow> bool"
    and attempts :: nat
  assumes lister: "only (\<lambda>e. \<not> is_delete e) (es_list svc g ns)"
    and limiters: "only (\<lambda>e. \<not> is_delete e) (es_limiter svc p)"
    and deleter: "emits (es_delete_batch svc objs p l reasons) (\<lambda>res es.
      deletes_ok (\<lambda>ns n uid. \<exists>obj \<in> set objs. may p obj ns n uid) es \<and>
      ndel es \<le> attempts * length objs \<and> 0 \<le> fst res \<and>
      fst res + int (length (snd res)) \<le> int (length objs))"
begin

definition deletes_in :: "policy \<Rightarrow> uobj list \<Rightarrow> effect list \<Rightarrow> bool" where
  "deletes_in p objs es \<longleftrightarrow>
     deletes_ok (\<lambda>ns n uid. \<exists>obj \<in> set objs. may p obj ns n uid) es \<and> ndel es \<le> attempts * length objs"

lemma deletes_in_none: "list_all (\<lambda>e. \<not> is_delete e) es \<Longrightarrow> deletes_in p objs es"
  by (auto simp: deletes_in_def ndel_def filter_empty_conv list_all_iff intro: deletes_ok_none)

lemma deletes_in_append:
  "deletes_in p xs es \<Longrightarrow> deletes_in p ys fs \<Longrightarrow> deletes_in p (xs @ ys) (es @ fs)"
  by (auto simp: deletes_in_def algebra_simps intro!: deletes_ok_append elim!: deletes_ok_mono)

lemma deletes_in_quiet:
  assumes "deletes_in p xs es" "list_all (\<lambda>e. \<not> is_delete e) fs"
  shows "deletes_in p xs (es @ fs)" "deletes_in p xs (fs @ es)"
  using deletes_in_append [OF assms(1) deletes_in_none [OF assms(2), of p "[]"]]
    deletes_in_append [OF deletes_in_none [OF assms(2), of p "[]"] assms(1)] by simp_all

lemma quiet_reports: "list_all is_report es \<Longrightarrow> list_all (\<lambda>e. \<not> is_delete e) es"
  using report_not_delete by (auto simp: list_all_iff)

lemma batch_reports:
  "emits (State_Monad.bind (if length errs > 0 then record_error ns n ''deletion_failed''
       else State_Monad.return ()) (\<lambda>u. record_batch_errors recorder errs)) (\<lambda>u es. list_all is_report es)"
proof -
  have "only is_report (State_Monad.bind (if length errs > 0 then record_error ns n ''deletion_failed''
       else State_Monad.return ()) (\<lambda>u. record_batch_errors recorder errs) :: ('a, unit) prog)"
    by (intro only_bind only_if only_report only_return only_record_batch_errors)
  then show ?thesis by (simp add: only_def)
qed

lemma batch_reports_then:
  assumes "emits k R" "\<And>b es fs. list_all is_report es \<Longrightarrow> R b fs \<Longrightarrow> R b (es @ fs)"
  shows "emits (State_Monad.bind (if length errs > 0 then record_error ns n ''deletion_failed''
       else State_Monad.return ()) (\<lambda>u. State_Monad.bind (record_batch_errors recorder errs) (\<lambda>u. k))) R"
  using emits_bind [OF batch_reports assms(1), of R] assms(2) by simp

lemma chunks_emit:
  "emits (delete_chunks cl (\<lambda>batch. es_delete_batch svc batch p l reasons) recorder p cnt cs)
     (\<lambda>res es. deletes_in p (concat cs) es \<and>
        (\<exists>c. res = Returned c \<and> cnt \<le> c \<and> c \<le> cnt + int (length (concat cs))))"
proof (induction cs arbitrary: cnt)
  case Nil
  show ?case by (simp add: emits_return deletes_in_def)
next
  case (Cons c cs)
  let ?del = "\<lambda>batch. es_delete_batch svc batch p l reasons"
  let ?R = "\<lambda>cnt cs res es. deletes_in p (concat cs) es \<and>
        (\<exists>c. res = Returned c \<and> cnt \<le> c \<and> c \<le> cnt + int (length (concat cs)))"
  have poll: "emits (ask (cl_ctx cl)) (\<lambda>a es. es = [])"
    by (rule emits_ask) simp
  have rest: "emits (State_Monad.bind (if length errs > 0 then record_error (p_namespace p) (p_name p) ''deletion_failed''
       else State_Monad.return ()) (\<lambda>u. State_Monad.bind (record_batch_errors recorder errs)
         (\<lambda>u. delete_chunks cl ?del recorder p (cnt + d) cs))) (?R (cnt + d) cs)" for d errs
    by (rule batch_reports_then [OF Cons.IH]) (auto intro: deletes_in_append deletes_in_quiet quiet_reports)
  have body: "emits (State_Monad.bind (?del c) (\<lambda>(d, errs).
        State_Monad.bind (if length errs > 0 then record_error (p_namespace p) (p_name p) ''deletion_failed''
          else State_Monad.return ()) (\<lambda>u. State_Monad.bind (record_batch_errors recorder errs)
         (\<lambda>u. delete_chunks cl ?del recorder p (cnt + d) cs)))) (?R cnt (c # cs))"
  proof (rule emits_bind [OF deleter, where S = "\<lambda>x. ?R (cnt + fst x) cs"])
    show "emits (case x of (d, errs) \<Rightarrow>
        State_Monad.bind (if length errs > 0 then record_error (p_namespace p) (p_name p) ''deletion_failed''
          else State_Monad.return ()) (\<lambda>u. State_Monad.bind (record_batch_errors recorder errs)
         (\<lambda>u. delete_chunks cl ?del recorder p (cnt + d) cs))) (?R (cnt + fst x) cs)" for x
      using rest by (simp add: case_prod_beta)
  next
    fix x es res fs
    assume A: "deletes_ok (\<lambda>ns n uid. \<exists>obj \<in> set c. may p obj ns n uid) es \<and>
        ndel es \<le> attempts * length c \<and> 0 \<le> fst x \<and> fst x + int (length (snd x)) \<le> int (length c)"
      and B: "?R (cnt + fst x) cs res fs"
    from A have "deletes_in p c es" by (simp add: deletes_in_def)
    with B have "deletes_in p (concat (c # cs)) (es @ fs)"
      by (auto intro: deletes_in_append)
    with A B show "?R cnt (c # cs) res (es @ fs)" by auto
  qed
  have stop: "?R cnt (c # cs) (Returned cnt) []"
    by (simp add: deletes_in_def)
  show ?case
    unfolding delete_chunks.simps
    by (rule emits_bind [OF poll, where S = "\<lambda>x. ?R cnt (c # cs)"])
      (use body stop in \<open>auto intro!: emits_return split: option.split\<close>)
qed

text \<open>Whatever the batch size and the fuel, only objects of the plan are deleted.\<close>

lemma delete_loop_guarded:
  "guarded (\<lambda>ns n uid. \<exists>obj \<in> set objs. may p obj ns n uid)
     (delete_loop k cl (\<lambda>batch. es_delete_batch svc batch p l reasons) recorder p bs i cnt objs)"
proof (induction k arbitrary: i cnt)
  case 0
  show ?case by (simp add: guarded_return)
next
  case (Suc k)
  let ?P = "\<lambda>ns n uid. \<exists>obj \<in> set objs. may p obj ns n uid"
  have del: "guarded ?P (es_delete_batch svc (take j (drop m objs)) p l reasons)" for j m
    unfolding guarded_def
    by (rule emits_weaken [OF deleter], elim conjE deletes_ok_mono) (blast dest: in_set_takeD in_set_dropD)
  have last: "guarded ?P (es_delete_batch svc (drop m objs) p l reasons)" for m
    using del [of "length objs" m] by simp
  have reports: "guarded ?P (record_error ns n ty)" for ns n ty
    by (rule guarded_only [OF only_report(4) report_not_delete])
  have batch: "guarded ?P (record_batch_errors recorder errs)" for errs
    by (rule guarded_only [OF only_record_batch_errors report_not_delete])
  have poll: "guarded ?P (ask (cl_ctx cl))"
    unfolding guarded_def by (rule emits_ask) simp
  show ?case
    unfolding delete_loop.simps Let_def
    by (auto intro!: guarded_bind guarded_return guarded_if del last reports batch poll Suc split: option.split prod.split)
qed

text \<open>The deletions of an evaluation, for an object that was plannable.\<close>

definition planned_deletes :: "'w cluster \<Rightarrow> policy \<Rightarrow> effect list \<Rightarrow> bool" where
  "planned_deletes cl p es \<longleftrightarrow>
     deletes_ok (\<lambda>ns n uid. \<exists>obj. plannable cl svc p obj \<and> may p obj ns n uid) es"

lemma planned_deletes_append:
  "planned_deletes cl p es \<Longrightarrow> planned_deletes cl p fs \<Longrightarrow> planned_deletes cl p (es @ fs)"
  unfolding planned_deletes_def by (rule deletes_ok_append)

lemma planned_deletes_quiet: "list_all (\<lambda>e. \<not> is_delete e) es \<Longrightarrow> planned_deletes cl p es"
  unfolding planned_deletes_def by (rule deletes_ok_none)

lemma only_quiet: "only (\<lambda>e. \<not> is_delete e) m \<Longrightarrow> emits m (\<lambda>a es. planned_deletes cl p es)"
  unfolding only_def by (erule emits_weaken) (rule planned_deletes_quiet)

lemma planned_bind:
  assumes "emits m (\<lambda>a es. planned_deletes cl p es)" "\<And>a. emits (f a) (\<lambda>b es. planned_deletes cl p es)"
  shows "emits (State_Monad.bind m f) (\<lambda>b es. planned_deletes cl p es)"
  by (rule emits_bind [OF assms]) (rule planned_deletes_append)

lemma planned_return: "emits (State_Monad.return a) (\<lambda>b es. planned_deletes cl p es)"
  by (rule emits_return) (simp add: planned_deletes_def)

lemma planned_run:
  assumes "emits m (\<lambda>a es. planned_deletes cl p es)" "\<And>a. emits (f a) (\<lambda>b es. planned_deletes cl p es)"
  shows "emits (bind_run m f) (\<lambda>b es. planned_deletes cl p es)"
  unfolding bind_run_def
  by (rule planned_bind [OF assms(1)]) (auto intro: planned_return assms(2) split: run.split)

lemma quiet_report: "only is_report m \<Longrightarrow> only (\<lambda>e. \<not> is_delete e) m"
  by (erule only_weaken) (rule report_not_delete)

lemmas quiet_metrics = only_report [THEN quiet_report]

lemmas planned_quiet = only_quiet [OF lister] only_quiet [OF limiters] only_quiet [OF only_ask]
  quiet_metrics [THEN only_quiet]

lemma planned_status:
  "emits (finish_evaluation cl updater recorder p matched deleted pending refusals)
     (\<lambda>b es. planned_deletes cl p es)"
proof -
  have status: "only (\<lambda>e. \<not> is_delete e) (update_status cl cfg p m d q rs)" for cfg m d q rs
    by (rule only_weaken [OF only_update_status]) (auto elim: is_status.elims)
  show ?thesis
    unfolding finish_evaluation_def update_policy_status_def Let_def
    by (intro only_quiet only_bind only_if)
      (auto intro!: only_rules status quiet_metrics split: option.split)
qed

lemma planned_batches:
  assumes "\<forall>obj \<in> set objs. plannable cl svc p obj"
  shows "emits (delete_resources_in_batches fuel cl svc p objs reasons) (\<lambda>b es. planned_deletes cl p es)"
proof -
  have "emits (delete_loop fuel cl (\<lambda>batch. es_delete_batch svc batch p l reasons) recorder p bs i cnt objs)
      (\<lambda>b es. planned_deletes cl p es)" for l recorder bs i cnt
    unfolding planned_deletes_def
    by (rule emits_weaken [OF delete_loop_guarded [unfolded guarded_def]], erule deletes_ok_mono) (use assms in blast)
  then show ?thesis
    unfolding delete_resources_in_batches_def
    by (auto intro!: planned_return planned_bind planned_quiet split: option.split)
qed

lemma evaluate_policy_emits:
  "emits (evaluate_policy fuel cl pgv svc p) (\<lambda>b es. planned_deletes cl p es)"
proof -
  have run: "emits (State_Monad.bind (evaluate_resources cl svc p objs) (\<lambda>pl.
        bind_run (if length (pl_delete pl) > 0
           then delete_resources_in_batches fuel cl svc p (pl_delete pl) (pl_reasons pl)
           else State_Monad.return (Returned 0))
         (\<lambda>deleted. finish_evaluation cl (es_status svc) (es_recorder svc) p (pl_matched pl)
            deleted (pl_pending pl) (pl_refusals pl)))) (\<lambda>b es. planned_deletes cl p es)"
    for objs
  proof (rule emitsI)
    fix s :: "'w sys"
    let ?k = "\<lambda>pl. bind_run (if length (pl_delete pl) > 0
           then delete_resources_in_batches fuel cl svc p (pl_delete pl) (pl_reasons pl)
           else State_Monad.return (Returned 0))
         (\<lambda>deleted. finish_evaluation cl (es_status svc) (es_recorder svc) p (pl_matched pl)
            deleted (pl_pending pl) (pl_refusals pl))"
    obtain pl s1 where one: "run_state (evaluate_resources cl svc p objs) s = (pl, s1)" by fastforce
    obtain es where es: "sy_trace s1 = sy_trace s @ es" "plan_ok cl svc p objs pl \<and> list_all is_report es"
      using evaluate_resources_emits one by (rule emitsD)
    then have "\<forall>obj \<in> set (pl_delete pl). plannable cl svc p obj" by (simp add: plan_ok_def)
    then have "emits (?k pl) (\<lambda>b es. planned_deletes cl p es)"
      by (intro planned_run planned_status) (auto intro: planned_batches planned_return)
    moreover obtain b s2 where two: "run_state (?k pl) s1 = (b, s2)" by fastforce
    ultimately obtain fs where "sy_trace s2 = sy_trace s1 @ fs" "planned_deletes cl p fs"
      by (rule emitsD)
    moreover have "planned_deletes cl p es"
      using es(2) by (simp add: planned_deletes_quiet quiet_reports)
    ultimately show "\<exists>es. sy_trace (snd (run_state (State_Monad.bind (evaluate_resources cl svc p objs) ?k) s))
        = sy_trace s @ es \<and> planned_deletes cl p es"
      using one two es(1) by (intro exI [of _ "es @ fs"]) (simp add: planned_deletes_append)
  qed
  show ?thesis
    unfolding evaluate_policy_def Let_def
    using run
    by (auto intro!: planned_bind planned_return planned_quiet split: sum.split)
qed

end

section \<open>The plan under a clock that stands still\<close>

definition expired_now :: "'w cluster \<Rightarrow> 'w evaluation_service \<Rightarrow> policy \<Rightarrow> gotime \<Rightarrow> uobj \<Rightarrow> bool" where
  "expired_now cl svc p now obj \<longleftrightarrow> candidate svc p obj \<and> expired_at cl p now now obj"

lemma fold_plan_steps:
  "let pl' = foldl (\<lambda>pl obj. plan_step cl svc p obj now now pl) pl objs in
     pl_delete pl' = pl_delete pl @ filter (expired_now cl svc p now) objs \<and>
     pl_matched pl' = pl_matched pl + int (length (filter (\<lambda>obj. es_matches svc obj (p_target p)) objs)) \<and>
     pl_pending pl' = pl_pending pl + int (length (filter (\<lambda>obj. es_matches svc obj (p_target p) \<and>
        gate_passes svc p obj \<and> \<not> expired_now cl svc p now obj) objs))"
proof (induction objs arbitrary: pl)
  case Nil
  show ?case by simp
next
  case (Cons obj rest)
  have step: "pl_delete (plan_step cl svc p obj now now pl) = pl_delete pl @ (if expired_now cl svc p now obj then [obj] else [])"
    "pl_matched (plan_step cl svc p obj now now pl) = pl_matched pl + (if es_matches svc obj (p_target p) then 1 else 0)"
    "pl_pending (plan_step cl svc p obj now now pl) = pl_pending pl + (if es_matches svc obj (p_target p) \<and>
        gate_passes svc p obj \<and> \<not> expired_now cl svc p now obj then 1 else 0)"
    by (auto simp: plan_step_def expired_now_def candidate_def Let_def)
  show ?case
    using Cons.IH [of "plan_step cl svc p obj now now pl"]
    unfolding foldl.simps Let_def by (simp add: step)
qed

section \<open>Returning\<close>

lemma delete_chunks_returns:
  "\<exists>c. fst (run_state (delete_chunks cl del recorder p cnt cs) s) = Returned c"
proof (induction cs arbitrary: cnt s)
  case Nil
  show ?case by simp
next
  case (Cons c cs)
  then show ?case
    by (simp add: case_prod_beta split: option.split)
qed

lemma batches_return:
  assumes "0 < resolve_batch_size p (es_config svc)" "length objs < fuel"
  shows "\<exists>c. fst (run_state (delete_resources_in_batches fuel cl svc p objs reasons) s) = Returned c"
proof -
  have "\<exists>c. fst (run_state (delete_loop fuel cl del recorder p (resolve_batch_size p (es_config svc)) 0 0 objs) t) = Returned c"
    for del recorder t
    using delete_chunks_returns assms by (subst delete_loop_chunks) simp_all
  then show ?thesis
    by (simp add: delete_resources_in_batches_def case_prod_beta split: option.split)
qed

lemma bind_run_returns:
  assumes "\<exists>a. fst (run_state m s) = Returned a" "\<And>a t. \<exists>b. fst (run_state (f a) t) = Returned b"
  shows "\<exists>b. fst (run_state (bind_run m f) s) = Returned b"
  using assms by (auto simp: bind_run_def case_prod_beta)

lemma finish_returns:
  "\<exists>b. fst (run_state (finish_evaluation cl updater recorder p matched deleted pending refusals) s) = Returned b"
  by (simp add: finish_evaluation_def case_prod_beta split: option.split)

lemma evaluate_policy_returns:
  assumes "0 < resolve_batch_size p (es_config svc)"
  shows "\<exists>n. \<forall>fuel \<ge> n. \<exists>r. fst (run_state (evaluate_policy fuel cl pgv svc p) s) = Returned r"
proof (cases "parse_gvr pgv (tr_api_version (p_target p)) (tr_kind (p_target p))")
  case (Inl e)
  then show ?thesis by (simp add: evaluate_policy_def case_prod_beta)
next
  case (Inr g)
  let ?ns = "if tr_namespace (p_target p) = [] then ''*'' else tr_namespace (p_target p)"
  obtain r s1 where l: "run_state (es_list svc g ?ns) s = (r, s1)" by fastforce
  show ?thesis
  proof (cases r)
    case (Inl e)
    with Inr l show ?thesis by (simp add: evaluate_policy_def case_prod_beta Let_def)
  next
    case ok: (Inr objs)
    obtain pl s2 where pl: "run_state (evaluate_resources cl svc p objs) s1 = (pl, s2)" by fastforce
    have "\<exists>r. fst (run_state (evaluate_policy fuel cl pgv svc p) s) = Returned r"
      if "fuel \<ge> Suc (length (pl_delete pl))" for fuel
    proof -
      have "\<exists>r. fst (run_state (bind_run (if length (pl_delete pl) > 0
             then delete_resources_in_batches fuel cl svc p (pl_delete pl) (pl_reasons pl)
             else State_Monad.return (Returned 0))
           (\<lambda>deleted. finish_evaluation cl (es_status svc) (es_recorder svc) p (pl_matched pl)
              deleted (pl_pending pl) (pl_refusals pl))) s2) = Returned r"
        using assms that by (intro bind_run_returns finish_returns) (simp add: batches_return)
      with Inr l ok pl show ?thesis
        by (simp add: evaluate_policy_def Let_def)
    qed
    then show ?thesis by blast
  qed
qed

section \<open>An example service\<close>

definition ex_service :: "bool evaluation_service" where
  "ex_service = \<lparr>es_list = (\<lambda>g ns. State_Monad.return (Inr [ex_obj])),
     es_matches = matches_selectors (cl_selector ex_cluster), es_meets = meets_conditions,
     es_limiter = (\<lambda>p. State_Monad.return (Some (new_rate_limiter 10))),
     es_delete_batch = delete_batch ex_cluster id ex_reconciler, es_status = None,
     es_gate = rc_decide ex_reconciler, es_recorder = True, es_config = Some new_controller_config\<rparr>"

lemma ex_matches: "es_matches ex_service ex_obj (p_target ex_policy)"
  by (simp add: ex_service_def matches_selectors_def ex_defs)

section \<open>Properties\<close>

text \<open>The books of an evaluation balance: every object that matched the selectors is refused
  by the gate, pending, or planned; the plan is a subsequence of the listing, and each
  planned object matches the selectors, passes the gate, meets the conditions, was expired
  by some reading of the clock, and carries the reason \<open>ttl_expired\<close>.\<close>

theorem plan_balances:
  "let pl = fst (run_state (evaluate_resources cl svc p objs) s) in
     pl_matched pl = counts (pl_refusals pl) + pl_pending pl + int (length (pl_delete pl)) \<and>
     0 \<le> pl_pending pl \<and> pl_matched pl \<le> int (length objs) \<and> subseq (pl_delete pl) objs \<and>
     (\<forall>obj \<in> set (pl_delete pl). es_matches svc obj (p_target p) \<and> gate_passes svc p obj \<and>
        conditions_met svc p obj \<and> map_of (pl_reasons pl) (u_uid obj) = Some ReasonTTLExpired \<and>
        (\<exists>w1 w2. expired_at cl p (fst (cl_now cl w1)) (fst (cl_now cl w2)) obj))"
proof -
  obtain pl s' where run: "run_state (evaluate_resources cl svc p objs) s = (pl, s')" by fastforce
  obtain es where "plan_ok cl svc p objs pl \<and> list_all is_report es"
    using evaluate_resources_emits run by (rule emitsD)
  then have "plan_ok cl svc p objs pl" ..
  with run show ?thesis
    by (auto simp: plan_ok_def balanced_def plannable_def candidate_def)
qed

theorem plan_balances_witness:
  "let pl = fst (run_state (evaluate_resources ex_cluster ex_service ex_policy [ex_obj]) ex_sys) in
     pl_matched pl = counts (pl_refusals pl) + pl_pending pl + int (length (pl_delete pl))"
  using plan_balances [of ex_cluster ex_service ex_policy "[ex_obj]" ex_sys] by (simp add: Let_def)

text \<open>C9. On a clock that stands still and an uncancelled context the evaluation is a filter: the
  plan is exactly the listed objects that match, pass the gate, meet the conditions and are
  expired, in the order of the listing, and the two counters are the sizes of the
  corresponding filters.\<close>

theorem plan_is_filter:
  assumes "\<And>w. fst (cl_now cl w) = now" "\<And>w. fst (cl_ctx cl w) = None"
  shows "let pl = fst (run_state (evaluate_resources cl svc p objs) s) in
     pl_delete pl = filter (\<lambda>obj. es_matches svc obj (p_target p) \<and> gate_passes svc p obj \<and>
        conditions_met svc p obj \<and> expired_at cl p now now obj) objs \<and>
     pl_matched pl = int (length (filter (\<lambda>obj. es_matches svc obj (p_target p)) objs)) \<and>
     pl_pending pl = int (length (filter (\<lambda>obj. es_matches svc obj (p_target p) \<and> gate_passes svc p obj \<and>
        \<not> (conditions_met svc p obj \<and> expired_at cl p now now obj)) objs))"
proof -
  have "fst (run_state (evaluate_resources cl svc p objs) s) =
      foldl (\<lambda>pl obj. plan_step cl svc p obj now now pl) empty_plan objs"
    using assms service_plan.loop_fold [OF assms]
    by (simp add: evaluate_resources_def case_prod_beta)
  moreover have "expired_now cl svc p now = (\<lambda>obj. es_matches svc obj (p_target p) \<and> gate_passes svc p obj \<and>
        conditions_met svc p obj \<and> expired_at cl p now now obj)"
    by (auto simp: expired_now_def candidate_def fun_eq_iff)
  moreover have "(\<lambda>obj. es_matches svc obj (p_target p) \<and> gate_passes svc p obj \<and> \<not> expired_now cl svc p now obj) =
      (\<lambda>obj. es_matches svc obj (p_target p) \<and> gate_passes svc p obj \<and>
        \<not> (conditions_met svc p obj \<and> expired_at cl p now now obj))"
    by (auto simp: expired_now_def candidate_def fun_eq_iff)
  ultimately show ?thesis
    using fold_plan_steps [of cl svc p now empty_plan objs]
    by (simp only: Let_def) (simp add: empty_plan_def)
qed

theorem plan_is_filter_witness:
  "pl_matched (fst (run_state (evaluate_resources ex_cluster ex_service ex_policy [ex_obj]) ex_sys)) = 1"
  using plan_is_filter [of ex_cluster 1000000000000 ex_service ex_policy "[ex_obj]" ex_sys] ex_matches
  by (simp add: ex_cluster_def Let_def)

text \<open>C18. Batching refines a fold over slices: with a positive batch size and as many rounds of
  fuel as there are objects plus one, the loop over the index is the loop over the
  consecutive slices of the plan; the slices put together are the plan, and each has between
  one and batch-size objects, so every planned object is handed to the deleter once.\<close>

theorem batches_refine_slices:
  assumes "0 < bs" "length objs < fuel"
  shows "delete_loop fuel cl del recorder p bs 0 0 objs =
       delete_chunks cl del recorder p 0 (chunks (nat bs) objs) \<and>
     concat (chunks (nat bs) objs) = objs \<and>
     (\<forall>c \<in> set (chunks (nat bs) objs). 1 \<le> length c \<and> int (length c) \<le> bs)"
proof -
  have "length c \<le> nat bs \<and> 1 \<le> length c" if "c \<in> set (chunks (nat bs) objs)" for c
    using chunk_length [OF that] by simp
  moreover have "int (length c) \<le> bs" if "length c \<le> nat bs" for c :: "uobj list"
    using that assms(1) by simp
  ultimately show ?thesis
    using assms delete_loop_chunks [of bs 0 objs fuel cl del recorder p 0]
    by (auto simp: concat_chunks)
qed

theorem batches_refine_slices_witness:
  "concat (chunks (nat 50) [ex_obj]) = [ex_obj] \<and>
   delete_loop 2 ex_cluster (\<lambda>b. delete_batch ex_cluster id ex_reconciler b ex_policy (new_rate_limiter 10) [])
     True ex_policy 50 0 0 [ex_obj] =
   delete_chunks ex_cluster (\<lambda>b. delete_batch ex_cluster id ex_reconciler b ex_policy (new_rate_limiter 10) [])
     True ex_policy 0 (chunks (nat 50) [ex_obj])"
  using batches_refine_slices [of 50 "[ex_obj]" 2 ex_cluster
      "\<lambda>b. delete_batch ex_cluster id ex_reconciler b ex_policy (new_rate_limiter 10) []" True ex_policy] by simp

text \<open>A batch size of zero never ends: if there is something to delete and the context is not
  cancelled, no amount of fuel lets the loop return (the configuration read from the
  environment never has one, the constructor's caller may).\<close>

theorem zero_batch_diverges:
  assumes "bh_batch_size (p_behavior p) \<le> 0" "es_config svc = Some cfg" "cc_batch_size cfg = 0"
    "objs \<noteq> []" "\<And>w. fst (cl_ctx cl w) = None"
    "\<And>t. fst (run_state (es_limiter svc p) t) = Some l"
  shows "fst (run_state (delete_resources_in_batches fuel cl svc p objs reasons) s) = Out_Of_Fuel"
proof -
  have "resolve_batch_size p (es_config svc) = 0"
    using assms(1-3) by (simp add: resolve_batch_size_def)
  moreover have "fst (run_state (delete_loop fuel cl del recorder p 0 0 0 objs) t) = Out_Of_Fuel" for del recorder t
    using assms(4,5) by (intro delete_loop_zero) simp_all
  ultimately show ?thesis
    using assms(5,6) by (simp add: delete_resources_in_batches_def case_prod_beta)
qed

theorem zero_batch_diverges_witness:
  "fst (run_state (delete_resources_in_batches 1000 ex_cluster
     (ex_service\<lparr>es_config := Some (new_controller_config\<lparr>cc_batch_size := 0\<rparr>)\<rparr>) ex_policy [ex_obj] []) ex_sys)
     = Out_Of_Fuel"
  by (rule zero_batch_diverges [where l = "new_rate_limiter 10" and cfg = "new_controller_config\<lparr>cc_batch_size := 0\<rparr>"])
    (simp_all add: ex_policy_def ex_spec_def ex_behavior_def ex_service_def ex_cluster_def)

text \<open>An evaluation returns: with a positive batch size there is an amount of fuel from which
  on it neither runs out nor panics, whatever the services answer.\<close>

theorem evaluation_returns:
  assumes "0 < resolve_batch_size p (es_config svc)"
  shows "\<exists>n. \<forall>fuel \<ge> n. \<exists>r. fst (run_state (evaluate_policy fuel cl pgv svc p) s) = Returned r"
  using assms by (rule evaluate_policy_returns)

theorem evaluation_returns_witness:
  "\<exists>n. \<forall>fuel \<ge> n. \<exists>r. fst (run_state (evaluate_policy fuel ex_cluster
     (\<lambda>v. Inr ([], v)) ex_service ex_policy) ex_sys) = Returned r"
  using evaluation_returns [of ex_policy ex_service ex_cluster "\<lambda>v. Inr ([], v)" ex_sys]
  by (simp add: resolve_batch_size_def ex_service_def new_controller_config_def ex_policy_def
      ex_spec_def ex_behavior_def)

end
