(* ===== verification/Telemetry.thy ===== *)
theory Telemetry
  imports World Safety Complex_Main
begin

text \<open>
  The metrics the program serves (\<open>pkg/controller/metrics.go\<close>, \<open>pkg/controller/metrics_server.go\<close>,
  \<open>pkg/webhook/metrics.go\<close>) and the recorder of events (\<open>internal/events\<close>, \<open>pkg/controller/events.go\<close>).

  A metric is declared once, with its name, kind and labels; what is recorded is an effect of the
  trace (theory \<open>World\<close>).  \<open>scraped\<close> reads a trace as the registry does: a counter is incremented,
  a gauge set, and what was not touched is zero.  The values are integers, as every count the
  program records is; histograms are declared, their observations are not modelled.
\<close>

section \<open>Declarations\<close>

datatype metric_kind = Counter_Metric | Gauge_Metric | Histogram_Metric "rat list"

record metric_decl =
  md_name :: string
  md_help :: string
  md_kind :: metric_kind
  md_labels :: "string list"

definition DefBuckets :: "rat list" where
  "DefBuckets = [5 / 1000, 1 / 100, 25 / 1000, 5 / 100, 1 / 10, 1 / 4, 1 / 2, 1, 5 / 2, 5, 10]"

definition gc_policies_total :: metric_decl where
  "gc_policies_total = \<lparr>md_name = ''zen_cleaner_policies_total'',
     md_help = ''Total number of cleanup policies'', md_kind = Gauge_Metric, md_labels = [''phase'']\<rparr>"

definition gc_resources_matched_total :: metric_decl where
  "gc_resources_matched_total = \<lparr>md_name = ''zen_cleaner_resources_matched_total'',
     md_help = ''Total number of resources matched by cleanup policies'', md_kind = Counter_Metric,
     md_labels = [''policy_namespace'', ''policy_name'', ''resource_api_version'', ''resource_kind'']\<rparr>"

definition gc_resources_deleted_total :: metric_decl where
  "gc_resources_deleted_total = \<lparr>md_name = ''zen_cleaner_resources_deleted_total'',
     md_help = ''Total number of resources deleted by cleanup'', md_kind = Counter_Metric,
     md_labels = [''policy_namespace'', ''policy_name'', ''resource_api_version'', ''resource_kind'', ''reason'']\<rparr>"

definition gc_deletion_duration_seconds :: metric_decl where
  "gc_deletion_duration_seconds = \<lparr>md_name = ''zen_cleaner_deletion_duration_seconds'',
     md_help = ''Time taken to delete resources'', md_kind = Histogram_Metric DefBuckets,
     md_labels = [''policy_namespace'', ''policy_name'', ''resource_api_version'', ''resource_kind'']\<rparr>"

definition cleaner_errors_total :: metric_decl where
  "cleaner_errors_total = \<lparr>md_name = ''zen_cleaner_errors_total'',
     md_help = ''Total number of cleanup errors'', md_kind = Counter_Metric,
     md_labels = [''policy_namespace'', ''policy_name'', ''error_type'']\<rparr>"

definition gc_evaluation_duration_seconds :: metric_decl where
  "gc_evaluation_duration_seconds = \<lparr>md_name = ''zen_cleaner_evaluation_duration_seconds'',
     md_help = ''Time taken to evaluate cleanup policies'',
     md_kind = Histogram_Metric [1 / 1000, 5 / 1000, 1 / 100, 5 / 100, 1 / 10, 1 / 2, 1, 5],
     md_labels = [''policy_namespace'', ''policy_name'']\<rparr>"

definition gc_informers_total :: metric_decl where
  "gc_informers_total = \<lparr>md_name = ''zen_cleaner_informers_total'',
     md_help = ''Total number of active resource informers'', md_kind = Gauge_Metric, md_labels = []\<rparr>"

definition gc_rate_limiters_total :: metric_decl where
  "gc_rate_limiters_total = \<lparr>md_name = ''zen_cleaner_rate_limiters_total'',
     md_help = ''Total number of active rate limiters'', md_kind = Gauge_Metric, md_labels = []\<rparr>"

definition gc_resources_pending_total :: metric_decl where
  "gc_resources_pending_total = \<lparr>md_name = ''zen_cleaner_resources_pending_total'',
     md_help = ''Number of resources pending deletion (matched but TTL not expired)'', md_kind = Gauge_Metric,
     md_labels = [''policy_namespace'', ''policy_name'', ''resource_api_version'', ''resource_kind'']\<rparr>"

definition gc_leader_election_status :: metric_decl where
  "gc_leader_election_status = \<lparr>md_name = ''zen_cleaner_leader_election_status'',
     md_help = ''Leader election status (1 if this instance is the leader, 0 otherwise)'',
     md_kind = Gauge_Metric, md_labels = []\<rparr>"

definition gc_leader_election_transitions_total :: metric_decl where
  "gc_leader_election_transitions_total = \<lparr>md_name = ''zen_cleaner_leader_election_transitions_total'',
     md_help = ''Total number of leader election transitions (becoming leader or losing leadership)'',
     md_kind = Counter_Metric, md_labels = []\<rparr>"

definition safety_refusals_total :: metric_decl where
  "safety_refusals_total = \<lparr>md_name = ''zen_cleaner_safety_refusals_total'',
     md_help = ''Objects the safety gate refused to delete, by refusal reason class'',
     md_kind = Counter_Metric, md_labels = [''reason'']\<rparr>"

definition candidates_considered_total :: metric_decl where
  "candidates_considered_total = \<lparr>md_name = ''zen_cleaner_candidates_considered_total'',
     md_help = ''Matching objects that reached the deletion decision point'',
     md_kind = Counter_Metric, md_labels = []\<rparr>"

definition deletions_attempted_total :: metric_decl where
  "deletions_attempted_total = \<lparr>md_name = ''zen_cleaner_deletions_attempted_total'',
     md_help = ''DELETE calls issued after the safety gate allowed them'',
     md_kind = Counter_Metric, md_labels = []\<rparr>"

definition deletions_failed_total :: metric_decl where
  "deletions_failed_total = \<lparr>md_name = ''zen_cleaner_deletions_failed_total'',
     md_help = ''DELETE calls that failed (after bounded retries)'',
     md_kind = Counter_Metric, md_labels = []\<rparr>"

definition dry_run_candidates_total :: metric_decl where
  "dry_run_candidates_total = \<lparr>md_name = ''zen_cleaner_dry_run_candidates_total'',
     md_help = ''Objects a dry-run policy would have deleted'', md_kind = Counter_Metric, md_labels = []\<rparr>"

definition reconcile_outcome_total :: metric_decl where
  "reconcile_outcome_total = \<lparr>md_name = ''zen_cleaner_reconcile_total'',
     md_help = ''Reconcile outcomes by result class (success, error, invalid_policy)'',
     md_kind = Counter_Metric, md_labels = [''result'']\<rparr>"

definition api_errors_total :: metric_decl where
  "api_errors_total = \<lparr>md_name = ''zen_cleaner_api_errors_total'',
     md_help = ''API errors by bounded class (conflict, forbidden, notfound, throttled, server_error, network, other)'',
     md_kind = Counter_Metric, md_labels = [''class'']\<rparr>"

definition api_reachable_state :: metric_decl where
  "api_reachable_state = \<lparr>md_name = ''zen_cleaner_api_reachable'',
     md_help = ''1 when the latest leader-election lock operation reached the API, 0 otherwise (2026-10-29 launch validation: NetworkPolicy-enforced API rejection is invisible without this signal)'',
     md_kind = Gauge_Metric, md_labels = []\<rparr>"

definition leadership_state :: metric_decl where
  "leadership_state = \<lparr>md_name = ''zen_cleaner_leadership_state'',
     md_help = ''1 when this replica holds the leader lease, 0 when it is a standby.'',
     md_kind = Gauge_Metric, md_labels = []\<rparr>"

definition webhook_requests_total :: metric_decl where
  "webhook_requests_total = \<lparr>md_name = ''zen_cleaner_webhook_requests_total'',
     md_help = ''Total admission webhook requests handled, by endpoint and HTTP response code.'',
     md_kind = Counter_Metric, md_labels = [''endpoint'', ''code'']\<rparr>"

definition webhook_request_duration :: metric_decl where
  "webhook_request_duration = \<lparr>md_name = ''zen_cleaner_webhook_request_duration_seconds'',
     md_help = ''Admission webhook request handling duration in seconds, by endpoint.'',
     md_kind = Histogram_Metric [1 / 1000, 5 / 1000, 1 / 100, 5 / 100, 1 / 10, 1 / 2, 1, 5],
     md_labels = [''endpoint'']\<rparr>"

lemmas metric_decl_defs = gc_policies_total_def gc_resources_matched_total_def gc_resources_deleted_total_def
  gc_deletion_duration_seconds_def cleaner_errors_total_def gc_evaluation_duration_seconds_def
  gc_informers_total_def gc_rate_limiters_total_def gc_resources_pending_total_def
  gc_leader_election_status_def gc_leader_election_transitions_total_def safety_refusals_total_def
  candidates_considered_total_def deletions_attempted_total_def deletions_failed_total_def
  dry_run_candidates_total_def reconcile_outcome_total_def api_errors_total_def
  api_reachable_state_def leadership_state_def webhook_requests_total_def webhook_request_duration_def

text \<open>All that the packages register on the one registry.\<close>

definition served_metrics :: "metric_decl list" where
  "served_metrics = [gc_policies_total, gc_resources_matched_total, gc_resources_deleted_total,
     gc_deletion_duration_seconds, cleaner_errors_total, gc_evaluation_duration_seconds,
     gc_informers_total, gc_rate_limiters_total, gc_resources_pending_total,
     gc_leader_election_status, gc_leader_election_transitions_total, safety_refusals_total,
     candidates_considered_total, deletions_attempted_total, deletions_failed_total,
     dry_run_candidates_total, reconcile_outcome_total, api_errors_total,
     api_reachable_state, leadership_state, webhook_requests_total, webhook_request_duration]"

section \<open>What is recorded\<close>

text \<open>The metrics whose only label is a closed vocabulary.\<close>

definition api_error_classes :: "string list" where
  "api_error_classes = [''conflict'', ''notfound'', ''forbidden'', ''unauthorized'', ''throttled'',
     ''server_error'', ''network'', ''other'']"

definition closed_labels :: "(string \<times> string list) list" where
  "closed_labels = [(md_name safety_refusals_total, refusal_reasons),
     (md_name reconcile_outcome_total, [''success'', ''error'', ''invalid_policy'']),
     (md_name api_errors_total, api_error_classes)]"

definition in_vocabulary :: "string \<Rightarrow> string list \<Rightarrow> bool" where
  "in_vocabulary name labels = (case map_of closed_labels name of
       None \<Rightarrow> True | Some vs \<Rightarrow> list_all (\<lambda>l. l \<in> set vs) labels)"

text \<open>A declaration of the name, of the kind, with as many labels, and labels of the vocabulary.\<close>

definition declared :: "metric_kind \<Rightarrow> string \<Rightarrow> string list \<Rightarrow> bool" where
  "declared k name labels \<longleftrightarrow> in_vocabulary name labels \<and>
     list_ex (\<lambda>d. md_name d = name \<and> md_kind d = k \<and> length (md_labels d) = length labels) served_metrics"

fun well_recorded :: "effect \<Rightarrow> bool" where
  "well_recorded (Eff_Counter name labels) = declared Counter_Metric name labels"
| "well_recorded (Eff_Gauge name labels v) = declared Gauge_Metric name labels"
| "well_recorded e = True"

text \<open>A series is a metric and its labels.\<close>

type_synonym series = "string \<times> string list"

fun record_effect :: "effect \<Rightarrow> (series \<Rightarrow> int) \<Rightarrow> series \<Rightarrow> int" where
  "record_effect (Eff_Counter name labels) m = m((name, labels) := m (name, labels) + 1)"
| "record_effect (Eff_Gauge name labels v) m = m((name, labels) := v)"
| "record_effect e m = m"

definition scraped :: "effect list \<Rightarrow> series \<Rightarrow> int" where
  "scraped tr = foldl (\<lambda>m e. record_effect e m) (\<lambda>s. 0) tr"

text \<open>What is neither a deletion nor one of the two counts of deletions, nor reports leadership.\<close>

definition series_of :: "metric_decl \<Rightarrow> series" where
  "series_of d = (md_name d, [])"

fun aside :: "effect \<Rightarrow> bool" where
  "aside (Eff_Delete g ns n opts) = False"
| "aside (Eff_Counter name labels) = (declared Counter_Metric name labels \<and>
     name \<noteq> md_name deletions_attempted_total \<and> name \<noteq> md_name deletions_failed_total \<and>
     name \<noteq> md_name gc_leader_election_transitions_total)"
| "aside (Eff_Gauge name labels v) =
     (declared Gauge_Metric name labels \<and> name \<noteq> md_name gc_leader_election_status)"
| "aside e = True"

section \<open>Laws of the records\<close>

lemma scraped_Nil [simp]: "scraped [] s = 0"
  by (simp add: scraped_def)

lemma scraped_snoc [simp]: "scraped (tr @ [e]) = record_effect e (scraped tr)"
  by (simp add: scraped_def)

lemma api_error_class_known: "api_error_class oe \<in> set api_error_classes"
  by (simp add: api_error_class_def api_error_classes_def split: option.split)

lemma refusal_known: "\<not> fst (evaluate_object g oo b) \<Longrightarrow> snd (evaluate_object g oo b) \<in> set refusal_reasons"
  by (auto simp: evaluate_object_def refusal_reasons_def Let_def split: option.splits prod.splits if_splits)

lemma metric_table:
  "map (\<lambda>d. (md_name d, md_kind d, length (md_labels d))) served_metrics =
   [(''zen_cleaner_policies_total'', Gauge_Metric, 1),
    (''zen_cleaner_resources_matched_total'', Counter_Metric, 4),
    (''zen_cleaner_resources_deleted_total'', Counter_Metric, 5),
    (''zen_cleaner_deletion_duration_seconds'', Histogram_Metric DefBuckets, 4),
    (''zen_cleaner_errors_total'', Counter_Metric, 3),
    (''zen_cleaner_evaluation_duration_seconds'', Histogram_Metric [1 / 1000, 5 / 1000, 1 / 100, 5 / 100, 1 / 10, 1 / 2, 1, 5], 2),
    (''zen_cleaner_informers_total'', Gauge_Metric, 0),
    (''zen_cleaner_rate_limiters_total'', Gauge_Metric, 0),
    (''zen_cleaner_resources_pending_total'', Gauge_Metric, 4),
    (''zen_cleaner_leader_election_status'', Gauge_Metric, 0),
    (''zen_cleaner_leader_election_transitions_total'', Counter_Metric, 0),
    (''zen_cleaner_safety_refusals_total'', Counter_Metric, 1),
    (''zen_cleaner_candidates_considered_total'', Counter_Metric, 0),
    (''zen_cleaner_deletions_attempted_total'', Counter_Metric, 0),
    (''zen_cleaner_deletions_failed_total'', Counter_Metric, 0),
    (''zen_cleaner_dry_run_candidates_total'', Counter_Metric, 0),
    (''zen_cleaner_reconcile_total'', Counter_Metric, 1),
    (''zen_cleaner_api_errors_total'', Counter_Metric, 1),
    (''zen_cleaner_api_reachable'', Gauge_Metric, 0),
    (''zen_cleaner_leadership_state'', Gauge_Metric, 0),
    (''zen_cleaner_webhook_requests_total'', Counter_Metric, 2),
    (''zen_cleaner_webhook_request_duration_seconds'', Histogram_Metric [1 / 1000, 5 / 1000, 1 / 100, 5 / 100, 1 / 10, 1 / 2, 1, 5], 1)]"
  by (simp add: served_metrics_def metric_decl_defs)

lemma declared_table:
  "declared k name labels \<longleftrightarrow> in_vocabulary name labels \<and>
     (name, k, length labels) \<in> set (map (\<lambda>d. (md_name d, md_kind d, length (md_labels d))) served_metrics)"
  by (auto simp: declared_def list_ex_iff)

lemma metrics_distinct: "distinct (map md_name served_metrics)"
proof -
  have "map md_name served_metrics = map fst (map (\<lambda>d. (md_name d, md_kind d, length (md_labels d))) served_metrics)"
    by simp
  then show ?thesis
    by (simp only: metric_table) simp
qed

lemma deletion_names [simp]:
  "md_name safety_refusals_total = ''zen_cleaner_safety_refusals_total''"
  "md_name reconcile_outcome_total = ''zen_cleaner_reconcile_total''"
  "md_name api_errors_total = ''zen_cleaner_api_errors_total''"
  "md_name deletions_attempted_total = ''zen_cleaner_deletions_attempted_total''"
  "md_name deletions_failed_total = ''zen_cleaner_deletions_failed_total''"
  "md_name gc_leader_election_status = ''zen_cleaner_leader_election_status''"
  "md_name gc_leader_election_transitions_total = ''zen_cleaner_leader_election_transitions_total''"
  by (simp_all add: metric_decl_defs)

lemmas declared_eval = declared_table metric_table in_vocabulary_def closed_labels_def

lemmas aside_metrics = aside.simps(2,3)

declare aside_metrics [simp del]

lemma aside_records [simp]:
  "aside (Eff_Gauge ''zen_cleaner_policies_total'' [phase] v)"
  "aside (Eff_Counter ''zen_cleaner_resources_matched_total'' [a, b, c, d])"
  "aside (Eff_Counter ''zen_cleaner_resources_deleted_total'' [a, b, c, d, e])"
  "aside (Eff_Counter ''zen_cleaner_errors_total'' [a, b, c])"
  "aside (Eff_Gauge ''zen_cleaner_informers_total'' [] v)"
  "aside (Eff_Gauge ''zen_cleaner_rate_limiters_total'' [] v)"
  "aside (Eff_Gauge ''zen_cleaner_resources_pending_total'' [a, b, c, d] v)"
  "aside (Eff_Counter ''zen_cleaner_candidates_considered_total'' [])"
  "aside (Eff_Counter ''zen_cleaner_dry_run_candidates_total'' [])"
  by (simp_all add: aside_metrics declared_eval)

lemma aside_closed [simp]:
  "aside (Eff_Counter ''zen_cleaner_safety_refusals_total'' [reason]) \<longleftrightarrow> reason \<in> set refusal_reasons"
  "aside (Eff_Counter ''zen_cleaner_reconcile_total'' [result]) \<longleftrightarrow> result \<in> {''success'', ''error'', ''invalid_policy''}"
  "aside (Eff_Counter ''zen_cleaner_api_errors_total'' [api_error_class oe])"
  using api_error_class_known by (simp_all add: aside_metrics declared_eval)

lemma declared_deletions [simp]:
  "declared Counter_Metric ''zen_cleaner_deletions_attempted_total'' []"
  "declared Counter_Metric ''zen_cleaner_deletions_failed_total'' []"
  by (simp_all add: declared_eval)

lemma aside_recorded: "aside e \<Longrightarrow> well_recorded e"
  by (cases e) (simp_all add: aside_metrics)

lemma aside_series:
  assumes "aside e" "d \<in> {deletions_attempted_total, deletions_failed_total, gc_leader_election_status,
    gc_leader_election_transitions_total}"
  shows "record_effect e m (series_of d) = m (series_of d)"
  using assms by (cases e) (auto simp: series_of_def aside_metrics declared_eval)

end
