(* ===== verification/Footprint.thy ===== *)
theory Footprint
  imports Evaluation Telemetry
begin

text \<open>
  What an evaluation may write.  Reading the services, emitting effects, resolving a GVR and
  throttling touch the environment, the trace, the resolver's cache and the limiters, the
  last only by entering a new limiter; every other part of the reconciler's memory is as it
  was.  The locale \<open>footprint\<close> states this for a cluster, a reconciler and an invariant \<open>P\<close> that
  survives such writes, each call of the cluster, the resolver and the choke point of the deletions; its
  lemmas follow the operations from the inside out.  An invariant that looks at neither the
  environment nor the trace (\<open>maintained\<close>) survives all calls and the choke point.
\<close>

lemma maintains_resolve:
  assumes "\<And>mapper k. cl_mapper cl = Some mapper \<Longrightarrow> maintains P (ask (mapper k))"
    "\<And>s m. P s \<Longrightarrow> P (s\<lparr>sy_gvr_cache := m\<rparr>)"
  shows "maintains P (resolve_gvr cl k)"
  unfolding resolve_gvr_def
  by (auto intro!: maintains_rules maintains_modify assms split: option.split sum.split)

locale footprint =
  fixes P :: "'w sys \<Rightarrow> bool" and cl :: "'w cluster" and r :: reconciler
  assumes asks: "maintains P (ask (cl_now cl))" "maintains P (ask (cl_ctx cl))"
      "maintains P (ask (cl_sleep cl d))" "maintains P (ask (cl_wait cl l))"
      "maintains P (ask (cl_get cl g ns n))" "maintains P (ask (cl_list cl g ns))"
      "cl_mapper cl = Some mapper \<Longrightarrow> maintains P (ask (mapper k))"
      "cl_discovery cl = Some disc \<Longrightarrow> maintains P (ask (disc gv))"
      "maintains P (ask (cl_store cl key))" "maintains P (ask (cl_sync cl key))"
      "maintains P (ask (cl_get_policy cl ns n))" "maintains P (ask (cl_list_policies cl))"
      "maintains P (ask (cl_get_crd cl ns n))" "maintains P (ask (cl_update_crd_status cl ns n obj))"
      "maintains P (ask (cl_status_ctx cl))"
    and recording: "aside e \<Longrightarrow> P s \<Longrightarrow> P (s\<lparr>sy_trace := sy_trace s @ [e]\<rparr>)"
    and resolving: "maintains P (resolve_gvr cl k)"
    and limiters: "P s \<Longrightarrow> P (s\<lparr>sy_limiters := AList.update uid (new_rate_limiter rate) (sy_limiters s)\<rparr>)"
    and deleting: "maintains P (perform_resource_deletion cl (rc_decide r) obj' g opts b)"
begin

lemma emitting: "aside e \<Longrightarrow> maintains P (emit e)"
  unfolding maintains_def leads_def using recording by simp

lemmas steps = maintains_rules asks emitting

lemma reports:
  "maintains P (record_resource_matched p)" "maintains P (record_resource_deleted p reason)"
  "maintains P (record_error ns name ty)" "maintains P (record_resources_pending p n)"
  "reason \<in> set refusal_reasons \<Longrightarrow> maintains P (record_safety_refusal reason)"
  "maintains P record_candidate_considered"
  "maintains P record_dry_run_candidate" "maintains P (record_api_error e)"
  "maintains P (eventf b ty reason msg)" "maintains P (record_policy_evaluated b i j k)"
  "maintains P (record_resource_deleted_event b obj reason)" "maintains P (record_evaluation_failed b e)"
  "maintains P (record_status_update_failed b e)" "maintains P (record_rate_limiter_count c)"
  "maintains P (record_informer_count c)" "maintains P (record_policy_phase ph n)"
  "result \<in> {''success'', ''error'', ''invalid_policy''} \<Longrightarrow> maintains P (record_reconcile_outcome result)"
  by (simp_all add: report_defs emitting maintains_return)

lemma waiting: "maintains P (limiter_wait cl l)"
  unfolding limiter_wait_def by (auto intro!: steps)

lemma throttling: "maintains P (get_or_create_rate_limiter p)"
  unfolding get_or_create_rate_limiter_def
  by (auto intro!: steps reports maintains_modify simp: set_rate_new limiters split: option.split)

lemma resolving_for_deletion: "maintains P (resolve_gvr_for_deletion cl b obj)"
  unfolding resolve_gvr_for_deletion_def Let_def
  by (auto intro!: steps resolving split: sum.split)

lemma deleting_one: "maintains P (delete_resource cl r l p obj)"
  unfolding delete_resource_def
  by (auto intro!: steps waiting reports resolving_for_deletion deleting split: option.split)

lemma retrying_on:
  "c = cl \<Longrightarrow> (\<And>d. dc = Some d \<Longrightarrow> maintains P d) \<Longrightarrow> (\<And>d. dn = Some d \<Longrightarrow> maintains P d) \<Longrightarrow>
     maintains P (retry_loop c oor dc dn b le)"
proof (induction c oor dc dn b le rule: retry_loop.induct)
  case (1 c oor dc dn b le)
  have again: "maintains P (retry_loop c oor dc dn (snd (next_backoff oor b)) (Some e))"
    if "\<not> is_exhausted b" "fst (next_backoff oor b) \<noteq> 0" "retryable e"
       "(case dc of Some d \<Rightarrow> Some d | None \<Rightarrow> dn) = Some d" for e d
    using 1 that by blast
  show ?case
  proof (cases "case dc of Some d \<Rightarrow> Some d | None \<Rightarrow> dn")
    case None
    then show ?thesis
      by (subst retry_loop.simps) (auto intro!: steps simp: 1(2) split: option.split)
  next
    case (Some d)
    then have "maintains P d"
      using 1(3,4) by (auto split: option.splits)
    with Some show ?thesis
      by (subst retry_loop.simps, simp only: Some option.case)
        (use again [OF _ _ _ Some] in \<open>auto intro!: steps simp: 1(2) split: option.split\<close>)
  qed
qed

lemmas retrying = retrying_on [OF refl]

lemma deleting_with_backoff: "maintains P (delete_resource_with_backoff cl r l p obj)"
  unfolding delete_resource_with_backoff_def delete_with_backoff_shared_def
  by (rule retrying) (auto intro: deleting_one)

lemma batch_item:
  "(\<And>obj. maintains P (del obj)) \<Longrightarrow> maintains P (delete_batch_item cl b del p l reasons obj)"
  unfolding delete_batch_item_def
  by (auto intro!: steps reports waiting split: option.split)

lemma batch_loop:
  "(\<And>obj. maintains P (del obj)) \<Longrightarrow> maintains P (delete_batch_loop cl b del p l reasons i cnt errs batch)"
  by (induction batch arbitrary: i cnt errs)
    (auto intro!: steps batch_item split: option.split batch_item.split)

lemma reading: "maintains P (read_object cl r obj)"
  unfolding read_object_def api_get_def
  by (auto intro!: steps resolving_for_deletion)

lemma reading_before: "maintains P (pre_read cl r uids present batch)"
  by (induction batch arbitrary: uids present) (auto intro!: steps reading)

lemma reading_after: "maintains P (post_read cl r uids present batch)"
  by (induction batch) (auto intro!: steps reading)

lemma batching: "maintains P (delete_batch cl hash r batch p l reasons)"
proof -
  have run: "maintains P (run_batch cl r p l reasons batch)"
    unfolding run_batch_def delete_batch_shared_def by (rule batch_loop) (rule deleting_with_backoff)
  have finish: "maintains P (finish_receipt cl hash r batch p t0 planned res)" for t0 planned res
    unfolding finish_receipt_def by (intro steps reading_after)
  have execute: "maintains P (execute_with_receipt cl hash r batch p l reasons)"
    unfolding execute_with_receipt_def by (auto intro!: steps run finish reading_before)
  show ?thesis
    unfolding delete_batch_def
    by (auto intro!: steps execute reports split: option.split prod.split)
qed

lemma writing_status: "maintains P (update_policy_status cl updater recorder p m d q refusals)"
  unfolding update_policy_status_def update_status_def Let_def
  by (auto intro!: steps reports split: option.split sum.split)

lemma finishing: "maintains P (finish_evaluation cl updater recorder p m d q refusals)"
  unfolding finish_evaluation_def
  by (auto intro!: steps reports writing_status split: option.split)

lemma planning_one:
  assumes "\<And>decide oo b. es_gate svc = Some decide \<Longrightarrow> \<not> fst (decide oo b) \<Longrightarrow> snd (decide oo b) \<in> set refusal_reasons"
  shows "maintains P (evaluate_one cl svc p pl obj)"
  unfolding evaluate_one_def should_delete_def Let_def
  by (auto intro!: steps reports split: option.split prod.split) (metis assms fst_conv snd_conv)+

lemma planning_loop:
  "(\<And>pl obj. maintains P (one pl obj)) \<Longrightarrow> maintains P (plan_loop cl one i pl objs)"
  by (induction objs arbitrary: i pl) (auto intro!: steps split: option.split)

lemma batch_errors: "maintains P (record_batch_errors recorder errs)"
  by (induction errs) (auto intro!: steps reports)

lemma deletion_loop:
  "(\<And>batch. maintains P (del batch)) \<Longrightarrow> maintains P (delete_loop k cl del recorder p bs i cnt objs)"
proof (induction k arbitrary: i cnt)
  case 0
  show ?case by (simp add: maintains_return)
next
  case (Suc k)
  show ?case
    unfolding delete_loop.simps Let_def
    by (auto intro!: steps reports batch_errors Suc split: option.split prod.split)
qed

lemma evaluating:
  assumes "\<And>g ns. maintains P (es_list svc g ns)" "\<And>p. maintains P (es_limiter svc p)"
    "\<And>batch p l reasons. maintains P (es_delete_batch svc batch p l reasons)"
    "\<And>decide oo b. es_gate svc = Some decide \<Longrightarrow> \<not> fst (decide oo b) \<Longrightarrow> snd (decide oo b) \<in> set refusal_reasons"
  shows "maintains P (evaluate_policy fuel cl pgv svc p)"
proof -
  have resources: "maintains P (evaluate_resources cl svc p objs)" for objs
    unfolding evaluate_resources_def
    by (auto intro!: steps planning_loop planning_one assms(4) split: option.split)
  have batches: "maintains P (delete_resources_in_batches fuel cl svc p objs reasons)" for objs reasons
    unfolding delete_resources_in_batches_def
    by (auto intro!: steps assms deletion_loop split: option.split)
  show ?thesis
    unfolding evaluate_policy_def Let_def
    by (auto intro!: steps reports assms resources finishing batches split: sum.split)
qed

end

text \<open>An invariant of the memory alone.\<close>

locale maintained =
  fixes P :: "'w sys \<Rightarrow> bool"
  assumes free_env: "P s \<Longrightarrow> P (s\<lparr>sy_env := w\<rparr>)"
    and free_trace: "P s \<Longrightarrow> P (s\<lparr>sy_trace := t\<rparr>)"
    and free_cache: "P s \<Longrightarrow> P (s\<lparr>sy_gvr_cache := m\<rparr>)"
    and free_limiters: "P s \<Longrightarrow> P (s\<lparr>sy_limiters := AList.update uid (new_rate_limiter rate) (sy_limiters s)\<rparr>)"
begin

lemma free_asks: "maintains P (ask f)"
  unfolding maintains_def leads_def using free_env by simp

lemma free_emits: "maintains P (emit e)"
  unfolding maintains_def leads_def using free_trace by simp

end

sublocale maintained \<subseteq> footprint P cl r for cl r
proof
  show "maintains P (perform_resource_deletion cl (rc_decide r) obj g opts b)" for obj g opts b
    unfolding perform_resource_deletion_def get_live_for_precondition_def api_get_def api_delete_def report_defs
      Let_def
    by (auto intro!: maintains_rules free_emits free_asks split: option.split sum.split prod.split)
  show "maintains P (resolve_gvr cl k)" for k
    by (intro maintains_resolve free_asks free_cache)
qed (auto intro: free_asks free_trace free_limiters)

end
