(* ===== verification/Informers.thy ===== *)
theory Informers
  imports Target_Capability Footprint
begin

text \<open>
  Observation and lifecycle of the reconciler: the constructor of \<open>PolicyReconciler\<close>
  (\<open>pkg/controller/reconciler.go\<close>), the shared informers of \<open>reconciler_informer.go\<close>, the
  listers of \<open>adapters.go\<close> and \<open>infrastructure.go\<close>, the cached evaluation services of
  \<open>reconciler_evaluation.go\<close> and the bookkeeping of \<open>reconciler_lifecycle.go\<close>.

  A reconciler's operations run one after the other here, so the second look into a map
  under the write lock finds what the first one found and is not written down.  An informer
  is known by its key; the two maps \<open>resourceInformers\<close> and \<open>resourceInformerFactories\<close> are
  written together and are one list of keys.  Its store, never nil in client-go, is read by
  \<open>cl_store\<close>; the resync period has no effect the model sees.
\<close>

section \<open>The constructor\<close>

text \<open>What the constructor sets: the gate from the configuration, and a resolver.\<close>

definition new_policy_reconciler ::
  "bool \<Rightarrow> bool \<Rightarrow> bool \<Rightarrow> controller_config \<Rightarrow> duration \<Rightarrow> controller_config option \<Rightarrow> reconciler" where
  "new_policy_reconciler client status recorder status_cfg oor ocfg =
     (let cfg = (case ocfg of Some c \<Rightarrow> c | None \<Rightarrow> new_controller_config) in
      \<lparr>rc_gate = Some (new_gate \<lparr>sc_protected_namespaces = cc_protected_namespaces cfg,
         sc_own_namespace = cc_own_namespace cfg, sc_deletes_disabled = \<not> cc_delete_enabled cfg\<rparr>),
       rc_config = Some cfg, rc_recorder = recorder, rc_resolver = True, rc_client = client,
       rc_status = status, rc_oor = oor, rc_status_config = status_cfg, rc_integrity = None\<rparr>)"

text \<open>The second constructor ignores its leader check and leaves the resolver nil.\<close>

definition new_policy_reconciler_with_leader_check ::
  "bool \<Rightarrow> bool \<Rightarrow> bool \<Rightarrow> controller_config \<Rightarrow> duration \<Rightarrow> controller_config option \<Rightarrow> reconciler" where
  "new_policy_reconciler_with_leader_check client status recorder status_cfg oor ocfg =
     (let cfg = (case ocfg of Some c \<Rightarrow> c | None \<Rightarrow> new_controller_config) in
      \<lparr>rc_gate = Some (new_gate \<lparr>sc_protected_namespaces = cc_protected_namespaces cfg,
         sc_own_namespace = cc_own_namespace cfg, sc_deletes_disabled = \<not> cc_delete_enabled cfg\<rparr>),
       rc_config = Some cfg, rc_recorder = recorder, rc_resolver = False, rc_client = client,
       rc_status = status, rc_oor = oor, rc_status_config = status_cfg, rc_integrity = None\<rparr>)"

section \<open>Listers\<close>

text \<open>\<open>InformerStoreResourceLister\<close>: the store holds unstructured objects only.\<close>

fun store_filter :: "string \<Rightarrow> uobj list \<Rightarrow> uobj list" where
  "store_filter ns [] = []"
| "store_filter ns (obj # rest) =
     (if ns \<noteq> [] \<and> ns \<noteq> ''*'' \<and> u_namespace obj \<noteq> ns then store_filter ns rest
      else obj # store_filter ns rest)"

definition list_from_store ::
  "'w cluster \<Rightarrow> string \<Rightarrow> gvr \<Rightarrow> string \<Rightarrow> ('w, go_error + uobj list) prog" where
  "list_from_store cl key g ns = do {
     items \<leftarrow> ask (cl_store cl key);
     State_Monad.return (Inr (store_filter ns items))
   }"

text \<open>\<open>DefaultResourceLister\<close>; the dynamic client's answer to a list in one namespace or in all
  (\<open>None\<close>) is the parameter \<open>api_list\<close>.\<close>

definition list_from_api ::
  "(gvr \<Rightarrow> string option \<Rightarrow> 'w \<Rightarrow> (go_error + uobj list) \<times> 'w) \<Rightarrow> gvr \<Rightarrow> string
     \<Rightarrow> ('w, go_error + uobj list) prog" where
  "list_from_api api_list g ns =
     (let scope = (if ns = [] then None else Some ns) in do {
        emit (Eff_List g ns);
        r \<leftarrow> ask (api_list g scope);
        State_Monad.return (case r of Inl e \<Rightarrow> Inl e | Inr items \<Rightarrow> Inr items)
      })"

section \<open>Informers\<close>

definition ErrResourceInformerCacheSyncFailed :: go_error where
  "ErrResourceInformerCacheSyncFailed = Sentinel ''ErrResourceInformerCacheSyncFailed''
     ''failed to sync resource informer cache''"

definition evaluation_service_key :: "policy \<Rightarrow> string" where
  "evaluation_service_key p = tr_api_version (p_target p) @ ''/'' @ tr_kind (p_target p)
     @ ''/'' @ tr_namespace (p_target p)"

text \<open>\<open>GroupVersionKind\<close> of the sample object: empty when the API version does not parse.\<close>

definition sample_gvk :: "(string \<Rightarrow> go_error + string \<times> string) \<Rightarrow> policy \<Rightarrow> gvk" where
  "sample_gvk pgv p = (case pgv (tr_api_version (p_target p)) of
       Inr (g, v) \<Rightarrow> \<lparr>gvk_group = g, gvk_version = v, gvk_kind = tr_kind (p_target p)\<rparr>
     | Inl e \<Rightarrow> \<lparr>gvk_group = [], gvk_version = [], gvk_kind = []\<rparr>)"

text \<open>Storing, starting and syncing an informer; \<open>cl_sync\<close> answers whether it synced and
  \<open>syncCtx.Err()\<close>.\<close>

definition start_informer ::
  "'w cluster \<Rightarrow> string \<Rightarrow> gvr \<Rightarrow> string \<Rightarrow> ('w, go_error + string) prog" where
  "start_informer cl key g ns = do {
     modify (\<lambda>s. s\<lparr>sy_informers := sy_informers s @ [key]\<rparr>);
     n \<leftarrow> gets (\<lambda>s. length (sy_informers s));
     record_informer_count n;
     emit (Eff_Start_Informer g ns);
     (synced, stop) \<leftarrow> ask (cl_sync cl key);
     if \<not> synced then do {
       modify (\<lambda>s. s\<lparr>sy_informers := removeAll key (sy_informers s)\<rparr>);
       State_Monad.return (case stop of
           Some e \<Rightarrow> Inl (Errorf ''resource informer cache sync timed out: '' e [])
         | None \<Rightarrow> Inl (Errorf [] ErrResourceInformerCacheSyncFailed []))
     }
     else State_Monad.return (Inr key)
   }"

text \<open>Calling a nil resolver dereferences it.\<close>

definition get_or_create_resource_informer ::
  "'w cluster \<Rightarrow> (string \<Rightarrow> go_error + string \<times> string) \<Rightarrow> reconciler \<Rightarrow> policy
     \<Rightarrow> ('w, (go_error + string) run) prog" where
  "get_or_create_resource_informer cl pgv r p =
     (let key = evaluation_service_key p in do {
        informers \<leftarrow> gets sy_informers;
        if key \<in> set informers then State_Monad.return (Returned (Inr key))
        else do {
          oe \<leftarrow> validate_target_or_classify cl r p;
          case oe of
            Some e \<Rightarrow> State_Monad.return (Returned (Inl e))
          | None \<Rightarrow>
             (if \<not> rc_resolver r then
                State_Monad.return (Panicked ''invalid memory address or nil pointer dereference'')
              else do {
                rg \<leftarrow> resolve_gvr cl (sample_gvk pgv p);
                case rg of
                  Inl e \<Rightarrow> State_Monad.return (Returned (Inl (Errorf ''invalid target resource: '' e [])))
                | Inr g \<Rightarrow> do {
                    x \<leftarrow> start_informer cl key g (normalize_namespace (tr_namespace (p_target p)));
                    State_Monad.return (Returned x)
                  }
              })
        }
      })"

section \<open>Evaluation services\<close>

text \<open>\<open>NewPolicyEvaluationService\<close> with the adapters of the reconciler, and the gate it is
  given: a service is determined by the key of its lister.\<close>

definition reconciler_service ::
  "'w cluster \<Rightarrow> (string \<Rightarrow> string) \<Rightarrow> reconciler \<Rightarrow> string \<Rightarrow> 'w evaluation_service" where
  "reconciler_service cl hash r key =
     \<lparr>es_list = list_from_store cl key,
      es_matches = matches_selectors (cl_selector cl),
      es_meets = meets_conditions,
      es_limiter = (\<lambda>p. do { l \<leftarrow> get_or_create_rate_limiter p; State_Monad.return (Some l) }),
      es_delete_batch = delete_batch cl hash r,
      es_status = (if rc_status r then Some (rc_status_config r) else None),
      es_gate = rc_decide r, es_recorder = rc_recorder r, es_config = rc_config r\<rparr>"

definition get_or_create_evaluation_service ::
  "'w cluster \<Rightarrow> (string \<Rightarrow> go_error + string \<times> string) \<Rightarrow> reconciler \<Rightarrow> policy
     \<Rightarrow> ('w, (go_error + string) run) prog" where
  "get_or_create_evaluation_service cl pgv r p =
     (let key = evaluation_service_key p in do {
        services \<leftarrow> gets sy_services;
        case map_of services key of
          Some k \<Rightarrow> State_Monad.return (Returned (Inr k))
        | None \<Rightarrow> bind_run (get_or_create_resource_informer cl pgv r p) (\<lambda>x. case x of
             Inl e \<Rightarrow> State_Monad.return (Returned (Inl (Errorf ''failed to create resource lister: ''
                        (Errorf ''failed to get resource informer: '' e []) [])))
           | Inr k \<Rightarrow> do {
               modify (\<lambda>s. s\<lparr>sy_services := AList.update key k (sy_services s)\<rparr>);
               State_Monad.return (Returned (Inr k))
             })
      })"

section \<open>Lifecycle\<close>

definition track_policy_uid :: "string \<times> string \<Rightarrow> string \<Rightarrow> ('w, unit) prog" where
  "track_policy_uid nn uid = modify (\<lambda>s. s\<lparr>sy_policy_uids := AList.update nn uid (sy_policy_uids s)\<rparr>)"

definition track_policy_spec :: "string \<Rightarrow> policy_spec \<Rightarrow> ('w, unit) prog" where
  "track_policy_spec uid spec = modify (\<lambda>s. s\<lparr>sy_specs := AList.update uid spec (sy_specs s)\<rparr>)"

text \<open>The shared informers are kept.\<close>

definition cleanup_resource_informer :: "string \<Rightarrow> ('w, unit) prog" where
  "cleanup_resource_informer uid = State_Monad.return ()"

definition cleanup_policy_resources :: "string \<times> string \<Rightarrow> ('w, unit) prog" where
  "cleanup_policy_resources nn = do {
     uids \<leftarrow> gets sy_policy_uids;
     case map_of uids nn of
       None \<Rightarrow> State_Monad.return ()
     | Some uid \<Rightarrow> do {
         modify (\<lambda>s. s\<lparr>sy_policy_uids := AList.delete nn (sy_policy_uids s)\<rparr>);
         cleanup_resource_informer uid;
         cleanup_rate_limiter uid;
         modify (\<lambda>s. s\<lparr>sy_specs := AList.delete uid (sy_specs s)\<rparr>)
       }
   }"

definition should_recreate_informer :: "policy \<Rightarrow> ('w, bool) prog" where
  "should_recreate_informer p = gets (\<lambda>s. case map_of (sy_specs s) (p_uid p) of
       None \<Rightarrow> False
     | Some old \<Rightarrow>
        (let new = p_target p; old = ps_target old in
         if tr_api_version old \<noteq> tr_api_version new \<or> tr_kind old \<noteq> tr_kind new
            \<or> tr_namespace old \<noteq> tr_namespace new
            \<or> \<not> label_selectors_equal (tr_label_selector old) (tr_label_selector new)
         then True else False))"

definition handle_informer_recreation :: "policy \<Rightarrow> ('w, unit) prog" where
  "handle_informer_recreation p = do {
     yes \<leftarrow> should_recreate_informer p;
     if \<not> yes then State_Monad.return ()
     else do {
       cleanup_resource_informer (p_uid p);
       modify (\<lambda>s. s\<lparr>sy_specs := AList.delete (p_uid p) (sy_specs s)\<rparr>)
     }
   }"

section \<open>Laws\<close>

lemma store_filter_eq: "store_filter ns objs =
    filter (\<lambda>obj. ns = [] \<or> ns = ''*'' \<or> u_namespace obj = ns) objs"
  by (induction objs) auto

abbreviation quiet :: "('w, 'a) prog \<Rightarrow> bool" where
  "quiet m \<equiv> only (\<lambda>e. \<not> is_delete e) m"

lemma quiet_reporting: "only is_report m \<Longrightarrow> quiet m"
  by (erule only_weaken) (rule report_not_delete)

lemma quiet_receipt: "quiet (update_condition_receipt cl r p ty reason msg permanent)"
  by (rule only_weaken [OF only_update_condition_receipt]) (auto elim: is_status.elims)

lemma quiet_condition: "quiet (reconcile_target_condition cl r p tc)"
  unfolding reconcile_target_condition_def
  by (auto intro!: only_rules quiet_receipt split: option.split prod.split)

lemma quiet_gate: "quiet (validate_target_or_classify cl r p)"
proof -
  have check: "quiet (validate_target_capability cl p)"
    by (rule only_weaken [OF only_validate]) (auto elim: is_probe.elims)
  have fail: "quiet (record_target_failure uid)" for uid
    unfolding record_target_failure_def by (intro only_rules only_modify) simp
  have clear: "quiet (clear_target_failure uid)" for uid
    unfolding clear_target_failure_def by (intro only_modify) simp
  show ?thesis
    unfolding validate_target_or_classify_def Let_def
    by (auto intro!: only_rules check fail clear quiet_condition split: option.split prod.split)
qed

lemma quiet_start: "quiet (start_informer cl key g ns)"
  unfolding start_informer_def
  by (auto intro!: only_rules only_modify only_emit only_report [THEN quiet_reporting] split: prod.split)

lemma quiet_informer: "quiet (get_or_create_resource_informer cl pgv r p)"
  unfolding get_or_create_resource_informer_def Let_def
  by (auto intro!: only_rules quiet_gate quiet_start only_resolve_gvr split: option.split sum.split)

lemma quiet_run: "quiet m \<Longrightarrow> (\<And>a. quiet (f a)) \<Longrightarrow> quiet (bind_run m f)"
  unfolding bind_run_def by (auto intro!: only_rules split: run.split)

lemma quiet_service: "quiet (get_or_create_evaluation_service cl pgv r p)"
  unfolding get_or_create_evaluation_service_def Let_def
  by (auto intro!: only_rules quiet_run quiet_informer only_modify split: option.split sum.split)

lemma quiet_cleanup: "quiet (cleanup_policy_resources nn)"
  unfolding cleanup_policy_resources_def cleanup_resource_informer_def
  by (auto intro!: only_rules only_modify only_cleanup_rate_limiter report_not_delete split: option.split)

lemma quiet_lifecycle:
  "quiet (track_policy_uid nn uid)" "quiet (track_policy_spec uid spec)"
  "quiet (handle_informer_recreation p)"
  unfolding track_policy_uid_def track_policy_spec_def handle_informer_recreation_def
    should_recreate_informer_def cleanup_resource_informer_def
  by (auto intro!: only_rules only_modify)

text \<open>The service the reconciler builds meets the contract of the evaluation: it deletes only
  what \<open>may_delete\<close> permits, with at most five requests per object.\<close>

interpretation reconciler_evaluation: evaluation_deps "reconciler_service cl hash r key" "may_delete r" 5
  for cl :: "'w cluster" and hash r key
proof unfold_locales
  show "quiet (es_list (reconciler_service cl hash r key) g ns)" for g ns
    by (auto simp: reconciler_service_def list_from_store_def intro!: only_rules)
  show "quiet (es_limiter (reconciler_service cl hash r key) p)" for p
    by (auto simp: reconciler_service_def intro!: only_rules only_get_or_create report_not_delete)
  show "emits (es_delete_batch (reconciler_service cl hash r key) objs p l reasons) (\<lambda>res es.
      deletes_ok (\<lambda>ns n uid. \<exists>obj \<in> set objs. may_delete r p obj ns n uid) es \<and>
      ndel es \<le> 5 * length objs \<and> 0 \<le> fst res \<and>
      fst res + int (length (snd res)) \<le> int (length objs))" for objs p l reasons
    unfolding reconciler_service_def evaluation_service.simps
    by (rule emits_weaken [OF delete_batch_ok]) (simp add: batch_ok_def)
qed

section \<open>The maps stay consistent\<close>

text \<open>Every cached service reads a running informer, of its own key, and no key runs twice.\<close>

definition observation_ok :: "'w sys \<Rightarrow> bool" where
  "observation_ok s \<longleftrightarrow> distinct (sy_informers s) \<and>
     (\<forall>key k. map_of (sy_services s) key = Some k \<longrightarrow> k = key \<and> k \<in> set (sy_informers s))"

text \<open>A property of the two maps survives whatever leaves them alone.\<close>

abbreviation observing :: "(string list \<Rightarrow> (string, string) gomap \<Rightarrow> bool) \<Rightarrow> 'w sys \<Rightarrow> bool" where
  "observing Q s \<equiv> Q (sy_informers s) (sy_services s)"

interpretation observing: maintained "observing Q" for Q
  by unfold_locales simp_all

text \<open>The capability gate writes the probes, by entering a grant, and the failure counters.\<close>

locale gate_maintained = footprint P cl r for P :: "'w sys \<Rightarrow> bool" and cl r +
  assumes probes: "P s \<Longrightarrow> P (s\<lparr>sy_probes := AList.update key (granted_at now) (sy_probes s)\<rparr>)"
    and failures: "P s \<Longrightarrow> P (s\<lparr>sy_failures := m\<rparr>)"
begin

lemma receipts: "maintains P (update_condition_receipt cl r p ty reason msg permanent)"
  unfolding update_condition_receipt_def update_target_condition_def Let_def
  by (auto intro!: steps split: sum.split)

lemma gating: "maintains P (validate_target_or_classify cl r p)"
proof -
  have probe: "maintains P (probe_target cl p)"
    unfolding probe_target_def discover_target_def list_probe_def record_probe_granted_def Let_def
      granted_at_def [symmetric]
    by (auto intro!: steps maintains_modify probes split: option.split sum.split prod.split)
  have check: "maintains P (validate_target_capability cl p)"
    unfolding validate_target_capability_def Let_def
    by (auto intro!: steps probe split: option.split)
  have condition: "maintains P (reconcile_target_condition cl r p tc)" for tc
    unfolding reconcile_target_condition_def
    by (auto intro!: steps receipts split: option.split prod.split)
  show ?thesis
    unfolding validate_target_or_classify_def record_target_failure_def clear_target_failure_def Let_def
    by (auto intro!: steps check condition maintains_modify failures split: option.split prod.split)
qed

end

interpretation observing: gate_maintained "observing Q" cl r for Q cl r
  by unfold_locales simp_all

definition served :: "string \<Rightarrow> (go_error + string) run \<Rightarrow> 'w sys \<Rightarrow> bool" where
  "served key x s \<longleftrightarrow> observation_ok s \<and>
     (\<forall>k. x = Returned (Inr k) \<longrightarrow> k = key \<and> k \<in> set (sy_informers s))"

lemma start_informer_served:
  assumes "key \<notin> set infs" "sy_informers s = infs" "observation_ok s"
  shows "served key (Returned (fst (run_state (start_informer cl key g ns) s)))
     (snd (run_state (start_informer cl key g ns) s))"
  using assms
  by (auto simp: start_informer_def case_prod_beta record_informer_count_def served_def
      observation_ok_def split: option.split)

lemma informer_served:
  "leads observation_ok (get_or_create_resource_informer cl pgv r p) (served (evaluation_service_key p))"
proof -
  let ?key = "evaluation_service_key p"
  let ?P = "\<lambda>s. observation_ok s \<and> ?key \<notin> set (sy_informers s)"
  let ?Q = "\<lambda>infs svcs. distinct infs \<and> (\<forall>key k. map_of svcs key = Some k \<longrightarrow> k = key \<and> k \<in> set infs)
     \<and> ?key \<notin> set infs"
  have keep: "leads ?P m (\<lambda>a. ?P)" if "maintains (observing ?Q) m" for m :: "('a, 'b) prog"
    using that by (simp add: maintains_def leads_def observation_ok_def)
  have start: "leads ?P (start_informer cl ?key g ns) (\<lambda>x. served ?key (Returned x))" for g ns
    unfolding leads_def using start_informer_served by blast
  have gate: "leads ?P (do {
        oe \<leftarrow> validate_target_or_classify cl r p;
        case oe of
          Some e \<Rightarrow> State_Monad.return (Returned (Inl e))
        | None \<Rightarrow>
           (if \<not> rc_resolver r then
              State_Monad.return (Panicked ''invalid memory address or nil pointer dereference'')
            else do {
              rg \<leftarrow> resolve_gvr cl (sample_gvk pgv p);
              case rg of
                Inl e \<Rightarrow> State_Monad.return (Returned (Inl (Errorf ''invalid target resource: '' e [])))
              | Inr g \<Rightarrow> do {
                  x \<leftarrow> start_informer cl ?key g (normalize_namespace (tr_namespace (p_target p)));
                  State_Monad.return (Returned x)
                }
            })
      }) (served ?key)"
    by (rule leads_bind [OF keep [OF observing.gating]])
      (auto intro!: leads_bind [OF keep [OF observing.resolving]] leads_bind [OF start] leads_return
        simp: served_def split: option.split sum.split)
  show ?thesis
    unfolding leads_def
  proof (intro allI impI)
    fix s :: "'a sys"
    assume ok: "observation_ok s"
    show "served ?key (fst (run_state (get_or_create_resource_informer cl pgv r p) s))
        (snd (run_state (get_or_create_resource_informer cl pgv r p) s))"
      unfolding get_or_create_resource_informer_def Let_def run_bind_gets
    proof (cases "?key \<in> set (sy_informers s)", goal_cases)
      case 1
      with ok show ?case by (simp add: served_def)
    next
      case 2
      with gate ok show ?case by (simp only: leads_def if_False simp_thms)
    qed
  qed
qed

lemma served_failed: "served key (Returned (Inl e)) s = observation_ok s"
    "served key (Panicked m) s = observation_ok s" "served key Out_Of_Fuel s = observation_ok s"
  by (simp_all add: served_def)

lemma service_served:
  "leads observation_ok (get_or_create_evaluation_service cl pgv r p) (served (evaluation_service_key p))"
proof -
  let ?key = "evaluation_service_key p"
  have cached: "served ?key (Returned (Inr k)) s" if "observation_ok s" "map_of (sy_services s) ?key = Some k" for k s
    using that unfolding served_def observation_ok_def by blast
  have store: "leads (\<lambda>s. served ?key (Returned (Inr k)) s)
      (State_Monad.bind (modify (\<lambda>s. s\<lparr>sy_services := AList.update ?key k (sy_services s)\<rparr>))
        (\<lambda>u. State_Monad.return (Returned (Inr k)))) (served ?key)" for k
    unfolding leads_def by (auto simp: served_def observation_ok_def update_conv')
  have create: "leads observation_ok (bind_run (get_or_create_resource_informer cl pgv r p) (\<lambda>x. case x of
       Inl e \<Rightarrow> State_Monad.return (Returned (Inl (Errorf ''failed to create resource lister: ''
                  (Errorf ''failed to get resource informer: '' e []) [])))
     | Inr k \<Rightarrow> do {
         modify (\<lambda>s. s\<lparr>sy_services := AList.update ?key k (sy_services s)\<rparr>);
         State_Monad.return (Returned (Inr k))
       })) (served ?key)"
    unfolding bind_run_def
    by (rule leads_bind [OF informer_served])
      (auto intro!: leads_return store simp: served_failed split: run.split sum.split)
  show ?thesis
    unfolding leads_def get_or_create_evaluation_service_def Let_def
    using create [unfolded leads_def] cached by (auto split: option.split)
qed

end
