(* ===== verification/Validation.thy ===== *)
theory Validation
  imports Gvr Safety
begin

text \<open>
  The validation of a policy (\<open>pkg/validation/validator.go\<close>): the rules that admission and
  every reconcile apply before anything of a policy runs.

  The format checks of \<open>k8s.io/apimachinery/pkg/util/validation\<close> are third-party: the record
  \<open>k8s_checks\<close> holds, for each, the list of complaints it answers (empty when valid).
\<close>

record k8s_checks =
  kc_subdomain :: "string \<Rightarrow> string list"
  kc_label :: "string \<Rightarrow> string list"
  kc_qualified :: "string \<Rightarrow> string list"
  kc_label_value :: "string \<Rightarrow> string list"

definition ex_checks :: k8s_checks where
  "ex_checks = \<lparr>kc_subdomain = (\<lambda>s. []), kc_label = (\<lambda>s. []), kc_qualified = (\<lambda>s. []),
     kc_label_value = (\<lambda>s. [])\<rparr>"

text \<open>\<open>%v\<close> of a slice of strings.\<close>

definition show_strings :: "string list \<Rightarrow> string" where
  "show_strings ss = ''['' @ join_with '' '' ss @ '']''"

section \<open>Errors\<close>

definition ErrAPIVersionRequired :: go_error where
  "ErrAPIVersionRequired = Sentinel ''ErrAPIVersionRequired'' ''apiVersion is required''"
definition ErrKindRequired :: go_error where
  "ErrKindRequired = Sentinel ''ErrKindRequired'' ''kind is required''"
definition ErrNoTTLOptionSpecified :: go_error where
  "ErrNoTTLOptionSpecified = Sentinel ''ErrNoTTLOptionSpecified'' ''at least one TTL option must be specified''"
definition ErrInvalidTTLMapping :: go_error where
  "ErrInvalidTTLMapping = Sentinel ''ErrInvalidTTLMapping'' ''invalid TTL mapping: value must be positive''"
definition ErrMaxDeletionsPerSecondNegative :: go_error where
  "ErrMaxDeletionsPerSecondNegative = Sentinel ''ErrMaxDeletionsPerSecondNegative''
     ''maxDeletionsPerSecond must be non-negative''"
definition ErrBatchSizeNegative :: go_error where
  "ErrBatchSizeNegative = Sentinel ''ErrBatchSizeNegative'' ''batchSize must be non-negative''"
definition ErrInvalidPropagationPolicy :: go_error where
  "ErrInvalidPropagationPolicy = Sentinel ''ErrInvalidPropagationPolicy'' ''invalid propagationPolicy''"
definition ErrGracePeriodSecondsNegative :: go_error where
  "ErrGracePeriodSecondsNegative = Sentinel ''ErrGracePeriodSecondsNegative''
     ''gracePeriodSeconds must be non-negative''"
definition ErrInvalidNamespace :: go_error where
  "ErrInvalidNamespace = Sentinel ''ErrInvalidNamespace''
     ''invalid namespace: must be a valid DNS-1123 label, '*' for all namespaces, or empty''"
definition ErrInvalidAPIVersion :: go_error where
  "ErrInvalidAPIVersion = Sentinel ''ErrInvalidAPIVersion'' ''invalid apiVersion format''"
definition ErrInvalidKind :: go_error where
  "ErrInvalidKind = Sentinel ''ErrInvalidKind''
     ''invalid kind: must be non-empty and not contain leading/trailing whitespace''"
definition ErrInvalidLabelKey :: go_error where
  "ErrInvalidLabelKey = Sentinel ''ErrInvalidLabelKey'' ''invalid label key''"
definition ErrInvalidLabelValue :: go_error where
  "ErrInvalidLabelValue = Sentinel ''ErrInvalidLabelValue'' ''invalid label value''"
definition ErrInvalidLabelExpressionKey :: go_error where
  "ErrInvalidLabelExpressionKey = Sentinel ''ErrInvalidLabelExpressionKey'' ''invalid label expression key''"
definition ErrLabelExpressionOperatorRequired :: go_error where
  "ErrLabelExpressionOperatorRequired = Sentinel ''ErrLabelExpressionOperatorRequired''
     ''label expression operator is required''"
definition ErrInvalidLabelExpressionOperator :: go_error where
  "ErrInvalidLabelExpressionOperator = Sentinel ''ErrInvalidLabelExpressionOperator''
     ''invalid label expression operator''"
definition ErrLabelExpressionValuesRequired :: go_error where
  "ErrLabelExpressionValuesRequired = Sentinel ''ErrLabelExpressionValuesRequired''
     ''label expression values are required''"
definition ErrInvalidLabelExpressionValue :: go_error where
  "ErrInvalidLabelExpressionValue = Sentinel ''ErrInvalidLabelExpressionValue''
     ''invalid label expression value''"
definition ErrNamespaceRequired :: go_error where
  "ErrNamespaceRequired = Sentinel ''ErrNamespaceRequired''
     ''targetResource.namespace must be explicit (a namespace name or '*')''"
definition ErrProtectedNamespace :: go_error where
  "ErrProtectedNamespace = Sentinel ''ErrProtectedNamespace''
     ''targetResource.namespace is protected and can never be a cleanup target''"
definition ErrProtectedKind :: go_error where
  "ErrProtectedKind = Sentinel ''ErrProtectedKind''
     ''targetResource.kind is protected and can never be a cleanup target''"
definition ErrUnsafeBroadScope :: go_error where
  "ErrUnsafeBroadScope = Sentinel ''ErrUnsafeBroadScope''
     ''unsafe broad scope: namespace '*' (or omitted selector) requires a non-empty labelSelector''"
definition ErrFinalizerUnsupported :: go_error where
  "ErrFinalizerUnsupported = Sentinel ''ErrFinalizerUnsupported''
     ''behavior.finalizer is not supported and is rejected to avoid a silent no-op''"

lemmas validation_errors = ErrAPIVersionRequired_def ErrKindRequired_def ErrNoTTLOptionSpecified_def
  ErrInvalidTTLMapping_def ErrMaxDeletionsPerSecondNegative_def ErrBatchSizeNegative_def
  ErrInvalidPropagationPolicy_def ErrGracePeriodSecondsNegative_def ErrInvalidNamespace_def
  ErrInvalidAPIVersion_def ErrInvalidKind_def ErrInvalidLabelKey_def ErrInvalidLabelValue_def
  ErrInvalidLabelExpressionKey_def ErrLabelExpressionOperatorRequired_def
  ErrInvalidLabelExpressionOperator_def ErrLabelExpressionValuesRequired_def
  ErrInvalidLabelExpressionValue_def ErrNamespaceRequired_def ErrProtectedNamespace_def
  ErrProtectedKind_def ErrUnsafeBroadScope_def ErrFinalizerUnsupported_def

section \<open>The target\<close>

definition is_valid_version :: "string \<Rightarrow> bool" where
  "is_valid_version v =
     (if v = [] then False
      else if v ! 0 = CHR ''v'' \<and> length v > 1 then True
      else list_all is_digit v)"

definition validate_api_version :: "k8s_checks \<Rightarrow> string \<Rightarrow> go_error option" where
  "validate_api_version k v =
     (if v = [] then Some (Errorf [] ErrAPIVersionRequired [])
      else if trim_space v \<noteq> v then
        Some (Errorf [] ErrInvalidAPIVersion '': contains leading or trailing whitespace'')
      else if \<not> contains v ''/'' \<and> \<not> is_valid_version v \<and> length (kc_subdomain k v) > 0 then
        Some (Errorf [] ErrInvalidAPIVersion ('': '' @ show_strings (kc_subdomain k v)))
      else None)"

definition safety_protected_kind :: "string \<Rightarrow> bool" where
  "safety_protected_kind kind \<longleftrightarrow> kind \<in> set [''Namespace'', ''PersistentVolume'', ''PersistentVolumeClaim'',
     ''StorageClass'', ''CustomResourceDefinition'', ''ValidatingWebhookConfiguration'',
     ''MutatingWebhookConfiguration'']"

definition validate_kind :: "string \<Rightarrow> go_error option" where
  "validate_kind kind =
     (if kind = [] then Some (Errorf [] ErrKindRequired [])
      else if trim_space kind \<noteq> kind then
        Some (Errorf [] ErrInvalidKind '': contains leading or trailing whitespace'')
      else if safety_protected_kind kind then Some (Errorf [] ErrProtectedKind ('': '' @ kind))
      else None)"

text \<open>The map \<open>ProtectedNamespaces\<close> of this package.\<close>

definition validator_protected_namespaces :: "string list" where
  "validator_protected_namespaces = [''kube-system'', ''kube-public'', ''kube-node-lease'']"

definition has_selector :: "target_resource \<Rightarrow> bool" where
  "has_selector t = (case tr_label_selector t of
     Some s \<Rightarrow> length (ls_match_labels s) > 0 \<or> length (ls_match_expressions s) > 0
   | None \<Rightarrow> False)"

definition validate_namespace_safety :: "target_resource \<Rightarrow> go_error option" where
  "validate_namespace_safety t =
     (if tr_namespace t \<noteq> [] \<and> tr_namespace t \<noteq> ''*''
         \<and> tr_namespace t \<in> set validator_protected_namespaces then
        Some (Errorf [] ErrProtectedNamespace ('': '' @ tr_namespace t))
      else if tr_namespace t = ''*'' \<and> \<not> has_selector t then Some (Errorf [] ErrUnsafeBroadScope [])
      else None)"

definition validate_namespace :: "k8s_checks \<Rightarrow> string \<Rightarrow> go_error option" where
  "validate_namespace k ns =
     (if ns = [] then Some ErrNamespaceRequired
      else if ns = ''*'' then None
      else if is_digit (ns ! 0) then Some (Errorf [] ErrInvalidNamespace '': cannot start with a number'')
      else if length (kc_label k ns) > 0 then
        Some (Errorf [] ErrInvalidNamespace ('': '' @ show_strings (kc_label k ns)))
      else None)"

fun validate_match_labels :: "k8s_checks \<Rightarrow> (string, string) gomap \<Rightarrow> go_error option" where
  "validate_match_labels k [] = None"
| "validate_match_labels k ((key, value) # rest) =
     (if length (kc_qualified k key) > 0 then
        Some (Errorf [] ErrInvalidLabelKey ('' '' @ go_quote key @ '': '' @ show_strings (kc_qualified k key)))
      else if length (kc_label_value k value) > 0 then
        Some (Errorf [] ErrInvalidLabelValue ('' '' @ go_quote value @ '': '' @ show_strings (kc_label_value k value)))
      else validate_match_labels k rest)"

fun validate_values :: "k8s_checks \<Rightarrow> nat \<Rightarrow> nat \<Rightarrow> string list \<Rightarrow> go_error option" where
  "validate_values k i j [] = None"
| "validate_values k i j (v # vs) =
     (if length (kc_label_value k v) > 0 then
        Some (Errorf [] ErrInvalidLabelExpressionValue ('' '' @ go_quote v @ '' at index '' @ show_nat i
          @ '', value '' @ show_nat j @ '': '' @ show_strings (kc_label_value k v)))
      else validate_values k i (j + 1) vs)"

definition validate_label_expression :: "k8s_checks \<Rightarrow> label_requirement \<Rightarrow> nat \<Rightarrow> go_error option" where
  "validate_label_expression k x i =
     (if length (kc_qualified k (lr_key x)) > 0 then
        Some (Errorf [] ErrInvalidLabelExpressionKey ('' at index '' @ show_nat i @ '': ''
          @ show_strings (kc_qualified k (lr_key x))))
      else if lr_operator x = [] then
        Some (Errorf [] ErrLabelExpressionOperatorRequired ('' at index '' @ show_nat i))
      else if lr_operator x \<notin> set [''In'', ''NotIn'', ''Exists'', ''DoesNotExist''] then
        Some (Errorf [] ErrInvalidLabelExpressionOperator ('' '' @ go_quote (lr_operator x) @ '' at index ''
          @ show_nat i @ '' (must be In, NotIn, Exists, or DoesNotExist)''))
      else if (lr_operator x = ''In'' \<or> lr_operator x = ''NotIn'') \<and> length (lr_values x) = 0 then
        Some (Errorf [] ErrLabelExpressionValuesRequired ('' for operator '' @ go_quote (lr_operator x)
          @ '' at index '' @ show_nat i))
      else validate_values k i 0 (lr_values x))"

fun validate_match_expressions :: "k8s_checks \<Rightarrow> nat \<Rightarrow> label_requirement list \<Rightarrow> go_error option" where
  "validate_match_expressions k i [] = None"
| "validate_match_expressions k i (x # xs) =
     (case validate_label_expression k x i of
        Some e \<Rightarrow> Some e
      | None \<Rightarrow> validate_match_expressions k (i + 1) xs)"

definition validate_label_selector :: "k8s_checks \<Rightarrow> label_selector option \<Rightarrow> go_error option" where
  "validate_label_selector k os = (case os of
       None \<Rightarrow> None
     | Some s \<Rightarrow> (case validate_match_labels k (ls_match_labels s) of
           Some e \<Rightarrow> Some e
         | None \<Rightarrow> validate_match_expressions k 0 (ls_match_expressions s)))"

text \<open>The steps of a validation in order, up to the first error.\<close>

fun first_error :: "go_error option list \<Rightarrow> go_error option" where
  "first_error [] = None"
| "first_error (Some e # rest) = Some e"
| "first_error (None # rest) = first_error rest"

definition wrapped :: "string \<Rightarrow> go_error option \<Rightarrow> go_error option" where
  "wrapped pre oe = map_option (\<lambda>e. Errorf pre e []) oe"

definition validate_target_resource :: "k8s_checks \<Rightarrow> target_resource \<Rightarrow> go_error option" where
  "validate_target_resource k t =
     first_error [validate_api_version k (tr_api_version t),
       validate_kind (tr_kind t),
       wrapped ''invalid namespace: '' (validate_namespace k (tr_namespace t)),
       validate_namespace_safety t,
       wrapped ''invalid labelSelector: '' (validate_label_selector k (tr_label_selector t))]"

section \<open>TTL and behavior\<close>

fun validate_mappings :: "(string, int64) gomap \<Rightarrow> go_error option" where
  "validate_mappings [] = None"
| "validate_mappings ((key, value) # rest) =
     (if sint value \<le> 0 then Some (Errorf [] ErrInvalidTTLMapping ('' for key '' @ key))
      else validate_mappings rest)"

definition positive :: "int64 option \<Rightarrow> bool" where
  "positive on = (case on of Some n \<Rightarrow> sint n > 0 | None \<Rightarrow> False)"

definition validate_ttl :: "ttl_spec \<Rightarrow> go_error option" where
  "validate_ttl t =
     (let has_ttl = positive (ttl_seconds_after_creation t);
          has_ttl = (if ttl_field_path t \<noteq> [] then True else has_ttl);
          has_ttl = (if ttl_relative_to t \<noteq> [] \<and> positive (ttl_seconds_after t) then True else has_ttl)
      in if \<not> has_ttl then Some (Errorf [] ErrNoTTLOptionSpecified [])
         else if ttl_field_path t \<noteq> [] \<and> length (ttl_mappings t) > 0 then validate_mappings (ttl_mappings t)
         else None)"

definition validate_behavior :: "behavior_spec \<Rightarrow> go_error option" where
  "validate_behavior b =
     (if bh_max_deletions b < 0 then Some (Errorf [] ErrMaxDeletionsPerSecondNegative [])
      else if bh_batch_size b < 0 then Some (Errorf [] ErrBatchSizeNegative [])
      else if bh_finalizer b \<noteq> [] then Some (Errorf [] ErrFinalizerUnsupported [])
      else if bh_propagation b \<noteq> [] \<and> bh_propagation b \<notin> set [''Foreground'', ''Background'', ''Orphan''] then
        Some (Errorf [] ErrInvalidPropagationPolicy ('': '' @ bh_propagation b
          @ '' (must be Foreground, Background, or Orphan)''))
      else if (case bh_grace_period b of Some n \<Rightarrow> sint n < 0 | None \<Rightarrow> False) then
        Some (Errorf [] ErrGracePeriodSecondsNegative [])
      else None)"

definition validate_policy :: "k8s_checks \<Rightarrow> policy \<Rightarrow> go_error option" where
  "validate_policy k p =
     first_error [wrapped ''invalid targetResource: '' (validate_target_resource k (p_target p)),
       wrapped ''invalid ttl: '' (validate_ttl (ps_ttl (p_spec p))),
       wrapped ''invalid behavior: '' (validate_behavior (p_behavior p))]"

section \<open>What a valid policy is\<close>

definition valid_expression :: "k8s_checks \<Rightarrow> label_requirement \<Rightarrow> bool" where
  "valid_expression k x \<longleftrightarrow> kc_qualified k (lr_key x) = [] \<and>
     lr_operator x \<in> {''In'', ''NotIn'', ''Exists'', ''DoesNotExist''} \<and>
     (lr_operator x \<in> {''In'', ''NotIn''} \<longrightarrow> lr_values x \<noteq> []) \<and>
     (\<forall>v \<in> set (lr_values x). kc_label_value k v = [])"

definition valid_selector :: "k8s_checks \<Rightarrow> label_selector \<Rightarrow> bool" where
  "valid_selector k s \<longleftrightarrow>
     (\<forall>(key, v) \<in> set (ls_match_labels s). kc_qualified k key = [] \<and> kc_label_value k v = []) \<and>
     (\<forall>x \<in> set (ls_match_expressions s). valid_expression k x)"

definition valid_namespace :: "k8s_checks \<Rightarrow> string \<Rightarrow> bool" where
  "valid_namespace k ns \<longleftrightarrow> ns = ''*'' \<or> (ns \<noteq> [] \<and> \<not> is_digit (hd ns) \<and> kc_label k ns = [])"

definition valid_target :: "k8s_checks \<Rightarrow> target_resource \<Rightarrow> bool" where
  "valid_target k t \<longleftrightarrow> validate_api_version k (tr_api_version t) = None \<and>
     tr_kind t \<noteq> [] \<and> trim_space (tr_kind t) = tr_kind t \<and> tr_kind t \<notin> set hard_protected_kinds \<and>
     valid_namespace k (tr_namespace t) \<and> tr_namespace t \<notin> set validator_protected_namespaces \<and>
     (tr_namespace t = ''*'' \<longrightarrow> has_selector t) \<and>
     (\<forall>s. tr_label_selector t = Some s \<longrightarrow> valid_selector k s)"

definition valid_ttl :: "ttl_spec \<Rightarrow> bool" where
  "valid_ttl t \<longleftrightarrow> (positive (ttl_seconds_after_creation t) \<or> ttl_field_path t \<noteq> [] \<or>
       (ttl_relative_to t \<noteq> [] \<and> positive (ttl_seconds_after t))) \<and>
     (ttl_field_path t \<noteq> [] \<longrightarrow> (\<forall>(key, n) \<in> set (ttl_mappings t). sint n > 0))"

definition valid_behavior :: "behavior_spec \<Rightarrow> bool" where
  "valid_behavior b \<longleftrightarrow> 0 \<le> bh_max_deletions b \<and> 0 \<le> bh_batch_size b \<and> bh_finalizer b = [] \<and>
     bh_propagation b \<in> {[], ''Foreground'', ''Background'', ''Orphan''} \<and>
     (\<forall>n. bh_grace_period b = Some n \<longrightarrow> 0 \<le> sint n)"

lemma first_error_None: "first_error xs = None \<longleftrightarrow> (\<forall>x \<in> set xs. x = None)"
  by (induction xs rule: first_error.induct) auto

lemma or_else_None: "(case oe of Some e \<Rightarrow> Some e | None \<Rightarrow> other) = None \<longleftrightarrow> oe = None \<and> other = None"
  by (simp split: option.split)

lemma wrapped_None [simp]: "wrapped pre oe = None \<longleftrightarrow> oe = None"
  by (simp add: wrapped_def)

lemma validate_values_None: "validate_values k i j vs = None \<longleftrightarrow> (\<forall>v \<in> set vs. kc_label_value k v = [])"
  by (induction vs arbitrary: j) auto

lemma validate_expression_None: "validate_label_expression k x i = None \<longleftrightarrow> valid_expression k x"
proof (cases "lr_operator x \<in> {''In'', ''NotIn'', ''Exists'', ''DoesNotExist''}")
  case True
  then show ?thesis
    by (auto simp: validate_label_expression_def valid_expression_def validate_values_None)
next
  case False
  then show ?thesis
    by (auto simp: validate_label_expression_def valid_expression_def)
qed

lemma validate_expressions_None:
  "validate_match_expressions k i xs = None \<longleftrightarrow> (\<forall>x \<in> set xs. valid_expression k x)"
  by (induction xs arbitrary: i) (simp_all add: or_else_None validate_expression_None)

lemma validate_labels_None:
  "validate_match_labels k ls = None \<longleftrightarrow> (\<forall>(key, v) \<in> set ls. kc_qualified k key = [] \<and> kc_label_value k v = [])"
  by (induction k ls rule: validate_match_labels.induct) auto

lemma validate_selector_None: "validate_label_selector k (Some s) = None \<longleftrightarrow> valid_selector k s"
  by (simp add: validate_label_selector_def valid_selector_def validate_labels_None
      validate_expressions_None or_else_None)

lemma protected_kinds_agree: "safety_protected_kind kind \<longleftrightarrow> kind \<in> set hard_protected_kinds"
  by (simp add: safety_protected_kind_def hard_protected_kinds_def)

lemma validate_namespace_None: "validate_namespace k ns = None \<longleftrightarrow> valid_namespace k ns"
  by (cases ns) (auto simp: validate_namespace_def valid_namespace_def)

lemma protected_not_star: "ns \<in> set validator_protected_namespaces \<Longrightarrow> ns \<noteq> [] \<and> ns \<noteq> ''*''"
  by (auto simp: validator_protected_namespaces_def)

lemma validate_safety_None:
  "validate_namespace_safety t = None \<longleftrightarrow> tr_namespace t \<notin> set validator_protected_namespaces \<and>
     (tr_namespace t = ''*'' \<longrightarrow> has_selector t)"
  using protected_not_star [of "tr_namespace t"] by (auto simp: validate_namespace_safety_def)

lemma validate_kind_None:
  "validate_kind kind = None \<longleftrightarrow> kind \<noteq> [] \<and> trim_space kind = kind \<and> kind \<notin> set hard_protected_kinds"
  by (auto simp: validate_kind_def protected_kinds_agree)

lemma validate_target_None: "validate_target_resource k t = None \<longleftrightarrow> valid_target k t"
proof -
  have "validate_label_selector k (tr_label_selector t) = None \<longleftrightarrow>
      (\<forall>s. tr_label_selector t = Some s \<longrightarrow> valid_selector k s)"
    by (cases "tr_label_selector t") (simp_all add: validate_selector_None, simp add: validate_label_selector_def)
  then show ?thesis
    by (simp add: validate_target_resource_def first_error_None valid_target_def validate_kind_None
        validate_namespace_None validate_safety_None)
qed

lemma validate_mappings_None: "validate_mappings ms = None \<longleftrightarrow> (\<forall>(key, n) \<in> set ms. sint n > 0)"
  by (induction ms rule: validate_mappings.induct) auto

lemma validate_ttl_None: "validate_ttl t = None \<longleftrightarrow> valid_ttl t"
  by (cases "ttl_mappings t") (auto simp: validate_ttl_def valid_ttl_def validate_mappings_None Let_def)

lemma validate_behavior_None: "validate_behavior b = None \<longleftrightarrow> valid_behavior b"
proof -
  have "set [''Foreground'', ''Background'', ''Orphan''] = {''Foreground'', ''Background'', ''Orphan''}" by simp
  then show ?thesis
    unfolding validate_behavior_def valid_behavior_def by (auto split: option.splits)
qed

section \<open>Properties\<close>


text \<open>Refusals for safety say so: a policy with an accepted apiVersion whose kind is
  hard-protected fails with \<open>ErrProtectedKind\<close>; one with an acceptable kind in a protected
  namespace that passes the format check fails with \<open>ErrProtectedNamespace\<close>; a wildcard
  without a selector fails with \<open>ErrUnsafeBroadScope\<close>.\<close>

theorem safety_refusals_typed:
  assumes "validate_api_version k (tr_api_version (p_target p)) = None"
  shows "(tr_kind (p_target p) \<in> set hard_protected_kinds \<longrightarrow>
       (\<exists>e. validate_policy k p = Some e \<and> errors_is ''ErrProtectedKind'' e)) \<and>
     (validate_kind (tr_kind (p_target p)) = None \<longrightarrow>
       (tr_namespace (p_target p) \<in> set validator_protected_namespaces \<longrightarrow>
          kc_label k (tr_namespace (p_target p)) = [] \<longrightarrow>
          (\<exists>e. validate_policy k p = Some e \<and> errors_is ''ErrProtectedNamespace'' e)) \<and>
       (tr_namespace (p_target p) = ''*'' \<longrightarrow> \<not> has_selector (p_target p) \<longrightarrow>
          (\<exists>e. validate_policy k p = Some e \<and> errors_is ''ErrUnsafeBroadScope'' e)))"
proof (intro conjI impI)
  assume kind: "tr_kind (p_target p) \<in> set hard_protected_kinds"
  then have "tr_kind (p_target p) \<noteq> []" "trim_space (tr_kind (p_target p)) = tr_kind (p_target p)"
    by (auto simp: hard_protected_kinds_def intro!: trim_space_id simp: is_space_def)
  with kind assms show "\<exists>e. validate_policy k p = Some e \<and> errors_is ''ErrProtectedKind'' e"
    by (simp add: validate_policy_def validate_target_resource_def validate_kind_def
        protected_kinds_agree wrapped_def validation_errors)
next
  assume kind: "validate_kind (tr_kind (p_target p)) = None"
    and ns: "tr_namespace (p_target p) \<in> set validator_protected_namespaces"
    and ok: "kc_label k (tr_namespace (p_target p)) = []"
  have "validate_namespace k (tr_namespace (p_target p)) = None"
    using ns ok by (auto simp: validate_namespace_None valid_namespace_def validator_protected_namespaces_def is_digit_def)
  with assms kind ns protected_not_star [OF ns]
  show "\<exists>e. validate_policy k p = Some e \<and> errors_is ''ErrProtectedNamespace'' e"
    by (simp add: validate_policy_def validate_target_resource_def validate_namespace_safety_def
        wrapped_def validation_errors)
next
  assume "validate_kind (tr_kind (p_target p)) = None" "tr_namespace (p_target p) = ''*''"
    "\<not> has_selector (p_target p)"
  with assms show "\<exists>e. validate_policy k p = Some e \<and> errors_is ''ErrUnsafeBroadScope'' e"
    by (simp add: validate_policy_def validate_target_resource_def validate_namespace_def
        validate_namespace_safety_def wrapped_def validation_errors)
qed

theorem safety_refusals_typed_witness:
  "\<exists>e. validate_policy ex_checks (ex_policy\<lparr>p_spec := ex_spec\<lparr>ps_target := ex_target\<lparr>tr_kind := ''Namespace''\<rparr>\<rparr>\<rparr>) = Some e
     \<and> errors_is ''ErrProtectedKind'' e"
proof -
  have "validate_api_version ex_checks ''v1'' = None" by code_simp
  then show ?thesis
    using safety_refusals_typed [of ex_checks "ex_policy\<lparr>p_spec := ex_spec\<lparr>ps_target := ex_target\<lparr>tr_kind := ''Namespace''\<rparr>\<rparr>\<rparr>"]
    by (simp add: ex_target_def hard_protected_kinds_def)
qed

text \<open>Two lists of protected namespaces: every namespace validation refuses is protected by
  every gate, but three built-in namespaces of the gate pass the check of validation, so
  only the gate keeps a policy away from them.\<close>

theorem validator_namespaces_subset:
  "set validator_protected_namespaces \<subseteq> set (gt_protected (new_gate cfg)) \<and>
   set protected_namespaces - set validator_protected_namespaces =
     {''kube-flannel'', ''kube-registry'', ''metallb-system''}"
proof -
  have "set protected_namespaces \<subseteq> set (gt_protected (new_gate cfg))"
    by (auto simp: new_gate_def Let_def set_add_protected)
  moreover have "set validator_protected_namespaces \<subseteq> set protected_namespaces"
    by (simp add: validator_protected_namespaces_def protected_namespaces_def)
  moreover have "set protected_namespaces - set validator_protected_namespaces =
     {''kube-flannel'', ''kube-registry'', ''metallb-system''}"
    by (auto simp: validator_protected_namespaces_def protected_namespaces_def)
  ultimately show ?thesis by blast
qed

text \<open>Validation and \<open>ParseGVR\<close> disagree on apiVersions: a second slash, an empty group and
  an empty version all pass validation, and the evaluation then fails on each of them.\<close>

theorem versions_validated_not_parsed:
  assumes "v \<in> {''apps/v1/beta'', ''/v1'', ''apps/''}" "kind \<noteq> []"
  shows "validate_api_version k v = None \<and> (\<exists>e. parse_gvr pgv v kind = Inl e)"
proof -
  have "validate_api_version k v = None"
    using assms(1) by (auto simp: validate_api_version_def trim_space_def is_space_def has_prefix_def)
  moreover have "\<exists>e. parse_gvr pgv v kind = Inl e"
    using assms by (auto simp: parse_gvr_def Let_def has_prefix_def)
  ultimately show ?thesis by blast
qed

theorem versions_validated_not_parsed_witness:
  "validate_api_version ex_checks ''/v1'' = None"
  using versions_validated_not_parsed [of "''/v1''" "''Pod''" ex_checks] by simp

end
