(* ===== verification/Webhook.thy ===== *)
theory Webhook
  imports Validation
begin

text \<open>
  Admission: \<open>pkg/webhook/webhook.go\<close>, the validating and the mutating handler, and the
  accounting of \<open>pkg/webhook/metrics.go\<close>.

  Decoding JSON and Kubernetes objects is third-party: a request holds the result of
  decoding its body (the review, whose \<open>Request\<close> may be nil), and the universal deserializer
  is a parameter that answers an error, an object of another type (its name), or a policy.
  The encoder of the response and of the patches are parameters too.  The server's sockets and
  shutdown are not modelled.
\<close>

section \<open>Requests and responses\<close>

record admission_request =
  ar_uid :: string
  ar_operation :: string
  ar_object :: string

record http_request =
  hr_method :: string
  hr_body :: "go_error + admission_request option"

record admission_response =
  as_uid :: string
  as_allowed :: bool
  as_result :: "(int \<times> string) option"
  as_patch :: "string option"

datatype http_reply = Http_Error int string | Http_Review admission_response

type_synonym decoder = "string \<Rightarrow> go_error + (string + policy)"

record webhook_server =
  ws_checks :: k8s_checks
  ws_decode :: decoder
  ws_gate :: "(target_resource \<Rightarrow> bool \<times> string) option"
  ws_encode :: "admission_response \<Rightarrow> go_error option"
  ws_marshal :: "json list \<Rightarrow> go_error + string"

definition ErrUnexpectedObjectType :: go_error where
  "ErrUnexpectedObjectType = Sentinel ''ErrUnexpectedObjectType'' ''expected ZenCleanerPolicy''"

definition decode_policy :: "webhook_server \<Rightarrow> string \<Rightarrow> go_error + policy" where
  "decode_policy ws raw = (case ws_decode ws raw of
       Inl e \<Rightarrow> Inl (Errorf ''failed to decode ZenCleanerPolicy: '' e [])
     | Inr (Inl ty) \<Rightarrow> Inl (Errorf [] ErrUnexpectedObjectType ('', got '' @ ty))
     | Inr (Inr p) \<Rightarrow> Inr p)"

section \<open>Validation\<close>

definition validate_request :: "webhook_server \<Rightarrow> admission_request \<Rightarrow> go_error option" where
  "validate_request ws req =
     (if ar_operation req \<noteq> ''CREATE'' \<and> ar_operation req \<noteq> ''UPDATE'' then None
      else (case decode_policy ws (ar_object req) of
          Inl e \<Rightarrow> Some e
        | Inr p \<Rightarrow> (case validate_policy (ws_checks ws) p of
              Some e \<Rightarrow> Some (Errorf ''policy validation failed: '' e [])
            | None \<Rightarrow> (case ws_gate ws of
                  None \<Rightarrow> None
                | Some gate \<Rightarrow>
                    (let (allowed, refusal) = gate (p_target p) in
                     if refusal \<noteq> [] then Some (Errors_New (''policy target refused by safety law: '' @ refusal))
                     else None)))))"

definition send_response :: "webhook_server \<Rightarrow> admission_response \<Rightarrow> http_reply run" where
  "send_response ws resp = (case ws_encode ws resp of
       None \<Rightarrow> Returned (Http_Review resp)
     | Some e \<Rightarrow> Returned (Http_Error 500 (''Failed to encode response: '' @ error_string e)))"

text \<open>The steps both handlers share; a review without a request is a nil dereference.\<close>

definition with_review ::
  "http_request \<Rightarrow> (admission_request \<Rightarrow> http_reply run) \<Rightarrow> http_reply run" where
  "with_review r handle =
     (if hr_method r \<noteq> ''POST'' then Returned (Http_Error 405 ''Method not allowed'')
      else (case hr_body r of
          Inl e \<Rightarrow> Returned (Http_Error 400 (''Failed to decode request: '' @ error_string e))
        | Inr None \<Rightarrow> Panicked ''invalid memory address or nil pointer dereference''
        | Inr (Some req) \<Rightarrow> handle req))"

definition handle_validate :: "webhook_server \<Rightarrow> http_request \<Rightarrow> http_reply run" where
  "handle_validate ws r = with_review r (\<lambda>req.
     send_response ws (case validate_request ws req of
         Some e \<Rightarrow> \<lparr>as_uid = ar_uid req, as_allowed = False, as_result = Some (422, error_string e), as_patch = None\<rparr>
       | None \<Rightarrow> \<lparr>as_uid = ar_uid req, as_allowed = True, as_result = None, as_patch = None\<rparr>))"

section \<open>Defaults\<close>

definition add_patch :: "string \<Rightarrow> json \<Rightarrow> json" where
  "add_patch path v = JObj [(''op'', JStr ''add''), (''path'', JStr path), (''value'', v)]"

definition has_behavior :: "behavior_spec \<Rightarrow> bool" where
  "has_behavior b \<longleftrightarrow> bh_max_deletions b \<noteq> 0 \<or> bh_batch_size b \<noteq> 0 \<or> bh_dry_run b
     \<or> bh_finalizer b \<noteq> [] \<or> bh_propagation b \<noteq> [] \<or> bh_grace_period b \<noteq> None"

definition default_patches :: "behavior_spec \<Rightarrow> json list" where
  "default_patches b =
     (if \<not> has_behavior b then
        [add_patch ''/spec/behavior'' (JObj [(''maxDeletionsPerSecond'', JInt 10),
           (''batchSize'', JInt 50), (''propagationPolicy'', JStr ''Background'')])]
      else (if bh_max_deletions b = 0 then [add_patch ''/spec/behavior/maxDeletionsPerSecond'' (JInt 10)] else [])
         @ (if bh_batch_size b = 0 then [add_patch ''/spec/behavior/batchSize'' (JInt 50)] else [])
         @ (if bh_propagation b = [] then [add_patch ''/spec/behavior/propagationPolicy'' (JStr ''Background'')] else []))"

definition mutate_policy :: "webhook_server \<Rightarrow> admission_request \<Rightarrow> go_error + json list" where
  "mutate_policy ws req =
     (if ar_operation req \<noteq> ''CREATE'' then Inr []
      else (case decode_policy ws (ar_object req) of
          Inl e \<Rightarrow> Inl e
        | Inr p \<Rightarrow> Inr (default_patches (p_behavior p))))"

definition handle_mutate :: "webhook_server \<Rightarrow> http_request \<Rightarrow> http_reply run" where
  "handle_mutate ws r = with_review r (\<lambda>req.
     send_response ws (case mutate_policy ws req of
         Inl e \<Rightarrow> \<lparr>as_uid = ar_uid req, as_allowed = False,
            as_result = Some (500, ''Failed to mutate policy: '' @ error_string e), as_patch = None\<rparr>
       | Inr patches \<Rightarrow>
          if length patches > 0 then
            (case ws_marshal ws patches of
               Inl e \<Rightarrow> \<lparr>as_uid = ar_uid req, as_allowed = False,
                  as_result = Some (500, ''Failed to marshal patches: '' @ error_string e), as_patch = None\<rparr>
             | Inr bytes \<Rightarrow> \<lparr>as_uid = ar_uid req, as_allowed = True, as_result = None, as_patch = Some bytes\<rparr>)
          else \<lparr>as_uid = ar_uid req, as_allowed = True, as_result = None, as_patch = None\<rparr>))"

definition new_policy_target_gate :: "controller_config \<Rightarrow> gate" where
  "new_policy_target_gate cfg = new_gate \<lparr>sc_protected_namespaces = cc_protected_namespaces cfg,
     sc_own_namespace = cc_own_namespace cfg, sc_deletes_disabled = False\<rparr>"

section \<open>Accounting\<close>

record status_writer =
  sw_code :: int
  sw_wrote :: bool

definition new_status_writer :: status_writer where
  "new_status_writer = \<lparr>sw_code = 200, sw_wrote = False\<rparr>"

definition write_header :: "int \<Rightarrow> status_writer \<Rightarrow> status_writer" where
  "write_header code sw = (if \<not> sw_wrote sw then sw\<lparr>sw_code := code, sw_wrote := True\<rparr> else sw)"

text \<open>The counter increments after a handler that wrote the headers \<open>codes\<close>.\<close>

definition instrument :: "string \<Rightarrow> int list \<Rightarrow> effect" where
  "instrument endpoint codes = Eff_Counter ''zen_cleaner_webhook_requests_total''
     [endpoint, show_int (sw_code (fold write_header codes new_status_writer))]"

section \<open>The server\<close>

definition set_target_gate :: "(target_resource \<Rightarrow> bool \<times> string) \<Rightarrow> webhook_server \<Rightarrow> webhook_server" where
  "set_target_gate gate ws = ws\<lparr>ws_gate := Some gate\<rparr>"

text \<open>The routes of \<open>NewWebhookServer\<close>: a handler with its count, a plain answer, or no route.  An
  answer that is a review is written without a header of its own; a panic is not counted.\<close>

datatype webhook_answer = Handled "http_reply run" "effect list" | Plain int string

definition written_codes :: "http_reply \<Rightarrow> int list" where
  "written_codes reply = (case reply of Http_Error code msg \<Rightarrow> [code] | Http_Review resp \<Rightarrow> [])"

definition instrumented :: "string \<Rightarrow> http_reply run \<Rightarrow> webhook_answer" where
  "instrumented endpoint x = Handled x (case x of
       Returned reply \<Rightarrow> [instrument endpoint (written_codes reply)] | _ \<Rightarrow> [])"

definition webhook_mux :: "webhook_server \<Rightarrow> string \<Rightarrow> http_request \<Rightarrow> webhook_answer" where
  "webhook_mux ws path r =
     (if path = ''/validate-cleanup-policy'' then instrumented ''validate'' (handle_validate ws r)
      else if path = ''/mutate-cleanup-policy'' then instrumented ''mutate'' (handle_mutate ws r)
      else if path = ''/healthz'' then Plain 200 ''OK''
      else Plain 404 (''404 page not found'' @ [CHR 0x0A]))"

text \<open>The errors of \<open>Start\<close> and \<open>StartTLS\<close>, from that of their listener: closing is no error.\<close>

definition webhook_start :: "go_error option \<Rightarrow> go_error option" where
  "webhook_start oe = (case oe of
       None \<Rightarrow> None
     | Some e \<Rightarrow> if \<not> errors_is ''http.ErrServerClosed'' e then Some (Errorf ''webhook server error: '' e []) else None)"

definition webhook_start_tls :: "go_error option \<Rightarrow> go_error option" where
  "webhook_start_tls oe = (case oe of
       None \<Rightarrow> None
     | Some e \<Rightarrow> if \<not> errors_is ''http.ErrServerClosed'' e then Some (Errorf ''webhook server error: '' e []) else None)"

section \<open>The contract of a target gate\<close>

text \<open>The handler looks at the reason alone, which is right for a gate that gives a reason
  exactly when it refuses.\<close>

locale target_gate =
  fixes decide :: "target_resource \<Rightarrow> bool \<times> string"
  assumes reason_iff_refused: "fst (decide t) \<longleftrightarrow> snd (decide t) = []"
begin

lemma admitted_iff:
  assumes "ws_gate ws = Some decide" "ar_operation req \<in> {''CREATE'', ''UPDATE''}"
  shows "validate_request ws req = None \<longleftrightarrow> (\<exists>p. ws_decode ws (ar_object req) = Inr (Inr p) \<and>
     validate_policy (ws_checks ws) p = None \<and> fst (decide (p_target p)))"
proof (cases "decode_policy ws (ar_object req)")
  case (Inl e)
  with assms(2) have "validate_request ws req = Some e"
    by (auto simp: validate_request_def)
  moreover have "\<not> (\<exists>p. ws_decode ws (ar_object req) = Inr (Inr p))"
    using Inl by (auto simp: decode_policy_def)
  ultimately show ?thesis by simp
next
  case (Inr p)
  then have "ws_decode ws (ar_object req) = Inr (Inr p)"
    by (auto simp: decode_policy_def split: sum.splits)
  with Inr assms reason_iff_refused [of "p_target p"] show ?thesis
    by (auto simp: validate_request_def case_prod_beta split: option.split)
qed

end

interpretation policy_gate: target_gate "evaluate_policy_target g" for g
  by unfold_locales (simp add: evaluate_policy_target_def reason_defs)

section \<open>What the patches do\<close>

text \<open>The effect of an add patch on the typed behavior of the policy.\<close>

definition int_field :: "string \<Rightarrow> (string \<times> json) list \<Rightarrow> int" where
  "int_field key o' = (case map_of o' key of Some (JInt n) \<Rightarrow> n | _ \<Rightarrow> 0)"

definition str_field :: "string \<Rightarrow> (string \<times> json) list \<Rightarrow> string" where
  "str_field key o' = (case map_of o' key of Some (JStr v) \<Rightarrow> v | _ \<Rightarrow> [])"

definition apply_patch :: "json \<Rightarrow> behavior_spec \<Rightarrow> behavior_spec" where
  "apply_patch j b = (case j of
     JObj kvs \<Rightarrow>
       (let path = str_field ''path'' kvs in
        if path = ''/spec/behavior/maxDeletionsPerSecond'' then b\<lparr>bh_max_deletions := int_field ''value'' kvs\<rparr>
        else if path = ''/spec/behavior/batchSize'' then b\<lparr>bh_batch_size := int_field ''value'' kvs\<rparr>
        else if path = ''/spec/behavior/propagationPolicy'' then b\<lparr>bh_propagation := str_field ''value'' kvs\<rparr>
        else if path = ''/spec/behavior'' then
          (case map_of kvs ''value'' of
             Some (JObj v) \<Rightarrow> \<lparr>bh_max_deletions = int_field ''maxDeletionsPerSecond'' v,
                bh_batch_size = int_field ''batchSize'' v, bh_dry_run = False, bh_finalizer = [],
                bh_propagation = str_field ''propagationPolicy'' v, bh_grace_period = None,
                bh_allow_workload = False\<rparr>
           | _ \<Rightarrow> b)
        else b)
   | _ \<Rightarrow> b)"

definition defaulted :: "behavior_spec \<Rightarrow> behavior_spec" where
  "defaulted b = fold apply_patch (default_patches b) b"

lemma defaulted_eq:
  "defaulted b =
     (if has_behavior b then
        b\<lparr>bh_max_deletions := (if bh_max_deletions b = 0 then 10 else bh_max_deletions b),
          bh_batch_size := (if bh_batch_size b = 0 then 50 else bh_batch_size b),
          bh_propagation := (if bh_propagation b = [] then ''Background'' else bh_propagation b)\<rparr>
      else \<lparr>bh_max_deletions = 10, bh_batch_size = 50, bh_dry_run = False, bh_finalizer = [],
        bh_propagation = ''Background'', bh_grace_period = None, bh_allow_workload = False\<rparr>)"
  by (simp add: defaulted_def default_patches_def apply_patch_def add_patch_def str_field_def int_field_def)

section \<open>Properties\<close>

text \<open>C32. Admission fails closed: with the gate wired, a posted review that decodes is allowed
  if and only if the operation neither creates nor updates, or the object decodes to a
  policy that validation accepts and whose target the gate allows; the answer carries the
  UID of the request, and every refusal the status 422.\<close>

theorem admission_law:
  assumes "hr_method r = ''POST''" "hr_body r = Inr (Some req)" "ws_gate ws = Some (evaluate_policy_target g)"
    "\<And>resp. ws_encode ws resp = None"
  shows "\<exists>resp. handle_validate ws r = Returned (Http_Review resp) \<and> as_uid resp = ar_uid req \<and>
     (as_allowed resp \<longleftrightarrow> ar_operation req \<notin> {''CREATE'', ''UPDATE''} \<or>
        (\<exists>p. ws_decode ws (ar_object req) = Inr (Inr p) \<and> validate_policy (ws_checks ws) p = None \<and>
           fst (evaluate_policy_target g (p_target p)))) \<and>
     (\<not> as_allowed resp \<longrightarrow> (\<exists>msg. as_result resp = Some (422, msg)))"
proof (cases "ar_operation req \<in> {''CREATE'', ''UPDATE''}")
  case True
  from policy_gate.admitted_iff [OF assms(3) True] True show ?thesis
    using assms(1,2,4)
    by (cases "validate_request ws req") (auto simp: handle_validate_def with_review_def send_response_def)
next
  case False
  then have "validate_request ws req = None" by (simp add: validate_request_def)
  with False assms(1,2,4) show ?thesis
    by (auto simp: handle_validate_def with_review_def send_response_def)
qed

definition ex_server :: webhook_server where
  "ex_server = \<lparr>ws_checks = ex_checks, ws_decode = (\<lambda>raw. Inr (Inr ex_policy)),
     ws_gate = Some (evaluate_policy_target (new_policy_target_gate new_controller_config)),
     ws_encode = (\<lambda>resp. None), ws_marshal = (\<lambda>ps. Inr [])\<rparr>"

theorem admission_law_witness:
  "\<exists>resp. handle_validate ex_server \<lparr>hr_method = ''POST'', hr_body = Inr (Some
       \<lparr>ar_uid = ''r1'', ar_operation = ''DELETE'', ar_object = []\<rparr>)\<rparr> = Returned (Http_Review resp) \<and>
     as_uid resp = ''r1'' \<and> as_allowed resp"
  using admission_law [of "\<lparr>hr_method = ''POST'', hr_body = Inr (Some
       \<lparr>ar_uid = ''r1'', ar_operation = ''DELETE'', ar_object = []\<rparr>)\<rparr>"
      "\<lparr>ar_uid = ''r1'', ar_operation = ''DELETE'', ar_object = []\<rparr>" ex_server]
  by (fastforce simp: ex_server_def)



text \<open>Defaulting drops the opt-in for workloads when it is the only field of the behavior: the
  handler does not count it as a behavior and replaces the whole object.\<close>

theorem mutation_drops_workload_opt_in:
  assumes "\<not> has_behavior b"
  shows "\<not> bh_allow_workload (defaulted b)"
  using assms by (simp add: defaulted_eq)

theorem mutation_drops_workload_opt_in_witness:
  "\<not> bh_allow_workload (defaulted (ex_behavior\<lparr>bh_allow_workload := True\<rparr>))"
  by (rule mutation_drops_workload_opt_in) (simp add: has_behavior_def ex_behavior_def)

text \<open>What never reaches a decision: a method other than POST is answered 405 and an
  undecodable body 400 by both handlers, without a review; a review without a request
  panics; and the status that is counted is the first one written.\<close>

theorem handlers_error_replies:
  "(hr_method r \<noteq> ''POST'' \<longrightarrow> handle_validate ws r = Returned (Http_Error 405 ''Method not allowed'') \<and>
      handle_mutate ws r = Returned (Http_Error 405 ''Method not allowed'')) \<and>
   (hr_method r = ''POST'' \<longrightarrow> hr_body r = Inl e \<longrightarrow>
      handle_validate ws r = Returned (Http_Error 400 (''Failed to decode request: '' @ error_string e)) \<and>
      handle_mutate ws r = Returned (Http_Error 400 (''Failed to decode request: '' @ error_string e))) \<and>
   (hr_method r = ''POST'' \<longrightarrow> hr_body r = Inr None \<longrightarrow> (\<exists>msg. handle_validate ws r = Panicked msg)) \<and>
   instrument endpoint (code # codes) =
     Eff_Counter ''zen_cleaner_webhook_requests_total'' [endpoint, show_int code]"
proof -
  have "sw_wrote sw \<Longrightarrow> fold write_header cs sw = sw" for cs sw
    by (induction cs) (simp_all add: write_header_def)
  then show ?thesis
    by (simp add: handle_validate_def handle_mutate_def with_review_def instrument_def
        write_header_def new_status_writer_def)
qed

theorem handlers_error_replies_witness:
  "handle_validate ex_server \<lparr>hr_method = ''GET'', hr_body = Inr None\<rparr> = Returned (Http_Error 405 ''Method not allowed'')"
  using handlers_error_replies [of "\<lparr>hr_method = ''GET'', hr_body = Inr None\<rparr>" ex_server] by simp

text \<open>Each answer of a handler is counted once, under the status the client sees.\<close>

definition reply_status :: "http_reply \<Rightarrow> int" where
  "reply_status reply = (case reply of Http_Error code msg \<Rightarrow> code | Http_Review resp \<Rightarrow> 200)"

theorem webhook_counts:
  "case webhook_mux ws path r of
     Handled (Returned reply) es \<Rightarrow> \<exists>endpoint. es =
       [Eff_Counter ''zen_cleaner_webhook_requests_total'' [endpoint, show_int (reply_status reply)]]
   | Handled x es \<Rightarrow> es = []
   | Plain code body \<Rightarrow> path \<notin> {''/validate-cleanup-policy'', ''/mutate-cleanup-policy''}"
  by (auto simp: webhook_mux_def instrumented_def instrument_def written_codes_def reply_status_def write_header_def
      new_status_writer_def split: run.split http_reply.split)

end
