(* ===== verification/Integrity.thy ===== *)
theory Integrity
  imports World
begin

text \<open>
  The integrity overlay of \<open>pkg/controller/policyintegrity.go\<close>: the declared digest of a
  policy's spec, its ed25519 signature, and the verdict a reconcile acts on.

  The digest of a spec (deterministic JSON, SHA-256, hex), the base64 decoder and the ed25519
  check are parameters, held by the record \<open>crypto\<close>.  Drift is about the digests: whether two
  specs can share one is a property of SHA-256, not of this code.
\<close>

record crypto =
  cr_digest :: "policy_spec \<Rightarrow> go_error + string"
  cr_base64 :: "string \<Rightarrow> go_error + string"
  cr_ed25519 :: "string \<Rightarrow> string \<Rightarrow> string \<Rightarrow> bool"

definition AnnDeclaredDigest :: string where "AnnDeclaredDigest = ''zen-cleaner.io/declared-digest''"
definition AnnPolicySignature :: string where "AnnPolicySignature = ''zen-cleaner.io/policy-signature''"

definition spec_digest :: "crypto \<Rightarrow> policy_spec \<Rightarrow> go_error + string" where
  "spec_digest cr spec = (case cr_digest cr spec of
     Inl e \<Rightarrow> Inl (Errorf ''marshal spec for digest: '' e []) | Inr d \<Rightarrow> Inr d)"

text \<open>A verifier is its key; \<open>None\<close> is the nil verifier, the overlay off.  The sizes are those of
  \<open>crypto/ed25519\<close>.\<close>

definition new_verifier :: "string \<Rightarrow> string option" where
  "new_verifier key = (if length key \<noteq> 32 then None else Some key)"

definition verifier_enabled :: "string option \<Rightarrow> bool" where
  "verifier_enabled v \<longleftrightarrow> v \<noteq> None"

definition verify_signature :: "crypto \<Rightarrow> string option \<Rightarrow> string \<Rightarrow> string \<Rightarrow> go_error option" where
  "verify_signature cr v digest sig64 = (case v of
       None \<Rightarrow> Some (Errors_New ''no trust anchor configured'')
     | Some key \<Rightarrow> (case cr_base64 cr sig64 of
           Inl e \<Rightarrow> Some (Errorf ''signature is not valid base64: '' e [])
         | Inr sig \<Rightarrow>
            if length sig \<noteq> 64 then
              Some (Errors_New (''signature is '' @ show_nat (length sig) @ '' bytes, want 64''))
            else if \<not> cr_ed25519 cr key digest sig then
              Some (Errors_New ''signature does not verify against the trust anchor'')
            else None))"

record integrity_verdict =
  iv_digest :: string
  iv_declared :: string
  iv_drifted :: bool
  iv_refuses :: bool
  iv_detail :: string

definition short_digest :: "string \<Rightarrow> string" where
  "short_digest d = (if length d > 12 then take 12 d else d)"

definition check_integrity :: "crypto \<Rightarrow> string option \<Rightarrow> policy \<Rightarrow> integrity_verdict" where
  "check_integrity cr v p = (case spec_digest cr (p_spec p) of
       Inl e \<Rightarrow> \<lparr>iv_digest = [], iv_declared = [], iv_drifted = False, iv_refuses = True,
          iv_detail = ''policy integrity: spec digest failed: '' @ error_string e\<rparr>
     | Inr digest \<Rightarrow>
        (let declared = lookup_str (p_annotations p) AnnDeclaredDigest;
             drifted = (declared \<noteq> [] \<and> declared \<noteq> digest);
             verdict = \<lparr>iv_digest = digest, iv_declared = declared, iv_drifted = drifted,
                iv_refuses = False, iv_detail = []\<rparr>
         in if verifier_enabled v then
              (let sig = lookup_str (p_annotations p) AnnPolicySignature in
               if sig = [] then verdict\<lparr>iv_refuses := True, iv_detail :=
                 ''policy integrity: the trust anchor is configured but the policy carries no signature (''
                 @ AnnPolicySignature @ '')''\<rparr>
               else (case verify_signature cr v declared sig of
                   Some e \<Rightarrow> verdict\<lparr>iv_refuses := True,
                     iv_detail := ''policy integrity: signature verification failed: '' @ error_string e\<rparr>
                 | None \<Rightarrow>
                    if drifted then verdict\<lparr>iv_refuses := True, iv_detail :=
                      ''policy integrity: DRIFT '' @ [CHR 0xE2, CHR 0x80, CHR 0x94]
                      @ '' the live spec digest '' @ short_digest digest
                      @ '' diverges from the signed declaration '' @ short_digest declared
                      @ ''; refusing the mutated intent''\<rparr>
                    else verdict\<lparr>iv_detail := ''policy integrity: signature verified against the trust anchor; the live spec matches the signed declaration''\<rparr>))
            else if drifted then verdict\<lparr>iv_detail :=
              ''policy integrity: DRIFT (visibility-only; no trust anchor configured) ''
              @ [CHR 0xE2, CHR 0x80, CHR 0x94] @ '' the live spec digest '' @ short_digest digest
              @ '' diverges from the declared digest '' @ short_digest declared\<rparr>
            else verdict\<lparr>iv_detail := ''policy integrity: the live spec matches the declared digest (no trust anchor configured)''\<rparr>))"

section \<open>Properties\<close>

text \<open>C28. With a trust anchor a policy executes only if its declared digest carries a signature
  that verifies under the anchor's key and the live spec has that digest, unless the
  declaration is empty: a signature over the empty string lets every spec through.\<close>

theorem anchored_execution:
  assumes "\<not> iv_refuses (check_integrity cr (Some key) p)"
  shows "\<exists>digest sig. cr_digest cr (p_spec p) = Inr digest \<and>
     cr_base64 cr (lookup_str (p_annotations p) AnnPolicySignature) = Inr sig \<and> length sig = 64 \<and>
     cr_ed25519 cr key (lookup_str (p_annotations p) AnnDeclaredDigest) sig \<and>
     (lookup_str (p_annotations p) AnnDeclaredDigest = digest \<or>
      lookup_str (p_annotations p) AnnDeclaredDigest = [])"
  using assms
  by (auto simp: check_integrity_def spec_digest_def verifier_enabled_def verify_signature_def Let_def
      split: sum.splits if_splits option.splits)

definition ex_crypto :: crypto where
  "ex_crypto = \<lparr>cr_digest = (\<lambda>spec. Inr (if ps_paused spec then ''d1'' else ''d0'')),
     cr_base64 = (\<lambda>s. Inr s), cr_ed25519 = (\<lambda>key m sig. sig = replicate 64 (CHR ''s''))\<rparr>"

theorem anchored_execution_witness:
  "\<exists>sig. cr_base64 ex_crypto (replicate 64 (CHR ''s'')) = Inr sig \<and> length sig = 64"
proof -
  let ?p = "ex_policy\<lparr>p_annotations := [(AnnDeclaredDigest, ''d0''), (AnnPolicySignature, replicate 64 (CHR ''s''))]\<rparr>"
  have "\<not> iv_refuses (check_integrity ex_crypto (Some (replicate 32 (CHR ''k''))) ?p)"
    by (simp add: Let_def check_integrity_def spec_digest_def verifier_enabled_def verify_signature_def
        ex_crypto_def lookup_str_def AnnDeclaredDigest_def AnnPolicySignature_def ex_policy_def ex_spec_def)
  from anchored_execution [OF this] show ?thesis
    by (simp add: lookup_str_def AnnDeclaredDigest_def AnnPolicySignature_def) blast
qed

text \<open>Without a trust anchor nothing is refused except a spec that cannot be digested, and
  drift is reported exactly when a digest is declared and differs; a key of the wrong
  length is such a case: it silently switches the overlay off.\<close>

theorem overlay_off:
  assumes "length key \<noteq> 32"
  shows "check_integrity cr (new_verifier key) p = check_integrity cr None p \<and>
     iv_refuses (check_integrity cr None p) = (\<exists>e. cr_digest cr (p_spec p) = Inl e) \<and>
     iv_drifted (check_integrity cr None p) =
       (\<exists>d. cr_digest cr (p_spec p) = Inr d \<and> lookup_str (p_annotations p) AnnDeclaredDigest \<notin> {[], d})"
  using assms
  by (auto simp: new_verifier_def check_integrity_def spec_digest_def verifier_enabled_def Let_def
      split: sum.splits)

theorem overlay_off_witness: "\<not> iv_refuses (check_integrity ex_crypto (new_verifier ''short'') ex_policy)"
  using overlay_off [of "''short''" ex_crypto ex_policy] by (simp add: ex_crypto_def)

end
