(* ===== verification/Reconcile.thy ===== *)
theory Reconcile
  imports Informers Webhook Integrity
begin

text \<open>
  The reconciler: \<open>Reconcile\<close> (\<open>pkg/controller/reconciler.go\<close>) with its handlers
  (\<open>reconciler_helpers.go\<close>), \<open>evaluatePolicy\<close> (\<open>reconciler_evaluation.go\<close>), the direct
  evaluation over the informer store (\<open>evaluate_policy_shared.go\<close>, \<open>reconciler_deletion.go\<close>)
  and the phase gauge (\<open>reconciler_metrics.go\<close>).

  Parameters: the fuel of the batch loop, the services \<open>cl\<close>, \<open>schema.ParseGroupVersion\<close>
  (\<open>pgv\<close>), the name checks of Kubernetes (\<open>k\<close>), the hash of the plan digest and the
  cryptography of the integrity overlay.  A result is the requested requeue delay (zero for
  none) and the error handed to controller-runtime.
\<close>

section \<open>The direct evaluation\<close>

definition reconciler_should_delete :: "'w cluster \<Rightarrow> uobj \<Rightarrow> policy \<Rightarrow> ('w, bool \<times> string) prog" where
  "reconciler_should_delete cl obj p =
     (if (case ps_conditions (p_spec p) of Some cs \<Rightarrow> \<not> meets_conditions obj cs | None \<Rightarrow> False)
      then State_Monad.return (False, ReasonConditionNotMet)
      else do {
        now1 \<leftarrow> ask (cl_now cl);
        let x = calculate_expiration_time_shared (cl_parse_time cl) now1 obj (ps_ttl (p_spec p));
        now2 \<leftarrow> ask (cl_now cl);
        State_Monad.return (expiry_verdict now2 x)
      })"

definition shared_one :: "'w cluster \<Rightarrow> policy \<Rightarrow> plan \<Rightarrow> uobj \<Rightarrow> ('w, plan) prog" where
  "shared_one cl p pl obj =
     (if \<not> matches_selectors (cl_selector cl) obj (p_target p) then State_Monad.return pl
      else do {
        record_resource_matched p;
        let pl1 = pl\<lparr>pl_matched := pl_matched pl + 1\<rparr>;
        (yes, reason) \<leftarrow> reconciler_should_delete cl obj p;
        State_Monad.return
          (if \<not> yes then pl1\<lparr>pl_pending := pl_pending pl1 + 1\<rparr>
           else pl1\<lparr>pl_delete := pl_delete pl1 @ [obj],
                    pl_reasons := AList.update (u_uid obj) reason (pl_reasons pl1)\<rparr>)
      })"

definition evaluate_resources_shared :: "'w cluster \<Rightarrow> policy \<Rightarrow> string \<Rightarrow> ('w, plan) prog" where
  "evaluate_resources_shared cl p key = do {
     objs \<leftarrow> ask (cl_store cl key);
     plan_loop cl (shared_one cl p) 0 empty_plan objs
   }"

definition delete_in_batches_shared ::
  "nat \<Rightarrow> 'w cluster \<Rightarrow> (string \<Rightarrow> string) \<Rightarrow> reconciler \<Rightarrow> policy \<Rightarrow> uobj list
     \<Rightarrow> (string, string) gomap \<Rightarrow> ('w, int run) prog" where
  "delete_in_batches_shared fuel cl hash r p objs reasons =
     (if length objs = 0 then State_Monad.return (Returned 0)
      else do {
        l \<leftarrow> get_or_create_rate_limiter p;
        delete_loop fuel cl (\<lambda>batch. delete_batch cl hash r batch p l reasons)
          (rc_recorder r) p (resolve_batch_size p (rc_config r)) 0 0 objs
      })"

definition update_policy_status_shared ::
  "'w cluster \<Rightarrow> reconciler \<Rightarrow> policy \<Rightarrow> int \<Rightarrow> int \<Rightarrow> int \<Rightarrow> ('w, go_error option) prog" where
  "update_policy_status_shared cl r p matched deleted pending =
     (if \<not> rc_status r then State_Monad.return None
      else do {
        oe \<leftarrow> update_status cl (Some (rc_status_config r)) p matched deleted pending [];
        case oe of
          None \<Rightarrow> State_Monad.return None
        | Some e \<Rightarrow> do {
            c \<leftarrow> ask (cl_status_ctx cl);
            case c of
              Some e' \<Rightarrow> State_Monad.return None
            | None \<Rightarrow> do {
                let e' = policy_error e ''status_update_failed'' ''failed to update policy status'' p;
                record_error (p_namespace p) (p_name p) ''status_update_failed'';
                record_status_update_failed (rc_recorder r) e';
                State_Monad.return (Some e')
              }
          }
      })"

definition evaluate_directly ::
  "nat \<Rightarrow> 'w cluster \<Rightarrow> (string \<Rightarrow> go_error + string \<times> string) \<Rightarrow> (string \<Rightarrow> string) \<Rightarrow> reconciler
     \<Rightarrow> policy \<Rightarrow> ('w, go_error option run) prog" where
  "evaluate_directly fuel cl pgv hash r p =
     bind_run (get_or_create_resource_informer cl pgv r p) (\<lambda>x. case x of
       Inl e \<Rightarrow> do {
         record_error (p_namespace p) (p_name p) ''informer_creation_failed'';
         State_Monad.return (Returned (Some (policy_error e ''informer_creation_failed''
           ''failed to get resource informer'' p)))
       }
     | Inr key \<Rightarrow> do {
         pl \<leftarrow> evaluate_resources_shared cl p key;
         bind_run (delete_in_batches_shared fuel cl hash r p (pl_delete pl) (pl_reasons pl)) (\<lambda>deleted. do {
           (if pl_pending pl > 0 then record_resources_pending p (pl_pending pl) else State_Monad.return ());
           oe \<leftarrow> update_policy_status_shared cl r p (pl_matched pl) deleted (pl_pending pl);
           case oe of
             Some e \<Rightarrow> State_Monad.return (Returned (Some e))
           | None \<Rightarrow> do {
               record_policy_evaluated (rc_recorder r) (pl_matched pl) deleted (pl_pending pl);
               State_Monad.return (Returned None)
             }
         })
       })"

section \<open>One evaluation of the reconciler\<close>

definition evaluate_policy_of ::
  "nat \<Rightarrow> 'w cluster \<Rightarrow> (string \<Rightarrow> go_error + string \<times> string) \<Rightarrow> (string \<Rightarrow> string) \<Rightarrow> reconciler
     \<Rightarrow> policy \<Rightarrow> ('w, go_error option run) prog" where
  "evaluate_policy_of fuel cl pgv hash r p =
     bind_run (get_or_create_evaluation_service cl pgv r p) (\<lambda>x. case x of
       Inr key \<Rightarrow> evaluate_policy fuel cl pgv (reconciler_service cl hash r key) p
     | Inl e \<Rightarrow> evaluate_directly fuel cl pgv hash r p)"

section \<open>The phase gauge\<close>

text \<open>The loop over the listed policies, then the gauges in the order of the map of counts,
  then a zero for each known phase that is absent.\<close>

definition phase_of :: "policy \<Rightarrow> string" where
  "phase_of p = (if st_phase (p_status p) = []
     then (if ps_paused (p_spec p) then ''Paused'' else ''Active'')
     else st_phase (p_status p))"

fun phase_counts :: "policy list \<Rightarrow> (string, int) gomap \<Rightarrow> (string, int) gomap" where
  "phase_counts [] m = m"
| "phase_counts (p # ps) m = phase_counts ps (bump (phase_of p) m)"

fun record_phases :: "(string, int) gomap \<Rightarrow> ('w, unit) prog" where
  "record_phases [] = State_Monad.return ()"
| "record_phases ((phase, n) # rest) = do { record_policy_phase phase n; record_phases rest }"

fun reset_phases :: "(string, int) gomap \<Rightarrow> string list \<Rightarrow> ('w, unit) prog" where
  "reset_phases m [] = State_Monad.return ()"
| "reset_phases m (phase # rest) = do {
     (if map_of m phase = None then record_policy_phase phase 0 else State_Monad.return ());
     reset_phases m rest
   }"

definition record_policy_phase_metrics :: "'w cluster \<Rightarrow> ('w, unit) prog" where
  "record_policy_phase_metrics cl = do {
     r \<leftarrow> ask (cl_list_policies cl);
     case r of
       Inl e \<Rightarrow> State_Monad.return ()
     | Inr ps \<Rightarrow> do {
         record_phases (phase_counts ps []);
         reset_phases (phase_counts ps []) [''Active'', ''Paused'', ''Error'']
       }
   }"

section \<open>Handlers\<close>

type_synonym outcome = "duration \<times> go_error option"

definition handle_policy_deletion :: "string \<times> string \<Rightarrow> ('w, outcome) prog" where
  "handle_policy_deletion nn = do {
     cleanup_policy_resources nn;
     State_Monad.return (0, None)
   }"

definition handle_policy_fetch_error :: "go_error \<Rightarrow> outcome" where
  "handle_policy_fetch_error e = (0, Some e)"

definition handle_paused_policy :: "reconciler \<Rightarrow> outcome" where
  "handle_paused_policy r = (get_requeue_interval r, None)"

text \<open>The branch for other errors builds an error that is only logged.\<close>

definition handle_evaluation_error :: "go_error \<Rightarrow> policy \<Rightarrow> ('w, outcome) prog" where
  "handle_evaluation_error e p = (case errors_as is_target_error e of
       Some tc \<Rightarrow> do {
         n \<leftarrow> target_failure_count (p_uid p);
         State_Monad.return (target_backoff_for n, None)
       }
     | None \<Rightarrow> State_Monad.return (30 * Second, None))"

section \<open>Reconcile\<close>

definition with_phase :: "string \<Rightarrow> policy \<Rightarrow> policy" where
  "with_phase phase p = p\<lparr>p_status := (p_status p)\<lparr>st_phase := phase\<rparr>\<rparr>"

definition runtime_invalid :: "k8s_checks \<Rightarrow> gate \<Rightarrow> policy \<Rightarrow> go_error option" where
  "runtime_invalid k g p =
     (let invalid = validate_policy k p in
      if invalid = None then
        (let (allowed, refusal) = evaluate_policy_target g (p_target p) in
         if refusal \<noteq> [] then Some (Errorf [] (Errors_New (''policy target refused: '' @ refusal)) [])
         else invalid)
      else invalid)"

text \<open>What both refusals of a policy do, with the reason and message of the condition.\<close>

definition refuse_policy ::
  "'w cluster \<Rightarrow> reconciler \<Rightarrow> policy \<Rightarrow> string \<Rightarrow> string \<Rightarrow> ('w, outcome) prog" where
  "refuse_policy cl r p reason msg = do {
     record_reconcile_outcome ''invalid_policy'';
     record_safety_refusal ReasonPolicyInvalid;
     (if rc_status r
      then update_condition_receipt cl r (with_phase ''Error'' p) ''Ready'' reason msg True
      else State_Monad.return ());
     State_Monad.return (Hour, None)
   }"

text \<open>From the tracking of the policy on.\<close>

definition reconcile_admitted ::
  "nat \<Rightarrow> 'w cluster \<Rightarrow> (string \<Rightarrow> go_error + string \<times> string) \<Rightarrow> (string \<Rightarrow> string) \<Rightarrow> reconciler
     \<Rightarrow> string \<times> string \<Rightarrow> policy \<Rightarrow> ('w, outcome run) prog" where
  "reconcile_admitted fuel cl pgv hash r nn p = do {
     track_policy_uid nn (p_uid p);
     handle_informer_recreation p;
     track_policy_spec (p_uid p) (p_spec p);
     if ps_paused (p_spec p) then State_Monad.return (Returned (handle_paused_policy r))
     else bind_run (evaluate_policy_of fuel cl pgv hash r p) (\<lambda>oe. case oe of
         Some e \<Rightarrow> do {
           record_reconcile_outcome ''error'';
           record_api_error e;
           out \<leftarrow> handle_evaluation_error e p;
           State_Monad.return (Returned out)
         }
       | None \<Rightarrow> do {
           record_policy_phase_metrics cl;
           record_reconcile_outcome ''success'';
           State_Monad.return (Returned (get_requeue_interval_for_policy r p, None))
         })
   }"

text \<open>The integrity overlay, then the rest.\<close>

definition reconcile_integrity ::
  "nat \<Rightarrow> 'w cluster \<Rightarrow> (string \<Rightarrow> go_error + string \<times> string) \<Rightarrow> (string \<Rightarrow> string) \<Rightarrow> crypto
     \<Rightarrow> reconciler \<Rightarrow> string \<times> string \<Rightarrow> policy \<Rightarrow> ('w, outcome run) prog" where
  "reconcile_integrity fuel cl pgv hash cr r nn p = (case rc_integrity r of
       None \<Rightarrow> reconcile_admitted fuel cl pgv hash r nn p
     | Some key \<Rightarrow>
        (let verdict = check_integrity cr (Some key) p in
         if iv_refuses verdict then do {
           out \<leftarrow> refuse_policy cl r p ''PolicyIntegrityRefused'' (iv_detail verdict);
           State_Monad.return (Returned out)
         }
         else do {
           (if \<not> rc_status r then State_Monad.return ()
            else if iv_drifted verdict
            then update_condition_receipt cl r p ''PolicyDrifted'' ''DeclaredDigestMismatch'' (iv_detail verdict) False
            else update_condition_receipt cl r p ''PolicyDrifted'' ''InSync'' (iv_detail verdict) False);
           reconcile_admitted fuel cl pgv hash r nn p
         }))"

definition reconcile ::
  "nat \<Rightarrow> 'w cluster \<Rightarrow> (string \<Rightarrow> go_error + string \<times> string) \<Rightarrow> k8s_checks \<Rightarrow> (string \<Rightarrow> string)
     \<Rightarrow> crypto \<Rightarrow> reconciler \<Rightarrow> string \<times> string \<Rightarrow> ('w, outcome run) prog" where
  "reconcile fuel cl pgv k hash cr r nn = do {
     x \<leftarrow> ask (cl_get_policy cl (fst nn) (snd nn));
     case x of
       Inl e \<Rightarrow>
         if api_is Api_NotFound e then do {
           out \<leftarrow> handle_policy_deletion nn;
           State_Monad.return (Returned out)
         }
         else State_Monad.return (Returned (handle_policy_fetch_error e))
     | Inr p \<Rightarrow>
         (case (case rc_gate r of Some g \<Rightarrow> runtime_invalid k g p | None \<Rightarrow> None) of
            Some e \<Rightarrow> do {
              out \<leftarrow> refuse_policy cl r p ''PolicyInvalid'' (error_string e);
              State_Monad.return (Returned out)
            }
          | None \<Rightarrow> reconcile_integrity fuel cl pgv hash cr r nn p)
   }"

section \<open>What a reconcile deletes\<close>

lemma guarded_quiet: "quiet m \<Longrightarrow> guarded P m"
  unfolding guarded_def only_def by (erule emits_weaken) (rule deletes_ok_none)

lemmas guarded_rules = guarded_bind guarded_return guarded_run guarded_if
  guarded_quiet [OF only_ask] guarded_quiet [OF only_gets]
  only_report [THEN quiet_reporting, THEN guarded_quiet]

text \<open>The object an evaluation of \<open>p\<close> may delete under this address and UID.\<close>

definition sanctioned :: "'w cluster \<Rightarrow> reconciler \<Rightarrow> policy \<Rightarrow> string \<Rightarrow> string \<Rightarrow> string \<Rightarrow> bool" where
  "sanctioned cl r p ns n uid \<longleftrightarrow> (\<exists>obj w1 w2. may_delete r p obj ns n uid \<and>
     matches_selectors (cl_selector cl) obj (p_target p) \<and>
     (case ps_conditions (p_spec p) of Some cs \<Rightarrow> meets_conditions obj cs | None \<Rightarrow> True) \<and>
     expired_at cl p (fst (cl_now cl w1)) (fst (cl_now cl w2)) obj)"

definition ungated :: "'w evaluation_service \<Rightarrow> 'w evaluation_service" where
  "ungated svc = svc\<lparr>es_gate := None\<rparr>"

lemma plannable_sanctioned:
  assumes "plannable cl svc p obj" "may_delete r p obj ns n uid"
    "svc = reconciler_service cl hash r key \<or> svc = ungated (reconciler_service cl hash r key)"
  shows "sanctioned cl r p ns n uid"
proof -
  have "es_matches svc = matches_selectors (cl_selector cl)" "es_meets svc = meets_conditions"
    using assms(3) by (auto simp: reconciler_service_def ungated_def)
  with assms(1,2) show ?thesis
    unfolding sanctioned_def plannable_def candidate_def conditions_met_def
    by (cases "ps_conditions (p_spec p)") (auto intro!: exI [of _ obj])
qed

lemma guarded_service:
  "guarded (sanctioned cl r p) (evaluate_policy fuel cl pgv (reconciler_service cl hash r key) p)"
  unfolding guarded_def
  by (rule emits_weaken [OF reconciler_evaluation.evaluate_policy_emits],
      unfold reconciler_evaluation.planned_deletes_def, erule deletes_ok_mono)
    (auto intro: plannable_sanctioned)

text \<open>The body of the direct evaluation is a step of the plan of the service without its gate.\<close>

interpretation shared_plan: plan_builder cl "ungated (reconciler_service cl hash r key)" p "shared_one cl p"
  for cl :: "'w cluster" and hash r key p
proof
  fix pl obj and s :: "'w sys"
  let ?svc = "ungated (reconciler_service cl hash r key)"
  show "\<exists>w1 w2 es. fst (run_state (shared_one cl p pl obj) s) =
       plan_step cl ?svc p obj (fst (cl_now cl w1)) (fst (cl_now cl w2)) pl \<and>
     sy_trace (snd (run_state (shared_one cl p pl obj) s)) = sy_trace s @ es \<and> list_all is_report es"
    by (intro exI [of _ "sy_env s"] exI [of _ "snd (cl_now cl (sy_env s))"])
      (auto simp: shared_one_def reconciler_should_delete_def plan_step_def gate_passes_def
        conditions_met_def expired_at_def ungated_def reconciler_service_def report_defs is_report_def
        case_prod_beta Let_def expiry_verdict_reason ReasonConditionNotMet_def split: option.split)
qed

lemma shared_resources_emits:
  "emits (evaluate_resources_shared cl p key) (\<lambda>pl es. \<exists>objs. list_all is_report es \<and>
     plan_ok cl (ungated (reconciler_service cl hash r k)) p objs pl)"
  unfolding evaluate_resources_shared_def
  by (rule emits_bind [OF emits_ask shared_plan.loop_emits_empty [where hash = hash and r = r and key = k],
        where R = "\<lambda>a es. es = []"]) auto

lemma quiet_status_write: "quiet (update_status cl cfg p m d q rs)"
  by (rule only_weaken [OF only_update_status]) (auto elim: is_status.elims)

lemma quiet_status_shared: "quiet (update_policy_status_shared cl r p m d q)"
  unfolding update_policy_status_shared_def Let_def
  by (auto intro!: only_rules quiet_status_write only_report [THEN quiet_reporting] split: option.split)

lemma guarded_batches_shared:
  assumes "\<forall>obj \<in> set objs. \<forall>ns n uid. may_delete r p obj ns n uid \<longrightarrow> P ns n uid"
  shows "guarded P (delete_in_batches_shared fuel cl hash r p objs reasons)"
proof -
  have loop: "guarded P (delete_loop fuel cl (\<lambda>batch. delete_batch cl hash r batch p l reasons) b p bs i cnt objs)"
    for l b bs i cnt
  proof -
    have "es_delete_batch (reconciler_service cl hash r undefined) = delete_batch cl hash r"
      by (simp add: reconciler_service_def)
    moreover have "guarded (\<lambda>ns n uid. \<exists>obj \<in> set objs. may_delete r p obj ns n uid) (delete_loop fuel cl
          (\<lambda>batch. es_delete_batch (reconciler_service cl hash r undefined) batch p l reasons) b p bs i cnt objs)"
      by (rule reconciler_evaluation.delete_loop_guarded)
    ultimately show ?thesis
      by simp (erule guarded_mono, use assms in blast)
  qed
  show ?thesis
    unfolding delete_in_batches_shared_def
    by (auto intro!: guarded_rules loop guarded_quiet [OF only_get_or_create] report_not_delete)
qed

lemma guarded_direct: "guarded (sanctioned cl r p) (evaluate_directly fuel cl pgv hash r p)"
proof -
  let ?svc = "ungated (reconciler_service cl hash r undefined)"
  let ?k = "\<lambda>pl. bind_run (delete_in_batches_shared fuel cl hash r p (pl_delete pl) (pl_reasons pl)) (\<lambda>deleted. do {
       (if pl_pending pl > 0 then record_resources_pending p (pl_pending pl) else State_Monad.return ());
       oe \<leftarrow> update_policy_status_shared cl r p (pl_matched pl) deleted (pl_pending pl);
       case oe of
         Some e \<Rightarrow> State_Monad.return (Returned (Some e))
       | None \<Rightarrow> do {
           record_policy_evaluated (rc_recorder r) (pl_matched pl) deleted (pl_pending pl);
           State_Monad.return (Returned None)
         }
     })"
  have rest: "guarded (sanctioned cl r p) (?k pl)" if "plan_ok cl ?svc p objs pl" for pl objs
  proof -
    have "guarded (sanctioned cl r p) (delete_in_batches_shared fuel cl hash r p (pl_delete pl) (pl_reasons pl))"
      using that by (intro guarded_batches_shared) (auto simp: plan_ok_def intro: plannable_sanctioned)
    then show ?thesis
      by (auto intro!: guarded_rules guarded_quiet [OF quiet_status_shared] split: option.split)
  qed
  have run: "guarded (sanctioned cl r p) (State_Monad.bind (evaluate_resources_shared cl p key) ?k)" for key
    by (rule guarded_bind_dep [OF shared_resources_emits [where hash = hash and r = r and k = undefined]])
      (blast intro: rest deletes_ok_none reconciler_evaluation.quiet_reports)+
  show ?thesis
    unfolding evaluate_directly_def
    by (auto intro!: guarded_rules guarded_quiet [OF quiet_informer] run split: sum.split)
qed

lemma guarded_evaluate: "guarded (sanctioned cl r p) (evaluate_policy_of fuel cl pgv hash r p)"
  unfolding evaluate_policy_of_def
  by (auto intro!: guarded_run guarded_quiet [OF quiet_service] guarded_direct guarded_service split: sum.split)

text \<open>A policy that may run: valid, on a permitted target, not refused by the overlay; and not
  paused.\<close>

definition admitted :: "k8s_checks \<Rightarrow> crypto \<Rightarrow> reconciler \<Rightarrow> policy \<Rightarrow> bool" where
  "admitted k cr r p \<longleftrightarrow>
     (case rc_gate r of Some g \<Rightarrow> validate_policy k p = None \<and> fst (evaluate_policy_target g (p_target p))
      | None \<Rightarrow> True) \<and>
     (case rc_integrity r of Some key \<Rightarrow> \<not> iv_refuses (check_integrity cr (Some key) p) | None \<Rightarrow> True)"

definition executable :: "k8s_checks \<Rightarrow> crypto \<Rightarrow> reconciler \<Rightarrow> policy \<Rightarrow> bool" where
  "executable k cr r p \<longleftrightarrow> admitted k cr r p \<and> \<not> ps_paused (p_spec p)"

lemma runtime_invalid_None:
  "runtime_invalid k g p = None \<longleftrightarrow> validate_policy k p = None \<and> fst (evaluate_policy_target g (p_target p))"
  by (auto simp: runtime_invalid_def Let_def evaluate_policy_target_def reason_defs)

lemma quiet_refuse: "quiet (refuse_policy cl r p reason msg)"
  unfolding refuse_policy_def
  by (auto intro!: only_rules quiet_receipt only_report [THEN quiet_reporting])

lemma only_record_phases: "only is_report (record_phases m)"
  by (induction m rule: record_phases.induct) (auto intro!: only_rules only_report)

lemma only_reset_phases: "only is_report (reset_phases m ks)"
  by (induction ks) (auto intro!: only_rules only_report)

lemma quiet_phase_metrics: "quiet (record_policy_phase_metrics cl)"
  unfolding record_policy_phase_metrics_def
  by (auto intro!: only_rules only_record_phases [THEN quiet_reporting]
      only_reset_phases [THEN quiet_reporting] simp del: reset_phases.simps split: sum.split)

lemma quiet_evaluation_error: "quiet (handle_evaluation_error e p)"
  unfolding handle_evaluation_error_def target_failure_count_def
  by (auto intro!: only_rules split: option.split)

lemma guarded_admitted:
  "guarded (\<lambda>ns n uid. \<not> ps_paused (p_spec p) \<and> sanctioned cl r p ns n uid)
     (reconcile_admitted fuel cl pgv hash r nn p)"
proof (cases "ps_paused (p_spec p)")
  case True
  have "quiet (reconcile_admitted fuel cl pgv hash r nn p)"
    unfolding reconcile_admitted_def using True by (auto intro!: only_rules quiet_lifecycle)
  then show ?thesis by (rule guarded_quiet)
next
  case False
  then show ?thesis
    unfolding reconcile_admitted_def using guarded_evaluate
    by (auto intro!: guarded_rules quiet_lifecycle [THEN guarded_quiet] guarded_quiet [OF quiet_phase_metrics]
        guarded_quiet [OF quiet_evaluation_error] split: option.split)
qed

lemma guarded_integrity:
  "guarded (\<lambda>ns n uid. \<not> ps_paused (p_spec p) \<and> sanctioned cl r p ns n uid \<and>
       (case rc_integrity r of Some key \<Rightarrow> \<not> iv_refuses (check_integrity cr (Some key) p) | None \<Rightarrow> True))
     (reconcile_integrity fuel cl pgv hash cr r nn p)"
proof (cases "\<exists>key. rc_integrity r = Some key \<and> iv_refuses (check_integrity cr (Some key) p)")
  case True
  then show ?thesis
    unfolding reconcile_integrity_def
    by (auto intro!: guarded_rules guarded_quiet [OF quiet_refuse])
next
  case False
  then show ?thesis
    unfolding reconcile_integrity_def Let_def
    using guarded_admitted [of p cl r fuel pgv hash nn]
    by (auto intro!: guarded_rules guarded_quiet [OF quiet_receipt] split: option.splits)
qed

text \<open>The policy a reconcile of \<open>nn\<close> may have read.\<close>

definition stored :: "'w cluster \<Rightarrow> string \<times> string \<Rightarrow> policy \<Rightarrow> bool" where
  "stored cl nn p \<longleftrightarrow> (\<exists>w. fst (cl_get_policy cl (fst nn) (snd nn) w) = Inr p)"

lemma guarded_reconcile:
  "guarded (\<lambda>ns n uid. \<exists>p. stored cl nn p \<and> executable k cr r p \<and> sanctioned cl r p ns n uid)
     (reconcile fuel cl pgv k hash cr r nn)"
proof -
  let ?P = "\<lambda>ns n uid. \<exists>p. stored cl nn p \<and> executable k cr r p \<and> sanctioned cl r p ns n uid"
  have found: "guarded ?P (case (case rc_gate r of Some g \<Rightarrow> runtime_invalid k g p | None \<Rightarrow> None) of
            Some e \<Rightarrow> do {
              out \<leftarrow> refuse_policy cl r p ''PolicyInvalid'' (error_string e);
              State_Monad.return (Returned out)
            }
          | None \<Rightarrow> reconcile_integrity fuel cl pgv hash cr r nn p)" if "stored cl nn p" for p
  proof (cases "case rc_gate r of Some g \<Rightarrow> runtime_invalid k g p | None \<Rightarrow> None")
    case None
    then have "case rc_gate r of Some g \<Rightarrow> validate_policy k p = None \<and> fst (evaluate_policy_target g (p_target p))
        | None \<Rightarrow> True"
      by (auto simp: runtime_invalid_None split: option.splits)
    with that have "guarded ?P (reconcile_integrity fuel cl pgv hash cr r nn p)"
      by (intro guarded_mono [OF guarded_integrity]) (auto simp: executable_def admitted_def)
    with None show ?thesis by simp
  qed (auto intro!: guarded_rules guarded_quiet [OF quiet_refuse])
  show ?thesis
    unfolding reconcile_def handle_policy_deletion_def
    by (rule guarded_bind_dep [OF emits_ask_value])
      (auto intro!: guarded_rules guarded_quiet [OF quiet_cleanup] found stored_def [THEN iffD2] split: sum.split)
qed

text \<open>The answers of a reconcile whose policy was read.\<close>

definition requeue_ok :: "k8s_checks \<Rightarrow> crypto \<Rightarrow> reconciler \<Rightarrow> policy \<Rightarrow> outcome run \<Rightarrow> bool" where
  "requeue_ok k cr r p x \<longleftrightarrow> (\<forall>d oe. x = Returned (d, oe) \<longrightarrow> oe = None \<and>
     (if \<not> admitted k cr r p then d = Hour
      else if ps_paused (p_spec p) then d = get_requeue_interval r
      else d = get_requeue_interval_for_policy r p \<or> d = 30 * Second \<or> (\<exists>n. d = target_backoff_for n)))"

lemma refused_answers:
  "\<not> admitted k cr r p \<Longrightarrow> answers (requeue_ok k cr r p)
     (State_Monad.bind (refuse_policy cl r p reason msg) (\<lambda>out. State_Monad.return (Returned out)))"
  unfolding refuse_policy_def
  by (auto intro!: answers_bind answers_return simp: requeue_ok_def)

lemma admitted_answers:
  assumes "admitted k cr r p"
  shows "answers (requeue_ok k cr r p) (reconcile_admitted fuel cl pgv hash r nn p)"
proof -
  have failed: "answers (requeue_ok k cr r p)
      (State_Monad.bind (handle_evaluation_error e p) (\<lambda>out. State_Monad.return (Returned out)))"
    if "\<not> ps_paused (p_spec p)" for e
    using that assms
    by (auto simp: handle_evaluation_error_def answers_def requeue_ok_def case_prod_beta split: option.split)
  have after: "answers (requeue_ok k cr r p) (case oe of
       Some e \<Rightarrow> do {
         record_reconcile_outcome ''error'';
         record_api_error e;
         out \<leftarrow> handle_evaluation_error e p;
         State_Monad.return (Returned out)
       }
     | None \<Rightarrow> do {
         record_policy_phase_metrics cl;
         record_reconcile_outcome ''success'';
         State_Monad.return (Returned (get_requeue_interval_for_policy r p, None))
       })" if "\<not> ps_paused (p_spec p)" for oe
  proof (cases oe)
    case None
    with that assms show ?thesis
      by (auto intro!: answers_bind answers_return simp: requeue_ok_def)
  next
    case (Some e)
    show ?thesis
      unfolding Some option.case by (rule answers_bind, rule answers_bind, rule failed [OF that])
  qed
  show ?thesis
  proof (cases "ps_paused (p_spec p)")
    case True
    with assms show ?thesis
      by (auto simp: reconcile_admitted_def requeue_ok_def handle_paused_policy_def
          intro!: answers_bind answers_return)
  next
    case False
    show ?thesis
      unfolding reconcile_admitted_def if_not_P [OF False]
      by (rule answers_bind, rule answers_bind, rule answers_bind, rule answers_run)
        (use after [OF False] in \<open>auto simp: requeue_ok_def\<close>)
  qed
qed

lemma dispatch_answers:
  "answers (requeue_ok k cr r p) (case (case rc_gate r of Some g \<Rightarrow> runtime_invalid k g p | None \<Rightarrow> None) of
     Some e \<Rightarrow> do {
       out \<leftarrow> refuse_policy cl r p ''PolicyInvalid'' (error_string e);
       State_Monad.return (Returned out)
     }
   | None \<Rightarrow> reconcile_integrity fuel cl pgv hash cr r nn p)"
proof (cases "case rc_gate r of Some g \<Rightarrow> runtime_invalid k g p | None \<Rightarrow> None")
  case (Some e)
  then have "\<not> admitted k cr r p"
    by (auto simp: admitted_def runtime_invalid_None [symmetric] split: option.splits)
  from refused_answers [OF this] Some show ?thesis by simp
next
  case None
  show ?thesis
  proof (cases "\<exists>key. rc_integrity r = Some key \<and> iv_refuses (check_integrity cr (Some key) p)")
    case True
    then have "\<not> admitted k cr r p" by (auto simp: admitted_def)
    from refused_answers [OF this] True None show ?thesis
      by (auto simp: reconcile_integrity_def Let_def)
  next
    case False
    with None have "admitted k cr r p"
      by (auto simp: admitted_def runtime_invalid_None [symmetric] split: option.splits)
    with False None show ?thesis
      by (auto simp: reconcile_integrity_def Let_def intro!: answers_bind admitted_answers split: option.split)
  qed
qed

section \<open>Properties\<close>


text \<open>C10. Nothing is deleted for a policy that must not run.  If every policy that can be read
  under the name is invalid, on a refused target, refused by the overlay, paused or a dry
  run, or if the emergency stop is on, a reconcile sends no DELETE request at all.\<close>

theorem reconcile_inert:
  assumes "(\<forall>p. stored cl nn p \<longrightarrow> \<not> executable k cr r p \<or> bh_dry_run (p_behavior p)) \<or>
     (\<exists>g. rc_gate r = Some g \<and> sc_deletes_disabled (gt_cfg g))"
  shows "\<exists>es. sy_trace (snd (run_state (reconcile fuel cl pgv k hash cr r nn) s)) = sy_trace s @ es \<and>
     list_all (\<lambda>e. \<not> is_delete e) es"
proof -
  have "gate_allows r p obj \<Longrightarrow> rc_gate r = Some g \<Longrightarrow> \<not> sc_deletes_disabled (gt_cfg g)" for p obj g
    by (auto simp: gate_allows_def evaluate_object_def split: if_splits)
  then have "guarded (\<lambda>ns n uid. False) (reconcile fuel cl pgv k hash cr r nn)"
    using assms by (intro guarded_mono [OF guarded_reconcile]) (auto simp: sanctioned_def may_delete_def)
  then obtain es where "sy_trace (snd (run_state (reconcile fuel cl pgv k hash cr r nn) s)) = sy_trace s @ es"
    "deletes_ok (\<lambda>ns n uid. False) es"
    unfolding guarded_def emits_def by blast
  moreover have "list_all (\<lambda>e. \<not> is_delete e) es" if "deletes_ok (\<lambda>ns n uid. False) es" for es
    using that by (auto simp: deletes_ok_def list_all_iff in_set_conv_decomp elim!: is_delete.elims)
  ultimately show ?thesis by blast
qed

theorem reconcile_inert_witness:
  "\<exists>es. sy_trace (snd (run_state (reconcile 10 ex_cluster ex_pgv ex_checks id ex_crypto
      (new_policy_reconciler True True True new_controller_config 0 None) (''ops'', ''sweep'')) ex_sys)) = es \<and>
     list_all (\<lambda>e. \<not> is_delete e) es"
proof -
  have "\<exists>g. rc_gate (new_policy_reconciler True True True new_controller_config 0 None) = Some g \<and>
      sc_deletes_disabled (gt_cfg g)"
    by (simp add: new_policy_reconciler_def new_gate_def new_controller_config_def Let_def)
  with reconcile_inert [where cl = ex_cluster and k = ex_checks and cr = ex_crypto and nn = "(''ops'', ''sweep'')"
      and r = "new_policy_reconciler True True True new_controller_config 0 None" and fuel = 10
      and pgv = ex_pgv and hash = id and s = ex_sys]
  show ?thesis by (simp add: ex_sys_def)
qed

text \<open>C14. Admission and reconciliation enforce the same law: the webhook, wired with the gate
  \<open>main\<close> builds for it, admits the creation or update of a decoded policy exactly when the
  reconciler built from the same configuration finds it valid at run time, whatever the
  emergency stop says.\<close>

theorem admission_agrees_with_reconcile:
  assumes "ws_gate ws = Some (evaluate_policy_target (new_policy_target_gate cfg))"
    "ar_operation req = ''CREATE'' \<or> ar_operation req = ''UPDATE''"
    "ws_decode ws (ar_object req) = Inr (Inr p)"
    "rc_gate (new_policy_reconciler client status recorder scfg oor (Some cfg)) = Some g"
  shows "validate_request ws req = None \<longleftrightarrow> runtime_invalid (ws_checks ws) g p = None"
proof -
  have "evaluate_policy_target (new_policy_target_gate cfg) t = evaluate_policy_target g t" for t
    using assms(4) by (auto simp: new_policy_reconciler_def new_policy_target_gate_def new_gate_def
        evaluate_policy_target_def Let_def)
  with assms(1-3) show ?thesis
    by (auto simp: validate_request_def runtime_invalid_def decode_policy_def Let_def case_prod_beta
        split: option.splits)
qed

theorem admission_agrees_with_reconcile_witness:
  "let ws = ex_server\<lparr>ws_gate := Some (evaluate_policy_target (new_policy_target_gate new_controller_config))\<rparr>;
       req = \<lparr>ar_uid = ''1'', ar_operation = ''CREATE'', ar_object = ''raw''\<rparr>;
       g = new_gate \<lparr>sc_protected_namespaces = [], sc_own_namespace = [], sc_deletes_disabled = True\<rparr> in
     validate_request ws req = None \<longleftrightarrow> runtime_invalid ex_checks g ex_policy = None"
  unfolding Let_def
  by (subst admission_agrees_with_reconcile [where cfg = new_controller_config and client = True and status = True
        and recorder = True and scfg = new_controller_config and oor = 0 and p = ex_policy
        and g = "new_gate \<lparr>sc_protected_namespaces = [], sc_own_namespace = [], sc_deletes_disabled = True\<rparr>"])
    (simp_all add: ex_server_def new_policy_reconciler_def new_controller_config_def Let_def)

text \<open>The result of a reconcile.  A policy that is gone asks for nothing and a failed read is
  the only error handed back; a refused policy is looked at again after an hour, a paused
  one after the controller's interval, and one that ran after its own interval, or on
  failure after thirty seconds or a bounded backoff of the target.\<close>

theorem reconcile_requeues:
  assumes "run_state (reconcile fuel cl pgv k hash cr r nn) s = (Returned (d, oe), s')"
  shows "case fst (cl_get_policy cl (fst nn) (snd nn) (sy_env s)) of
      Inl e \<Rightarrow> d = 0 \<and> oe = (if api_is Api_NotFound e then None else Some e)
    | Inr p \<Rightarrow> oe = None \<and>
        (if \<not> admitted k cr r p then d = Hour
         else if ps_paused (p_spec p) then d = get_requeue_interval r
         else d = get_requeue_interval_for_policy r p \<or> d = 30 * Second \<or> (\<exists>n. d = target_backoff_for n))"
proof -
  obtain x w where read: "cl_get_policy cl (fst nn) (snd nn) (sy_env s) = (x, w)" by fastforce
  show ?thesis
  proof (cases x)
    case (Inl e)
    with assms read show ?thesis
      by (auto simp: reconcile_def handle_policy_deletion_def handle_policy_fetch_error_def case_prod_beta
          split: if_splits)
  next
    case (Inr p)
    with assms read have "run_state (case (case rc_gate r of Some g \<Rightarrow> runtime_invalid k g p | None \<Rightarrow> None) of
            Some e \<Rightarrow> do {
              out \<leftarrow> refuse_policy cl r p ''PolicyInvalid'' (error_string e);
              State_Monad.return (Returned out)
            }
          | None \<Rightarrow> reconcile_integrity fuel cl pgv hash cr r nn p) (s\<lparr>sy_env := w\<rparr>) = (Returned (d, oe), s')"
      by (simp add: reconcile_def)
    from answersD [OF dispatch_answers this] read Inr show ?thesis
      by (auto simp: requeue_ok_def)
  qed
qed

theorem reconcile_requeues_witness:
  "\<exists>s'. run_state (reconcile 10 (ex_cluster\<lparr>cl_get_policy := (\<lambda>ns n w. (Inl not_found, w))\<rparr>) ex_pgv ex_checks id
      ex_crypto ex_reconciler (''ops'', ''sweep'')) ex_sys = (Returned (0, None), s')"
proof -
  let ?cl = "ex_cluster\<lparr>cl_get_policy := (\<lambda>ns n w. (Inl not_found, w))\<rparr>"
  obtain d oe s' where run: "run_state (reconcile 10 ?cl ex_pgv ex_checks id
      ex_crypto ex_reconciler (''ops'', ''sweep'')) ex_sys = (Returned (d, oe), s')"
    by (simp add: reconcile_def handle_policy_deletion_def cleanup_policy_resources_def ex_sys_def
        not_found_def api_is_def errors_as_def)
  from reconcile_requeues [OF run] have "d = 0" "oe = None"
    by (simp_all add: not_found_def api_is_def errors_as_def)
  with run show ?thesis by blast
qed

end
