(* ===== verification/Operation.thy ===== *)
theory Operation
  imports Reconcile
begin

text \<open>
  The reconciler over time: that a reconcile returns, what it keeps true of the shared maps,
  what it forgets of a policy that is gone, how the two evaluation paths compare, and how
  failures of a target are counted.
\<close>

section \<open>Returning\<close>

text \<open>From some amount of fuel on, the program returns from \<open>s\<close>.\<close>

definition ends :: "(nat \<Rightarrow> ('w, 'a run) prog) \<Rightarrow> 'w sys \<Rightarrow> bool" where
  "ends m s \<longleftrightarrow> (\<exists>n. \<forall>fuel \<ge> n. \<exists>a. fst (run_state (m fuel) s) = Returned a)"

lemma ends_const: "(\<exists>a. fst (run_state m s) = Returned a) \<Longrightarrow> ends (\<lambda>fuel. m) s"
  by (simp add: ends_def)

lemma ends_return: "ends (\<lambda>fuel. State_Monad.return (Returned a)) s"
  by (simp add: ends_def)

lemma ends_bind: "(\<And>a t. ends (\<lambda>fuel. f fuel a) t) \<Longrightarrow> ends (\<lambda>fuel. State_Monad.bind m (f fuel)) s"
  by (simp add: ends_def case_prod_beta)

lemma ends_run:
  assumes "\<exists>a. fst (run_state m s) = Returned a" "\<And>a t. ends (\<lambda>fuel. f fuel a) t"
  shows "ends (\<lambda>fuel. bind_run m (f fuel)) s"
proof -
  obtain a t where "run_state m s = (Returned a, t)"
    using assms(1) by (cases "run_state m s") auto
  then have "run_state (bind_run m (f fuel)) s = run_state (f fuel a) t" for fuel
    by (simp add: bind_run_def)
  with assms(2) [of a t] show ?thesis by (simp add: ends_def)
qed

lemma ends_run_left:
  assumes "ends m s" "\<And>a t. \<exists>b. fst (run_state (f a) t) = Returned b"
  shows "ends (\<lambda>fuel. bind_run (m fuel) f) s"
proof -
  obtain n where n: "\<forall>fuel \<ge> n. \<exists>a. fst (run_state (m fuel) s) = Returned a"
    using assms(1) by (auto simp: ends_def)
  have "\<exists>b. fst (run_state (bind_run (m fuel) f) s) = Returned b" if "fuel \<ge> n" for fuel
    using n that by (intro bind_run_returns assms(2)) blast
  then show ?thesis unfolding ends_def by blast
qed

lemma ends_sum: "(\<And>e. x = Inl e \<Longrightarrow> ends (\<lambda>fuel. f fuel e) s) \<Longrightarrow> (\<And>a. x = Inr a \<Longrightarrow> ends (\<lambda>fuel. g fuel a) s) \<Longrightarrow>
    ends (\<lambda>fuel. case x of Inl e \<Rightarrow> f fuel e | Inr a \<Rightarrow> g fuel a) s"
  by (cases x) auto

lemma ends_option: "(x = None \<Longrightarrow> ends f s) \<Longrightarrow> (\<And>a. x = Some a \<Longrightarrow> ends (\<lambda>fuel. g fuel a) s) \<Longrightarrow>
    ends (\<lambda>fuel. case x of None \<Rightarrow> f fuel | Some a \<Rightarrow> g fuel a) s"
  by (cases x) auto

lemma ends_if: "(b \<Longrightarrow> ends f s) \<Longrightarrow> (\<not> b \<Longrightarrow> ends g s) \<Longrightarrow> ends (\<lambda>fuel. if b then f fuel else g fuel) s"
  by (cases b) auto

lemmas ends_rules = ends_bind ends_return ends_sum ends_option ends_if

lemma informer_returns:
  assumes "rc_resolver r"
  shows "\<exists>x. fst (run_state (get_or_create_resource_informer cl pgv r p) s) = Returned x"
proof -
  let ?k = "\<lambda>oe. case oe of
            Some e \<Rightarrow> State_Monad.return (Returned (Inl e))
          | None \<Rightarrow>
             (if \<not> rc_resolver r then
                State_Monad.return (Panicked ''invalid memory address or nil pointer dereference'')
              else do {
                rg \<leftarrow> resolve_gvr cl (sample_gvk pgv p);
                case rg of
                  Inl e \<Rightarrow> State_Monad.return (Returned (Inl (Errorf ''invalid target resource: '' e [])))
                | Inr g \<Rightarrow> do {
                    x \<leftarrow> start_informer cl (evaluation_service_key p) g (normalize_namespace (tr_namespace (p_target p)));
                    State_Monad.return (Returned x)
                  }
              })"
  have "answers (\<lambda>x. \<exists>y. x = Returned y) (get_or_create_resource_informer cl pgv r p)"
    unfolding get_or_create_resource_informer_def Let_def using assms
    by (auto intro!: answers_bind answers_return split: option.split sum.split)
  then show ?thesis by (simp add: answers_def)
qed

lemma service_returns:
  assumes "rc_resolver r"
  shows "\<exists>x. fst (run_state (get_or_create_evaluation_service cl pgv r p) s) = Returned x"
proof -
  have "\<exists>x. fst (run_state (bind_run (get_or_create_resource_informer cl pgv r p) (\<lambda>x. case x of
             Inl e \<Rightarrow> State_Monad.return (Returned (Inl (Errorf ''failed to create resource lister: ''
                        (Errorf ''failed to get resource informer: '' e []) [])))
           | Inr k \<Rightarrow> do {
               modify (\<lambda>s. s\<lparr>sy_services := AList.update (evaluation_service_key p) k (sy_services s)\<rparr>);
               State_Monad.return (Returned (Inr k))
             })) s) = Returned x"
    by (intro bind_run_returns informer_returns [OF assms]) (auto split: sum.split)
  then show ?thesis
    unfolding get_or_create_evaluation_service_def Let_def run_bind_gets by (auto split: option.split)
qed

lemma direct_ends:
  assumes "rc_resolver r" "0 < resolve_batch_size p (rc_config r)"
  shows "ends (\<lambda>fuel. evaluate_directly fuel cl pgv hash r p) s"
proof -
  let ?after = "\<lambda>pl deleted. do {
           (if pl_pending pl > 0 then record_resources_pending p (pl_pending pl) else State_Monad.return ());
           oe \<leftarrow> update_policy_status_shared cl r p (pl_matched pl) deleted (pl_pending pl);
           case oe of
             Some e \<Rightarrow> State_Monad.return (Returned (Some e))
           | None \<Rightarrow> do {
               record_policy_evaluated (rc_recorder r) (pl_matched pl) deleted (pl_pending pl);
               State_Monad.return (Returned None)
             }
         }"
  have loop: "\<exists>c. fst (run_state (delete_loop fuel cl del b p (resolve_batch_size p (rc_config r)) 0 0 objs) t) = Returned c"
    if "length objs < fuel" for fuel del b objs t
    using delete_chunks_returns assms(2) that by (subst delete_loop_chunks) simp_all
  have "ends (\<lambda>fuel. delete_in_batches_shared fuel cl hash r p objs reasons) t" for objs reasons t
    unfolding ends_def
    by (rule exI [of _ "Suc (length objs)"]) (auto simp: delete_in_batches_shared_def case_prod_beta loop)
  moreover have "\<exists>b. fst (run_state (?after pl d) t) = Returned b" for pl d t
    by (auto simp: case_prod_beta split: option.split)
  ultimately have batches: "ends (\<lambda>fuel. bind_run (delete_in_batches_shared fuel cl hash r p (pl_delete pl) (pl_reasons pl))
      (?after pl)) t" for pl t
    by (intro ends_run_left)
  show ?thesis
    unfolding evaluate_directly_def
    by (intro ends_run informer_returns [OF assms(1)] ends_rules batches)
qed

lemma evaluation_ends:
  assumes "rc_resolver r" "0 < resolve_batch_size p (rc_config r)"
  shows "ends (\<lambda>fuel. evaluate_policy_of fuel cl pgv hash r p) s"
proof -
  have "ends (\<lambda>fuel. evaluate_policy fuel cl pgv (reconciler_service cl hash r key) p) t" for key t
    unfolding ends_def
    by (rule evaluate_policy_returns) (use assms(2) in \<open>simp add: reconciler_service_def\<close>)
  then show ?thesis
    unfolding evaluate_policy_of_def
    by (intro ends_run service_returns [OF assms(1)] ends_sum direct_ends [OF assms])
qed

lemma admitted_ends:
  assumes "rc_resolver r" "0 < resolve_batch_size p (rc_config r)"
  shows "ends (\<lambda>fuel. reconcile_admitted fuel cl pgv hash r nn p) s"
proof -
  let ?after = "\<lambda>oe. case oe of
         Some e \<Rightarrow> do {
           record_reconcile_outcome ''error'';
           record_api_error e;
           out \<leftarrow> handle_evaluation_error e p;
           State_Monad.return (Returned out)
         }
       | None \<Rightarrow> do {
           record_policy_phase_metrics cl;
           record_reconcile_outcome ''success'';
           State_Monad.return (Returned (get_requeue_interval_for_policy r p, None))
         }"
  have "\<exists>b. fst (run_state (?after oe) t) = Returned b" for oe t
    by (auto simp: case_prod_beta split: option.split)
  then have "ends (\<lambda>fuel. bind_run (evaluate_policy_of fuel cl pgv hash r p) ?after) t" for t
    by (intro ends_run_left evaluation_ends [OF assms])
  then show ?thesis
    unfolding reconcile_admitted_def by (intro ends_rules)
qed

section \<open>Invariants of the controller's memory\<close>

text \<open>What an invariant of a reconcile has to survive, besides what an evaluation and the
  capability gate write: the creation of informers and services, and the bookkeeping.\<close>

locale controller_invariant = gate_maintained P cl r for P :: "'w sys \<Rightarrow> bool" and cl r +
  assumes informers: "maintains P (get_or_create_resource_informer cl pgv r p)"
    and services: "maintains P (get_or_create_evaluation_service cl pgv r p)"
    and policy_uids: "P s \<Longrightarrow> P (s\<lparr>sy_policy_uids := uids\<rparr>)"
    and specs: "P s \<Longrightarrow> P (s\<lparr>sy_specs := sps\<rparr>)"
    and forgets: "P s \<Longrightarrow> P (s\<lparr>sy_limiters := AList.delete uid (sy_limiters s)\<rparr>)"
begin

lemma directly: "maintains P (evaluate_directly fuel cl pgv hash r p)"
proof -
  have one: "maintains P (shared_one cl p pl obj)" for pl obj
    unfolding shared_one_def reconciler_should_delete_def Let_def
    by (auto intro!: steps reports split: prod.split)
  have status: "maintains P (update_policy_status_shared cl r p m d q)" for m d q
    unfolding update_policy_status_shared_def update_status_def Let_def
    by (auto intro!: steps reports split: option.split sum.split)
  have batches: "maintains P (delete_in_batches_shared fuel cl hash r p objs reasons)" for objs reasons
    unfolding delete_in_batches_shared_def
    by (auto intro!: steps throttling deletion_loop batching)
  show ?thesis
    unfolding evaluate_directly_def evaluate_resources_shared_def
    by (auto intro!: steps reports informers planning_loop one batches status split: sum.split option.split)
qed

lemma evaluating_policy: "maintains P (evaluate_policy_of fuel cl pgv hash r p)"
proof -
  have "maintains P (evaluate_policy fuel cl pgv (reconciler_service cl hash r key) p)" for key
    by (rule evaluating)
      (auto simp: reconciler_service_def list_from_store_def rc_decide_def refusal_known
        intro!: steps throttling batching)
  then show ?thesis
    unfolding evaluate_policy_of_def
    by (auto intro!: steps services directly split: sum.split)
qed

lemma phases: "maintains P (record_policy_phase_metrics cl)"
proof -
  have "maintains P (record_phases m)" for m
    by (induction m rule: record_phases.induct) (auto intro!: steps reports)
  moreover have "maintains P (reset_phases m ks)" for m ks
    by (induction ks) (auto intro!: steps reports)
  ultimately show ?thesis
    unfolding record_policy_phase_metrics_def
    by (auto intro!: steps simp del: reset_phases.simps split: sum.split)
qed

lemma admitting: "maintains P (reconcile_admitted fuel cl pgv hash r nn p)"
proof -
  have recreate: "maintains P (handle_informer_recreation p)"
    unfolding handle_informer_recreation_def should_recreate_informer_def cleanup_resource_informer_def
    by (auto intro!: steps maintains_modify specs)
  have failed: "maintains P (handle_evaluation_error e p)" for e
    unfolding handle_evaluation_error_def target_failure_count_def
    by (auto intro!: steps split: option.split)
  show ?thesis
    unfolding reconcile_admitted_def track_policy_uid_def track_policy_spec_def
    by (auto intro!: steps reports recreate failed phases evaluating_policy maintains_modify specs policy_uids
        split: option.split)
qed

lemma reconciling: "maintains P (reconcile fuel cl pgv k hash cr r nn)"
proof -
  have refuse: "maintains P (refuse_policy cl r p reason msg)" for p reason msg
    unfolding refuse_policy_def by (auto intro!: steps reports receipts simp: refusal_reasons_def)
  have cleanup: "maintains P (cleanup_policy_resources nn)"
    unfolding cleanup_policy_resources_def cleanup_resource_informer_def cleanup_rate_limiter_def
    by (auto intro!: steps reports maintains_modify policy_uids specs forgets split: option.split)
  have integrity: "maintains P (reconcile_integrity fuel cl pgv hash cr r nn p)" for p
    unfolding reconcile_integrity_def Let_def
    by (auto intro!: steps refuse receipts admitting split: option.split)
  show ?thesis
    unfolding reconcile_def handle_policy_deletion_def
    by (auto intro!: steps refuse cleanup integrity split: sum.split option.split)
qed

end

text \<open>An invariant that does not look at the informers and services.\<close>

locale store_invariant = gate_maintained P cl r for P :: "'w sys \<Rightarrow> bool" and cl r +
  assumes unobserved: "P s \<Longrightarrow> P (s\<lparr>sy_informers := infs\<rparr>)" "P s \<Longrightarrow> P (s\<lparr>sy_services := svcs\<rparr>)"
    and booked: "P s \<Longrightarrow> P (s\<lparr>sy_policy_uids := uids\<rparr>)" "P s \<Longrightarrow> P (s\<lparr>sy_specs := sps\<rparr>)"
    and forgotten: "P s \<Longrightarrow> P (s\<lparr>sy_limiters := AList.delete uid (sy_limiters s)\<rparr>)"
begin

lemma starting: "maintains P (get_or_create_resource_informer cl pgv r p)"
proof -
  have "maintains P (start_informer cl key g ns)" for key g ns
    unfolding start_informer_def record_informer_count_def
    by (auto intro!: steps maintains_modify unobserved split: prod.split)
  then show ?thesis
    unfolding get_or_create_resource_informer_def Let_def
    by (auto intro!: steps gating resolving split: option.split sum.split)
qed

end

sublocale store_invariant \<subseteq> controller_invariant
proof
  show "maintains P (get_or_create_resource_informer cl pgv r p)" for pgv p
    by (rule starting)
  show "maintains P (get_or_create_evaluation_service cl pgv r p)" for pgv p
    unfolding get_or_create_evaluation_service_def Let_def
    by (auto intro!: steps starting maintains_modify unobserved split: option.split sum.split)
qed (auto intro: booked forgotten)

definition limiters_positive :: "'w sys \<Rightarrow> bool" where
  "limiters_positive s \<longleftrightarrow> (\<forall>uid l. map_of (sy_limiters s) uid = Some l \<longrightarrow> 1 \<le> lim_limit l)"

interpretation limiters: maintained limiters_positive
  by unfold_locales (auto simp: limiters_positive_def update_conv' new_rate_limiter_positive split: if_splits)

interpretation limiters: store_invariant limiters_positive cl r for cl r
  by unfold_locales
    (auto simp: limiters_positive_def update_conv' delete_conv' new_rate_limiter_positive split: if_splits)

interpretation grants: maintained grants_only
  by unfold_locales (simp_all add: grants_only_def)

interpretation grants: store_invariant grants_only cl r for cl r
  by unfold_locales (auto simp: grants_only_def update_conv' granted_at_def split: if_splits)

interpretation observation: maintained observation_ok
  by unfold_locales (simp_all add: observation_ok_def)

interpretation observation: controller_invariant observation_ok cl r for cl :: "'w cluster" and r
proof
  show "maintains observation_ok (get_or_create_resource_informer cl pgv r p)"
    and "maintains observation_ok (get_or_create_evaluation_service cl pgv r p)"
    for pgv p
    unfolding maintains_def
    by (rule leads_weaken [OF informer_served] leads_weaken [OF service_served], simp, simp add: served_def)+
qed (simp_all add: observation_ok_def)

section \<open>Reachable states\<close>

text \<open>A controller starts with empty maps; it reconciles one name after the other, and between
  and during its steps the environment does what it likes.\<close>

definition fresh :: "'w sys \<Rightarrow> bool" where
  "fresh s \<longleftrightarrow> sy_trace s = [] \<and> sy_gvr_cache s = [] \<and> sy_limiters s = [] \<and> sy_policy_uids s = [] \<and>
     sy_specs s = [] \<and> sy_probes s = [] \<and> sy_failures s = [] \<and> sy_services s = [] \<and> sy_informers s = []"

inductive reachable ::
  "'w cluster \<Rightarrow> (string \<Rightarrow> go_error + string \<times> string) \<Rightarrow> k8s_checks \<Rightarrow> (string \<Rightarrow> string) \<Rightarrow> crypto
     \<Rightarrow> reconciler \<Rightarrow> 'w sys \<Rightarrow> bool"
  for cl pgv k hash cr r
where
  start: "fresh s \<Longrightarrow> reachable cl pgv k hash cr r s"
| step: "reachable cl pgv k hash cr r s \<Longrightarrow>
     run_state (reconcile fuel cl pgv k hash cr r nn) s = (x, s') \<Longrightarrow> reachable cl pgv k hash cr r s'"
| world: "reachable cl pgv k hash cr r s \<Longrightarrow> reachable cl pgv k hash cr r (s\<lparr>sy_env := w\<rparr>)"

text \<open>An object and UID some stored policy that may run sanctions.\<close>

definition warranted :: "'w cluster \<Rightarrow> k8s_checks \<Rightarrow> crypto \<Rightarrow> reconciler \<Rightarrow> string \<Rightarrow> string \<Rightarrow> string \<Rightarrow> bool" where
  "warranted cl k cr r ns n uid \<longleftrightarrow>
     (\<exists>nn p. stored cl nn p \<and> executable k cr r p \<and> sanctioned cl r p ns n uid)"

lemma reachable_trace:
  assumes "reachable cl pgv k hash cr r s"
  shows "deletes_ok (warranted cl k cr r) (sy_trace s)"
  using assms
proof (induction rule: reachable.induct)
  case (step s fuel nn x s')
  obtain es where es: "sy_trace s' = sy_trace s @ es"
    "deletes_ok (\<lambda>ns n uid. \<exists>p. stored cl nn p \<and> executable k cr r p \<and> sanctioned cl r p ns n uid) es"
    using guarded_reconcile [unfolded guarded_def] step.hyps(2) by (rule emitsD)
  have "deletes_ok (warranted cl k cr r) es"
    using es(2) by (rule deletes_ok_mono) (unfold warranted_def, blast)
  with es(1) step.IH show ?case by (simp add: deletes_ok_append)
qed (simp_all add: fresh_def)

lemma reachable_invariant:
  assumes "reachable cl pgv k hash cr r s" "controller_invariant P cl r" "\<And>s w. P s \<Longrightarrow> P (s\<lparr>sy_env := w\<rparr>)"
    "\<And>s. fresh s \<Longrightarrow> P s"
  shows "P s"
  using assms(1)
proof (induction rule: reachable.induct)
  case (step s fuel nn x s')
  with maintainsD [OF controller_invariant.reconciling [OF assms(2)], of s fuel pgv k hash cr nn]
  show ?case by simp
qed (simp_all add: assms(3,4))

section \<open>Counting the failures of a target\<close>

lemma errors_as_cause: "\<not> P (Context_Error ty m (Some e) c) \<Longrightarrow> errors_as P (Context_Error ty m (Some e) c) = errors_as P e"
  by (simp add: errors_as_def)

lemma target_error_wrapped:
  "errors_as is_target_error (policy_error e code msg p) = errors_as is_target_error e"
  by (simp add: policy_error_def errors_wrap_def errors_as_cause)

definition failure_count :: "string \<Rightarrow> 'w sys \<Rightarrow> int" where
  "failure_count uid s = (case map_of (sy_failures s) uid of Some n \<Rightarrow> n | None \<Rightarrow> 0)"

text \<open>The target's list is refused whatever it is asked, and no grant is remembered.\<close>

definition unlistable :: "'w cluster \<Rightarrow> policy \<Rightarrow> 'w sys \<Rightarrow> bool" where
  "unlistable cl p s \<longleftrightarrow> (\<forall>g ns w. fst (cl_list cl g ns w) \<noteq> None) \<and>
     map_of (sy_probes s) (probe_key (target_gvk_string p) (tr_namespace (p_target p))) = None"

lemma unlistable_fails:
  assumes "unlistable cl p s" "run_state (validate_target_capability cl p) s = (oe, s')"
  shows "(\<exists>e. oe = Some e \<and> is_target_error e) \<and> sy_probes s' = sy_probes s"
  using assms(2)
proof (cases rule: run_validate)
  case (cached entry)
  with assms(1) show ?thesis by (simp add: unlistable_def)
next
  case (probe w)
  show ?thesis
  proof (cases oe)
    case None
    with run_probe_target(3) [OF probe(2)] obtain g ns w w' where "cl_list cl g ns w = (None, w')"
      unfolding listable_def by blast
    then have "fst (cl_list cl g ns w) = None" by simp
    with assms(1) show ?thesis unfolding unlistable_def by blast
  next
    case (Some e)
    with run_probe_target(4) [OF probe(2) Some] show ?thesis by auto
  qed
qed simp

text \<open>A refused gate: the error holds the classified one, and one more failure is counted.\<close>

lemma gate_refuses:
  assumes "unlistable cl p s" "run_state (validate_target_or_classify cl r p) s = (oe, s')"
  shows "(\<exists>e tc. oe = Some e \<and> errors_as is_target_error e = Some tc) \<and> unlistable cl p s' \<and>
    failure_count (p_uid p) s' = failure_count (p_uid p) s + 1 \<and>
    sy_informers s' = sy_informers s \<and> sy_services s' = sy_services s"
proof -
  obtain oc s1 where check: "run_state (validate_target_capability cl p) s = (oc, s1)"
    by (cases "run_state (validate_target_capability cl p) s")
  from unlistable_fails [OF assms(1) check] obtain cls gvk detail
    where tc: "oc = Some (Target_Error cls gvk detail)" and probes: "sy_probes s1 = sy_probes s"
    by (auto elim: is_target_error.elims)
  have law: "map_of (sy_failures s') (p_uid p) = Some (failure_count (p_uid p) s + 1)"
    using capability_failure_law [of cl p s r] check tc assms(2)
    by (simp add: Let_def failure_count_def split: option.splits)
  have cond: "keeps sy_probes (reconcile_target_condition cl r p x)" for x
    by (rule keeps_condition) simp_all
  have err: "\<exists>e. oe = Some e \<and> errors_as is_target_error e = Some (Target_Error cls gvk detail)"
    and probes': "sy_probes s' = sy_probes s"
    using assms(2) check tc probes cond
    by (auto simp: validate_target_or_classify_def case_prod_beta record_target_failure_def keeps_def
        capability_failure_def errors_wrap_def errors_as_cause errors_as_self)
  have "sy_informers s' = sy_informers s \<and> sy_services s' = sy_services s"
    using maintainsD [OF observing.gating [where Q = "\<lambda>i v. i = sy_informers s \<and> v = sy_services s"], of s cl r p]
      assms(2) by simp
  with err probes' law assms(1) show ?thesis
    by (auto simp: unlistable_def failure_count_def)
qed

lemma informer_refused:
  assumes "unlistable cl p s" "evaluation_service_key p \<notin> set (sy_informers s)"
    "run_state (get_or_create_resource_informer cl pgv r p) s = (x, s')"
  shows "(\<exists>e tc. x = Returned (Inl e) \<and> errors_as is_target_error e = Some tc) \<and> unlistable cl p s' \<and>
    failure_count (p_uid p) s' = failure_count (p_uid p) s + 1 \<and>
    sy_informers s' = sy_informers s \<and> sy_services s' = sy_services s"
proof -
  obtain oe s1 where gate: "run_state (validate_target_or_classify cl r p) s = (oe, s1)"
    by (cases "run_state (validate_target_or_classify cl r p) s")
  from gate_refuses [OF assms(1) gate] gate assms(2,3) show ?thesis
    by (auto simp: get_or_create_resource_informer_def Let_def)
qed

text \<open>One evaluation asks the gate twice: for the service, then for the direct path.\<close>

lemma evaluation_refused:
  assumes "unlistable cl p s" "evaluation_service_key p \<notin> set (sy_informers s)"
    "map_of (sy_services s) (evaluation_service_key p) = None"
    "run_state (evaluate_policy_of fuel cl pgv hash r p) s = (x, s')"
  shows "(\<exists>e tc. x = Returned (Some e) \<and> errors_as is_target_error e = Some tc) \<and>
    failure_count (p_uid p) s' = failure_count (p_uid p) s + 2"
proof -
  obtain x1 s1 where one: "run_state (get_or_create_resource_informer cl pgv r p) s = (x1, s1)"
    by (cases "run_state (get_or_create_resource_informer cl pgv r p) s")
  note A = informer_refused [OF assms(1,2) one]
  obtain x2 s2 where two: "run_state (get_or_create_resource_informer cl pgv r p) s1 = (x2, s2)"
    by (cases "run_state (get_or_create_resource_informer cl pgv r p) s1")
  have "unlistable cl p s1" "evaluation_service_key p \<notin> set (sy_informers s1)"
    using A assms(2) by auto
  note B = informer_refused [OF this two]
  from A obtain e1 where e1: "x1 = Returned (Inl e1)" by blast
  from B obtain e2 tc where e2: "x2 = Returned (Inl e2)" "errors_as is_target_error e2 = Some tc" by blast
  have "run_state (evaluate_policy_of fuel cl pgv hash r p) s = run_state (evaluate_directly fuel cl pgv hash r p) s1"
    using one e1 assms(3)
    by (simp add: evaluate_policy_of_def get_or_create_evaluation_service_def bind_run_def Let_def)
  also have "\<dots> = (Returned (Some (policy_error e2 ''informer_creation_failed''
      ''failed to get resource informer'' p)), s2\<lparr>sy_trace := sy_trace s2 @
        [Eff_Counter ''zen_cleaner_errors_total'' [p_namespace p, p_name p, ''informer_creation_failed'']]\<rparr>)"
    using two e2 by (simp add: evaluate_directly_def bind_run_def record_error_def count_with_def)
  finally show ?thesis
    using assms(4) e2 A B target_error_wrapped [of e2] by (auto simp: failure_count_def)
qed

lemma reconcile_ends:
  assumes "rc_resolver r" "\<And>p. stored cl nn p \<Longrightarrow> 0 < resolve_batch_size p (rc_config r)"
  shows "\<exists>n. \<forall>fuel \<ge> n. \<exists>out. fst (run_state (reconcile fuel cl pgv k hash cr r nn) s) = Returned out"
proof -
  have admitted: "ends (\<lambda>fuel. reconcile_integrity fuel cl pgv hash cr r nn p) t" if "stored cl nn p" for p t
    unfolding reconcile_integrity_def Let_def
    by (intro ends_rules admitted_ends assms that)
  obtain x w where read: "cl_get_policy cl (fst nn) (snd nn) (sy_env s) = (x, w)" by fastforce
  show ?thesis
  proof (cases x)
    case (Inl e)
    with read show ?thesis by (simp add: reconcile_def case_prod_beta)
  next
    case (Inr p)
    with read have "stored cl nn p" unfolding stored_def by (metis fst_conv)
    note ok = admitted [OF this]
    have "ends (\<lambda>fuel. case (case rc_gate r of Some g \<Rightarrow> runtime_invalid k g p | None \<Rightarrow> None) of
            Some e \<Rightarrow> do {
              out \<leftarrow> refuse_policy cl r p ''PolicyInvalid'' (error_string e);
              State_Monad.return (Returned out)
            }
          | None \<Rightarrow> reconcile_integrity fuel cl pgv hash cr r nn p) t" for t
      by (intro ends_rules ok)
    with read Inr show ?thesis by (simp add: reconcile_def ends_def)
  qed
qed

section \<open>Properties\<close>

text \<open>A reconcile returns: for a reconciler with its resolver, and batch sizes that are
  positive for every policy it may read, there is from every state an amount of fuel from
  which on a reconcile neither runs out, nor panics, whatever the services answer.\<close>

theorem reconcile_returns:
  assumes "rc_resolver r" "\<And>p. stored cl nn p \<Longrightarrow> 0 < resolve_batch_size p (rc_config r)"
  shows "\<exists>n. \<forall>fuel \<ge> n. \<exists>out. fst (run_state (reconcile fuel cl pgv k hash cr r nn) s) = Returned out"
  using assms by (rule reconcile_ends)

theorem reconcile_returns_witness:
  "\<exists>n. \<forall>fuel \<ge> n. \<exists>out. fst (run_state (reconcile fuel ex_cluster ex_pgv ex_checks id ex_crypto
      ex_reconciler (''ops'', ''sweep'')) ex_sys) = Returned out"
  by (rule reconcile_returns)
    (auto simp: ex_reconciler_def stored_def ex_cluster_def resolve_batch_size_def new_controller_config_def
      ex_policy_def ex_spec_def ex_behavior_def)





text \<open>C22. The two evaluation paths plan the same deletions but for the gate: on the same store, a
  clock that stands still and an uncancelled context, the plan of the service, over the
  listing filtered by the target's namespace, is the plan of the direct path without the
  objects the safety gate refuses; both match the same number of objects.\<close>

theorem paths_agree:
  assumes "\<And>w. fst (cl_now cl w) = now" "\<And>w. fst (cl_ctx cl w) = None"
  shows "let ns = (if tr_namespace (p_target p) = [] then ''*'' else tr_namespace (p_target p));
       svc = fst (run_state (evaluate_resources cl (reconciler_service cl hash r key) p (store_filter ns objs)) s);
       direct = fst (run_state (plan_loop cl (shared_one cl p) 0 empty_plan objs) t) in
     pl_delete svc = filter (\<lambda>obj. gate_allows r p obj) (pl_delete direct) \<and>
     pl_matched svc = pl_matched direct"
proof -
  let ?ns = "if tr_namespace (p_target p) = [] then ''*'' else tr_namespace (p_target p)"
  let ?svc = "reconciler_service cl hash r key"
  let ?expired = "\<lambda>svc. expired_now cl svc p now"
  have filtered: "filter (\<lambda>obj. es_matches ?svc obj (p_target p) \<and> P obj) (store_filter ?ns objs) =
      filter (\<lambda>obj. es_matches (ungated ?svc) obj (p_target p) \<and> P obj) objs" for P
    by (auto simp: store_filter_eq filter_filter matches_selectors_def reconciler_service_def ungated_def Let_def
        intro!: filter_cong)
  have service: "fst (run_state (evaluate_resources cl ?svc p (store_filter ?ns objs)) s) =
      foldl (\<lambda>pl obj. plan_step cl ?svc p obj now now pl) empty_plan (store_filter ?ns objs)"
    using assms service_plan.loop_fold [OF assms] by (simp add: evaluate_resources_def case_prod_beta)
  have direct: "fst (run_state (plan_loop cl (shared_one cl p) 0 empty_plan objs) t) =
      foldl (\<lambda>pl obj. plan_step cl (ungated ?svc) p obj now now pl) empty_plan objs"
    by (rule shared_plan.loop_fold [OF assms])
  have gated: "?expired ?svc = (\<lambda>obj. es_matches ?svc obj (p_target p) \<and> (?expired (ungated ?svc) obj \<and> gate_allows r p obj))"
    by (auto simp: expired_now_def candidate_def gate_passes_def conditions_met_def ungated_def gate_allows_def
        reconciler_service_def rc_decide_def fun_eq_iff split: option.splits)
  have "filter (?expired ?svc) (store_filter ?ns objs) = filter (\<lambda>obj. gate_allows r p obj) (filter (?expired (ungated ?svc)) objs)"
    unfolding gated filtered filter_filter
    by (rule filter_cong) (auto simp: expired_now_def candidate_def)
  moreover have "filter (\<lambda>obj. es_matches ?svc obj (p_target p)) (store_filter ?ns objs) =
      filter (\<lambda>obj. es_matches (ungated ?svc) obj (p_target p)) objs"
    using filtered [of "\<lambda>obj. True"] by simp
  ultimately show ?thesis
    using fold_plan_steps [of cl ?svc p now empty_plan "store_filter ?ns objs"]
      fold_plan_steps [of cl "ungated ?svc" p now empty_plan objs]
    unfolding Let_def service direct by (simp add: empty_plan_def)
qed

theorem paths_agree_witness:
  "pl_matched (fst (run_state (evaluate_resources ex_cluster (reconciler_service ex_cluster id ex_reconciler ''k'')
       ex_policy (store_filter ''apps'' [ex_obj])) ex_sys)) =
   pl_matched (fst (run_state (plan_loop ex_cluster (shared_one ex_cluster ex_policy) 0 empty_plan [ex_obj]) ex_sys))"
  using paths_agree [of ex_cluster 1000000000000 ex_policy id ex_reconciler "''k''" "[ex_obj]" ex_sys ex_sys]
  by (simp add: ex_cluster_def Let_def ex_policy_def ex_spec_def ex_target_def)

text \<open>What a controller forgets of a policy that is gone: its UID, its spec and its rate
  limiter, and only those; the entries of other policies, the shared informers and services
  stay, and so does the failure counter of the policy that is gone.\<close>

theorem deleted_policy_forgotten:
  assumes "cl_get_policy cl (fst nn) (snd nn) (sy_env s) = (Inl e, w)" "api_is Api_NotFound e"
    "map_of (sy_policy_uids s) nn = Some uid"
    "run_state (reconcile fuel cl pgv k hash cr r nn) s = (x, s')"
  shows "x = Returned (0, None) \<and> map_of (sy_policy_uids s') = (map_of (sy_policy_uids s))(nn := None) \<and>
     map_of (sy_specs s') = (map_of (sy_specs s))(uid := None) \<and>
     map_of (sy_limiters s') = (map_of (sy_limiters s))(uid := None) \<and>
     sy_informers s' = sy_informers s \<and> sy_services s' = sy_services s \<and>
     sy_failures s' = sy_failures s \<and> sy_probes s' = sy_probes s"
  using assms
  by (auto simp: reconcile_def handle_policy_deletion_def cleanup_policy_resources_def case_prod_beta
      cleanup_resource_informer_def cleanup_rate_limiter_def record_rate_limiter_count_def delete_conv'
      fun_eq_iff)

theorem deleted_policy_forgotten_witness:
  "let s = ex_sys\<lparr>sy_policy_uids := [((''ops'', ''sweep''), ''u'')], sy_limiters := [(''u'', new_rate_limiter 3)],
         sy_failures := [(''u'', 4)]\<rparr>;
       s' = snd (run_state (reconcile 10 (ex_cluster\<lparr>cl_get_policy := (\<lambda>ns n w. (Inl not_found, w))\<rparr>) ex_pgv
         ex_checks id ex_crypto ex_reconciler (''ops'', ''sweep'')) s) in
     map_of (sy_limiters s') ''u'' = None \<and> sy_failures s' = [(''u'', 4)]"
proof -
  let ?cl = "ex_cluster\<lparr>cl_get_policy := (\<lambda>ns n w. (Inl not_found, w))\<rparr>"
  let ?s = "ex_sys\<lparr>sy_policy_uids := [((''ops'', ''sweep''), ''u'')], sy_limiters := [(''u'', new_rate_limiter 3)],
         sy_failures := [(''u'', 4)]\<rparr>"
  obtain x s' where run: "run_state (reconcile 10 ?cl ex_pgv ex_checks id ex_crypto ex_reconciler (''ops'', ''sweep'')) ?s
      = (x, s')" by (rule that [OF surjective_pairing])
  have "api_is Api_NotFound not_found"
    by (simp add: not_found_def api_is_def errors_as_def)
  from deleted_policy_forgotten [OF _ this _ run, of True "''u''"] run show ?thesis
    by (simp add: ex_sys_def Let_def)
qed

end
