(* ===== verification/Observability.thy ===== *)
theory Observability
  imports Operation
begin

text \<open>
  What an operator sees of a controller (\<open>/metrics\<close>), in every reachable state: what the metrics
  say of the deletions, which series can exist, and which metric never moves.
\<close>

section \<open>The metrics of a trace\<close>

definition deletes_sent :: "effect list \<Rightarrow> int" where
  "deletes_sent tr = int (length (filter is_delete tr))"

definition metrics_ok :: "effect list \<Rightarrow> bool" where
  "metrics_ok tr \<longleftrightarrow> list_all well_recorded tr \<and>
     scraped tr (series_of deletions_attempted_total) = deletes_sent tr \<and>
     0 \<le> scraped tr (series_of deletions_failed_total) \<and>
     scraped tr (series_of deletions_failed_total) \<le> deletes_sent tr \<and>
     scraped tr (series_of gc_leader_election_status) = 0 \<and>
     scraped tr (series_of gc_leader_election_transitions_total) = 0"

lemma metrics_ok_aside: "aside e \<Longrightarrow> metrics_ok tr \<Longrightarrow> metrics_ok (tr @ [e])"
proof -
  assume e: "aside e"
  moreover from e have "\<not> is_delete e" by (cases e) simp_all
  ultimately show "metrics_ok tr \<Longrightarrow> metrics_ok (tr @ [e])"
    by (simp add: metrics_ok_def aside_series aside_recorded deletes_sent_def)
qed

text \<open>The choke point: an attempt is counted just before its request, a failure after it.\<close>

lemma metrics_ok_attempt:
  assumes "metrics_ok tr"
  shows "metrics_ok (tr @ [Eff_Counter ''zen_cleaner_deletions_attempted_total'' [], Eff_Delete g ns n opts])"
    "metrics_ok (tr @ [Eff_Counter ''zen_cleaner_deletions_attempted_total'' [], Eff_Delete g ns n opts,
       Eff_Counter ''zen_cleaner_deletions_failed_total'' []])"
proof -
  let ?a = "Eff_Counter ''zen_cleaner_deletions_attempted_total'' []"
  let ?f = "Eff_Counter ''zen_cleaner_deletions_failed_total'' []"
  show ok: "metrics_ok (tr @ [?a, Eff_Delete g ns n opts])"
    using assms scraped_snoc [of "tr @ [?a]" "Eff_Delete g ns n opts"]
    by (simp add: metrics_ok_def deletes_sent_def series_of_def)
  show "metrics_ok (tr @ [?a, Eff_Delete g ns n opts, ?f])"
    using assms scraped_snoc [of "tr @ [?a, Eff_Delete g ns n opts]" ?f]
      scraped_snoc [of "tr @ [?a]" "Eff_Delete g ns n opts"]
    by (simp add: metrics_ok_def deletes_sent_def series_of_def)
qed

lemma metrics_ok_steps:
  assumes "metrics_ok tr" "aside e"
  shows "metrics_ok (tr @ [e])"
    "aside e' \<Longrightarrow> metrics_ok (tr @ [e, e'])"
    "metrics_ok (tr @ [e, Eff_Counter ''zen_cleaner_deletions_attempted_total'' [], Eff_Delete g ns n opts])"
    "aside e' \<Longrightarrow> metrics_ok (tr @ [e, Eff_Counter ''zen_cleaner_deletions_attempted_total'' [],
       Eff_Delete g ns n opts, Eff_Counter ''zen_cleaner_deletions_failed_total'' [], e'])"
  using metrics_ok_aside [OF assms(2,1)] metrics_ok_aside [of e' "tr @ [e]"]
    metrics_ok_attempt [of "tr @ [e]" g ns n opts]
    metrics_ok_aside [of e' "(tr @ [e]) @ [Eff_Counter ''zen_cleaner_deletions_attempted_total'' [],
       Eff_Delete g ns n opts, Eff_Counter ''zen_cleaner_deletions_failed_total'' []]"]
  by simp_all

abbreviation metered :: "'w sys \<Rightarrow> bool" where
  "metered s \<equiv> metrics_ok (sy_trace s)"

lemma metered_choke_point: "maintains metered (perform_resource_deletion cl (rc_decide r) obj g opts b)"
  unfolding maintains_def leads_def
proof (intro allI impI)
  fix s :: "'a sys"
  assume ok: "metered s"
  obtain x w where get: "cl_get cl g (u_namespace obj) (u_name obj) (sy_env s) = (x, w)"
    by fastforce
  show "metered (snd (run_state (perform_resource_deletion cl (rc_decide r) obj g opts b) s))"
  proof (cases "\<exists>gate. rc_gate r = Some gate \<and> \<not> fst (evaluate_object gate (Some obj) b)")
    case True
    then show ?thesis
      using ok refusal_known
      by (auto simp: rc_decide_def perform_resource_deletion_def Let_def case_prod_beta report_defs
          metrics_ok_steps)
  next
    case False
    then have "perform_resource_deletion cl (rc_decide r) obj g opts b = perform_resource_deletion cl None obj g opts b"
      by (auto simp: rc_decide_def perform_resource_deletion_def Let_def case_prod_beta split: option.split)
    with get ok show ?thesis
      by (auto simp: perform_resource_deletion_def run_live Let_def report_defs api_delete_def metrics_ok_steps
          case_prod_beta refusal_reasons_def split: option.split sum.split)
  qed
qed

lemma metered_calls: "maintains metered (ask f)"
  unfolding maintains_def leads_def by simp

interpretation metrics: store_invariant metered cl r for cl r
  by unfold_locales (auto intro: metrics_ok_aside metered_choke_point metered_calls intro!: maintains_resolve)

lemma reachable_metrics: "reachable cl pgv k hash cr r s \<Longrightarrow> metrics_ok (sy_trace s)"
  by (erule reachable_invariant [OF _ metrics.controller_invariant_axioms])
    (simp_all add: fresh_def metrics_ok_def deletes_sent_def)

section \<open>Properties\<close>

text \<open>C11. What the metrics of a controller say, in every state it can reach: each recorded metric is
  declared, with its kind and as many labels, and the three metrics with a closed vocabulary
  carry only labels of it; the attempted deletions are the DELETE requests sent, and the
  failed ones are no more than those; and the two metrics of leader election never move, on a
  leader either.\<close>

theorem metrics_truthful:
  assumes "reachable cl pgv k hash cr r s"
  shows "list_all well_recorded (sy_trace s) \<and>
     scraped (sy_trace s) (series_of deletions_attempted_total) = deletes_sent (sy_trace s) \<and>
     scraped (sy_trace s) (series_of deletions_failed_total) \<in> {0..deletes_sent (sy_trace s)} \<and>
     scraped (sy_trace s) (series_of gc_leader_election_status) = 0 \<and>
     scraped (sy_trace s) (series_of gc_leader_election_transitions_total) = 0"
  using reachable_metrics [OF assms] by (simp add: metrics_ok_def)

theorem metrics_truthful_witness:
  "let s = snd (run_state (reconcile 10 ex_cluster ex_pgv ex_checks id ex_crypto ex_reconciler (''ops'', ''sweep'')) ex_sys) in
   scraped (sy_trace s) (series_of deletions_attempted_total) = deletes_sent (sy_trace s)"
proof -
  have "reachable ex_cluster ex_pgv ex_checks id ex_crypto ex_reconciler ex_sys"
    by (rule reachable.start) (simp add: fresh_def ex_sys_def)
  then have "reachable ex_cluster ex_pgv ex_checks id ex_crypto ex_reconciler
      (snd (run_state (reconcile 10 ex_cluster ex_pgv ex_checks id ex_crypto
      ex_reconciler (''ops'', ''sweep'')) ex_sys))"
    by (rule reachable.step) (rule prod.collapse [symmetric])
  from metrics_truthful [OF this] show ?thesis by (simp add: Let_def)
qed

text \<open>An informer that does not sync in time is taken out of the table but neither stopped nor taken
  off the gauge: it was started, the gauge counts it, and the next attempt starts another.\<close>

theorem failed_sync_leaks:
  assumes "fst (fst (cl_sync cl key (sy_env s))) = False" "key \<notin> set (sy_informers s)"
  shows "let s' = snd (run_state (start_informer cl key g ns) s) in
     sy_informers s' = sy_informers s \<and>
     sy_trace s' = sy_trace s @ [Eff_Gauge (md_name gc_informers_total) [] (int (length (sy_informers s)) + 1),
       Eff_Start_Informer g ns] \<and>
     scraped (sy_trace s') (series_of gc_informers_total) = int (length (sy_informers s')) + 1"
proof -
  let ?n = "int (length (sy_informers s)) + 1"
  have "scraped (sy_trace s @ [Eff_Gauge (md_name gc_informers_total) [] ?n, Eff_Start_Informer g ns])
      (series_of gc_informers_total) = ?n"
    using scraped_snoc [of "sy_trace s @ [Eff_Gauge (md_name gc_informers_total) [] ?n]" "Eff_Start_Informer g ns"]
    by (simp add: series_of_def)
  moreover have "md_name gc_informers_total = ''zen_cleaner_informers_total''"
    by (simp add: gc_informers_total_def)
  ultimately show ?thesis
    using assms by (auto simp: start_informer_def case_prod_beta record_informer_count_def Let_def add.commute)
qed

theorem failed_sync_leaks_witness:
  "sy_informers (snd (run_state (start_informer (ex_cluster\<lparr>cl_sync := (\<lambda>key w. ((False, None), w))\<rparr>) ''k''
     \<lparr>gvr_group = [], gvr_version = ''v1'', gvr_resource = ''pods''\<rparr> ''apps'') ex_sys)) = []"
  using failed_sync_leaks [of "ex_cluster\<lparr>cl_sync := (\<lambda>key w. ((False, None), w))\<rparr>" "''k''" ex_sys]
  by (simp add: Let_def ex_sys_def)

end
