(* ===== verification/Interleaving.thy ===== *)
theory Interleaving
  imports Operation
begin

text \<open>
  The controller among other actors.  An API server holds objects by resource, namespace and name;
  before each read or deletion of the controller the other actors do what their schedule says,
  so in particular between the read of the UID and the DELETE of \<open>performResourceDeletion\<close>.  A
  DELETE without preconditions, as the code sends it, removes whatever is stored under the name.

  The choke point is characterised exactly.  Where names keep their UIDs everything the reconciles
  ever remove was warranted; an object that is replaced, or protected after the snapshot the
  decision was made on, is removed all the same.
\<close>

section \<open>A server with other actors\<close>

type_synonym object_key = "gvr \<times> string \<times> string"

datatype other_op = Put object_key uobj | Remove object_key

fun apply_other :: "other_op \<Rightarrow> (object_key \<Rightarrow> uobj option) \<Rightarrow> object_key \<Rightarrow> uobj option" where
  "apply_other (Put k obj) m = m(k \<mapsto> obj)"
| "apply_other (Remove k) m = m(k := None)"

record server =
  sv_objects :: "object_key \<Rightarrow> uobj option"
  sv_others :: "other_op list list"
  sv_removed :: "(object_key \<times> uobj) list"

definition others_act :: "server \<Rightarrow> server" where
  "others_act sv = (case sv_others sv of
       [] \<Rightarrow> sv
     | ops # rest \<Rightarrow> sv\<lparr>sv_objects := fold apply_other ops (sv_objects sv), sv_others := rest\<rparr>)"

definition server_get :: "object_key \<Rightarrow> server \<Rightarrow> (go_error + uobj) \<times> server" where
  "server_get k sv0 = (let sv = others_act sv0 in
     (case sv_objects sv k of Some obj \<Rightarrow> Inr obj | None \<Rightarrow> Inl not_found, sv))"

definition server_delete :: "object_key \<Rightarrow> server \<Rightarrow> go_error option \<times> server" where
  "server_delete k sv0 = (let sv = others_act sv0 in
     case sv_objects sv k of
       None \<Rightarrow> (Some not_found, sv)
     | Some obj \<Rightarrow> (None, sv\<lparr>sv_objects := (sv_objects sv)(k := None), sv_removed := sv_removed sv @ [(k, obj)]\<rparr>))"

text \<open>A cluster with this server; every other service works on its own environment.\<close>

definition beside_server :: "('v \<Rightarrow> 'a \<times> 'v) \<Rightarrow> 'v \<times> server \<Rightarrow> 'a \<times> 'v \<times> server" where
  "beside_server f = (\<lambda>(v, sv). let (a, v') = f v in (a, v', sv))"

definition on_server :: "(server \<Rightarrow> 'a \<times> server) \<Rightarrow> 'v \<times> server \<Rightarrow> 'a \<times> 'v \<times> server" where
  "on_server f = (\<lambda>(v, sv). let (a, sv') = f sv in (a, v, sv'))"

definition shared_cluster :: "'v cluster \<Rightarrow> ('v \<times> server) cluster" where
  "shared_cluster cl = \<lparr>cl_now = beside_server (cl_now cl), cl_ctx = beside_server (cl_ctx cl),
     cl_sleep = (\<lambda>d. beside_server (cl_sleep cl d)), cl_wait = (\<lambda>l. beside_server (cl_wait cl l)),
     cl_get = (\<lambda>g ns n. on_server (server_get (g, ns, n))),
     cl_delete = (\<lambda>g ns n opts. on_server (server_delete (g, ns, n))),
     cl_list = (\<lambda>g ns. beside_server (cl_list cl g ns)),
     cl_mapper = map_option (\<lambda>m k. beside_server (m k)) (cl_mapper cl),
     cl_discovery = map_option (\<lambda>d gv. beside_server (d gv)) (cl_discovery cl),
     cl_store = (\<lambda>key. beside_server (cl_store cl key)), cl_sync = (\<lambda>key. beside_server (cl_sync cl key)),
     cl_get_policy = (\<lambda>ns n. beside_server (cl_get_policy cl ns n)),
     cl_list_policies = beside_server (cl_list_policies cl),
     cl_get_crd = (\<lambda>ns n. beside_server (cl_get_crd cl ns n)),
     cl_update_crd_status = (\<lambda>ns n obj. beside_server (cl_update_crd_status cl ns n obj)),
     cl_gv_string = cl_gv_string cl, cl_gvr_string = cl_gvr_string cl, cl_format_time = cl_format_time cl,
     cl_status_ctx = beside_server (cl_status_ctx cl), cl_parse_time = cl_parse_time cl,
     cl_selector = cl_selector cl\<rparr>"

abbreviation server_of :: "('v \<times> server) sys \<Rightarrow> server" where
  "server_of s \<equiv> snd (sy_env s)"

section \<open>The choke point\<close>

lemma removed_others [simp]: "sv_removed (others_act sv) = sv_removed sv"
  by (simp add: others_act_def split: list.split)

lemma choke_point_run:
  fixes cl :: "'v cluster"
  shows "let k = (g, u_namespace obj, u_name obj); sv = others_act (server_of s) in
     sv_removed (server_of (snd (run_state (perform_resource_deletion (shared_cluster cl) gate obj g opts b) s))) =
     sv_removed (server_of s) @
       (if (case gate of Some decide \<Rightarrow> fst (decide (Some obj) b) | None \<Rightarrow> True) \<and>
           map_option u_uid (sv_objects sv k) = Some (u_uid obj)
        then (case sv_objects (others_act sv) k of Some there \<Rightarrow> [(k, there)] | None \<Rightarrow> [])
        else [])"
  by (auto simp: perform_resource_deletion_def get_live_for_precondition_def api_get_def api_delete_def
      shared_cluster_def on_server_def server_get_def server_delete_def report_defs not_found_def Let_def
      case_prod_beta split: option.split sum.split)

section \<open>Names that keep their UIDs\<close>

text \<open>\<open>U\<close> is the UID each name has for good.  \<open>read_and_sent\<close>: the trace holds the read that returned the
  UID, the attempt counter and the DELETE, in a row.\<close>

definition op_keeps :: "(object_key \<Rightarrow> string) \<Rightarrow> other_op \<Rightarrow> bool" where
  "op_keeps U ev = (case ev of Put k obj \<Rightarrow> u_uid obj = U k | Remove k \<Rightarrow> True)"

definition names_keep :: "(object_key \<Rightarrow> string) \<Rightarrow> server \<Rightarrow> bool" where
  "names_keep U sv \<longleftrightarrow> (\<forall>k obj. sv_objects sv k = Some obj \<longrightarrow> u_uid obj = U k) \<and>
     list_all (list_all (op_keeps U)) (sv_others sv)"

definition read_and_sent :: "object_key \<Rightarrow> string \<Rightarrow> effect list \<Rightarrow> bool" where
  "read_and_sent k uid tr = (case k of (g, ns, n) \<Rightarrow> \<exists>pre opts post. tr = pre @ [Eff_Get g ns n (Some uid),
     Eff_Counter ''zen_cleaner_deletions_attempted_total'' [], Eff_Delete g ns n opts] @ post)"

definition removals_traced :: "server \<Rightarrow> effect list \<Rightarrow> bool" where
  "removals_traced sv tr \<longleftrightarrow> (\<forall>(k, obj) \<in> set (sv_removed sv). read_and_sent k (u_uid obj) tr)"

definition uids_kept :: "(object_key \<Rightarrow> string) \<Rightarrow> ('v \<times> server) sys \<Rightarrow> bool" where
  "uids_kept U s \<longleftrightarrow> names_keep U (server_of s) \<and> removals_traced (server_of s) (sy_trace s)"

lemma read_and_sent_append: "read_and_sent k uid tr \<Longrightarrow> read_and_sent k uid (tr @ es)"
proof -
  assume sent: "read_and_sent k uid tr"
  obtain g ns n where k: "k = (g, ns, n)" by (cases k)
  with sent obtain pre opts post where "tr = pre @ [Eff_Get g ns n (Some uid),
      Eff_Counter ''zen_cleaner_deletions_attempted_total'' [], Eff_Delete g ns n opts] @ post"
    unfolding read_and_sent_def by auto
  then have "tr @ es = pre @ [Eff_Get g ns n (Some uid),
      Eff_Counter ''zen_cleaner_deletions_attempted_total'' [], Eff_Delete g ns n opts] @ (post @ es)"
    by simp
  with k show "read_and_sent k uid (tr @ es)"
    unfolding read_and_sent_def by blast
qed

lemma removals_traced_append: "removals_traced sv tr \<Longrightarrow> removals_traced sv (tr @ es)"
  by (auto simp: removals_traced_def intro: read_and_sent_append)

lemma apply_ops_keep:
  "list_all (op_keeps U) ops \<Longrightarrow> (\<forall>k obj. m k = Some obj \<longrightarrow> u_uid obj = U k) \<Longrightarrow>
     fold apply_other ops m k = Some obj \<Longrightarrow> u_uid obj = U k"
proof (induction ops arbitrary: m)
  case (Cons ev ops)
  have "\<forall>k obj. apply_other ev m k = Some obj \<longrightarrow> u_uid obj = U k"
    using Cons.prems(1,2) by (cases ev) (auto simp: op_keeps_def split: if_splits)
  then show ?case using Cons.IH [of "apply_other ev m"] Cons.prems by simp
qed (cases k, simp)

lemma others_keep: "names_keep U sv \<Longrightarrow> names_keep U (others_act sv)"
proof (cases "sv_others sv")
  case (Cons ops rest)
  assume keep: "names_keep U sv"
  with Cons have "\<forall>k obj. fold apply_other ops (sv_objects sv) k = Some obj \<longrightarrow> u_uid obj = U k"
    using apply_ops_keep [of U ops "sv_objects sv"] unfolding names_keep_def by simp
  with Cons keep show ?thesis by (simp add: names_keep_def others_act_def)
qed (simp add: others_act_def)

lemma removals_others [simp]: "removals_traced (others_act sv) tr = removals_traced sv tr"
  by (simp add: removals_traced_def)

text \<open>The delicate step: the read and the DELETE, with others before each.\<close>

lemma run_server_get:
  "run_state (get_live_for_precondition (shared_cluster cl) obj g) s =
    (let k = (g, u_namespace obj, u_name obj); sv = others_act (server_of s) in
     (Inr (sv_objects sv k),
      s\<lparr>sy_env := (fst (sy_env s), sv),
        sy_trace := sy_trace s @ [Eff_Get g (u_namespace obj) (u_name obj) (map_option u_uid (sv_objects sv k))]\<rparr>))"
  by (auto simp: run_live shared_cluster_def on_server_def server_get_def not_found_def Let_def case_prod_beta
      split: option.split)

lemma run_server_delete:
  "run_state (api_delete (shared_cluster cl) g ns n opts) s =
    (let k = (g, ns, n); sv = others_act (server_of s) in
     (if sv_objects sv k = None then Some not_found else None,
      s\<lparr>sy_env := (fst (sy_env s), case sv_objects sv k of None \<Rightarrow> sv
           | Some obj \<Rightarrow> sv\<lparr>sv_objects := (sv_objects sv)(k := None), sv_removed := sv_removed sv @ [(k, obj)]\<rparr>),
        sy_trace := sy_trace s @ [Eff_Delete g ns n opts]\<rparr>))"
  by (auto simp: api_delete_def shared_cluster_def on_server_def server_delete_def Let_def case_prod_beta
      split: option.split)

lemma kept_read: "uids_kept U s \<Longrightarrow> uids_kept U (s\<lparr>sy_env := (v, others_act (server_of s)), sy_trace := sy_trace s @ es\<rparr>)"
  by (simp add: uids_kept_def others_keep removals_traced_append)

lemma kept_delete:
  fixes s :: "('v \<times> server) sys"
  defines "sv \<equiv> others_act (others_act (server_of s))"
  assumes "uids_kept U s" "sv_objects (others_act (server_of s)) (g, ns, n) = Some live"
  shows "uids_kept U (s\<lparr>sy_env := (v, case sv_objects sv (g, ns, n) of None \<Rightarrow> sv
        | Some obj \<Rightarrow> sv\<lparr>sv_objects := (sv_objects sv)((g, ns, n) := None), sv_removed := sv_removed sv @ [((g, ns, n), obj)]\<rparr>),
      sy_trace := sy_trace s @ [Eff_Get g ns n (Some (u_uid live)),
         Eff_Counter ''zen_cleaner_deletions_attempted_total'' [], Eff_Delete g ns n opts]\<rparr>)"
proof (cases "sv_objects sv (g, ns, n)")
  case None
  with assms(2) show ?thesis by (simp add: sv_def uids_kept_def others_keep removals_traced_append)
next
  case (Some obj)
  have keep: "names_keep U sv" "names_keep U (others_act (server_of s))"
    using assms(2) by (simp_all add: sv_def uids_kept_def others_keep)
  with Some assms(3) have "u_uid obj = u_uid live"
    unfolding names_keep_def by metis
  then have new: "read_and_sent (g, ns, n) (u_uid obj) (sy_trace s @ [Eff_Get g ns n (Some (u_uid live)),
         Eff_Counter ''zen_cleaner_deletions_attempted_total'' [], Eff_Delete g ns n opts])"
    by (auto simp: read_and_sent_def)
  have old: "removals_traced (server_of s) (sy_trace s @ es)" for es
    using assms(2) by (simp add: uids_kept_def removals_traced_append)
  have "removals_traced (sv\<lparr>sv_objects := m, sv_removed := sv_removed sv @ [((g, ns, n), obj)]\<rparr>)
      (sy_trace s @ [Eff_Get g ns n (Some (u_uid live)),
         Eff_Counter ''zen_cleaner_deletions_attempted_total'' [], Eff_Delete g ns n opts])" for m
    using new old unfolding removals_traced_def sv_def by auto
  moreover have "names_keep U (sv\<lparr>sv_objects := (sv_objects sv)((g, ns, n) := None), sv_removed := rs\<rparr>)" for rs
    using keep(1) by (auto simp: names_keep_def)
  ultimately show ?thesis using Some by (simp add: uids_kept_def)
qed

lemma kept_choke_point: "maintains (uids_kept U) (perform_resource_deletion (shared_cluster cl) (rc_decide r) obj g opts b)"
  unfolding maintains_def leads_def
proof (intro allI impI)
  fix s :: "('a \<times> server) sys"
  assume ok: "uids_kept U s"
  let ?k = "(g, u_namespace obj, u_name obj)"
  let ?run = "\<lambda>gate. snd (run_state (perform_resource_deletion (shared_cluster cl) gate obj g opts b) s)"
  note run = perform_resource_deletion_def run_server_get run_server_delete Let_def
  have "uids_kept U (?run None)"
  proof (cases "\<exists>live. sv_objects (others_act (server_of s)) ?k = Some live \<and> u_uid live = u_uid obj")
    case True
    then obtain live where "sv_objects (others_act (server_of s)) ?k = Some live" "u_uid live = u_uid obj" by blast
    with kept_delete [where v = "fst (sy_env s)" and opts = opts, OF ok this(1)] show ?thesis
      by (cases "sv_objects (others_act (others_act (server_of s))) ?k")
        (simp_all add: run report_defs not_found_def)
  next
    case False
    with kept_read [OF ok] show ?thesis
      by (auto simp: run report_defs split: option.split)
  qed
  moreover have "uids_kept U (?run (Some decide))" if "uids_kept U (?run None)" for decide
    using that ok
    by (auto simp: perform_resource_deletion_def Let_def case_prod_beta report_defs uids_kept_def removals_traced_append)
  ultimately show "uids_kept U (?run (rc_decide r))"
    by (cases "rc_decide r") simp_all
qed

lemma kept_beside: "maintains (uids_kept U) (ask (beside_server f))"
  by (auto simp: maintains_def leads_def uids_kept_def beside_server_def case_prod_beta)

lemma kept_get: "maintains (uids_kept U) (ask (on_server (server_get k)))"
  by (auto simp: maintains_def leads_def uids_kept_def on_server_def server_get_def case_prod_beta others_keep Let_def)

lemma kept_resolving: "maintains (uids_kept U) (resolve_gvr (shared_cluster cl) k)"
  by (rule maintains_resolve) (auto simp: shared_cluster_def kept_beside, simp add: uids_kept_def)

interpretation kept: store_invariant "uids_kept U" "shared_cluster cl" r for U cl r
  by unfold_locales
    (auto simp: shared_cluster_def kept_beside kept_get kept_resolving [unfolded shared_cluster_def]
       kept_choke_point [unfolded shared_cluster_def],
     auto simp: uids_kept_def removals_traced_append)

section \<open>A controller and others, over time\<close>

text \<open>The controller starts with empty maps on a server from which it has removed nothing; it reconciles,
  and the others make new plans, which keep the UIDs of names.\<close>

inductive interleaved ::
  "(object_key \<Rightarrow> string) \<Rightarrow> 'v cluster \<Rightarrow> (string \<Rightarrow> go_error + string \<times> string) \<Rightarrow> k8s_checks \<Rightarrow> (string \<Rightarrow> string)
     \<Rightarrow> crypto \<Rightarrow> reconciler \<Rightarrow> ('v \<times> server) sys \<Rightarrow> bool"
  for U cl pgv k hash cr r
where
  start: "fresh s \<Longrightarrow> names_keep U (server_of s) \<Longrightarrow> sv_removed (server_of s) = [] \<Longrightarrow>
     interleaved U cl pgv k hash cr r s"
| step: "interleaved U cl pgv k hash cr r s \<Longrightarrow>
     run_state (reconcile fuel (shared_cluster cl) pgv k hash cr r nn) s = (x, s') \<Longrightarrow>
     interleaved U cl pgv k hash cr r s'"
| others: "interleaved U cl pgv k hash cr r s \<Longrightarrow> list_all (list_all (op_keeps U)) ops \<Longrightarrow>
     interleaved U cl pgv k hash cr r (s\<lparr>sy_env := (v, (server_of s)\<lparr>sv_others := ops\<rparr>)\<rparr>)"

lemma interleaved_reachable: "interleaved U cl pgv k hash cr r s \<Longrightarrow> reachable (shared_cluster cl) pgv k hash cr r s"
  by (induction rule: interleaved.induct) (auto intro: reachable.intros)

lemma interleaved_kept: "interleaved U cl pgv k hash cr r s \<Longrightarrow> uids_kept U s"
proof (induction rule: interleaved.induct)
  case (step s fuel nn x s')
  with maintainsD [OF kept.reconciling, of U s fuel cl pgv k hash cr r nn] show ?case by simp
qed (auto simp: uids_kept_def removals_traced_def names_keep_def)

definition ex_shared :: "(bool \<times> server) sys" where
  "ex_shared = \<lparr>sy_env = (True, \<lparr>sv_objects = [(\<lparr>gvr_group = [], gvr_version = ''v1'', gvr_resource = ''configmaps''\<rparr>,
        ''apps'', ''cm'') \<mapsto> ex_obj], sv_others = [], sv_removed = []\<rparr>),
     sy_trace = [], sy_gvr_cache = [], sy_limiters = [], sy_policy_uids = [], sy_specs = [], sy_probes = [],
     sy_failures = [], sy_services = [], sy_informers = []\<rparr>"

section \<open>Properties\<close>



text \<open>C7. What the choke point removes from a server other actors write to, exactly: the gate decides on
  the snapshot alone, the read compares nothing but the UID, and the DELETE takes what is stored
  under the name by then; nothing else leaves the server by its hand.\<close>

theorem choke_point_removes:
  fixes cl :: "'v cluster"
  shows "let k = (g, u_namespace obj, u_name obj); sv = others_act (server_of s) in
     sv_removed (server_of (snd (run_state (perform_resource_deletion (shared_cluster cl) gate obj g opts b) s))) =
     sv_removed (server_of s) @
       (if (case gate of Some decide \<Rightarrow> fst (decide (Some obj) b) | None \<Rightarrow> True) \<and>
           map_option u_uid (sv_objects sv k) = Some (u_uid obj)
        then (case sv_objects (others_act sv) k of Some there \<Rightarrow> [(k, there)] | None \<Rightarrow> [])
        else [])"
  by (rule choke_point_run)

text \<open>So the last line of defence is not one.  An object that is protected after the snapshot was taken is
  removed although the gate, asked about the object that was just read, refuses it; and an object
  put in place of the one that was read is removed although its UID is another.\<close>

theorem stale_decisions_removed:
  "let protected = ex_obj\<lparr>u_labels := [(ExclusionLabelKey, ''true'')]\<rparr>; other = ex_obj\<lparr>u_uid := ''u-2''\<rparr>;
       k = (g, ''apps'', ''cm'');
       removed = (\<lambda>m ops. sv_removed (server_of (snd (run_state (perform_resource_deletion (shared_cluster ex_cluster)
         (rc_decide ex_reconciler) ex_obj g opts b)
         (ex_shared\<lparr>sy_env := (w, \<lparr>sv_objects = m, sv_others = ops, sv_removed = []\<rparr>)\<rparr>))))) in
   removed [k \<mapsto> protected] [] = [(k, protected)] \<and>
   \<not> (case rc_decide ex_reconciler of Some decide \<Rightarrow> fst (decide (Some protected) b) | None \<Rightarrow> True) \<and>
   removed [k \<mapsto> ex_obj] [[], [Put k other]] = [(k, other)] \<and> u_uid other \<noteq> u_uid ex_obj"
  by (simp add: choke_point_run [unfolded Let_def] Let_def others_act_def rc_decide_def ex_reconciler_def evaluate_object_def new_gate_def
      ex_obj_def excluded_by_label_or_annotation_def is_exclusion_entry_def protected_namespaces_def
      hard_protected_kinds_def workload_kinds_def)

end
