(* ===== verification/Progress.thy ===== *)
theory Progress
  imports Interleaving
begin

text \<open>
  The converse of safety: what is warranted and listed does get deleted.  On a server no other actor
  writes to, with a clock that stands still, a context that lives, tokens when they are asked for
  and a REST mapper that does not contradict itself, one reconcile removes every object it may.

  \<open>alone conf m s\<close>: nobody else acts, the server holds at most the objects of \<open>m\<close>, and the cache of the
  resolver agrees with \<open>conf\<close>.  \<open>clears conf k uid prog\<close>: if what \<open>m\<close> has under \<open>k\<close> has this UID, then after
  \<open>prog\<close> there is nothing under \<open>k\<close>.
\<close>

section \<open>A server alone with the controller\<close>

definition alone :: "(gvk \<Rightarrow> gvr) \<Rightarrow> (object_key \<Rightarrow> uobj option) \<Rightarrow> ('v \<times> server) sys \<Rightarrow> bool" where
  "alone conf m s \<longleftrightarrow> sv_others (server_of s) = [] \<and> (\<forall>k. sv_objects (server_of s) k \<in> {None, m k}) \<and>
     (\<forall>k g. map_of (sy_gvr_cache s) k = Some g \<longrightarrow> g = conf k)"

definition clears :: "(gvk \<Rightarrow> gvr) \<Rightarrow> object_key \<Rightarrow> string \<Rightarrow> ('v \<times> server, 'a) prog \<Rightarrow> bool" where
  "clears conf k uid prog \<longleftrightarrow> (\<forall>m. (\<forall>live. m k = Some live \<longrightarrow> u_uid live = uid) \<longrightarrow>
     leads (alone conf m) prog (\<lambda>a. alone conf (m(k := None))))"

lemma clears_bind_left:
  "clears conf k uid m \<Longrightarrow> (\<And>a m'. maintains (alone conf m') (f a)) \<Longrightarrow> clears conf k uid (State_Monad.bind m f)"
  unfolding clears_def maintains_def by (blast intro: leads_bind)

lemma clears_bind_right:
  assumes "\<And>m'. maintains (alone conf m') m" "\<And>s. Q (fst (run_state m s))" "\<And>a. Q a \<Longrightarrow> clears conf k uid (f a)"
  shows "clears conf k uid (State_Monad.bind m f)"
  unfolding clears_def
proof (intro allI impI)
  fix m' :: "object_key \<Rightarrow> uobj option"
  assume uid: "\<forall>live. m' k = Some live \<longrightarrow> u_uid live = uid"
  show "leads (alone conf m') (State_Monad.bind m f) (\<lambda>a. alone conf (m'(k := None)))"
  proof (rule leads_bind [where Q = "\<lambda>a s. Q a \<and> alone conf m' s"])
    show "leads (alone conf m') m (\<lambda>a s. Q a \<and> alone conf m' s)"
      using assms(1) [of m'] assms(2) by (simp add: maintains_def leads_def)
    show "leads (\<lambda>s. Q a \<and> alone conf m' s) (f a) (\<lambda>a. alone conf (m'(k := None)))" for a
      using assms(3) [of a] uid by (auto simp: clears_def leads_def)
  qed
qed

lemma clears_bind_leads:
  assumes "\<And>m'. leads (alone conf m') m (\<lambda>a s. Q a \<and> alone conf m' s)" "\<And>a. Q a \<Longrightarrow> clears conf k uid (f a)"
  shows "clears conf k uid (State_Monad.bind m f)"
  unfolding clears_def
proof (intro allI impI)
  fix m' :: "object_key \<Rightarrow> uobj option"
  assume uid: "\<forall>live. m' k = Some live \<longrightarrow> u_uid live = uid"
  show "leads (alone conf m') (State_Monad.bind m f) (\<lambda>a. alone conf (m'(k := None)))"
    by (rule leads_bind [OF assms(1)]) (use assms(2) uid in \<open>auto simp: clears_def leads_def\<close>)
qed

lemma others_none [simp]: "sv_others sv = [] \<Longrightarrow> others_act sv = sv"
  by (simp add: others_act_def)

lemma alone_beside: "maintains (alone conf m) (ask (beside_server f))"
  by (auto simp: maintains_def leads_def alone_def beside_server_def case_prod_beta)

lemma alone_get: "maintains (alone conf m) (ask (on_server (server_get k)))"
  by (auto simp: maintains_def leads_def alone_def on_server_def server_get_def case_prod_beta Let_def)

lemma alone_choke_point: "maintains (alone conf m) (perform_resource_deletion (shared_cluster cl) gate obj g opts b)"
  unfolding maintains_def leads_def
  by (auto simp: alone_def perform_resource_deletion_def run_server_get run_server_delete report_defs Let_def
      case_prod_beta split: option.split)

lemma choke_point_clears:
  assumes "case gate of Some decide \<Rightarrow> fst (decide (Some obj) b) | None \<Rightarrow> True"
  shows "clears conf (g, u_namespace obj, u_name obj) (u_uid obj)
     (perform_resource_deletion (shared_cluster cl) gate obj g opts b)"
proof -
  have gated: "perform_resource_deletion (shared_cluster cl) gate obj g opts b =
      perform_resource_deletion (shared_cluster cl) None obj g opts b"
    using assms by (auto simp: perform_resource_deletion_def Let_def case_prod_beta split: option.split)
  let ?k = "(g, u_namespace obj, u_name obj)"
  show ?thesis
    unfolding clears_def leads_def gated
  proof (intro allI impI)
    fix m and s :: "('a \<times> server) sys"
    assume uid: "\<forall>live. m ?k = Some live \<longrightarrow> u_uid live = u_uid obj" and ok: "alone conf m s"
    show "alone conf (m(?k := None)) (snd (run_state
        (perform_resource_deletion (shared_cluster cl) None obj g opts b) s))"
    proof (cases "sv_objects (server_of s) ?k")
      case None
      with ok show ?thesis
        by (simp add: alone_def perform_resource_deletion_def run_server_get report_defs Let_def)
    next
      case (Some live)
      have "sv_objects (server_of s) ?k \<in> {None, m ?k}"
        using ok unfolding alone_def by blast
      with Some uid have "u_uid live = u_uid obj" by simp
      with Some ok show ?thesis
        by (simp add: alone_def perform_resource_deletion_def run_server_get run_server_delete report_defs Let_def)
    qed
  qed
qed

section \<open>A calm cluster\<close>

text \<open>An object that is selected, allowed, meets the conditions and has expired.\<close>

definition due :: "'v cluster \<Rightarrow> gotime \<Rightarrow> reconciler \<Rightarrow> policy \<Rightarrow> uobj \<Rightarrow> bool" where
  "due cl now r p obj \<longleftrightarrow> matches_selectors (cl_selector cl) obj (p_target p) \<and> gate_allows r p obj \<and>
     (case ps_conditions (p_spec p) of Some cs \<Rightarrow> meets_conditions obj cs | None \<Rightarrow> True) \<and> expired_at cl p now now obj"

locale calm_cluster =
  fixes cl :: "'v cluster" and conf :: "gvk \<Rightarrow> gvr" and now :: gotime
  assumes clock: "fst (cl_now cl v) = now"
    and living: "fst (cl_ctx cl v) = None"
    and tokens: "fst (cl_wait cl l v) = None"
    and mapper: "cl_mapper cl = Some mp \<Longrightarrow>
        (case fst (mp k v) of Inr g \<Rightarrow> g = conf k | Inl e \<Rightarrow> conf k = resolve_with_pluralization k)"
    and no_mapper: "cl_mapper cl = None \<Longrightarrow> conf = resolve_with_pluralization"
begin

abbreviation scl :: "('v \<times> server) cluster" where
  "scl \<equiv> shared_cluster cl"

lemma calm: "fst (cl_now scl w) = now" "fst (cl_ctx scl w) = None" "fst (cl_wait scl l w) = None"
  using clock living tokens by (auto simp: shared_cluster_def beside_server_def case_prod_beta)

lemma resolved: "leads (alone conf m) (resolve_gvr scl k) (\<lambda>x s. x = Inr (conf k) \<and> alone conf m s)"
  unfolding leads_def
proof (intro allI impI)
  fix s :: "('v \<times> server) sys"
  assume ok: "alone conf m s"
  show "fst (run_state (resolve_gvr scl k) s) = Inr (conf k) \<and> alone conf m (snd (run_state (resolve_gvr scl k) s))"
  proof (cases "map_of (sy_gvr_cache s) k")
    case (Some g)
    with ok show ?thesis by (simp add: resolve_gvr_def alone_def)
  next
    case None
    show ?thesis
    proof (cases "cl_mapper cl")
      case None
      with \<open>map_of (sy_gvr_cache s) k = None\<close> ok no_mapper show ?thesis
        by (simp add: resolve_gvr_def shared_cluster_def)
    next
      case (Some mp)
      obtain x v where x: "mp k (fst (sy_env s)) = (x, v)" by fastforce
      with mapper [OF Some, of k "fst (sy_env s)"]
      have "case x of Inr g \<Rightarrow> g = conf k | Inl e \<Rightarrow> conf k = resolve_with_pluralization k" by simp
      with x Some \<open>map_of (sy_gvr_cache s) k = None\<close> ok show ?thesis
        by (cases x) (auto simp: resolve_gvr_def shared_cluster_def beside_server_def case_prod_beta alone_def
            update_conv')
    qed
  qed
qed

end

sublocale calm_cluster \<subseteq> settled: store_invariant "alone conf m" "shared_cluster cl" r for m r
proof
  show "maintains (alone conf m) (resolve_gvr (shared_cluster cl) k)" for k
    using resolved unfolding maintains_def by (rule leads_weaken) simp_all
  show "maintains (alone conf m) (perform_resource_deletion (shared_cluster cl) (rc_decide r) obj g opts b)" for obj g opts b
    by (rule alone_choke_point)
qed (auto simp: shared_cluster_def alone_beside alone_get, auto simp: alone_def)

section \<open>One deletion\<close>

context calm_cluster
begin

abbreviation key_of :: "uobj \<Rightarrow> object_key" where
  "key_of obj \<equiv> (conf (u_gvk obj), u_namespace obj, u_name obj)"

lemma polled: "clears conf k uid (f None) \<Longrightarrow> clears conf k uid (State_Monad.bind (ask (cl_ctx scl)) f)"
  by (rule clears_bind_right [where Q = "\<lambda>a. a = None"]) (simp_all add: calm settled.asks)

lemma waited: "clears conf k uid (f None) \<Longrightarrow> clears conf k uid (State_Monad.bind (limiter_wait scl l) f)"
  by (rule clears_bind_right [where Q = "\<lambda>a. a = None", OF settled.waiting])
    (simp_all add: limiter_wait_def calm case_prod_beta)

lemma delete_clears:
  assumes "rc_resolver r" "\<not> bh_dry_run (p_behavior p)" "gate_allows r p obj"
  shows "clears conf (key_of obj) (u_uid obj) (delete_resource scl r l p obj)"
proof -
  have found: "leads (alone conf m) (resolve_gvr_for_deletion scl True obj) (\<lambda>g s. g = conf (u_gvk obj) \<and> alone conf m s)" for m
    unfolding resolve_gvr_for_deletion_def Let_def if_True
    by (rule leads_bind [OF resolved]) (auto intro!: leads_return split: sum.split)
  have "clears conf (key_of obj) (u_uid obj) (State_Monad.bind (resolve_gvr_for_deletion scl True obj)
      (\<lambda>g. perform_resource_deletion scl (rc_decide r) obj g (build_delete_options p) (p_behavior p)))"
    by (rule clears_bind_leads [OF found])
      (use assms(3) in \<open>auto intro!: choke_point_clears simp: gate_allows_def rc_decide_def split: option.splits\<close>)
  with assms show ?thesis
    unfolding delete_resource_def by (intro waited) simp
qed

lemma backoff_clears:
  assumes "rc_resolver r" "\<not> bh_dry_run (p_behavior p)" "gate_allows r p obj"
  shows "clears conf (key_of obj) (u_uid obj) (delete_resource_with_backoff scl r l p obj)"
proof -
  have attempts: "\<not> is_exhausted (new_backoff default_backoff_config)"
    by (simp add: is_exhausted_def new_backoff_def default_backoff_config_def)
  show ?thesis
    unfolding delete_resource_with_backoff_def delete_with_backoff_shared_def
    by (subst retry_loop.simps, simp only: attempts if_False option.case, rule polled, unfold option.case,
        rule clears_bind_left [OF delete_clears [OF assms]])
      (auto intro!: settled.steps settled.retrying settled.deleting_one split: option.split)
qed

lemma item_clears:
  assumes "clears conf k uid (del obj)"
  shows "clears conf k uid (delete_batch_item scl b del p l reasons obj)"
  unfolding delete_batch_item_def
  by (rule waited, unfold option.case, rule clears_bind_left [OF assms])
    (auto intro!: settled.steps settled.reports split: option.split)

lemma batch_clears:
  assumes "clears conf k uid (del obj)" "\<And>o' m. maintains (alone conf m) (del o')" "obj \<in> set batch"
  shows "clears conf k uid (delete_batch_loop scl b del p l reasons i cnt errs batch)"
  using assms(3)
proof (induction batch arbitrary: i cnt errs)
  case (Cons x rest)
  have keep: "maintains (alone conf m) (delete_batch_loop scl b del p l reasons i cnt errs objs)" for m i cnt errs objs
    by (rule settled.batch_loop) (rule assms(2))
  have "clears conf k uid (State_Monad.bind (delete_batch_item scl b del p l reasons x) (\<lambda>item. case item of
           Item_Error e \<Rightarrow> delete_batch_loop scl b del p l reasons (Suc i) cnt (errs @ [e]) rest
         | Item_Dry_Run \<Rightarrow> delete_batch_loop scl b del p l reasons (Suc i) cnt errs rest
         | Item_Deleted \<Rightarrow> delete_batch_loop scl b del p l reasons (Suc i) (cnt + 1) errs rest))"
  proof (cases "obj \<in> set rest")
    case True
    show ?thesis
      by (rule clears_bind_right [where Q = "\<lambda>a. True", OF settled.batch_item [OF assms(2)]])
        (auto intro: Cons.IH True split: batch_item.split)
  next
    case False
    with Cons.prems have "x = obj" by simp
    then show ?thesis
      by (intro clears_bind_left item_clears) (auto intro: assms(1) keep split: batch_item.split)
  qed
  then show ?case
    by (cases "i mod 50 = 0") (auto intro!: polled)
qed simp

section \<open>The batches\<close>

lemma execution_clears:
  assumes "rc_resolver r" "\<not> bh_dry_run (p_behavior p)" "gate_allows r p obj" "obj \<in> set batch"
  shows "clears conf (key_of obj) (u_uid obj) (delete_batch scl hash r batch p l reasons)"
proof -
  have run: "clears conf (key_of obj) (u_uid obj) (run_batch scl r p l reasons batch)"
    unfolding run_batch_def delete_batch_shared_def
    by (rule batch_clears [OF backoff_clears]) (use assms settled.deleting_with_backoff in auto)
  have finish: "maintains (alone conf m) (finish_receipt scl hash r batch p t0 planned res)" for m t0 planned res
    unfolding finish_receipt_def by (intro settled.steps settled.reading_after)
  have "clears conf (key_of obj) (u_uid obj) (execute_with_receipt scl hash r batch p l reasons)"
    unfolding execute_with_receipt_def if_not_P [OF assms(2)]
    by (rule clears_bind_right [where Q = "\<lambda>a. True", OF settled.asks(1)], simp,
        rule clears_bind_right [where Q = "\<lambda>a. True", OF settled.reading_before], simp,
        rule clears_bind_left [OF run finish])
  then show ?thesis
    unfolding delete_batch_def
    by (rule clears_bind_left) (auto intro!: settled.steps settled.reports split: option.split)
qed

lemma chunks_keep:
  "(\<And>b. maintains (alone conf m) (del b)) \<Longrightarrow> maintains (alone conf m) (delete_chunks scl del recorder p cnt cs)"
  by (induction cs arbitrary: cnt)
    (auto intro!: settled.steps settled.reports settled.batch_errors split: option.split prod.split)

lemma chunks_clear:
  assumes "\<And>b. obj \<in> set b \<Longrightarrow> clears conf k uid (del b)" "\<And>b m. maintains (alone conf m) (del b)" "obj \<in> set (concat cs)"
  shows "clears conf k uid (delete_chunks scl del recorder p cnt cs)"
  using assms(3)
proof (induction cs arbitrary: cnt)
  case (Cons c cs)
  let ?rest = "\<lambda>(d, errs). State_Monad.bind
      (if length errs > 0 then record_error (p_namespace p) (p_name p) ''deletion_failed'' else State_Monad.return ())
      (\<lambda>u. State_Monad.bind (record_batch_errors recorder errs) (\<lambda>u. delete_chunks scl del recorder p (cnt + d) cs))"
  have one: "clears conf k uid (State_Monad.bind (del c) ?rest)"
  proof (cases "obj \<in> set c")
    case True
    then show ?thesis
      by (intro clears_bind_left [OF assms(1)])
        (auto intro!: settled.steps settled.reports settled.batch_errors chunks_keep assms(2) split: prod.split)
  next
    case False
    then have later: "clears conf k uid (delete_chunks scl del recorder p cnt' cs)" for cnt'
      using Cons by simp
    have reporting: "maintains (alone conf m :: ('v \<times> server) sys \<Rightarrow> bool) (if length errs > 0 then record_error (p_namespace p) (p_name p) ''deletion_failed''
        else State_Monad.return ())" for m and errs :: "go_error list"
      by (auto intro!: settled.steps settled.reports)
    have "clears conf k uid (?rest x)" for x
      by (cases x, simp only: prod.case, rule clears_bind_right [where Q = "\<lambda>a. True", OF reporting], simp,
          rule clears_bind_right [where Q = "\<lambda>a. True", OF settled.batch_errors], simp, rule later)
    then show ?thesis
      by (intro clears_bind_right [where Q = "\<lambda>a. True", OF assms(2)]) simp_all
  qed
  show ?case
    unfolding delete_chunks.simps by (rule polled, unfold option.case, rule one)
qed simp

lemma batches_clear:
  assumes "rc_resolver r" "\<not> bh_dry_run (p_behavior p)" "gate_allows r p obj" "obj \<in> set objs"
    "0 < resolve_batch_size p (rc_config r)" "length objs < fuel"
  shows "clears conf (key_of obj) (u_uid obj)
     (delete_resources_in_batches fuel scl (reconciler_service scl hash r key) p objs reasons)"
proof -
  let ?svc = "reconciler_service scl hash r key"
  have loop: "clears conf (key_of obj) (u_uid obj) (delete_loop fuel scl (\<lambda>batch. es_delete_batch ?svc batch p l reasons)
      (es_recorder ?svc) p (resolve_batch_size p (es_config ?svc)) 0 0 objs)" for l
  proof (subst delete_loop_chunks)
    show "clears conf (key_of obj) (u_uid obj) (delete_chunks scl (\<lambda>batch. es_delete_batch ?svc batch p l reasons)
        (es_recorder ?svc) p 0 (chunks (nat (resolve_batch_size p (es_config ?svc))) (drop (nat 0) objs)))"
      by (rule chunks_clear)
        (use assms execution_clears settled.batching in \<open>auto simp: reconciler_service_def concat_chunks\<close>)
  qed (use assms in \<open>simp_all add: reconciler_service_def\<close>)
  have limiter: "clears conf (key_of obj) (u_uid obj) (State_Monad.bind (es_limiter ?svc p) (\<lambda>ol. case ol of
           None \<Rightarrow> State_Monad.return (Returned 0)
         | Some l \<Rightarrow> delete_loop fuel scl (\<lambda>batch. es_delete_batch ?svc batch p l reasons)
             (es_recorder ?svc) p (resolve_batch_size p (es_config ?svc)) 0 0 objs))"
    by (rule clears_bind_right [where Q = "\<lambda>ol. ol \<noteq> None"])
      (auto simp: reconciler_service_def case_prod_beta intro!: settled.steps settled.throttling
        loop [unfolded reconciler_service_def, simplified])
  show ?thesis
    unfolding delete_resources_in_batches_def by (rule polled, unfold option.case, rule limiter)
qed

section \<open>An evaluation\<close>

lemma clears_run: "clears conf k uid m \<Longrightarrow> (\<And>a m'. maintains (alone conf m') (f a)) \<Longrightarrow> clears conf k uid (bind_run m f)"
  unfolding bind_run_def by (rule clears_bind_left) (auto intro!: settled.steps split: run.split)

lemma due_planned:
  assumes "due cl now r p obj" "obj \<in> set objs"
  shows "obj \<in> set (pl_delete (fst (run_state (evaluate_resources scl (reconciler_service scl hash r key) p objs) s)))"
    "length (pl_delete (fst (run_state (evaluate_resources scl (reconciler_service scl hash r key) p objs) s))) \<le> length objs"
proof -
  let ?svc = "reconciler_service scl hash r key"
  have "pl_delete (fst (run_state (evaluate_resources scl ?svc p objs) s)) = filter (expired_now scl ?svc p now) objs"
    using service_plan.loop_fold [OF calm(1,2)] fold_plan_steps [of scl ?svc p now empty_plan objs]
    by (simp add: evaluate_resources_def case_prod_beta calm Let_def empty_plan_def)
  moreover have "expired_now scl ?svc p now obj"
    using assms(1)
    by (auto simp: due_def expired_now_def candidate_def gate_passes_def conditions_met_def reconciler_service_def
        gate_allows_def rc_decide_def expired_at_def shared_cluster_def split: option.splits)
  ultimately show "obj \<in> set (pl_delete (fst (run_state (evaluate_resources scl ?svc p objs) s)))"
    "length (pl_delete (fst (run_state (evaluate_resources scl ?svc p objs) s))) \<le> length objs"
    using assms(2) by simp_all
qed

lemma planned_execution_clears:
  assumes "rc_resolver r" "\<not> bh_dry_run (p_behavior p)" "0 < resolve_batch_size p (rc_config r)"
    and "due cl now r p obj" "obj \<in> set objs" "length objs < fuel"
    and svc: "svc = reconciler_service scl hash r key"
  shows "clears conf (key_of obj) (u_uid obj) (State_Monad.bind (evaluate_resources scl svc p objs) (\<lambda>pl.
      bind_run (if length (pl_delete pl) > 0
                 then delete_resources_in_batches fuel scl svc p (pl_delete pl) (pl_reasons pl)
                 else State_Monad.return (Returned 0))
               (\<lambda>deleted. finish_evaluation scl (es_status svc) (es_recorder svc) p (pl_matched pl)
                  deleted (pl_pending pl) (pl_refusals pl))))"
proof (rule clears_bind_right [where Q = "\<lambda>pl. obj \<in> set (pl_delete pl) \<and> length (pl_delete pl) < fuel"])
  show "maintains (alone conf m) (evaluate_resources scl svc p objs)" for m
    unfolding evaluate_resources_def svc
    by (auto intro!: settled.steps settled.planning_loop settled.planning_one split: option.split
        simp: reconciler_service_def rc_decide_def refusal_known)
next
  fix s :: "('v \<times> server) sys"
  show "obj \<in> set (pl_delete (fst (run_state (evaluate_resources scl svc p objs) s))) \<and>
      length (pl_delete (fst (run_state (evaluate_resources scl svc p objs) s))) < fuel"
    unfolding svc using due_planned [OF assms(4,5), of hash key s] assms(6) by simp
next
  fix pl assume pl: "obj \<in> set (pl_delete pl) \<and> length (pl_delete pl) < fuel"
  then have "length (pl_delete pl) > 0" by (cases "pl_delete pl") auto
  with pl show "clears conf (key_of obj) (u_uid obj) (bind_run (if length (pl_delete pl) > 0
               then delete_resources_in_batches fuel scl svc p (pl_delete pl) (pl_reasons pl)
               else State_Monad.return (Returned 0))
             (\<lambda>deleted. finish_evaluation scl (es_status svc) (es_recorder svc) p (pl_matched pl)
                deleted (pl_pending pl) (pl_refusals pl)))"
    by (simp only: if_True svc, intro clears_run settled.finishing batches_clear)
      (use assms(1-4) in \<open>auto simp: due_def\<close>)
qed

lemma evaluation_clears:
  assumes "rc_resolver r" "\<not> bh_dry_run (p_behavior p)" "0 < resolve_batch_size p (rc_config r)"
    and "due cl now r p obj" "obj \<in> set items" "\<And>v. fst (cl_store cl key v) = items" "length items < fuel"
    and "parse_gvr pgv (tr_api_version (p_target p)) (tr_kind (p_target p)) = Inr g"
  shows "clears conf (key_of obj) (u_uid obj) (evaluate_policy fuel scl pgv (reconciler_service scl hash r key) p)"
proof -
  let ?svc = "reconciler_service scl hash r key"
  let ?ns = "if tr_namespace (p_target p) = [] then ''*'' else tr_namespace (p_target p)"
  let ?objs = "store_filter ?ns items"
  have listed: "obj \<in> set ?objs" "length ?objs < fuel"
    using assms(4,5) le_less_trans [OF length_filter_le assms(7)]
    by (auto simp: store_filter_eq due_def matches_selectors_def Let_def split: if_splits)
  note executed = planned_execution_clears [OF assms(1-4) listed refl]
  have store: "fst (run_state (list_from_store scl key g ns) s) = Inr (store_filter ns items)" for ns s
    by (simp add: list_from_store_def shared_cluster_def beside_server_def case_prod_beta assms(6))
  show ?thesis
    unfolding evaluate_policy_def assms(8) sum.case Let_def
  proof (rule clears_bind_right [where Q = "\<lambda>x. x = Inr ?objs"])
    show "maintains (alone conf m) (es_list ?svc g ?ns)" for m
      by (auto simp: reconciler_service_def list_from_store_def intro!: settled.steps)
    show "fst (run_state (es_list ?svc g ?ns) s) = Inr ?objs" for s
      by (simp add: reconciler_service_def store)
  qed (use executed in simp)
qed

section \<open>A reconcile\<close>

text \<open>With the service of the target in the cache, from the previous reconcile of a policy on it.\<close>

abbreviation ready :: "policy \<Rightarrow> string \<Rightarrow> (object_key \<Rightarrow> uobj option) \<Rightarrow> ('v \<times> server) sys \<Rightarrow> bool" where
  "ready p key m s \<equiv> alone conf m s \<and> map_of (sy_services s) (evaluation_service_key p) = Some key"

lemma ready_keeps:
  assumes "maintains (alone conf m) prog"
    "maintains (observing (\<lambda>i v. map_of v (evaluation_service_key p) = Some key)) prog"
  shows "leads (ready p key m) prog (\<lambda>a. ready p key m)"
  using assms by (auto simp: maintains_def leads_def)

lemma admitted_clears:
  assumes "rc_resolver r" "\<not> bh_dry_run (p_behavior p)" "0 < resolve_batch_size p (rc_config r)"
    and "due cl now r p obj" "obj \<in> set items" "\<And>v. fst (cl_store cl key v) = items" "length items < fuel"
    and "parse_gvr pgv (tr_api_version (p_target p)) (tr_kind (p_target p)) = Inr g" "\<not> ps_paused (p_spec p)"
    and "\<And>live. m (key_of obj) = Some live \<Longrightarrow> u_uid live = u_uid obj"
  shows "leads (ready p key m) (reconcile_admitted fuel scl pgv hash r nn p) (\<lambda>a. alone conf (m(key_of obj := None)))"
proof -
  let ?after = "\<lambda>oe. case oe of
         Some e \<Rightarrow> do {
           record_reconcile_outcome ''error'';
           record_api_error e;
           out \<leftarrow> handle_evaluation_error e p;
           State_Monad.return (Returned out)
         }
       | None \<Rightarrow> do {
           record_policy_phase_metrics scl;
           record_reconcile_outcome ''success'';
           State_Monad.return (Returned (get_requeue_interval_for_policy r p, None))
         }"
  have after: "maintains (alone conf m') (?after oe)" for m' oe
    unfolding handle_evaluation_error_def target_failure_count_def
    by (auto intro!: settled.steps settled.reports settled.phases split: option.split)
  have "leads (ready p key m) (evaluate_policy_of fuel scl pgv hash r p) (\<lambda>a. alone conf (m(key_of obj := None)))"
    using evaluation_clears [OF assms(1-8), of hash, unfolded clears_def, rule_format, OF assms(10)]
    by (auto simp: leads_def evaluate_policy_of_def get_or_create_evaluation_service_def bind_run_def Let_def)
  then have evaluated: "leads (ready p key m) (bind_run (evaluate_policy_of fuel scl pgv hash r p) ?after)
      (\<lambda>a. alone conf (m(key_of obj := None)))"
    unfolding bind_run_def
    by (rule leads_bind)
      (auto intro!: after [unfolded maintains_def] leads_return split: run.split)
  have tracked: "leads (ready p key m) (track_policy_uid nn (p_uid p)) (\<lambda>a. ready p key m)"
    "leads (ready p key m) (handle_informer_recreation p) (\<lambda>a. ready p key m)"
    "leads (ready p key m) (track_policy_spec (p_uid p) (p_spec p)) (\<lambda>a. ready p key m)"
    by (auto simp: leads_def track_policy_uid_def handle_informer_recreation_def should_recreate_informer_def
        cleanup_resource_informer_def track_policy_spec_def alone_def case_prod_beta)
  show ?thesis
    unfolding reconcile_admitted_def if_not_P [OF assms(9)]
    by (rule leads_bind [OF tracked(1)], rule leads_bind [OF tracked(2)], rule leads_bind [OF tracked(3)], rule evaluated)
qed

lemma reconcile_clears:
  assumes "rc_resolver r" "\<not> bh_dry_run (p_behavior p)" "0 < resolve_batch_size p (rc_config r)"
    and "due cl now r p obj" "obj \<in> set items" "\<And>v. fst (cl_store cl key v) = items" "length items < fuel"
    and "parse_gvr pgv (tr_api_version (p_target p)) (tr_kind (p_target p)) = Inr g"
    and "executable k cr r p" "\<And>v. fst (cl_get_policy cl (fst nn) (snd nn) v) = Inr p"
    and "\<And>live. m (key_of obj) = Some live \<Longrightarrow> u_uid live = u_uid obj"
  shows "leads (ready p key m) (reconcile fuel scl pgv k hash cr r nn) (\<lambda>a. alone conf (m(key_of obj := None)))"
proof -
  note admit = assms(9) [unfolded executable_def admitted_def]
  have admitted: "leads (ready p key m) (reconcile_admitted fuel scl pgv hash r nn p) (\<lambda>a. alone conf (m(key_of obj := None)))"
    by (rule admitted_clears [OF assms(1-8)]) (use admit assms(11) in auto)
  have receipts: "leads (ready p key m) (if \<not> rc_status r then State_Monad.return ()
       else if b then update_condition_receipt scl r p ''PolicyDrifted'' ''DeclaredDigestMismatch'' d False
       else update_condition_receipt scl r p ''PolicyDrifted'' ''InSync'' d False) (\<lambda>a. ready p key m)" for b d
    by (rule ready_keeps)
      (auto intro!: settled.steps settled.receipts observing.receipts maintains_rules)
  have integrity: "leads (ready p key m) (reconcile_integrity fuel scl pgv hash cr r nn p)
      (\<lambda>a. alone conf (m(key_of obj := None)))"
  proof (cases "rc_integrity r")
    case None
    with admitted show ?thesis by (simp add: reconcile_integrity_def)
  next
    case (Some ik)
    with admit have "\<not> iv_refuses (check_integrity cr (Some ik) p)" by simp
    then show ?thesis
      unfolding reconcile_integrity_def Some option.case Let_def
      by (simp only: if_False) (rule leads_bind [OF receipts admitted])
  qed
  have valid: "(case rc_gate r of Some g \<Rightarrow> runtime_invalid k g p | None \<Rightarrow> None) = None"
    using admit by (simp add: runtime_invalid_None split: option.splits)
  have get: "leads (ready p key m) (ask (cl_get_policy scl (fst nn) (snd nn))) (\<lambda>x s. x = Inr p \<and> ready p key m s)"
    by (auto simp: leads_def shared_cluster_def beside_server_def case_prod_beta assms(10) alone_def)
  show ?thesis
    unfolding reconcile_def
    by (rule leads_bind [OF get]) (use integrity valid in \<open>auto simp: leads_def\<close>)
qed

end

section \<open>Properties\<close>

text \<open>The model's cluster with a clock that stands still, a context that lives, tokens for everybody and no
  mapper is calm.\<close>

definition steady_cluster :: "gotime \<Rightarrow> 'v cluster \<Rightarrow> 'v cluster" where
  "steady_cluster now cl = cl\<lparr>cl_now := (\<lambda>v. (now, v)), cl_ctx := (\<lambda>v. (None, v)), cl_wait := (\<lambda>l v. (None, v)),
     cl_mapper := None\<rparr>"

interpretation steady: calm_cluster "steady_cluster now cl" resolve_with_pluralization now for now cl
  by unfold_locales (simp_all add: steady_cluster_def)

text \<open>C5. Progress, the converse of safety: in a calm cluster, on a server nobody else writes to, one
  reconcile of a policy that may run, whose target's service is cached, removes every object of
  the informer's listing that is due, unless the server holds another object under its name; the
  fuel it takes is one more than the listing is long.\<close>

theorem due_objects_removed:
  assumes "calm_cluster cl conf now"
    and "rc_resolver r" "0 < resolve_batch_size p (rc_config r)"
    and "executable k cr r p" "\<not> bh_dry_run (p_behavior p)"
    and "parse_gvr pgv (tr_api_version (p_target p)) (tr_kind (p_target p)) = Inr g"
    and "\<And>v. fst (cl_get_policy cl (fst nn) (snd nn) v) = Inr p"
    and "\<And>v. fst (cl_store cl key v) = items" "length items < fuel"
    and "map_of (sy_services s) (evaluation_service_key p) = Some key"
    and "\<And>k g. map_of (sy_gvr_cache s) k = Some g \<Longrightarrow> g = conf k" "sv_others (server_of s) = []"
  shows "\<forall>obj \<in> set items. due cl now r p obj \<and>
      (\<forall>live. sv_objects (server_of s) (conf (u_gvk obj), u_namespace obj, u_name obj) = Some live \<longrightarrow> u_uid live = u_uid obj) \<longrightarrow>
    sv_objects (server_of (snd (run_state (reconcile fuel (shared_cluster cl) pgv k hash cr r nn) s)))
      (conf (u_gvk obj), u_namespace obj, u_name obj) = None"
proof (intro ballI impI)
  fix obj
  assume obj: "obj \<in> set items" and due: "due cl now r p obj \<and>
      (\<forall>live. sv_objects (server_of s) (conf (u_gvk obj), u_namespace obj, u_name obj) = Some live \<longrightarrow> u_uid live = u_uid obj)"
  have start: "alone conf (sv_objects (server_of s)) s"
    using assms(11,12) by (simp add: alone_def)
  have "leads (\<lambda>s'. alone conf (sv_objects (server_of s)) s' \<and> map_of (sy_services s') (evaluation_service_key p) = Some key)
      (reconcile fuel (shared_cluster cl) pgv k hash cr r nn)
      (\<lambda>a. alone conf ((sv_objects (server_of s))((conf (u_gvk obj), u_namespace obj, u_name obj) := None)))"
    by (rule calm_cluster.reconcile_clears [OF assms(1,2,5,3) _ obj assms(8,9,6,4,7)]) (use due in auto)
  with start assms(10) have "alone conf ((sv_objects (server_of s))((conf (u_gvk obj), u_namespace obj, u_name obj) := None))
      (snd (run_state (reconcile fuel (shared_cluster cl) pgv k hash cr r nn) s))"
    unfolding leads_def by blast
  then show "sv_objects (server_of (snd (run_state (reconcile fuel (shared_cluster cl) pgv k hash cr r nn) s)))
      (conf (u_gvk obj), u_namespace obj, u_name obj) = None"
    unfolding alone_def by (metis fun_upd_same insert_iff singletonD)
qed

definition ex_calm :: "bool cluster" where
  "ex_calm = steady_cluster 1000000000000 (ex_cluster\<lparr>cl_store := (\<lambda>key v. ([ex_obj], v))\<rparr>)"

definition ex_ready :: "(bool \<times> server) sys" where
  "ex_ready = ex_shared\<lparr>sy_services := [(evaluation_service_key ex_policy, ''k'')]\<rparr>"

lemma ex_executable: "executable ex_checks ex_crypto ex_reconciler ex_policy"
  by code_simp

lemma ex_due: "due ex_calm 1000000000000 ex_reconciler ex_policy ex_obj"
  by code_simp

lemma ex_parsed: "parse_gvr ex_pgv (tr_api_version (p_target ex_policy)) (tr_kind (p_target ex_policy)) =
    Inr \<lparr>gvr_group = [], gvr_version = ''v1'', gvr_resource = ''configmaps''\<rparr>"
  by code_simp

lemma ex_resolved: "resolve_with_pluralization (u_gvk ex_obj) =
    \<lparr>gvr_group = [], gvr_version = ''v1'', gvr_resource = ''configmaps''\<rparr>"
  by code_simp

theorem due_objects_removed_witness:
  "let k = (\<lparr>gvr_group = [], gvr_version = ''v1'', gvr_resource = ''configmaps''\<rparr>, ''apps'', ''cm'') in
   sv_objects (server_of ex_ready) k = Some ex_obj \<and>
   sv_objects (server_of (snd (run_state (reconcile 2 (shared_cluster ex_calm) ex_pgv ex_checks id ex_crypto
     ex_reconciler (''ops'', ''sweep'')) ex_ready))) k = None"
proof -
  have calm: "calm_cluster ex_calm resolve_with_pluralization 1000000000000"
    unfolding ex_calm_def by (rule steady.calm_cluster_axioms)
  have names: "u_namespace ex_obj = ''apps''" "u_name ex_obj = ''cm''" by (simp_all add: ex_obj_def)
  have "\<forall>obj \<in> set [ex_obj]. due ex_calm 1000000000000 ex_reconciler ex_policy obj \<and>
      (\<forall>live. sv_objects (server_of ex_ready) (resolve_with_pluralization (u_gvk obj), u_namespace obj, u_name obj) = Some live \<longrightarrow>
        u_uid live = u_uid obj) \<longrightarrow>
    sv_objects (server_of (snd (run_state (reconcile 2 (shared_cluster ex_calm) ex_pgv ex_checks id ex_crypto
      ex_reconciler (''ops'', ''sweep'')) ex_ready))) (resolve_with_pluralization (u_gvk obj), u_namespace obj, u_name obj) = None"
    by (rule due_objects_removed [OF calm _ _ ex_executable _ ex_parsed, where key = "''k''"])
      (simp_all add: ex_reconciler_def resolve_batch_size_def new_controller_config_def ex_policy_def ex_spec_def
        ex_behavior_def ex_calm_def steady_cluster_def ex_cluster_def ex_ready_def ex_shared_def)
  then show ?thesis
    by (simp add: ex_due ex_resolved names Let_def) (simp add: ex_ready_def ex_shared_def)
qed

end
