(* ===== verification/Replica.thy ===== *)
theory Replica
  imports World
begin

text \<open>
  A replica of the controller: health checks (\<open>internal/health/health.go\<close>,
  \<open>pkg/controller/health.go\<close>), leadership (\<open>pkg/controller/leadership.go\<close>), the wiring of
  leader election (\<open>internal/election/election.go\<close>), and of \<open>cmd/zen-cleaner/main.go\<close> the
  precedence of flags, the callbacks of the election and the health endpoints.

  The election itself is client-go: an \<open>election_event\<close> is a call it makes, of a callback or
  of the observed lock with the lock operation's error.  The checks ignore their request.
  An informer is its \<open>HasSynced\<close> function: nil, or the answer it gives.  Servers, sockets and
  log lines are not modelled.
\<close>

section \<open>Health checks\<close>

definition ErrNotInitialized :: go_error where
  "ErrNotInitialized = Sentinel ''ErrNotInitialized'' ''component not initialized''"
definition ErrNotReady :: go_error where
  "ErrNotReady = Sentinel ''ErrNotReady'' ''component not ready''"

type_synonym informers = "(string, bool option) gomap"

definition informer_getter_unset :: go_error where
  "informer_getter_unset = Errorf [] ErrNotInitialized '': informer getter not set''"

fun unsynced_count :: "informers \<Rightarrow> nat" where
  "unsynced_count [] = 0"
| "unsynced_count ((name, synced) # rest) =
     (case synced of None \<Rightarrow> unsynced_count rest
      | Some b \<Rightarrow> if \<not> b then unsynced_count rest + 1 else unsynced_count rest)"

text \<open>The getter of the informers may be nil.\<close>

definition informer_readiness :: "informers option \<Rightarrow> go_error option" where
  "informer_readiness getter = (case getter of
       None \<Rightarrow> Some informer_getter_unset
     | Some infs \<Rightarrow>
        if infs = [] then None
        else (let n = unsynced_count infs in
          if n > 0 then Some (Errorf [] ErrNotReady ('': '' @ show_nat n @ '' informers still syncing''))
          else None))"

fun all_synced :: "informers \<Rightarrow> bool" where
  "all_synced [] = True"
| "all_synced ((name, synced) # rest) =
     (case synced of Some b \<Rightarrow> if \<not> b then False else all_synced rest | None \<Rightarrow> all_synced rest)"

definition informer_liveness :: "informers option \<Rightarrow> go_error option" where
  "informer_liveness getter = (case getter of
       None \<Rightarrow> Some informer_getter_unset
     | Some infs \<Rightarrow>
        if infs = [] then None
        else if \<not> all_synced infs then None
        else None)"

definition informer_startup :: "informers option \<Rightarrow> go_error option" where
  "informer_startup getter = (case getter of None \<Rightarrow> Some informer_getter_unset | Some infs \<Rightarrow> None)"

text \<open>\<open>ActivityChecker\<close>: the time of the last activity (the getter may be nil) and the limit.\<close>

record activity_checker =
  ac_last :: "gotime option"
  ac_max :: duration

definition activity_readiness :: "activity_checker \<Rightarrow> gotime \<Rightarrow> go_error option" where
  "activity_readiness c now = (case ac_last c of
       None \<Rightarrow> Some (Errorf [] ErrNotInitialized '': activity getter not set'')
     | Some last_time \<Rightarrow>
        if is_zero_time last_time then None
        else (let since = time_sub now last_time in
          if sint since > sint (ac_max c)
          then Some (Errorf [] ErrNotReady ('': no activity for '' @ duration_string since
                 @ '' (max: '' @ duration_string (ac_max c) @ '')''))
          else None))"

definition activity_liveness :: "activity_checker \<Rightarrow> gotime \<Rightarrow> go_error option" where
  "activity_liveness c now = (case ac_last c of
       None \<Rightarrow> Some (Errorf [] ErrNotInitialized '': activity getter not set'')
     | Some last_time \<Rightarrow>
        if is_zero_time last_time then None
        else (let since = time_sub now last_time in
          if sint since > sint (ac_max c)
          then Some (Errorf [] ErrNotReady ('': no activity for '' @ duration_string since
                 @ '' (max: '' @ duration_string (ac_max c) @ '')''))
          else None))"

definition activity_startup :: "activity_checker \<Rightarrow> go_error option" where
  "activity_startup c = (case ac_last c of
       None \<Rightarrow> Some (Errorf [] ErrNotInitialized '': activity getter not set'') | Some t \<Rightarrow> None)"

text \<open>A \<open>Checker\<close>: the answers of its three checks; and the composite of several.\<close>

record checker =
  ck_readiness :: "go_error option"
  ck_liveness :: "go_error option"
  ck_startup :: "go_error option"

fun first_failure :: "go_error option list \<Rightarrow> go_error option" where
  "first_failure [] = None"
| "first_failure (c # cs) = (case c of Some e \<Rightarrow> Some e | None \<Rightarrow> first_failure cs)"

definition composite :: "checker list \<Rightarrow> checker" where
  "composite cs = \<lparr>ck_readiness = first_failure (map ck_readiness cs),
     ck_liveness = first_failure (map ck_liveness cs),
     ck_startup = first_failure (map ck_startup cs)\<rparr>"

definition add_checker :: "checker \<Rightarrow> checker list \<Rightarrow> checker list" where
  "add_checker c cs = cs @ [c]"

section \<open>Leadership\<close>

record leader_state =
  ls_leading :: bool
  ls_api_reachable :: bool
  ls_started_at :: gotime
  ls_grace :: duration

definition new_leader_state :: "gotime \<Rightarrow> duration \<Rightarrow> leader_state" where
  "new_leader_state now grace =
     \<lparr>ls_leading = False, ls_api_reachable = True, ls_started_at = now, ls_grace = grace\<rparr>"

definition set_leading :: "bool \<Rightarrow> leader_state \<Rightarrow> leader_state" where
  "set_leading v l = l\<lparr>ls_leading := v\<rparr>"

definition set_api_reachable :: "bool \<Rightarrow> leader_state \<Rightarrow> leader_state" where
  "set_api_reachable v l = l\<lparr>ls_api_reachable := v\<rparr>"

definition in_startup_grace :: "leader_state \<Rightarrow> gotime \<Rightarrow> bool" where
  "in_startup_grace l now \<longleftrightarrow> sint (time_sub now (ls_started_at l)) < sint (ls_grace l)"

text \<open>The health checker of a reconciler: the leader state it was given (nil is \<open>None\<close>), the
  informers of the reconciler (a nil informer is \<open>None\<close>), the last evaluation and the limit.
  The checker of the informers is given those that are not nil.\<close>

record health_checker =
  hc_leader :: "leader_state option"
  hc_informers :: informers
  hc_last_evaluation :: gotime
  hc_max :: duration

definition new_health_checker :: "informers \<Rightarrow> health_checker" where
  "new_health_checker infs = \<lparr>hc_leader = None, hc_informers = infs,
     hc_last_evaluation = zero_time, hc_max = 5 * Minute\<rparr>"

definition checker_informers :: "informers \<Rightarrow> informers" where
  "checker_informers infs = filter (\<lambda>(uid, informer). informer \<noteq> None) infs"

definition set_max_time :: "duration \<Rightarrow> health_checker \<Rightarrow> health_checker" where
  "set_max_time d h = h\<lparr>hc_max := d\<rparr>"

definition set_leader_state :: "leader_state option \<Rightarrow> health_checker \<Rightarrow> health_checker" where
  "set_leader_state l h = h\<lparr>hc_leader := l\<rparr>"

definition update_last_evaluation :: "gotime \<Rightarrow> health_checker \<Rightarrow> health_checker" where
  "update_last_evaluation now h = h\<lparr>hc_last_evaluation := now\<rparr>"

definition standby :: "leader_state option \<Rightarrow> bool" where
  "standby l \<longleftrightarrow> (case l of Some ls \<Rightarrow> \<not> ls_leading ls | None \<Rightarrow> False)"

definition readiness_check :: "health_checker \<Rightarrow> go_error option" where
  "readiness_check h = (if standby (hc_leader h) then None
     else informer_readiness (Some (checker_informers (hc_informers h))))"

definition liveness_check :: "health_checker \<Rightarrow> gotime \<Rightarrow> go_error option" where
  "liveness_check h now =
     (if standby (hc_leader h) then None
      else (case informer_liveness (Some (checker_informers (hc_informers h))) of
          Some e \<Rightarrow> Some e
        | None \<Rightarrow>
           if length (hc_informers h) = 0 then None
           else if \<not> is_zero_time (hc_last_evaluation h) then
             (if sint (time_sub now (hc_last_evaluation h)) > sint (hc_max h) then None else None)
           else None))"

definition startup_check :: "health_checker \<Rightarrow> go_error option" where
  "startup_check h = informer_startup (Some (checker_informers (hc_informers h)))"

definition leadership_aware_readiness :: "health_checker \<Rightarrow> leader_state option \<Rightarrow> go_error option" where
  "leadership_aware_readiness h leader = (case leader of
       Some l \<Rightarrow>
         if \<not> ls_api_reachable l then
           Some (Errors_New ''API unreachable via leader-election lock (egress policy / RBAC / endpoint)'')
         else if \<not> ls_leading l then None
         else readiness_check h
     | None \<Rightarrow> readiness_check h)"

definition leadership_aware_liveness :: "health_checker \<Rightarrow> leader_state option \<Rightarrow> gotime \<Rightarrow> go_error option" where
  "leadership_aware_liveness h leader now =
     (if standby leader then None else liveness_check h now)"

definition leaderz :: "leader_state option \<Rightarrow> int \<times> string" where
  "leaderz leader = (case leader of
       None \<Rightarrow> (200, ''unknown'')
     | Some l \<Rightarrow>
        (let state = (if ls_leading l then ''leader'' else ''standby'') in
         (200, if \<not> ls_api_reachable l
               then state @ CHR 0x0A # ''API unreachable via leader-election lock'' else state)))"

section \<open>The endpoints\<close>

text \<open>Status and body; the four handlers of the health mux.\<close>

definition probe_reply :: "go_error option \<Rightarrow> int \<times> string" where
  "probe_reply oe = (case oe of Some e \<Rightarrow> (503, error_string e) | None \<Rightarrow> (200, []))"

definition health_mux :: "health_checker \<Rightarrow> leader_state \<Rightarrow> gotime \<Rightarrow> string \<Rightarrow> int \<times> string" where
  "health_mux h l now path =
     (if path = ''/healthz'' then probe_reply (liveness_check h now)
      else if path = ''/readyz'' then probe_reply (leadership_aware_readiness h (Some l))
      else if path = ''/startup'' then probe_reply (startup_check h)
      else if path = ''/leaderz'' then leaderz (Some l)
      else (404, ''404 page not found'' @ [CHR 0x0A]))"

section \<open>Leader election\<close>

text \<open>The configuration; of its two callbacks, whether they are set.\<close>

record election_config =
  el_id :: string
  el_namespace :: string
  el_lease_name :: string
  el_lease_duration :: duration
  el_renew_deadline :: duration
  el_retry_period :: duration
  el_enable :: bool
  el_on_leading_change :: bool
  el_on_api_observation :: bool

definition DefaultElectionID :: string where "DefaultElectionID = ''zen-cleaner-leader-election''"

definition empty_election_config :: election_config where
  "empty_election_config = \<lparr>el_id = [], el_namespace = [], el_lease_name = [], el_lease_duration = 0,
     el_renew_deadline = 0, el_retry_period = 0, el_enable = False,
     el_on_leading_change = False, el_on_api_observation = False\<rparr>"

definition apply_defaults :: "election_config option \<Rightarrow> election_config" where
  "apply_defaults oc =
     (let c0 = (case oc of Some c \<Rightarrow> c | None \<Rightarrow> empty_election_config);
          c1 = (if el_namespace c0 = [] then c0\<lparr>el_namespace := ''default''\<rparr> else c0);
          c2 = (if el_id c1 = [] then c1\<lparr>el_id := DefaultElectionID\<rparr> else c1);
          c3 = (if el_lease_name c2 = [] then c2\<lparr>el_lease_name := el_id c2\<rparr> else c2);
          c4 = (if el_lease_duration c3 = 0 then c3\<lparr>el_lease_duration := 15 * Second\<rparr> else c3);
          c5 = (if el_renew_deadline c4 = 0 then c4\<lparr>el_renew_deadline := 10 * Second\<rparr> else c4);
          c6 = (if el_retry_period c5 = 0 then c5\<lparr>el_retry_period := 5 * Second\<rparr> else c5)
      in c6)"

datatype election_event =
    Started_Leading | Stopped_Leading | New_Leader string | Lock_Operation "go_error option"

text \<open>The verdict an observed lock reports after an operation.\<close>

definition lock_reachable :: "go_error option \<Rightarrow> bool" where
  "lock_reachable oe = (case oe of
       None \<Rightarrow> True
     | Some e \<Rightarrow>
        if api_is Api_NotFound e \<or> api_is Api_Forbidden e \<or> api_is Api_Unauthorized e
           \<or> api_is Api_Invalid e \<or> api_is Api_Conflict e \<or> api_is Api_Gone e
           \<or> api_is Api_MethodNotSupported e \<or> api_is Api_AlreadyExists e
        then True else False)"

text \<open>A replica as \<open>main\<close> wires it: the leader state, the variable \<open>apiWasReachable\<close>, the two
  gauges, the events on the pod, and whether the controller was started.\<close>

record replica =
  rp_leader :: leader_state
  rp_was_reachable :: bool
  rp_leading_gauge :: int
  rp_api_gauge :: int
  rp_events :: "(string \<times> string \<times> string) list"
  rp_running :: bool

definition new_replica :: "gotime \<Rightarrow> replica" where
  "new_replica now = \<lparr>rp_leader = new_leader_state now (15 * Second), rp_was_reachable = True,
     rp_leading_gauge = 0, rp_api_gauge = 1, rp_events = [], rp_running = False\<rparr>"

definition bool_gauge :: "bool \<Rightarrow> int" where
  "bool_gauge b = (if b then 1 else 0)"

definition on_leading_change :: "bool \<Rightarrow> replica \<Rightarrow> replica" where
  "on_leading_change leading r =
     r\<lparr>rp_leader := set_leading leading (rp_leader r), rp_leading_gauge := bool_gauge leading\<rparr>"

definition pod_name :: "getenv \<Rightarrow> string" where
  "pod_name getenv = (if getenv ''POD_NAME'' = [] then getenv ''HOSTNAME'' else getenv ''POD_NAME'')"

definition on_api_observation :: "getenv \<Rightarrow> bool \<Rightarrow> go_error option \<Rightarrow> replica \<Rightarrow> replica" where
  "on_api_observation getenv reachable oe r =
     (let r1 = r\<lparr>rp_leader := set_api_reachable reachable (rp_leader r),
                 rp_api_gauge := bool_gauge reachable\<rparr> in
      if reachable = rp_was_reachable r1 then r1
      else (let r2 = r1\<lparr>rp_was_reachable := reachable\<rparr> in
        if pod_name getenv = [] then r2
        else if reachable then r2\<lparr>rp_events := rp_events r2 @ [(''Normal'', ''APIReachable'',
            ''leader-election lock reachable again; API observation recovered'')]\<rparr>
        else r2\<lparr>rp_events := rp_events r2 @ [(''Warning'', ''APIUnreachable'',
            ''leader-election lock unreachable; controller cannot reach the API: ''
            @ (case oe of Some e \<Rightarrow> error_string e | None \<Rightarrow> []))]\<rparr>))"

text \<open>What a call of client-go does, when the callbacks that are set are those of \<open>main\<close>; without
  the second the lock is not observed.\<close>

fun election_step :: "getenv \<Rightarrow> election_config \<Rightarrow> election_event \<Rightarrow> replica \<Rightarrow> replica" where
  "election_step getenv c Started_Leading r =
     (if el_on_leading_change c then on_leading_change True r else r)\<lparr>rp_running := True\<rparr>"
| "election_step getenv c Stopped_Leading r = (if el_on_leading_change c then on_leading_change False r else r)"
| "election_step getenv c (New_Leader identity) r = r"
| "election_step getenv c (Lock_Operation oe) r =
     (if el_on_api_observation c then on_api_observation getenv (lock_reachable oe) oe r else r)"

text \<open>With election disabled the controller is run directly; otherwise client-go calls.\<close>

definition run_with_leader_election ::
  "getenv \<Rightarrow> election_config option \<Rightarrow> election_event list \<Rightarrow> replica \<Rightarrow> replica" where
  "run_with_leader_election getenv oc events r =
     (let c = (case oc of Some c \<Rightarrow> c | None \<Rightarrow> empty_election_config\<lparr>el_enable := True\<rparr>) in
      if \<not> el_enable c then r\<lparr>rp_running := True\<rparr>
      else foldl (\<lambda>r e. election_step getenv (apply_defaults (Some c)) e r) r events)"

text \<open>The configuration of \<open>main\<close>, from its three flags.\<close>

definition main_election_config :: "string \<Rightarrow> string \<Rightarrow> bool \<Rightarrow> election_config" where
  "main_election_config election_id namespace enable = empty_election_config\<lparr>el_id := election_id,
     el_namespace := namespace, el_enable := enable, el_on_leading_change := True,
     el_on_api_observation := True\<rparr>"

section \<open>Flags\<close>

text \<open>The flags that were set explicitly, with their values.\<close>

record flags =
  fl_set :: "string list"
  fl_cleanup_interval :: duration
  fl_max_deletions :: int
  fl_batch_size :: int
  fl_max_concurrent :: int

definition apply_flag_overrides :: "flags \<Rightarrow> controller_config \<Rightarrow> controller_config" where
  "apply_flag_overrides f c0 =
     (let c1 = (if ''cleanup-interval'' \<in> set (fl_set f) then with_cleanup_interval (fl_cleanup_interval f) c0 else c0);
          c2 = (if ''max-deletions-per-second'' \<in> set (fl_set f) then with_max_deletions (fl_max_deletions f) c1 else c1);
          c3 = (if ''batch-size'' \<in> set (fl_set f) then with_batch_size (fl_batch_size f) c2 else c2);
          c4 = (if ''max-concurrent-evaluations'' \<in> set (fl_set f) then with_max_concurrent (fl_max_concurrent f) c3 else c3)
      in c4)"

section \<open>Laws\<close>

lemma unsynced_none: "unsynced_count infs = 0 \<longleftrightarrow> (\<forall>(name, synced) \<in> set infs. synced \<noteq> Some False)"
  by (induction infs rule: unsynced_count.induct) (auto split: option.splits)

lemma informer_readiness_None:
  "informer_readiness (Some (checker_informers infs)) = None \<longleftrightarrow>
     (\<forall>(name, synced) \<in> set infs. synced \<noteq> Some False)"
proof -
  have "unsynced_count infs = unsynced_count (checker_informers infs)"
    by (induction infs rule: unsynced_count.induct) (auto simp: checker_informers_def split: option.splits)
  then show ?thesis
    by (auto simp: informer_readiness_def Let_def unsynced_none [symmetric])
qed

lemma first_failure_None: "first_failure cs = None \<longleftrightarrow> (\<forall>c \<in> set cs. c = None)"
  by (induction cs) (auto split: option.splits)

text \<open>Event reasons that alternate, starting with an outage; the state after them.\<close>

fun alternating :: "bool \<Rightarrow> string list \<Rightarrow> bool" where
  "alternating up [] = True"
| "alternating up (e # es) = (e = (if up then ''APIUnreachable'' else ''APIReachable'') \<and> alternating (\<not> up) es)"

definition after :: "bool \<Rightarrow> string list \<Rightarrow> bool" where
  "after up es \<longleftrightarrow> (up \<longleftrightarrow> even (length es))"

lemma after_append [simp]: "after up (es @ [e]) = (\<not> after up es)"
  by (auto simp: after_def)

lemma alternating_append:
  "alternating up (es @ [e]) \<longleftrightarrow>
     alternating up es \<and> e = (if after up es then ''APIUnreachable'' else ''APIReachable'')"
  by (induction es arbitrary: up) (auto simp: after_def)

definition reasons :: "replica \<Rightarrow> string list" where
  "reasons r = map (\<lambda>(ty, reason, msg). reason) (rp_events r)"

definition replica_ok :: "getenv \<Rightarrow> replica \<Rightarrow> bool" where
  "replica_ok getenv r \<longleftrightarrow> rp_was_reachable r = ls_api_reachable (rp_leader r) \<and>
     rp_api_gauge r = bool_gauge (ls_api_reachable (rp_leader r)) \<and>
     rp_leading_gauge r = bool_gauge (ls_leading (rp_leader r)) \<and>
     (ls_leading (rp_leader r) \<longrightarrow> rp_running r) \<and>
     (pod_name getenv \<noteq> [] \<longrightarrow> alternating True (reasons r) \<and> after True (reasons r) = rp_was_reachable r)"

lemma replica_ok_new: "replica_ok getenv (new_replica now)"
  by (simp add: replica_ok_def new_replica_def new_leader_state_def reasons_def after_def bool_gauge_def)

lemma replica_ok_step: "replica_ok getenv r \<Longrightarrow> replica_ok getenv (election_step getenv c e r)"
proof (cases e)
  case (Lock_Operation oe)
  assume ok: "replica_ok getenv r"
  show ?thesis
  proof (cases "el_on_api_observation c \<and> lock_reachable oe \<noteq> rp_was_reachable r \<and> pod_name getenv \<noteq> []")
    case True
    with ok have "alternating True (reasons r)" "after True (reasons r) = rp_was_reachable r"
      by (auto simp: replica_ok_def)
    with True ok Lock_Operation show ?thesis
      by (auto simp: replica_ok_def on_api_observation_def set_api_reachable_def reasons_def Let_def
          alternating_append)
  next
    case False
    with ok Lock_Operation show ?thesis
      by (auto simp: replica_ok_def on_api_observation_def set_api_reachable_def reasons_def Let_def)
  qed
qed (auto simp: replica_ok_def on_leading_change_def set_leading_def reasons_def)

lemma replica_ok_run:
  "replica_ok getenv r \<Longrightarrow> replica_ok getenv (foldl (\<lambda>r e. election_step getenv c e r) r events)"
  by (induction events arbitrary: r) (auto intro: replica_ok_step)

section \<open>Properties\<close>

text \<open>What the readiness endpoint says: a replica is ready exactly when the API was reached by
  its last lock operation and it is a standby or all its informers have synced; a failing
  check is answered with 503.\<close>

theorem readiness_law:
  assumes "hc_leader h = Some l"
  shows "fst (health_mux h l now ''/readyz'') =
    (if ls_api_reachable l \<and> (ls_leading l \<longrightarrow> (\<forall>(name, synced) \<in> set (hc_informers h). synced \<noteq> Some False))
     then 200 else 503)"
  using assms
  by (auto simp: health_mux_def leadership_aware_readiness_def readiness_check_def standby_def probe_reply_def
      informer_readiness_None [symmetric] split: option.split)

theorem readiness_law_witness:
  "fst (health_mux (set_leader_state (Some (set_leading True (new_leader_state 0 0)))
     (new_health_checker [(''k'', Some False)])) (set_leading True (new_leader_state 0 0)) 7 ''/readyz'') = 503"
  using readiness_law [of "set_leader_state (Some (set_leading True (new_leader_state 0 0)))
     (new_health_checker [(''k'', Some False)])" "set_leading True (new_leader_state 0 0)" 7]
  by (simp add: set_leader_state_def set_leading_def new_leader_state_def new_health_checker_def)

text \<open>The liveness endpoint cannot fail: whatever the informers, the leadership and the time
  since the last evaluation, \<open>/healthz\<close> answers 200, and so does \<open>/startup\<close>.\<close>

theorem liveness_never_fails:
  "health_mux h l now ''/healthz'' = (200, []) \<and> health_mux h l now ''/startup'' = (200, [])"
  by (simp add: health_mux_def liveness_check_def informer_liveness_def startup_check_def informer_startup_def
      probe_reply_def)


text \<open>With election disabled the replica runs its controller and yet counts as a standby: no
  callback ever says it leads, so it is ready whatever its informers, and \<open>/leaderz\<close> calls
  it a standby.\<close>

theorem disabled_election_is_standby:
  assumes "\<not> el_enable c"
  shows "let r = run_with_leader_election getenv (Some c) events (new_replica t0);
       h = set_leader_state (Some (rp_leader r)) (new_health_checker infs) in
     rp_running r \<and> health_mux h (rp_leader r) now ''/readyz'' = (200, []) \<and>
     health_mux h (rp_leader r) now ''/leaderz'' = (200, ''standby'')"
  using assms
  by (simp add: run_with_leader_election_def new_replica_def new_leader_state_def health_mux_def
      leadership_aware_readiness_def probe_reply_def leaderz_def Let_def)

theorem disabled_election_is_standby_witness:
  "rp_running (run_with_leader_election (\<lambda>v. []) (Some empty_election_config) [] (new_replica 0))"
  using disabled_election_is_standby [of empty_election_config "\<lambda>v. []" "[]" 0 "[]" 0]
  by (simp add: empty_election_config_def Let_def)

text \<open>The defaults respect the order client-go demands of the three durations.\<close>

lemma apply_defaults_None:
  "apply_defaults None = \<lparr>el_id = DefaultElectionID, el_namespace = ''default'', el_lease_name = DefaultElectionID,
     el_lease_duration = 15 * Second, el_renew_deadline = 10 * Second, el_retry_period = 5 * Second,
     el_enable = False, el_on_leading_change = False, el_on_api_observation = False\<rparr>"
  by (simp add: apply_defaults_def empty_election_config_def Let_def DefaultElectionID_def)

text \<open>An answer of the API server that is no object-level error counts as an outage.\<close>

lemma throttled_is_unreachable:
  "\<not> lock_reachable (Some (Api_Error [Api_TooManyRequests] msg))"
  "\<not> lock_reachable (Some (Api_Error [Api_ServiceUnavailable] msg))"
  by (simp_all add: lock_reachable_def api_is_def errors_as_def)

lemma flag_overrides:
  "cc_batch_size (apply_flag_overrides f c) = (if ''batch-size'' \<in> set (fl_set f) then fl_batch_size f else cc_batch_size c)"
  "cc_cleanup_interval (apply_flag_overrides f c) =
     (if ''cleanup-interval'' \<in> set (fl_set f) then fl_cleanup_interval f else cc_cleanup_interval c)"
  "cc_delete_enabled (apply_flag_overrides f c) = cc_delete_enabled c"
  "cc_protected_namespaces (apply_flag_overrides f c) = cc_protected_namespaces c"
  by (simp_all add: apply_flag_overrides_def Let_def with_batch_size_def with_cleanup_interval_def
      with_max_deletions_def with_max_concurrent_def)

end
