(* ===== verification/Operator_Surface.thy ===== *)
theory Operator_Surface
  imports World
begin

text \<open>
  What an operator can reach besides the Kubernetes API: the MCP adapter and its transport
  (\<open>internal/mcpserver\<close>), the health summary (\<open>internal/clireadops\<close>, the status verb) and the
  modes of \<open>runMain\<close>.

  A line of the session is what \<open>json.Unmarshal\<close> makes of it: nothing, or a request; the tool
  name of a call is what it finds in the parameters (empty when it finds none).  An answer is
  its JSON value.  A provider is the text it answers, or nil.
\<close>

section \<open>The MCP adapter\<close>

record tool =
  tl_name :: string
  tl_description :: string
  tl_schema :: string

record adapter =
  ad_enabled :: bool
  ad_actor :: string
  ad_tools :: "tool list"
  ad_ent :: "string option"
  ad_health :: "string option"

definition empty_schema :: string where
  "empty_schema = ''{''
     @ [CHR 0x22] @ ''type'' @ [CHR 0x22] @ '':'' @ [CHR 0x22] @ ''object'' @ [CHR 0x22] @ '',''
     @ [CHR 0x22] @ ''properties'' @ [CHR 0x22] @ '':{},''
     @ [CHR 0x22] @ ''additionalProperties'' @ [CHR 0x22] @ '':false}''"

definition adapter_tools :: "tool list" where
  "adapter_tools =
     [\<lparr>tl_name = ''entitlement_status'',
       tl_description = ''The CleanerGate's admission status: the policy generation, the quota window, the metered usage for cleaner.executions (READ-ONLY)'',
       tl_schema = empty_schema\<rparr>,
      \<lparr>tl_name = ''health_summary'',
       tl_description = ''The controller's own health posture summary (READ-ONLY; the live checks stay the k8s probes)'',
       tl_schema = empty_schema\<rparr>]"

definition new_adapter :: "getenv \<Rightarrow> string option \<Rightarrow> string option \<Rightarrow> adapter" where
  "new_adapter getenv ent health = \<lparr>ad_enabled = (getenv ''ZEN_CLEANER_MCP_MODE'' = ''stdio''),
     ad_actor = getenv ''ZEN_CLEANER_MCP_ACTOR'', ad_tools = adapter_tools, ad_ent = ent, ad_health = health\<rparr>"

definition tools :: "adapter \<Rightarrow> tool list option" where
  "tools a = (if \<not> ad_enabled a then None else Some (ad_tools a))"

definition ErrNotEnabled :: go_error where
  "ErrNotEnabled = Sentinel ''ErrNotEnabled''
     ''mcp: not enabled (set ZEN_CLEANER_MCP_MODE=stdio to opt in; the default is deny)''"

definition tool_json :: "tool \<Rightarrow> json" where
  "tool_json t = JObj [(''name'', JStr (tl_name t)), (''description'', JStr (tl_description t)),
     (''inputSchema'', JStr (tl_schema t))]"

definition tools_json :: "tool list \<Rightarrow> json" where
  "tools_json ts = JObj [(''tools'', JList (map tool_json ts))]"

definition list_json :: "adapter \<Rightarrow> go_error + json" where
  "list_json a = (if \<not> ad_enabled a then Inl ErrNotEnabled else Inr (tools_json (ad_tools a)))"

text \<open>\<open>sort.Strings\<close> on the names: the order of bytes.\<close>

fun string_le :: "string \<Rightarrow> string \<Rightarrow> bool" where
  "string_le [] t = True"
| "string_le (c # s) [] = False"
| "string_le (c # s) (d # t) =
     ((of_char c :: nat) < of_char d \<or> c = d \<and> string_le s t)"

fun insert_string :: "string \<Rightarrow> string list \<Rightarrow> string list" where
  "insert_string s [] = [s]"
| "insert_string s (t # ts) = (if string_le s t then s # t # ts else t # insert_string s ts)"

definition sort_strings :: "string list \<Rightarrow> string list" where
  "sort_strings ss = foldr insert_string ss []"

definition summary_lines :: "adapter \<Rightarrow> string list" where
  "summary_lines a = sort_strings (map tl_name (case tools a of Some ts \<Rightarrow> ts | None \<Rightarrow> []))"

section \<open>The transport\<close>

record rpc_request =
  rq_id :: "int option"
  rq_method :: string
  rq_tool :: string

definition rpc_result :: "int \<Rightarrow> json \<Rightarrow> json" where
  "rpc_result n r = JObj [(''id'', JInt n), (''jsonrpc'', JStr ''2.0''), (''result'', r)]"

definition rpc_error :: "int \<Rightarrow> string \<Rightarrow> json" where
  "rpc_error n message = JObj [(''error'', JObj [(''code'', JInt (- 32601)), (''message'', JStr message)]),
     (''id'', JInt n), (''jsonrpc'', JStr ''2.0'')]"

definition initialize_result :: json where
  "initialize_result = JObj
     [(''capabilities'', JObj [(''tools'', JObj [(''listChanged'', JBool False)])]),
      (''protocolVersion'', JStr ''2025-03-26''),
      (''serverInfo'', JObj [(''name'', JStr ''zen-cleaner''), (''version'', JStr ''0.1.0'')])]"

definition call_tool :: "adapter \<Rightarrow> string \<Rightarrow> string" where
  "call_tool a name =
     (if name = ''entitlement_status'' then (case ad_ent a of None \<Rightarrow> ''{}'' | Some body \<Rightarrow> body)
      else if name = ''health_summary'' then (case ad_health a of None \<Rightarrow> ''{}'' | Some body \<Rightarrow> body)
      else ''{}'')"

definition call_result :: "string \<Rightarrow> json" where
  "call_result body = JObj [(''content'', JList [JObj [(''text'', JStr body), (''type'', JStr ''text'')]])]"

definition answer_line :: "adapter \<Rightarrow> rpc_request option \<Rightarrow> json option" where
  "answer_line a line = (case line of
       None \<Rightarrow> None
     | Some req \<Rightarrow> (case rq_id req of
         None \<Rightarrow> None
       | Some n \<Rightarrow>
          if rq_method req = ''initialize'' then Some (rpc_result n initialize_result)
          else if rq_method req = ''tools/list'' then
            (case tools a of
               None \<Rightarrow> Some (rpc_error n ''not enabled (default-deny)'')
             | Some ts \<Rightarrow> Some (rpc_result n (tools_json ts)))
          else if rq_method req = ''tools/call'' then
            (if \<not> ad_enabled a then Some (rpc_error n (error_string ErrNotEnabled))
             else Some (rpc_result n (call_result (call_tool a (rq_tool req)))))
          else Some (rpc_error n (''unknown method '' @ go_quote (rq_method req)))))"

text \<open>\<open>RunStdio\<close> on the lines of its input; \<open>scan_error\<close> is what the scanner ends with.\<close>

fun run_stdio :: "adapter \<Rightarrow> rpc_request option list \<Rightarrow> json list" where
  "run_stdio a [] = []"
| "run_stdio a (line # rest) =
     (case answer_line a line of Some r \<Rightarrow> r # run_stdio a rest | None \<Rightarrow> run_stdio a rest)"

definition run_mcp_stdio :: "getenv \<Rightarrow> rpc_request option list \<Rightarrow> go_error option \<Rightarrow> int \<times> json list" where
  "run_mcp_stdio getenv input scan_error =
     (let a = new_adapter getenv None None in
      if \<not> ad_enabled a then (1, [])
      else (if scan_error \<noteq> None then 1 else 0, run_stdio a input))"

section \<open>Health summary and the modes of the process\<close>

record health_summary =
  hs_version :: string
  hs_commit :: string
  hs_uptime :: string

text \<open>\<open>time.Since(start).Round(time.Second).String()\<close> of a process that has run for a time that is
  not negative: half a second rounds up.\<close>

definition round_second :: "duration \<Rightarrow> duration" where
  "round_second d = (let r = sint d mod 1000000000 in
     if 2 * r < 1000000000 then word_of_int (sint d - r) else word_of_int (sint d - r + 1000000000))"

definition read_health_summary :: "string \<Rightarrow> string \<Rightarrow> duration \<Rightarrow> health_summary" where
  "read_health_summary version commit up =
     \<lparr>hs_version = version, hs_commit = commit, hs_uptime = duration_string (round_second up)\<rparr>"

definition render :: "health_summary \<Rightarrow> string" where
  "render s = ''version: '' @ hs_version s @ CHR 0x0A # ''commit: '' @ hs_commit s
     @ CHR 0x0A # ''process uptime: '' @ hs_uptime s @ [CHR 0x0A]"

text \<open>What the process does: an MCP session, a print, or the start of the controller.\<close>

datatype main_mode = Serve_Mcp "int \<times> json list" | Print string | Start_Controller

definition run_status_verbs :: "bool \<Rightarrow> string \<Rightarrow> string \<Rightarrow> duration \<Rightarrow> string option" where
  "run_status_verbs health_summary_verb version commit up =
     (if \<not> health_summary_verb then None else Some (render (read_health_summary version commit up)))"

definition main_dispatch ::
  "getenv \<Rightarrow> bool \<Rightarrow> bool \<Rightarrow> string \<Rightarrow> string \<Rightarrow> duration \<Rightarrow> rpc_request option list \<Rightarrow> go_error option \<Rightarrow> main_mode" where
  "main_dispatch getenv mcp_stdio health_summary_verb version commit up input scan_error =
     (if mcp_stdio then Serve_Mcp (run_mcp_stdio getenv input scan_error)
      else (case run_status_verbs health_summary_verb version commit up of
          Some out \<Rightarrow> Print out | None \<Rightarrow> Start_Controller))"

section \<open>Laws\<close>

fun reply_id :: "json \<Rightarrow> int option" where
  "reply_id (JObj fs) = (case map_of fs ''id'' of Some (JInt n) \<Rightarrow> Some n | _ \<Rightarrow> None)"
| "reply_id v = None"

text \<open>The IDs of the requests of a session; a notification has none.\<close>

definition request_ids :: "rpc_request option list \<Rightarrow> int list" where
  "request_ids input = List.map_filter (\<lambda>line. Option.bind line rq_id) input"

lemma reply_id_answers [simp]:
  "reply_id (rpc_result n r) = Some n" "reply_id (rpc_error n msg) = Some n"
  by (simp_all add: rpc_result_def rpc_error_def)

lemma answer_line_id:
  "(case answer_line a line of None \<Rightarrow> Option.bind line rq_id = None
     | Some r \<Rightarrow> reply_id r = Option.bind line rq_id \<and> Option.bind line rq_id \<noteq> None)"
  by (auto simp: answer_line_def split: option.splits)

lemma answer_line_actor [simp]: "answer_line (a\<lparr>ad_actor := x\<rparr>) line = answer_line a line"
  by (simp add: answer_line_def tools_def call_tool_def split: option.split)

lemma run_stdio_actor [simp]: "run_stdio (a\<lparr>ad_actor := x\<rparr>) input = run_stdio a input"
  by (induction input) (simp_all split: option.split)

section \<open>Properties\<close>

text \<open>An MCP session.  Every request with an ID gets exactly one answer, in order and under its
  ID, and nothing else is written, neither for a notification nor for a line that is not JSON;
  without the mode the session refuses and writes nothing; and with it the session is the
  same whoever the actor is, also when none is named.\<close>

theorem mcp_session_law:
  "map reply_id (run_stdio a input) = map Some (request_ids input) \<and>
   run_mcp_stdio getenv input scan_error =
     (if getenv ''ZEN_CLEANER_MCP_MODE'' = ''stdio''
      then (if scan_error \<noteq> None then 1 else 0,
            run_stdio (new_adapter ((\<lambda>v. [])(''ZEN_CLEANER_MCP_MODE'' := ''stdio'')) None None) input)
      else (1, []))"
proof
  show "map reply_id (run_stdio a input) = map Some (request_ids input)"
  proof (induction input)
    case (Cons line rest)
    then show ?case
      using answer_line_id [where a = a and line = line]
      by (cases "answer_line a line") (auto simp: request_ids_def map_filter_def)
  qed (simp add: request_ids_def map_filter_def)
  have "new_adapter getenv None None =
      (new_adapter ((\<lambda>v. [])(''ZEN_CLEANER_MCP_MODE'' := ''stdio'')) None None)
        \<lparr>ad_actor := getenv ''ZEN_CLEANER_MCP_ACTOR''\<rparr>"
    if "getenv ''ZEN_CLEANER_MCP_MODE'' = ''stdio''"
    using that by (simp add: new_adapter_def)
  then show "run_mcp_stdio getenv input scan_error =
     (if getenv ''ZEN_CLEANER_MCP_MODE'' = ''stdio''
      then (if scan_error \<noteq> None then 1 else 0,
            run_stdio (new_adapter ((\<lambda>v. [])(''ZEN_CLEANER_MCP_MODE'' := ''stdio'')) None None) input)
      else (1, []))"
    by (simp add: run_mcp_stdio_def Let_def) (simp add: new_adapter_def)
qed

text \<open>A disabled adapter names no tool and answers no call.\<close>

lemma disabled_adapter_refuses:
  assumes "\<not> ad_enabled a"
  shows "tools a = None" "list_json a = Inl ErrNotEnabled" "summary_lines a = []"
    "rq_method req \<in> {''tools/list'', ''tools/call''} \<Longrightarrow> rq_id req = Some n \<Longrightarrow>
     \<exists>msg. answer_line a (Some req) = Some (rpc_error n msg)"
  using assms by (auto simp: tools_def list_json_def summary_lines_def sort_strings_def answer_line_def)

end
