(* ===== verification/Commands.thy ===== *)
theory Commands
  imports Replica Operator_Surface Validation
begin

text \<open>
  The two programs.  \<open>cmd/zen-cleaner/main.go\<close>: how the process of the controller is built and
  ends.  A \<open>boot_step\<close> is a server, a manager or a deferred function it starts or runs; what the
  constructors of other packages answer, whether a port can be bound and whether a file exists
  are the record \<open>boot_env\<close>, and what the manager answers the record \<open>manager_env\<close>.  The
  goroutine of a callback is placed where it is started.  \<open>cmd/validate-examples/main.go\<close>: the
  checker of example files; reading a file and parsing YAML are parameters.
\<close>

section \<open>Configuration and flags\<close>

text \<open>The configuration: the defaults, the environment, the flags set explicitly.\<close>

definition main_config ::
  "(string \<Rightarrow> duration option) \<Rightarrow> getenv \<Rightarrow> flags \<Rightarrow> go_error + controller_config" where
  "main_config pd getenv f =
     (let (c, oe) = load_from_env pd getenv new_controller_config in
      case oe of Some e \<Rightarrow> Inl e | None \<Rightarrow> Inr (apply_flag_overrides f c))"

text \<open>The flags that decide what is started, with their defaults.\<close>

record process_flags =
  pf_mcp_stdio :: bool
  pf_health_summary :: bool
  pf_leader_election :: bool
  pf_election_id :: string
  pf_election_namespace :: string
  pf_enable_webhook :: bool
  pf_insecure_webhook :: bool
  pf_overrides :: flags

definition default_flags :: process_flags where
  "default_flags = \<lparr>pf_mcp_stdio = False, pf_health_summary = False, pf_leader_election = True,
     pf_election_id = ''zen-cleaner-leader-election'', pf_election_namespace = ''default'',
     pf_enable_webhook = True, pf_insecure_webhook = False,
     pf_overrides = \<lparr>fl_set = [], fl_cleanup_interval = Minute, fl_max_deletions = 10,
       fl_batch_size = 50, fl_max_concurrent = 5\<rparr>\<rparr>"

text \<open>Where the manager binds its own servers: \<open>0\<close> is nowhere.\<close>

record manager_options =
  mo_metrics_bind :: string
  mo_health_bind :: string
  mo_webhook_port :: int
  mo_webhook_cert_dir :: string

definition new_manager_options :: manager_options where
  "new_manager_options = \<lparr>mo_metrics_bind = ''0'', mo_health_bind = ''0'', mo_webhook_port = 9443,
     mo_webhook_cert_dir = []\<rparr>"

section \<open>The steps of the process\<close>

datatype boot_step =
    Health_Server bool | Metrics_Server | Webhook_Server bool
  | Create_Manager manager_options | Rebind_Client | Start_Manager | Manager_Ended "go_error option"
  | Stop_Metrics | Stop_Tracing | Stop_Health | Cancel_Context

datatype process_end = Return int | Os_Exit int

type_synonym process = "boot_step list \<times> process_end"

definition after_steps :: "boot_step list \<Rightarrow> process \<Rightarrow> process" where
  "after_steps ss p = (ss @ fst p, snd p)"

text \<open>A deferred function runs when the body returns; \<open>os.Exit\<close> skips it.\<close>

definition with_defer :: "boot_step \<Rightarrow> process \<Rightarrow> process" where
  "with_defer d p = (case snd p of Return c \<Rightarrow> (fst p @ [d], Return c) | Os_Exit c \<Rightarrow> p)"

record boot_env =
  be_rest_config :: "go_error option"
  be_dynamic_client :: "go_error option"
  be_kube_client :: "go_error option"
  be_add_scheme :: "go_error option"
  be_client :: "go_error option"
  be_discovery :: "go_error option"
  be_rest_mapper :: "go_error option"
  be_health_bind :: "go_error option"
  be_exporter :: "go_error option"
  be_metrics_bind :: "go_error option"
  be_cert_exists :: bool
  be_key_exists :: bool

definition build_kubernetes_clients :: "boot_env \<Rightarrow> go_error option" where
  "build_kubernetes_clients e = (case be_dynamic_client e of Some err \<Rightarrow> Some err | None \<Rightarrow>
     (case be_kube_client e of Some err \<Rightarrow> Some err | None \<Rightarrow> None))"

definition build_scheme_and_client :: "boot_env \<Rightarrow> go_error option" where
  "build_scheme_and_client e = (case be_add_scheme e of Some err \<Rightarrow> Some err | None \<Rightarrow>
     (case be_client e of Some err \<Rightarrow> Some err | None \<Rightarrow> None))"

text \<open>\<open>ServeStandalone\<close> returns its stop function at once: an address that cannot be bound is
  logged, never returned.  The flag of the step says whether the server listens.\<close>

definition serve_standalone :: "go_error option \<Rightarrow> boot_step \<times> go_error option" where
  "serve_standalone listen = (Health_Server (listen = None), None)"

text \<open>\<open>ServeMetricsAlwaysOn\<close> waits 50 ms for the error of its listener.\<close>

definition serve_metrics_always_on :: "go_error option \<Rightarrow> go_error + boot_step" where
  "serve_metrics_always_on listen = (case listen of Some err \<Rightarrow> Inl err | None \<Rightarrow> Inr Metrics_Server)"

text \<open>\<open>InitTracing\<close> fails only with an exporter, which is built only for an endpoint; \<open>initTracing\<close>
  says whether there is a shutdown function to defer.\<close>

definition otel_init :: "getenv \<Rightarrow> go_error option \<Rightarrow> go_error option" where
  "otel_init getenv exporter =
     (if getenv ''OTEL_EXPORTER_OTLP_ENDPOINT'' = [] then None
      else (case exporter of Some err \<Rightarrow> Some err | None \<Rightarrow> None))"

definition init_tracing :: "getenv \<Rightarrow> go_error option \<Rightarrow> bool" where
  "init_tracing getenv exporter = (case otel_init getenv exporter of Some err \<Rightarrow> False | None \<Rightarrow> True)"

text \<open>The webhook server, or the exit code of \<open>os.Exit\<close>; \<open>NewWebhookServer\<close> never fails.\<close>

definition start_webhook_server :: "process_flags \<Rightarrow> boot_env \<Rightarrow> boot_step list \<times> int option" where
  "start_webhook_server fl e =
     (if \<not> pf_enable_webhook fl then ([], None)
      else if \<not> be_cert_exists e \<or> \<not> be_key_exists e then
        (if \<not> pf_insecure_webhook fl then ([], Some 1) else ([Webhook_Server False], None))
      else ([Webhook_Server True], None))"

section \<open>The controller of a leader\<close>

record manager_env =
  mg_new :: "go_error option"
  mg_setup :: "go_error option"
  mg_healthz :: "go_error option"
  mg_readyz :: "go_error option"
  mg_startup :: "go_error option"
  mg_start :: "go_error option"

definition run_controller :: "manager_env \<Rightarrow> boot_step list \<times> int option" where
  "run_controller m =
     (if mg_new m \<noteq> None then ([], Some 1)
      else (let built = [Create_Manager new_manager_options, Rebind_Client] in
        if mg_setup m \<noteq> None then (built, Some 1)
        else if mg_healthz m \<noteq> None then (built, Some 1)
        else if mg_readyz m \<noteq> None then (built, Some 1)
        else if mg_startup m \<noteq> None then (built, Some 1)
        else (built @ [Start_Manager, Manager_Ended (mg_start m)], None)))"

text \<open>The calls of client-go with the controller started in the callback.\<close>

fun run_election ::
  "getenv \<Rightarrow> election_config \<Rightarrow> manager_env \<Rightarrow> election_event list \<Rightarrow> replica \<Rightarrow>
   replica \<times> boot_step list \<times> int option" where
  "run_election getenv c m [] r = (r, [], None)"
| "run_election getenv c m (ev # evs) r =
     (let r1 = election_step getenv c ev r in
      if ev = Started_Leading then
        (case run_controller m of
           (ss, Some code) \<Rightarrow> (r1, ss, Some code)
         | (ss, None) \<Rightarrow>
            (let (r2, ss2, ex) = run_election getenv c m evs r1 in (r2, ss @ ss2, ex)))
      else run_election getenv c m evs r1)"

definition election_phase ::
  "getenv \<Rightarrow> election_config \<Rightarrow> manager_env \<Rightarrow> election_event list \<Rightarrow> replica \<Rightarrow>
   replica \<times> boot_step list \<times> int option" where
  "election_phase getenv c m events r =
     (if \<not> el_enable c then
        (let (ss, ex) = run_controller m in (r\<lparr>rp_running := True\<rparr>, ss, ex))
      else run_election getenv (apply_defaults (Some c)) m events r)"

section \<open>The process\<close>

definition run_main ::
  "getenv \<Rightarrow> (string \<Rightarrow> duration option) \<Rightarrow> process_flags \<Rightarrow> boot_env \<Rightarrow> manager_env \<Rightarrow>
   election_event list \<Rightarrow> gotime \<Rightarrow> process" where
  "run_main getenv pd fl e m events now =
     (if be_rest_config e \<noteq> None then ([], Os_Exit 1)
      else if build_kubernetes_clients e \<noteq> None then ([], Return 1)
      else if build_scheme_and_client e \<noteq> None then ([], Return 1)
      else (case main_config pd getenv (pf_overrides fl) of
          Inl err \<Rightarrow> ([], Return 1)
        | Inr c \<Rightarrow> with_defer Cancel_Context
           (if be_discovery e \<noteq> None then ([], Return 1)
            else if be_rest_mapper e \<noteq> None then ([], Return 1)
            else (case serve_standalone (be_health_bind e) of
                (health, Some err) \<Rightarrow> ([health], Return 1)
              | (health, None) \<Rightarrow> after_steps [health] (with_defer Stop_Health
                 ((if init_tracing getenv (be_exporter e) then with_defer Stop_Tracing else id)
                   (case serve_metrics_always_on (be_metrics_bind e) of
                      Inl err \<Rightarrow> ([], Return 1)
                    | Inr metrics \<Rightarrow> after_steps [metrics] (with_defer Stop_Metrics
                       (case start_webhook_server fl e of
                          (ws, Some code) \<Rightarrow> (ws, Os_Exit code)
                        | (ws, None) \<Rightarrow> after_steps ws
                           (case election_phase getenv
                                (main_election_config (pf_election_id fl) (pf_election_namespace fl)
                                  (pf_leader_election fl)) m events (new_replica now) of
                              (r, ss, Some code) \<Rightarrow> (ss, Os_Exit code)
                            | (r, ss, None) \<Rightarrow> (ss, Return 0)))))))))))"

text \<open>\<open>main\<close>: the modes that print or serve a session end the process with their own code.\<close>

definition process_main ::
  "getenv \<Rightarrow> (string \<Rightarrow> duration option) \<Rightarrow> process_flags \<Rightarrow> string \<Rightarrow> string \<Rightarrow> duration \<Rightarrow> rpc_request option list \<Rightarrow>
   go_error option \<Rightarrow> boot_env \<Rightarrow> manager_env \<Rightarrow> election_event list \<Rightarrow> gotime \<Rightarrow> boot_step list \<times> int" where
  "process_main getenv pd fl version commit up input scan_error e m events now =
     (case main_dispatch getenv (pf_mcp_stdio fl) (pf_health_summary fl) version commit up input scan_error of
        Serve_Mcp (code, out) \<Rightarrow> ([], code)
      | Print out \<Rightarrow> ([], 0)
      | Start_Controller \<Rightarrow> (case run_main getenv pd fl e m events now of
          (ss, Return code) \<Rightarrow> (ss, code) | (ss, Os_Exit code) \<Rightarrow> (ss, code)))"

section \<open>The checker of examples\<close>

text \<open>\<open>filepath.Base\<close> of a path that does not end in a slash.\<close>

definition base_name :: "string \<Rightarrow> string" where
  "base_name path = last (split_on CHR ''/'' path)"

text \<open>The files of the directory: a name, and its bytes or the error of reading it.  The lines on
  standard output and the errors, in order; the marks are UTF-8.\<close>

definition check_mark :: string where "check_mark = [CHR 0xE2, CHR 0x9C, CHR 0x85]"
definition cross_mark :: string where "cross_mark = [CHR 0xE2, CHR 0x9D, CHR 0x8C]"

definition check_example ::
  "k8s_checks \<Rightarrow> (string \<Rightarrow> go_error + policy) \<Rightarrow> string \<Rightarrow> go_error + string \<Rightarrow> string option" where
  "check_example k unmarshal file content = (case content of
       Inl e \<Rightarrow> Some (file @ '': failed to read file: '' @ error_string e)
     | Inr text \<Rightarrow> (case unmarshal text of
         Inl e \<Rightarrow> Some (file @ '': YAML parse error: '' @ error_string e)
       | Inr p \<Rightarrow> (case validate_policy k p of
           Some e \<Rightarrow> Some (file @ '': validation error: '' @ error_string e)
         | None \<Rightarrow> None)))"

fun check_examples ::
  "k8s_checks \<Rightarrow> (string \<Rightarrow> go_error + policy) \<Rightarrow> string list \<Rightarrow> string list \<Rightarrow> nat \<Rightarrow>
   (string \<times> (go_error + string)) list \<Rightarrow> string list \<times> string list \<times> nat" where
  "check_examples k unmarshal out errs valid [] = (out, errs, valid)"
| "check_examples k unmarshal out errs valid ((file, content) # rest) =
     (if contains file ''README'' then check_examples k unmarshal out errs valid rest
      else (case check_example k unmarshal file content of
          Some err \<Rightarrow> check_examples k unmarshal out (errs @ [err]) valid rest
        | None \<Rightarrow> check_examples k unmarshal (out @ [check_mark @ CHR '' '' # base_name file]) errs (valid + 1) rest))"

text \<open>Standard output, standard error and the exit code.  No code adds to the warnings.\<close>

definition validate_examples ::
  "k8s_checks \<Rightarrow> (string \<Rightarrow> go_error + policy) \<Rightarrow> go_error + (string \<times> (go_error + string)) list \<Rightarrow>
   string list \<times> string list \<times> int" where
  "validate_examples k unmarshal glob = (case glob of
       Inl e \<Rightarrow> ([], [''Error finding files: '' @ error_string e], 1)
     | Inr files \<Rightarrow> (case check_examples k unmarshal [] [] 0 files of
         (out, errs, valid) \<Rightarrow>
           if length errs > 0 then
             (out, [[], cross_mark @ '' Validation errors:''] @ map (\<lambda>err. ''  '' @ err) errs, 1)
           else (out @ [[], check_mark @ '' All '' @ show_nat valid @ '' example files are valid!''], [], 0)))"

text \<open>A start without failures, but for the certificates of the webhook, which do not exist.\<close>

definition quiet_boot :: boot_env where
  "quiet_boot = \<lparr>be_rest_config = None, be_dynamic_client = None, be_kube_client = None, be_add_scheme = None,
     be_client = None, be_discovery = None, be_rest_mapper = None, be_health_bind = None, be_exporter = None,
     be_metrics_bind = None, be_cert_exists = False, be_key_exists = False\<rparr>"

definition quiet_manager :: manager_env where
  "quiet_manager = \<lparr>mg_new = None, mg_setup = None, mg_healthz = None, mg_readyz = None, mg_startup = None,
     mg_start = None\<rparr>"

section \<open>Laws\<close>

definition main_stops :: "boot_step set" where
  "main_stops = {Stop_Metrics, Stop_Tracing, Stop_Health, Cancel_Context}"

definition controller_steps :: "boot_step set" where
  "controller_steps = {Create_Manager new_manager_options, Rebind_Client, Start_Manager} \<union> range Manager_Ended"

lemma run_controller_steps:
  assumes "run_controller m = (ss, ex)"
  shows "set ss \<subseteq> controller_steps" "ex \<in> {None, Some 1}"
  using assms by (auto simp: run_controller_def controller_steps_def Let_def split: if_splits)

lemma run_election_steps:
  "run_election getenv c m events r = (r', ss, ex) \<Longrightarrow> set ss \<subseteq> controller_steps \<and> ex \<in> {None, Some 1}"
proof (induction getenv c m events r arbitrary: r' ss ex rule: run_election.induct)
  case (2 getenv c m ev evs r)
  then show ?case
    using run_controller_steps [of m]
    by (fastforce simp: Let_def split: if_splits prod.splits option.splits)
qed simp

lemma election_phase_steps:
  "election_phase getenv c m events r = (r', ss, ex) \<Longrightarrow> set ss \<subseteq> controller_steps \<and> ex \<in> {None, Some 1}"
  using run_controller_steps [of m] run_election_steps
  by (auto simp: election_phase_def split: if_splits prod.splits)

text \<open>A run that reaches the election, and one that ends before.\<close>

lemma run_main_cases:
  assumes "run_main getenv pd fl e m events now = (ss, fin)"
  obtains (elected) ws r phase ex where "start_webhook_server fl e = (ws, None)"
      "election_phase getenv (main_election_config (pf_election_id fl) (pf_election_namespace fl)
         (pf_leader_election fl)) m events (new_replica now) = (r, phase, ex)"
      "ss = [Health_Server (be_health_bind e = None), Metrics_Server] @ ws @ phase @ (case ex of
         None \<Rightarrow> Stop_Metrics # (if init_tracing getenv (be_exporter e) then [Stop_Tracing] else [])
           @ [Stop_Health, Cancel_Context]
       | Some c \<Rightarrow> [])"
      "fin = (case ex of None \<Rightarrow> Return 0 | Some c \<Rightarrow> Os_Exit c)"
    | (refused) "fin = Os_Exit 1" "set ss \<subseteq> {Health_Server (be_health_bind e = None), Metrics_Server}"
    | (failed) "fin = Return 1" "ss = []"
    | (cancelled) "fin = Return 1" "ss = [Cancel_Context]"
    | (unmetered) "fin = Return 1" "ss = [Health_Server (be_health_bind e = None)]
        @ (if init_tracing getenv (be_exporter e) then [Stop_Tracing] else []) @ [Stop_Health, Cancel_Context]"
proof -
  have "start_webhook_server fl e = (ws, Some c) \<Longrightarrow> ws = [] \<and> c = 1" for ws c
    by (auto simp: start_webhook_server_def split: if_splits)
  then show ?thesis
    using assms that
    by (auto simp: run_main_def with_defer_def after_steps_def serve_standalone_def serve_metrics_always_on_def
        split: if_splits sum.splits option.splits prod.splits)
qed

lemma idle_leader_ready:
  assumes "ls_leading l" "ls_api_reachable l"
  shows "health_mux (set_leader_state (Some l) (new_health_checker [])) l now ''/readyz'' = (200, [])"
    "health_mux (set_leader_state (Some l) (new_health_checker [])) l now ''/healthz'' = (200, [])"
    "health_mux (set_leader_state (Some l) (new_health_checker [])) l now ''/leaderz'' = (200, ''leader'')"
  using assms
  by (simp_all add: health_mux_def leadership_aware_readiness_def readiness_check_def standby_def
      set_leader_state_def new_health_checker_def checker_informers_def informer_readiness_def probe_reply_def
      leaderz_def liveness_check_def informer_liveness_def)

text \<open>The failures among the files, in order.\<close>

definition example_failures ::
  "k8s_checks \<Rightarrow> (string \<Rightarrow> go_error + policy) \<Rightarrow> (string \<times> (go_error + string)) list \<Rightarrow> string list" where
  "example_failures k un files = List.map_filter (\<lambda>(file, content). if contains file ''README'' then None
     else check_example k un file content) files"

lemma example_failures_simps [simp]:
  "example_failures k un [] = []"
  "example_failures k un ((file, content) # rest) = (if contains file ''README'' then example_failures k un rest
     else (case check_example k un file content of Some e \<Rightarrow> e # example_failures k un rest
       | None \<Rightarrow> example_failures k un rest))"
  by (simp_all add: example_failures_def List.map_filter_simps split: option.split)

lemma check_examples_errors:
  "fst (snd (check_examples k un out errs valid files)) = errs @ example_failures k un files"
  by (induction k un out errs valid files rule: check_examples.induct) (auto split: option.splits)

lemma example_failures_None:
  "example_failures k un files = [] \<longleftrightarrow>
     (\<forall>(file, content) \<in> set files. contains file ''README'' \<or> check_example k un file content = None)"
  by (induction files) (auto split: option.splits if_splits)

section \<open>Properties\<close>





text \<open>The checker of examples exits with 0 exactly when every file that is no README is read,
  parsed and valid; otherwise it reports every failure, in order.\<close>

theorem examples_law:
  "case validate_examples k un (Inr files) of (out, err, code) \<Rightarrow>
     (code = 0) = (\<forall>(file, content) \<in> set files. contains file ''README'' \<or> check_example k un file content = None) \<and>
     code \<in> {0, 1} \<and> drop 2 err = map (\<lambda>e. ''  '' @ e) (example_failures k un files)"
proof -
  obtain out errs valid where "check_examples k un [] [] 0 files = (out, errs, valid)"
    by (rule prod_cases3)
  moreover from this have "errs = example_failures k un files"
    using check_examples_errors [of k un "[]" "[]" 0 files] by simp
  ultimately show ?thesis
    unfolding example_failures_None [symmetric] by (simp add: validate_examples_def)
qed

end
