(* ===== verification/Settings.thy ===== *)
theory Settings
  imports Reconcile
begin

text \<open>
  Which settings of the configuration (\<open>pkg/config/config.go\<close>) reach a reconcile.  \<open>inert\<close> sets
  the two that do not to a fixed value, in a configuration, a reconciler and a service; each
  operation is shown to be the same for the reconciler and for its inert form.
\<close>

definition inert :: "controller_config \<Rightarrow> controller_config" where
  "inert c = c\<lparr>cc_max_deletions := 0, cc_max_concurrent := 0\<rparr>"

definition inert_reconciler :: "reconciler \<Rightarrow> reconciler" where
  "inert_reconciler r = r\<lparr>rc_config := map_option inert (rc_config r),
     rc_status_config := inert (rc_status_config r)\<rparr>"

definition inert_service :: "'w evaluation_service \<Rightarrow> 'w evaluation_service" where
  "inert_service svc = svc\<lparr>es_config := map_option inert (es_config svc),
     es_status := map_option inert (es_status svc)\<rparr>"

lemma inert_fields [simp]:
  "cc_batch_size (inert c) = cc_batch_size c" "cc_cleanup_interval (inert c) = cc_cleanup_interval c"
  by (simp_all add: inert_def)

lemma inert_values [simp]:
  "resolve_batch_size p (map_option inert oc) = resolve_batch_size p oc"
  "config_interval (map_option inert oc) = config_interval oc"
  by (simp_all add: resolve_batch_size_def config_interval_def split: option.split)

lemma inert_reconciler_fields [simp]:
  "rc_gate (inert_reconciler r) = rc_gate r" "rc_config (inert_reconciler r) = map_option inert (rc_config r)"
  "rc_recorder (inert_reconciler r) = rc_recorder r" "rc_resolver (inert_reconciler r) = rc_resolver r"
  "rc_client (inert_reconciler r) = rc_client r" "rc_status (inert_reconciler r) = rc_status r"
  "rc_oor (inert_reconciler r) = rc_oor r" "rc_status_config (inert_reconciler r) = inert (rc_status_config r)"
  "rc_integrity (inert_reconciler r) = rc_integrity r"
  by (simp_all add: inert_reconciler_def)

lemma inert_service_fields [simp]:
  "es_list (inert_service svc) = es_list svc" "es_matches (inert_service svc) = es_matches svc"
  "es_meets (inert_service svc) = es_meets svc" "es_limiter (inert_service svc) = es_limiter svc"
  "es_delete_batch (inert_service svc) = es_delete_batch svc" "es_gate (inert_service svc) = es_gate svc"
  "es_recorder (inert_service svc) = es_recorder svc" "es_config (inert_service svc) = map_option inert (es_config svc)"
  "es_status (inert_service svc) = map_option inert (es_status svc)"
  by (simp_all add: inert_service_def)

lemmas inert_eqs = inert_values inert_reconciler_fields inert_service_fields

section \<open>Writing the status\<close>

lemma inert_status:
  "update_status cl (map_option inert oc) p m d q refusals = update_status cl oc p m d q refusals"
  "update_status cl (Some (inert c)) p m d q refusals = update_status cl (Some c) p m d q refusals"
proof -
  show all: "update_status cl (map_option inert oc) p m d q refusals = update_status cl oc p m d q refusals" for oc
    unfolding update_status_def inert_eqs ..
  from all [of "Some c"] show "update_status cl (Some (inert c)) p m d q refusals = update_status cl (Some c) p m d q refusals"
    by simp
qed

lemma inert_finish:
  "finish_evaluation cl (map_option inert oc) b p m d q refusals = finish_evaluation cl oc b p m d q refusals"
proof -
  have "update_policy_status cl (map_option inert oc) b p m d q refusals = update_policy_status cl oc b p m d q refusals"
    unfolding update_policy_status_def by (cases oc) (simp_all add: inert_status)
  then show ?thesis unfolding finish_evaluation_def by simp
qed

section \<open>Evaluating\<close>

lemma inert_evaluate: "evaluate_policy fuel cl pgv (inert_service svc) p = evaluate_policy fuel cl pgv svc p"
proof -
  have one: "evaluate_one cl (inert_service svc) = evaluate_one cl svc"
    unfolding evaluate_one_def [abs_def] inert_eqs ..
  show ?thesis
    unfolding evaluate_policy_def evaluate_resources_def delete_resources_in_batches_def one inert_eqs inert_finish ..
qed

section \<open>Deleting\<close>

lemma inert_decide: "rc_decide (inert_reconciler r) = rc_decide r"
  unfolding rc_decide_def inert_eqs ..

lemma inert_delete:
  "delete_resource cl (inert_reconciler r) = delete_resource cl r"
  "delete_resource_with_backoff cl (inert_reconciler r) = delete_resource_with_backoff cl r"
  unfolding delete_resource_with_backoff_def [abs_def] delete_resource_def [abs_def] inert_eqs inert_decide
  by (rule refl)+

lemma inert_reads:
  "pre_read cl (inert_reconciler r) uids present batch = pre_read cl r uids present batch"
  "post_read cl (inert_reconciler r) uids present batch = post_read cl r uids present batch"
proof -
  have read: "read_object cl (inert_reconciler r) obj = read_object cl r obj" for obj
    unfolding read_object_def inert_eqs ..
  show "pre_read cl (inert_reconciler r) uids present batch = pre_read cl r uids present batch"
    by (induction batch arbitrary: uids present) (simp_all add: read)
  show "post_read cl (inert_reconciler r) uids present batch = post_read cl r uids present batch"
    by (induction batch) (simp_all add: read)
qed

lemma inert_batch: "delete_batch cl hash (inert_reconciler r) = delete_batch cl hash r"
  unfolding delete_batch_def [abs_def] execute_with_receipt_def run_batch_def finish_receipt_def inert_eqs
    inert_reads inert_delete ..

section \<open>Reconciling\<close>

lemma inert_receipt: "update_condition_receipt cl (inert_reconciler r) = update_condition_receipt cl r"
  unfolding update_condition_receipt_def [abs_def] inert_eqs ..

lemma inert_informer:
  "get_or_create_resource_informer cl pgv (inert_reconciler r) p = get_or_create_resource_informer cl pgv r p"
  unfolding get_or_create_resource_informer_def validate_target_or_classify_def reconcile_target_condition_def
    inert_eqs inert_receipt ..

lemma inert_reconciler_service:
  "reconciler_service cl hash (inert_reconciler r) key = inert_service (reconciler_service cl hash r key)"
  by (simp add: reconciler_service_def inert_service_def inert_decide inert_batch)

lemma inert_intervals:
  "get_requeue_interval (inert_reconciler r) = get_requeue_interval r"
  "get_requeue_interval_for_policy (inert_reconciler r) p = get_requeue_interval_for_policy r p"
  unfolding get_requeue_interval_def get_requeue_interval_for_policy_def inert_eqs by (rule refl)+

lemma inert_evaluation:
  "evaluate_policy_of fuel cl pgv hash (inert_reconciler r) p = evaluate_policy_of fuel cl pgv hash r p"
  unfolding evaluate_policy_of_def get_or_create_evaluation_service_def evaluate_directly_def
    delete_in_batches_shared_def update_policy_status_shared_def inert_informer inert_reconciler_service
    inert_evaluate inert_batch inert_eqs inert_status ..

lemma inert_reconcile:
  "reconcile fuel cl pgv k hash cr (inert_reconciler r) nn = reconcile fuel cl pgv k hash cr r nn"
  unfolding reconcile_def reconcile_integrity_def reconcile_admitted_def refuse_policy_def handle_paused_policy_def
    inert_eqs inert_receipt inert_evaluation inert_intervals ..

end
