(* ===== verification/Declarations.thy ===== *)
theory Declarations
  imports Operator_Surface "HOL-Library.List_Lexorder" "HOL-Library.Char_ord" "HOL-Library.Multiset"
begin

text \<open>
  The two declarations the repository makes about itself: the inventory of operations and the
  surfaces that bind them (\<open>internal/ops\<close>), and which operations may carry
  attestation (\<open>pkg/attestation/attestation.go\<close>).  No decision reads them; what is proved is that
  they are complete and agree with the code they describe.  Strings are bytes, so the
  characters outside ASCII are written out.
\<close>

section \<open>The inventory of operations\<close>

datatype op_kind = Kind_Mutation | Kind_Read | Kind_Dry_Run

fun op_kind_string :: "op_kind \<Rightarrow> string" where
  "op_kind_string Kind_Mutation = ''MUTATION''"
| "op_kind_string Kind_Read = ''READ''"
| "op_kind_string Kind_Dry_Run = ''DRY_RUN''"

datatype surface = Surface_K8s | Surface_CLI | Surface_API | Surface_MCP | Surface_UI

fun surface_string :: "surface \<Rightarrow> string" where
  "surface_string Surface_K8s = ''k8s''"
| "surface_string Surface_CLI = ''cli''"
| "surface_string Surface_API = ''api''"
| "surface_string Surface_MCP = ''mcp''"
| "surface_string Surface_UI = ''ui''"

definition surfaces :: "surface list" where
  "surfaces = [Surface_K8s, Surface_CLI, Surface_API, Surface_MCP, Surface_UI]"

record operation =
  op_id :: string
  op_domain :: string
  op_summary :: string
  op_kind :: op_kind
  op_consequence :: string
  op_idempotency :: string
  op_auth :: string
  op_class :: string
  op_tenant :: string
  op_occ :: string
  op_ceremony :: string
  op_bindings :: "(surface, string) gomap"
  op_absent :: "(surface, string) gomap"

definition surface_bools :: "operation \<Rightarrow> (surface, bool) gomap" where
  "surface_bools oper = foldl (\<lambda>out (s, binding). AList.update s True out)
     [(Surface_K8s, False), (Surface_CLI, False), (Surface_API, False), (Surface_MCP, False), (Surface_UI, False)]
     (op_bindings oper)"

definition op_config_validate_examples :: operation where
  "op_config_validate_examples = \<lparr>op_id = ''cleaner.config.validate-examples'',
     op_domain = ''config'',
     op_summary = (''Validate the example configs (the CLI verb: the config schema and the examples'' @ [CHR 0x27] @ '' conformance)''),
     op_kind = Kind_Read,
     op_consequence = ''none (the validation only)'',
     op_idempotency = ''pure'',
     op_auth = (''local (the operator'' @ [CHR 0x27] @ ''s own identity)''),
     op_class = ''READ_ONLY'',
     op_tenant = (''local (the operator'' @ [CHR 0x27] @ ''s own example files)''),
     op_occ = ''n/a (pure)'',
     op_ceremony = ''none'',
     op_bindings = [(Surface_CLI, ''cmd/validate-examples'')],
     op_absent = [(Surface_API, ''no REST route''),
       (Surface_MCP, ''no MCP tool''),
       (Surface_UI, ''no console screen'')]\<rparr>"

definition op_entitlements_check :: operation where
  "op_entitlements_check = \<lparr>op_id = ''cleaner.entitlements.check'',
     op_domain = ''entitlements'',
     op_summary = (''The CleanerGate admission: the policy (the verified snapshot) -> the quota (this generation'' @ [CHR 0x27] @ ''s window) -> the metered usage (cleaner.executions)''),
     op_kind = Kind_Read,
     op_consequence = ''admits or refuses the batch; the usage meters'',
     op_idempotency = ''the check is pure; the metered usage counts once per admission'',
     op_auth = (''the verified policy snapshot (the entitlegate'' @ [CHR 0x27] @ ''s generation binding)''),
     op_class = ''READ_ONLY'',
     op_tenant = ''the tenant bound in the verified snapshot'',
     op_occ = (''the snapshot'' @ [CHR 0x27] @ ''s generation binding (a stale snapshot refuses)''),
     op_ceremony = ''none'',
     op_bindings = [(Surface_K8s, (''in-process (the reconciler'' @ [CHR 0x27] @ ''s ExecuteWithReceipt calls Admit before the delete path)'')),
       (Surface_CLI, ''-entitlement-status -entitlement-snapshot <file> (the fail-closed snapshot verification + the identity render; verified live s105/s121)''),
       (Surface_MCP, ''the entitlement_status tool (the read-only family; the stdio posture answers the empty body when no provider is wired)'')],
     op_absent = [(Surface_API, ''no REST admission route''),
       (Surface_UI, ''no console screen'')]\<rparr>"

definition op_executions_delete_batch :: operation where
  "op_executions_delete_batch = \<lparr>op_id = ''cleaner.executions.delete-batch'',
     op_domain = ''executions'',
     op_summary = ''Execute one entitlement-gated deletion batch (policy -> quota -> metered usage -> the rate-limited delete path)'',
     op_kind = Kind_Mutation,
     op_consequence = ''deletes the matched resources; every deletion lands in the receipt'',
     op_idempotency = (''the reconciler'' @ [CHR 0x27] @ ''s idempotent loop (the batch re-runs converge; the entitlegate counts one execution per admission)''),
     op_auth = (''the service account (the controller'' @ [CHR 0x27] @ ''s own identity) + the CleanerGate'' @ [CHR 0x27] @ ''s verified policy snapshot''),
     op_class = ''IRREVERSIBLE_MUTATION'',
     op_tenant = (''the CRD'' @ [CHR 0x27] @ ''s namespace scope (the controller'' @ [CHR 0x27] @ ''s watched cluster)''),
     op_occ = ''resourceVersion-guarded status writes; the idempotent reconcile loop converges re-runs'',
     op_ceremony = ''the entitlement-gated admission (policy -> quota -> metered usage) precedes every delete path; DryRun plans first'',
     op_bindings = [(Surface_K8s, (''the Cleanup CRD reconciliation (pkg/controller: the PolicyReconciler.ExecuteWithReceipt through the entitlegate'' @ [CHR 0x27] @ ''s CleanerGate)''))],
     op_absent = [(Surface_CLI, ''no operator verb exists (the controller runs headless)''),
       (Surface_API, (''no REST deletion route BY DESIGN (a REST deletion API would be a new operation requiring its own '' @ [CHR 0xC2, CHR 0xA7] @ ''17 admission '' @ [CHR 0xE2, CHR 0x80, CHR 0x94] @ '' never a shortcut)'')),
       (Surface_MCP, (''no MCP tool (the task_start family is maestro'' @ [CHR 0x27] @ ''s; a cleaner tool would be the new typed operation)'')),
       (Surface_UI, ''no console screen'')]\<rparr>"

definition op_executions_dry_run :: operation where
  "op_executions_dry_run = \<lparr>op_id = ''cleaner.executions.dry-run'',
     op_domain = ''executions'',
     op_summary = ''Plan one deletion batch WITHOUT effects (the DryRun behavior: the plan contract, the batch test pins delete-must-not-delete)'',
     op_kind = Kind_Dry_Run,
     op_consequence = (''none (the plan only '' @ [CHR 0xE2, CHR 0x80, CHR 0x94] @ '' the contract test pins delete-must-not-delete under DryRun)''),
     op_idempotency = ''pure (the same input -> the same plan)'',
     op_auth = ''the service account'',
     op_class = ''READ_ONLY'',
     op_tenant = (''the CRD'' @ [CHR 0x27] @ ''s namespace scope''),
     op_occ = ''n/a (the same input plans the same batch)'',
     op_ceremony = ''none (the contract test pins delete-must-not-delete under DryRun)'',
     op_bindings = [(Surface_K8s, (''the Cleanup CRD'' @ [CHR 0x27] @ ''s DryRun behavior (pkg/controller: the batch contract)''))],
     op_absent = [(Surface_CLI, ''no dry-run verb''),
       (Surface_API, ''no REST plan route''),
       (Surface_MCP, ''no MCP tool''),
       (Surface_UI, ''no console screen'')]\<rparr>"

definition op_health_read :: operation where
  "op_health_read = \<lparr>op_id = ''cleaner.health.read'',
     op_domain = ''health'',
     op_summary = (''The liveness/readiness surface (the controller'' @ [CHR 0x27] @ ''s own health)''),
     op_kind = Kind_Read,
     op_consequence = ''none'',
     op_idempotency = ''pure'',
     op_auth = ''the cluster-internal (the health endpoints are not auth-gated by design; the cluster boundary is the gate)'',
     op_class = ''READ_ONLY'',
     op_tenant = ''the controller process itself'',
     op_occ = ''n/a'',
     op_ceremony = ''none'',
     op_bindings = [(Surface_K8s, ''the health endpoints (internal/health)''),
       (Surface_CLI, ''-health-summary (the process-local posture: version/commit/uptime; verified live s105/s121)''),
       (Surface_MCP, ''the health_summary tool (the read-only family)'')],
     op_absent = [(Surface_API, ''the health endpoints ARE the HTTP surface (the only one, by design)''),
       (Surface_UI, ''no console screen'')]\<rparr>"

definition Registry :: "operation list" where
  "Registry = [op_config_validate_examples, op_entitlements_check, op_executions_delete_batch, op_executions_dry_run, op_health_read]"

text \<open>The document the inventory is published as: its operations by ID.  The IDs differ, so any
  sorting gives the same list.\<close>

record doc_operation =
  dop_product :: string
  dop_operation :: operation
  dop_surfaces :: "(surface, bool) gomap"

record doc =
  doc_schema :: string
  doc_product :: string
  doc_note :: string
  doc_total :: int
  doc_operations :: "doc_operation list"

fun doc_entries :: "operation list \<Rightarrow> doc_operation list" where
  "doc_entries [] = []"
| "doc_entries (oper # rest) =
     \<lparr>dop_product = ''zen-cleaner'', dop_operation = oper, dop_surfaces = surface_bools oper\<rparr> # doc_entries rest"

definition canonical_doc :: "operation list \<Rightarrow> doc" where
  "canonical_doc registry = (let ops = sort_key op_id registry in
     \<lparr>doc_schema = ''zen-cleaner/operation-registry-doc/v1'', doc_product = ''zen-cleaner'',
      doc_note = ''the canonical operation registry (the four-surface parity law): emitted from internal/ops (the source) '' @ [CHR 0xE2, CHR 0x80, CHR 0x94] @ '' never hand-edited; the sync test pins it'',
      doc_total = int (length ops), doc_operations = doc_entries ops\<rparr>)"

text \<open>\<open>marshal\<close> is \<open>json.MarshalIndent\<close>.\<close>

definition canonical_doc_json :: "(doc \<Rightarrow> go_error + string) \<Rightarrow> go_error + string" where
  "canonical_doc_json marshal = (case marshal (canonical_doc Registry) of
       Inl e \<Rightarrow> Inl e | Inr b \<Rightarrow> Inr (b @ [CHR 0x0A]))"

section \<open>Attestation\<close>

datatype strategy = Strategy_Off | Strategy_Always | Strategy_Sample | Strategy_Budgeted | Strategy_Conditional

fun strategy_string :: "strategy \<Rightarrow> string" where
  "strategy_string Strategy_Off = ''OFF''"
| "strategy_string Strategy_Always = ''ALWAYS''"
| "strategy_string Strategy_Sample = ''DETERMINISTIC_SAMPLE''"
| "strategy_string Strategy_Budgeted = ''BUDGETED''"
| "strategy_string Strategy_Conditional = ''CONDITIONAL''"

datatype enforcement = Enforcement_Required | Enforcement_Best_Effort

fun enforcement_string :: "enforcement \<Rightarrow> string" where
  "enforcement_string Enforcement_Required = ''REQUIRED''"
| "enforcement_string Enforcement_Best_Effort = ''BEST_EFFORT''"

record subject =
  su_name :: string
  su_attestable :: bool
  su_strategy :: strategy
  su_enforcement :: enforcement
  su_required_candidate :: bool
  su_digest_source :: string
  su_privacy :: string

definition Applicability :: "subject list" where
  "Applicability =
     [\<lparr>su_name = ''POLICY_EVALUATION_CYCLE'', su_attestable = True, su_strategy = Strategy_Sample,
       su_enforcement = Enforcement_Best_Effort, su_required_candidate = False,
       su_digest_source = ''cycle receipt digest (matched/refused/deleted counts + policy generation)'',
       su_privacy = ''aggregated counts only; no object names, no policy contents''\<rparr>,
      \<lparr>su_name = ''DELETION_EXECUTION'', su_attestable = True, su_strategy = Strategy_Off,
       su_enforcement = Enforcement_Best_Effort, su_required_candidate = False,
       su_digest_source = ''execution receipt digest (refusal-reason histogram + deletion counts)'',
       su_privacy = ''refusal reason classes only; never object identity, never policy identity''\<rparr>]"

text \<open>The subject of the name, or the zero value and false (\<open>None\<close>).\<close>

fun find_subject :: "string \<Rightarrow> subject list \<Rightarrow> subject option" where
  "find_subject name [] = None"
| "find_subject name (s # rest) = (if su_name s = name then Some s else find_subject name rest)"

definition by_name :: "string \<Rightarrow> subject option" where
  "by_name name = find_subject name Applicability"

section \<open>Laws\<close>

lemma find_subject_member: "find_subject name ss = Some s \<Longrightarrow> s \<in> set ss \<and> su_name s = name"
  by (induction ss) (auto split: if_splits)

lemma map_of_foldl_True:
  "map_of (foldl (\<lambda>out (s, binding). AList.update s True out) out bs) s =
     (if s \<in> fst ` set bs then Some True else map_of out s)"
  by (induction bs arbitrary: out) (auto simp: update_conv' split: if_splits)

text \<open>The map of the census says of every surface whether it is bound.\<close>

theorem surface_bools_law: "map_of (surface_bools oper) s = Some (s \<in> fst ` set (op_bindings oper))"
  unfolding surface_bools_def map_of_foldl_True by (cases s) simp_all

lemma doc_entries_map: "map dop_operation (doc_entries ops) = ops"
  "\<forall>d\<in>set (doc_entries ops). dop_surfaces d = surface_bools (dop_operation d)"
  by (induction ops) auto

text \<open>The published document is the inventory: every operation once, by ID, with the surfaces it
  binds.\<close>

theorem canonical_doc_law:
  "mset (map dop_operation (doc_operations (canonical_doc ops))) = mset ops
    \<and> sorted (map (op_id \<circ> dop_operation) (doc_operations (canonical_doc ops)))
    \<and> doc_total (canonical_doc ops) = int (length ops)
    \<and> (\<forall>d\<in>set (doc_operations (canonical_doc ops)). \<forall>s.
        map_of (dop_surfaces d) s = Some (s \<in> fst ` set (op_bindings (dop_operation d))))"
  using doc_entries_map[of "sort_key op_id ops"]
  by (simp add: canonical_doc_def Let_def surface_bools_law flip: map_map)

text \<open>The source keeps it in that order already.\<close>

lemma registry_sorted: "map dop_operation (doc_operations (canonical_doc Registry)) = Registry"
proof -
  have "sorted (map op_id Registry)"
    by (simp add: Registry_def op_config_validate_examples_def op_entitlements_check_def
        op_executions_delete_batch_def op_executions_dry_run_def op_health_read_def list_le_def)
  then show ?thesis by (simp add: canonical_doc_def Let_def doc_entries_map sort_key_id_if_sorted)
qed

text \<open>Every surface of every operation is either bound or declared absent, but for one gap: the
  validation of examples says nothing of the Kubernetes surface.\<close>

theorem registry_gaps:
  "list_all (\<lambda>oper. list_all (\<lambda>s.
       (map_of (op_bindings oper) s = None \<longleftrightarrow> map_of (op_absent oper) s \<noteq> None) \<longleftrightarrow>
       op_id oper \<noteq> ''cleaner.config.validate-examples'' \<or> s \<noteq> Surface_K8s) surfaces) Registry"
  by code_simp

text \<open>An operation bound to MCP names a tool the adapter has, and no tool is left out.\<close>

theorem registry_names_tools:
  "list_all (\<lambda>oper. case map_of (op_bindings oper) Surface_MCP of
       None \<Rightarrow> True | Some b \<Rightarrow> list_ex (\<lambda>t. contains b (tl_name t)) adapter_tools) Registry \<and>
   list_all (\<lambda>t. list_ex (\<lambda>oper. case map_of (op_bindings oper) Surface_MCP of
       None \<Rightarrow> False | Some b \<Rightarrow> contains b (tl_name t)) Registry) adapter_tools"
  by code_simp

text \<open>No subject may ever be required, so no deletion depends on a proof.\<close>

theorem never_required:
  "by_name name = Some s \<Longrightarrow> \<not> su_required_candidate s \<and> su_enforcement s = Enforcement_Best_Effort \<and> su_name s = name"
  unfolding by_name_def by (drule find_subject_member) (auto simp: Applicability_def)

end
