(* ===== verification/Logging.thy ===== *)
theory Logging
  imports Env_Config
begin

text \<open>
  The logging library without its sinks: masking (\<open>internal/logging/masking.go\<close>), the
  categories of errors and coded errors (\<open>errors.go\<close>), fields (\<open>fields.go\<close>), and the level,
  the mode and the fields of a log line (\<open>logging.go\<close>).

  A zap field is its key and value; a value given as \<open>interface{}\<close> is the field value zap makes
  of it, and a float64 is its 64 bits.  What a logger writes is the list of entries that reach
  its core: zap writes an entry when its level is at least the logger's.  The text of
  \<open>runtime.Stack\<close> is a parameter.
\<close>

section \<open>Masking\<close>

definition mask_uuid :: "string \<Rightarrow> string" where
  "mask_uuid uuid =
     (if uuid = [] then [] else if length uuid \<le> 8 then uuid else take 8 uuid @ ''...'')"

definition mask_token :: "string \<Rightarrow> string" where
  "mask_token token =
     (if token = [] then [] else if length token \<le> 4 then ''***'' else take 4 token @ ''...'')"

definition mask_email :: "string \<Rightarrow> string" where
  "mask_email email =
     (if email = [] then []
      else (case split_on CHR ''@'' email of
          [name, host] \<Rightarrow>
            if length name \<le> 3 then ''***@'' @ host else take 3 name @ ''...'' @ ''@'' @ host
        | _ \<Rightarrow> ''***''))"

definition mask_ip :: "string \<Rightarrow> string" where
  "mask_ip ip =
     (if ip = [] then []
      else (let parts = split_on CHR ''.'' ip in
        if length parts = 4 then hd parts @ ''.x.x.x'' else ''***''))"

definition redact_password :: "string \<Rightarrow> string" where "redact_password password = ''[REDACTED]''"
definition redact_secret :: "string \<Rightarrow> string" where "redact_secret secret = ''[REDACTED]''"

text \<open>\<open>SanitizeSQL\<close>: its three regular expressions as scans.  \<open>'[^']*'\<close> pairs the quotes from the
  left; \<open>\b\d+\b\<close> matches the words that are all digits; the pattern of a UUID is tried at
  every position.\<close>

fun replace_literals :: "string list \<Rightarrow> string" where
  "replace_literals [] = []"
| "replace_literals [p] = p"
| "replace_literals [p, lit] = p @ CHR 0x27 # lit"
| "replace_literals (p # lit # r # rest) =
     p @ [CHR 0x27, CHR ''?'', CHR 0x27] @ replace_literals (r # rest)"

definition char_between :: "char \<Rightarrow> char \<Rightarrow> char \<Rightarrow> bool" where
  "char_between lo c hi \<longleftrightarrow> (of_char lo :: nat) \<le> of_char c \<and> (of_char c :: nat) \<le> of_char hi"

definition word_char :: "char \<Rightarrow> bool" where
  "word_char c \<longleftrightarrow> is_digit c \<or> char_between CHR ''a'' c CHR ''z'' \<or> char_between CHR ''A'' c CHR ''Z''
     \<or> c = CHR ''_''"

definition replace_number :: "string \<Rightarrow> string" where
  "replace_number w = (if w \<noteq> [] \<and> list_all is_digit w then ''?'' else w)"

fun replace_numbers :: "string \<Rightarrow> string \<Rightarrow> string" where
  "replace_numbers w [] = replace_number w"
| "replace_numbers w (c # cs) =
     (if word_char c then replace_numbers (w @ [c]) cs
      else replace_number w @ c # replace_numbers [] cs)"

definition hex_lower :: "char \<Rightarrow> bool" where
  "hex_lower c \<longleftrightarrow> is_digit c \<or> char_between CHR ''a'' c CHR ''f''"

definition uuid_shaped :: "string \<Rightarrow> bool" where
  "uuid_shaped w \<longleftrightarrow> map length (split_on CHR ''-'' w) = [8, 4, 4, 4, 12] \<and>
     list_all (list_all hex_lower) (split_on CHR ''-'' w)"

fun replace_uuids :: "string \<Rightarrow> string" where
  "replace_uuids [] = []"
| "replace_uuids (c # cs) =
     (if uuid_shaped (take 36 (c # cs)) then CHR ''?'' # replace_uuids (drop 35 cs)
      else c # replace_uuids cs)"

definition sanitize_sql :: "string \<Rightarrow> string" where
  "sanitize_sql query =
     (if query = [] then []
      else (let q1 = replace_literals (split_on CHR 0x27 query);
                q2 = replace_numbers [] q1;
                q3 = replace_uuids q2
            in if length q3 > 200 then take 200 q3 @ ''...'' else q3))"

section \<open>Categories of errors\<close>

datatype error_category =
    Cat_Unknown | Cat_Validation | Cat_Authentication | Cat_Authorization | Cat_NotFound
  | Cat_Conflict | Cat_RateLimit | Cat_Timeout | Cat_Network | Cat_Database | Cat_External
  | Cat_Internal | Cat_Config | Cat_Temporary

fun category_string :: "error_category \<Rightarrow> string" where
  "category_string Cat_Unknown = ''unknown''"
| "category_string Cat_Validation = ''validation''"
| "category_string Cat_Authentication = ''authentication''"
| "category_string Cat_Authorization = ''authorization''"
| "category_string Cat_NotFound = ''not_found''"
| "category_string Cat_Conflict = ''conflict''"
| "category_string Cat_RateLimit = ''rate_limit''"
| "category_string Cat_Timeout = ''timeout''"
| "category_string Cat_Network = ''network''"
| "category_string Cat_Database = ''database''"
| "category_string Cat_External = ''external''"
| "category_string Cat_Internal = ''internal''"
| "category_string Cat_Config = ''config''"
| "category_string Cat_Temporary = ''temporary''"

definition error_category_rules :: "(error_category \<times> string list) list" where
  "error_category_rules =
     [(Cat_NotFound, [''not found'', ''does not exist'']),
      (Cat_Conflict, [''already exists'', ''duplicate'', ''conflict'']),
      (Cat_Authentication, [''unauthorized'', ''authentication failed'', ''invalid token'']),
      (Cat_Authorization, [''forbidden'', ''permission denied'', ''access denied'']),
      (Cat_Validation, [''invalid'', ''validation'', ''malformed'']),
      (Cat_Timeout, [''timeout'', ''deadline exceeded'']),
      (Cat_RateLimit, [''rate limit'', ''too many requests'']),
      (Cat_Network, [''connection refused'', ''connection reset'', ''network'']),
      (Cat_Database, [''database'', ''sql'', ''transaction'']),
      (Cat_Config, [''config'', ''configuration''])]"

fun first_category :: "string \<Rightarrow> (error_category \<times> string list) list \<Rightarrow> error_category" where
  "first_category msg [] = Cat_Internal"
| "first_category msg ((category, patterns) # rules) =
     (if list_ex (contains msg) patterns then category else first_category msg rules)"

definition categorize_error :: "go_error option \<Rightarrow> error_category" where
  "categorize_error oe = (case oe of
       None \<Rightarrow> Cat_Unknown
     | Some e \<Rightarrow> first_category (to_lower (error_string e)) error_category_rules)"

definition is_retryable_error :: "go_error option \<Rightarrow> bool" where
  "is_retryable_error oe = (case oe of None \<Rightarrow> False | Some e \<Rightarrow>
     categorize_error (Some e) \<in> {Cat_Temporary, Cat_Timeout, Cat_Network, Cat_External, Cat_RateLimit})"

definition is_client_error :: "go_error option \<Rightarrow> bool" where
  "is_client_error oe = (case oe of None \<Rightarrow> False | Some e \<Rightarrow>
     categorize_error (Some e) \<in>
       {Cat_Validation, Cat_Authentication, Cat_Authorization, Cat_NotFound, Cat_Conflict})"

definition is_server_error :: "go_error option \<Rightarrow> bool" where
  "is_server_error oe = (case oe of None \<Rightarrow> False | Some e \<Rightarrow>
     categorize_error (Some e) \<in> {Cat_Internal, Cat_Database, Cat_External, Cat_Config})"

section \<open>Coded errors\<close>

definition wrap_error :: "go_error option \<Rightarrow> string \<Rightarrow> go_error option" where
  "wrap_error oe msg = (case oe of None \<Rightarrow> None | Some e \<Rightarrow> Some (Errorf (msg @ '': '') e []))"

text \<open>The formatted text of \<open>WrapErrorf\<close> is its argument.\<close>

definition wrap_errorf :: "go_error option \<Rightarrow> string \<Rightarrow> go_error option" where
  "wrap_errorf oe text = (case oe of None \<Rightarrow> None | Some e \<Rightarrow> Some (Errorf (text @ '': '') e []))"

definition new_error_with_code :: "string \<Rightarrow> string \<Rightarrow> go_error" where
  "new_error_with_code code message = Code_Error code message None"

definition new_error_with_cause :: "string \<Rightarrow> string \<Rightarrow> go_error option \<Rightarrow> go_error" where
  "new_error_with_cause code message cause = Code_Error code message cause"

fun is_code_error :: "go_error \<Rightarrow> bool" where
  "is_code_error (Code_Error code msg oe) = True"
| "is_code_error e = False"

definition extract_error_code :: "go_error option \<Rightarrow> string" where
  "extract_error_code oe = (case oe of
       None \<Rightarrow> []
     | Some e \<Rightarrow> (case errors_as is_code_error e of
          Some (Code_Error code msg cause) \<Rightarrow> code | _ \<Rightarrow> []))"

section \<open>Mode, level, stack\<close>

definition is_development :: "getenv \<Rightarrow> bool" where
  "is_development getenv \<longleftrightarrow> getenv ''LOG_LEVEL'' = ''debug'' \<or> getenv ''DEVELOPMENT'' = ''true''
     \<or> getenv ''ENV'' = ''development''"

datatype level = Debug_Level | Info_Level | Warn_Level | Error_Level

fun level_rank :: "level \<Rightarrow> nat" where
  "level_rank Debug_Level = 0" | "level_rank Info_Level = 1"
| "level_rank Warn_Level = 2" | "level_rank Error_Level = 3"

definition get_log_level :: "getenv \<Rightarrow> string \<Rightarrow> level" where
  "get_log_level getenv name =
     (let l1 = (if name = [] then getenv ''LOG_LEVEL'' else name);
          l2 = (if l1 = [] then ''info'' else l1)
      in if l2 \<in> {''debug'', ''DEBUG''} then Debug_Level
         else if l2 \<in> {''info'', ''INFO''} then Info_Level
         else if l2 \<in> {''warn'', ''WARN'', ''warning'', ''WARNING''} then Warn_Level
         else if l2 \<in> {''error'', ''ERROR''} then Error_Level
         else Info_Level)"

definition get_stack_trace :: "getenv \<Rightarrow> string \<Rightarrow> nat \<Rightarrow> string" where
  "get_stack_trace getenv stack skip =
     (if \<not> is_development getenv then []
      else if length stack = 0 then []
      else (let stack_lines = split_on CHR 0x0A stack; start = 2 + skip * 2 in
        if start \<ge> length stack_lines then []
        else (let max_frames = (if start + 20 > length stack_lines then length stack_lines else start + 20) in
          join_with [CHR 0x0A] (drop start (take max_frames stack_lines)))))"

end
