(* ===== verification/Log_Context.thy ===== *)
theory Log_Context
  imports Logging "HOL-Library.Signed_Division"
begin

text \<open>
  Contexts, their trace and request IDs and how these travel in HTTP headers
  (\<open>internal/logging/context.go\<close>), the fs of a log line (\<open>fs.go\<close>) and the loggers: the
  basic one (\<open>logging.go\<close>), errors with their category (\<open>errors.go\<close>), audit (\<open>audit.go\<close>),
  performance (\<open>performance.go\<close>) and monitoring (\<open>monitoring.go\<close>).

  A context holds the values of the package's keys and what OpenTelemetry has for it: the IDs
  of a recording span, when it has them.  The global propagator of OpenTelemetry may be nil;
  otherwise it is a pair of functions, inject and extract.  Headers are looked up by the names
  the sources use.
\<close>

section \<open>Contexts\<close>

record go_context =
  cx_values :: "(string, string) gomap"
  cx_otel_trace :: "string option"
  cx_otel_span :: "string option"

definition with_value :: "string \<Rightarrow> string \<Rightarrow> go_context \<Rightarrow> go_context" where
  "with_value key v ctx = ctx\<lparr>cx_values := AList.update key v (cx_values ctx)\<rparr>"

definition with_request_id :: "string \<Rightarrow> go_context \<Rightarrow> go_context" where
  "with_request_id = with_value ''request_id''"
definition with_tenant_id :: "string \<Rightarrow> go_context \<Rightarrow> go_context" where
  "with_tenant_id = with_value ''tenant_id''"
definition with_cluster_id :: "string \<Rightarrow> go_context \<Rightarrow> go_context" where
  "with_cluster_id = with_value ''cluster_id''"
definition with_user_id :: "string \<Rightarrow> go_context \<Rightarrow> go_context" where
  "with_user_id = with_value ''user_id''"
definition with_trace_id :: "string \<Rightarrow> go_context \<Rightarrow> go_context" where
  "with_trace_id = with_value ''trace_id''"
definition with_span_id :: "string \<Rightarrow> go_context \<Rightarrow> go_context" where
  "with_span_id = with_value ''span_id''"
definition with_resource_id :: "string \<Rightarrow> go_context \<Rightarrow> go_context" where
  "with_resource_id = with_value ''resource_id''"

definition get_value :: "string \<Rightarrow> go_context option \<Rightarrow> string" where
  "get_value key oc = (case oc of None \<Rightarrow> []
     | Some ctx \<Rightarrow> (case map_of (cx_values ctx) key of Some v \<Rightarrow> v | None \<Rightarrow> []))"

definition get_request_id :: "go_context option \<Rightarrow> string" where
  "get_request_id = get_value ''request_id''"
definition get_tenant_id :: "go_context option \<Rightarrow> string" where
  "get_tenant_id = get_value ''tenant_id''"
definition get_cluster_id :: "go_context option \<Rightarrow> string" where
  "get_cluster_id = get_value ''cluster_id''"
definition get_user_id :: "go_context option \<Rightarrow> string" where
  "get_user_id = get_value ''user_id''"
definition get_resource_id :: "go_context option \<Rightarrow> string" where
  "get_resource_id = get_value ''resource_id''"

definition get_trace_id :: "go_context option \<Rightarrow> string" where
  "get_trace_id oc = (case oc of None \<Rightarrow> []
     | Some ctx \<Rightarrow> (case cx_otel_trace ctx of Some t \<Rightarrow> t
         | None \<Rightarrow> (case map_of (cx_values ctx) ''trace_id'' of Some v \<Rightarrow> v | None \<Rightarrow> [])))"

definition get_span_id :: "go_context option \<Rightarrow> string" where
  "get_span_id oc = (case oc of None \<Rightarrow> []
     | Some ctx \<Rightarrow> (case cx_otel_span ctx of Some t \<Rightarrow> t
         | None \<Rightarrow> (case map_of (cx_values ctx) ''span_id'' of Some v \<Rightarrow> v | None \<Rightarrow> [])))"

section \<open>Trace headers\<close>

type_synonym headers = "(string, string) gomap"

record propagator =
  pr_inject :: "go_context \<Rightarrow> headers \<Rightarrow> headers"
  pr_extract :: "headers \<Rightarrow> go_context \<Rightarrow> go_context"

definition extract_traceparent :: "headers \<Rightarrow> go_context \<Rightarrow> go_context" where
  "extract_traceparent hs ctx =
     (let tp = lookup_str hs ''Traceparent'' in
      if tp \<noteq> [] \<and> length tp \<ge> 36 then
        (if length tp \<ge> 35 then
           (let ctx1 = with_trace_id (take 32 (drop 3 tp)) ctx in
            if length tp \<ge> 52 then with_span_id (take 16 (drop 36 tp)) ctx1 else ctx1)
         else ctx)
      else ctx)"

text \<open>\<open>ExtractTraceContext\<close>, on the context and the headers of the request.\<close>

definition extract_trace_context :: "propagator option \<Rightarrow> headers \<Rightarrow> go_context \<Rightarrow> go_context" where
  "extract_trace_context prop hs c0 =
     (let c1 = (case prop of Some p \<Rightarrow> pr_extract p hs c0 | None \<Rightarrow> c0);
          c2 = (if get_trace_id (Some c1) = [] then extract_traceparent hs c1 else c1);
          c3 = (if get_trace_id (Some c2) = []
                then (if lookup_str hs ''X-Trace-ID'' \<noteq> []
                      then with_trace_id (lookup_str hs ''X-Trace-ID'') c2 else c2)
                else c2);
          request = lookup_str hs ''X-Request-ID''
      in if request \<noteq> []
         then (let c4 = with_request_id request c3 in
               if get_trace_id (Some c4) = [] then with_trace_id request c4 else c4)
         else c3)"

definition propagate_trace_headers :: "propagator option \<Rightarrow> go_context option \<Rightarrow> headers \<Rightarrow> headers" where
  "propagate_trace_headers prop oc h0 = (case oc of None \<Rightarrow> h0
     | Some ctx \<Rightarrow>
        (let h1 = (case prop of Some p \<Rightarrow> pr_inject p ctx h0 | None \<Rightarrow> h0);
             trace = get_trace_id oc;
             h2 = (if trace \<noteq> [] then
                 (let h = (if lookup_str h1 ''Traceparent'' = [] then
                        (let span = (if get_span_id oc = [] then ''0000000000000000'' else get_span_id oc) in
                         AList.update ''Traceparent'' (''00-'' @ trace @ ''-'' @ span @ ''-01'') h1)
                      else h1)
                  in if lookup_str h ''X-Trace-ID'' = [] then AList.update ''X-Trace-ID'' trace h else h)
               else h1);
             request = get_request_id oc
         in if request \<noteq> [] \<and> lookup_str h2 ''X-Request-ID'' = []
            then AList.update ''X-Request-ID'' request h2 else h2))"

section \<open>Fields\<close>

datatype field_value =
    F_String string | F_Int int64 | F_Bool bool | F_Float "64 word" | F_Strings "string list"
  | F_Error go_error | F_Skip

type_synonym field = "string \<times> field_value"

definition zap_skip :: field where "zap_skip = ([], F_Skip)"

definition zap_error :: "go_error option \<Rightarrow> field" where
  "zap_error oe = (case oe of None \<Rightarrow> zap_skip | Some e \<Rightarrow> (''error'', F_Error e))"

text \<open>\<open>Duration.Milliseconds\<close>.\<close>

definition milliseconds :: "duration \<Rightarrow> int64" where
  "milliseconds d = word_of_int (sint d sdiv 1000000)"

definition request_id_field :: "string \<Rightarrow> field" where "request_id_field v = (''request_id'', F_String v)"
definition trace_id_field :: "string \<Rightarrow> field" where "trace_id_field v = (''trace_id'', F_String v)"
definition span_id_field :: "string \<Rightarrow> field" where "span_id_field v = (''span_id'', F_String v)"
definition cluster_id_field :: "string \<Rightarrow> field" where "cluster_id_field v = (''cluster_id'', F_String v)"
definition resource_id_field :: "string \<Rightarrow> field" where "resource_id_field v = (''resource_id'', F_String v)"
definition resource_type_field :: "string \<Rightarrow> field" where
  "resource_type_field v = (''resource_type'', F_String v)"
definition operation_field :: "string \<Rightarrow> field" where "operation_field v = (''operation'', F_String v)"
definition http_method_field :: "string \<Rightarrow> field" where "http_method_field v = (''http_method'', F_String v)"
definition http_status_field :: "int64 \<Rightarrow> field" where "http_status_field n = (''http_status'', F_Int n)"
definition latency_field :: "duration \<Rightarrow> field" where "latency_field d = (''latency_ms'', F_Int (milliseconds d))"
definition error_code_field :: "string \<Rightarrow> field" where "error_code_field v = (''error_code'', F_String v)"
definition remote_addr_field :: "string \<Rightarrow> field" where "remote_addr_field v = (''remote_addr'', F_String v)"
definition user_agent_field :: "string \<Rightarrow> field" where "user_agent_field v = (''user_agent'', F_String v)"
definition component_field :: "string \<Rightarrow> field" where "component_field v = (''component'', F_String v)"
definition cache_hit_field :: "bool \<Rightarrow> field" where "cache_hit_field b = (''cache_hit'', F_Bool b)"
definition db_query_field :: "string \<Rightarrow> field" where
  "db_query_field q = (''db_query'', F_String (sanitize_sql q))"
definition db_duration_field :: "int64 \<Rightarrow> field" where "db_duration_field n = (''db_duration_ms'', F_Int n)"
definition duration_field :: "string \<Rightarrow> duration \<Rightarrow> field" where
  "duration_field key d = (key, F_Int (milliseconds d))"

definition http_path_field :: "string \<Rightarrow> field" where "http_path_field v = (''http_path'', F_String v)"
definition latency_ms_field :: "int64 \<Rightarrow> field" where "latency_ms_field n = (''latency_ms'', F_Int n)"
definition namespace_field :: "string \<Rightarrow> field" where "namespace_field v = (''namespace'', F_String v)"
definition pod_field :: "string \<Rightarrow> field" where "pod_field v = (''pod'', F_String v)"
definition node_field :: "string \<Rightarrow> field" where "node_field v = (''node'', F_String v)"
definition kind_field :: "string \<Rightarrow> field" where "kind_field v = (''kind'', F_String v)"
definition name_field :: "string \<Rightarrow> field" where "name_field v = (''name'', F_String v)"
definition retry_count_field :: "int64 \<Rightarrow> field" where "retry_count_field n = (''retry_count'', F_Int n)"
definition string_field :: "string \<Rightarrow> string \<Rightarrow> field" where "string_field key v = (key, F_String v)"
definition int_field :: "string \<Rightarrow> int64 \<Rightarrow> field" where "int_field key n = (key, F_Int n)"
definition float_field :: "string \<Rightarrow> 64 word \<Rightarrow> field" where "float_field key v = (key, F_Float v)"
definition bool_field :: "string \<Rightarrow> bool \<Rightarrow> field" where "bool_field key b = (key, F_Bool b)"
definition strings_field :: "string \<Rightarrow> string list \<Rightarrow> field" where "strings_field key vs = (key, F_Strings vs)"

definition tenant_id_field :: "string \<Rightarrow> bool \<Rightarrow> field" where
  "tenant_id_field v masked = (''tenant_id'', F_String (if masked \<and> v \<noteq> [] then mask_uuid v else v))"
definition user_id_field :: "string \<Rightarrow> bool \<Rightarrow> field" where
  "user_id_field v masked = (''user_id'', F_String (if masked \<and> v \<noteq> [] then mask_uuid v else v))"

definition error_category_field :: "error_category \<Rightarrow> field" where
  "error_category_field category = (''error_category'', F_String (category_string category))"

definition error_stack_field :: "getenv \<Rightarrow> string \<Rightarrow> field" where
  "error_stack_field getenv stack =
     (if stack = [] \<or> \<not> is_development getenv then zap_skip else (''error_stack'', F_String stack))"

section \<open>The logger\<close>

record entry =
  en_level :: level
  en_msg :: string
  en_fields :: "field list"

record logger =
  lg_component :: string
  lg_level :: level
  lg_fields :: "field list"

definition log_write :: "logger \<Rightarrow> level \<Rightarrow> string \<Rightarrow> field list \<Rightarrow> entry list" where
  "log_write lg lvl msg fs =
     (if level_rank (lg_level lg) \<le> level_rank lvl
      then [\<lparr>en_level = lvl, en_msg = msg, en_fields = lg_fields lg @ fs\<rparr>] else [])"

text \<open>The name and the level of \<open>NewLoggerWithConfig\<close>; its encoder and sink are zap's.\<close>

definition new_logger :: "getenv \<Rightarrow> string \<Rightarrow> string \<Rightarrow> logger" where
  "new_logger getenv name level_name =
     (let component = (if name = [] then ''unknown'' else name) in
      \<lparr>lg_component = component, lg_level = get_log_level getenv level_name,
       lg_fields = [component_field component]\<rparr>)"

definition with_component :: "string \<Rightarrow> logger \<Rightarrow> logger" where
  "with_component name lg = lg\<lparr>lg_component := name, lg_fields := lg_fields lg @ [component_field name]\<rparr>"

definition with_field :: "string \<Rightarrow> field_value \<Rightarrow> logger \<Rightarrow> logger" where
  "with_field key v lg = lg\<lparr>lg_fields := lg_fields lg @ [(key, v)]\<rparr>"

text \<open>The list of the map's entries in the order the iteration takes.\<close>

definition with_fields :: "(string \<times> field_value) list \<Rightarrow> logger \<Rightarrow> logger" where
  "with_fields fs lg = lg\<lparr>lg_fields := lg_fields lg @ fs\<rparr>"

definition context_fields :: "go_context option \<Rightarrow> field list" where
  "context_fields oc =
     (if get_request_id oc \<noteq> [] then [request_id_field (get_request_id oc)] else []) @
     (if get_trace_id oc \<noteq> [] then [trace_id_field (get_trace_id oc)] else []) @
     (if get_span_id oc \<noteq> [] then [span_id_field (get_span_id oc)] else []) @
     (if get_tenant_id oc \<noteq> [] then [tenant_id_field (get_tenant_id oc) True] else []) @
     (if get_user_id oc \<noteq> [] then [user_id_field (get_user_id oc) True] else []) @
     (if get_cluster_id oc \<noteq> [] then [cluster_id_field (get_cluster_id oc)] else []) @
     (if get_resource_id oc \<noteq> [] then [resource_id_field (get_resource_id oc)] else [])"

definition with_context_of :: "go_context option \<Rightarrow> logger \<Rightarrow> logger" where
  "with_context_of oc lg = (case oc of None \<Rightarrow> lg
     | Some ctx \<Rightarrow>
        (let fs = context_fields oc in
         if length fs = 0 then lg else lg\<lparr>lg_fields := lg_fields lg @ fs\<rparr>))"

definition log_info :: "logger \<Rightarrow> string \<Rightarrow> field list \<Rightarrow> entry list" where
  "log_info lg msg fs = log_write lg Info_Level msg fs"
definition log_debug :: "logger \<Rightarrow> string \<Rightarrow> field list \<Rightarrow> entry list" where
  "log_debug lg msg fs = log_write lg Debug_Level msg fs"
definition log_warn :: "logger \<Rightarrow> string \<Rightarrow> field list \<Rightarrow> entry list" where
  "log_warn lg msg fs = log_write lg Warn_Level msg fs"

definition log_error :: "getenv \<Rightarrow> string \<Rightarrow> logger \<Rightarrow> go_error option \<Rightarrow> string \<Rightarrow> field list \<Rightarrow> entry list" where
  "log_error getenv stack lg oe msg fs = (case oe of
       None \<Rightarrow> log_write lg Error_Level msg fs
     | Some e \<Rightarrow>
        (let has_category = list_ex (\<lambda>(key, v). key = ''error_category'') fs;
             f1 = [zap_error (Some e)];
             f2 = (if \<not> has_category then f1 @ [error_category_field (categorize_error (Some e))] else f1);
             f3 = (if \<not> has_category \<and> is_development getenv then
                 (let st = get_stack_trace getenv stack 3 in
                  if st \<noteq> [] then f2 @ [error_stack_field getenv st] else f2)
               else f2)
         in log_write lg Error_Level msg (fs @ f3)))"

definition log_info_c :: "logger \<Rightarrow> go_context option \<Rightarrow> string \<Rightarrow> field list \<Rightarrow> entry list" where
  "log_info_c lg oc msg fs = log_info (with_context_of oc lg) msg fs"
definition log_debug_c :: "logger \<Rightarrow> go_context option \<Rightarrow> string \<Rightarrow> field list \<Rightarrow> entry list" where
  "log_debug_c lg oc msg fs = log_debug (with_context_of oc lg) msg fs"
definition log_warn_c :: "logger \<Rightarrow> go_context option \<Rightarrow> string \<Rightarrow> field list \<Rightarrow> entry list" where
  "log_warn_c lg oc msg fs = log_warn (with_context_of oc lg) msg fs"
definition log_error_c ::
  "getenv \<Rightarrow> string \<Rightarrow> logger \<Rightarrow> go_context option \<Rightarrow> go_error option \<Rightarrow> string \<Rightarrow> field list \<Rightarrow> entry list" where
  "log_error_c getenv stack lg oc oe msg fs = log_error getenv stack (with_context_of oc lg) oe msg fs"

section \<open>Errors with their context\<close>

record error_context =
  ec_category :: error_category
  ec_message :: string
  ec_stack :: string
  ec_wrapped :: "go_error option"
  ec_fields :: "field list"

definition extract_error_context :: "getenv \<Rightarrow> string \<Rightarrow> go_error option \<Rightarrow> nat \<Rightarrow> error_context" where
  "extract_error_context getenv stack oe skip = (case oe of
       None \<Rightarrow> \<lparr>ec_category = Cat_Unknown, ec_message = [], ec_stack = [], ec_wrapped = None, ec_fields = []\<rparr>
     | Some e \<Rightarrow> \<lparr>ec_category = categorize_error (Some e), ec_message = error_string e,
         ec_stack = get_stack_trace getenv stack (skip + 1),
         ec_wrapped = (case errors_unwrap e of Some u \<Rightarrow> Some u | None \<Rightarrow> Some e), ec_fields = []\<rparr>)"

definition with_zap_fields :: "field list \<Rightarrow> error_context \<Rightarrow> error_context" where
  "with_zap_fields fs c = c\<lparr>ec_fields := ec_fields c @ fs\<rparr>"

definition error_fields :: "getenv \<Rightarrow> string \<Rightarrow> go_error option \<Rightarrow> string \<Rightarrow> field list" where
  "error_fields getenv stack oe code = (case oe of None \<Rightarrow> []
     | Some e \<Rightarrow>
        (let c = extract_error_context getenv stack (Some e) 2;
             f1 = [zap_error (Some e), error_category_field (ec_category c)];
             f2 = (if code \<noteq> [] then f1 @ [error_code_field code] else f1)
         in if ec_stack c \<noteq> [] then f2 @ [error_stack_field getenv (ec_stack c)] else f2))"

definition enhanced_log_error ::
  "getenv \<Rightarrow> string \<Rightarrow> logger \<Rightarrow> go_error option \<Rightarrow> string \<Rightarrow> string \<Rightarrow> field list \<Rightarrow> entry list" where
  "enhanced_log_error getenv stack lg oe msg code fs = (case oe of None \<Rightarrow> []
     | Some e \<Rightarrow>
        (let c = extract_error_context getenv stack (Some e) 3;
             f1 = fs @ [zap_error (Some e), error_category_field (ec_category c)];
             f2 = (if code \<noteq> [] then f1 @ [error_code_field code] else f1);
             f3 = (if ec_stack c \<noteq> [] then f2 @ [error_stack_field getenv (ec_stack c)] else f2)
         in log_error getenv stack lg (Some e) msg f3))"

end
