(* ===== verification/Events.thy ===== *)
theory Events
  imports World Log_Context
begin

text \<open>
  The recorder of Kubernetes events (\<open>internal/events/events.go\<close>, \<open>pkg/controller/events.go\<close>).  The
  broadcaster is client-go: it hands each event to the watchers that were started, here the
  one that logs and, with a client, the one that writes to the API server through
  \<open>eventSinkWrapper\<close>.  The events of an evaluation are in theory \<open>World\<close>.
\<close>

record k8s_event =
  ke_namespace :: string
  ke_name :: string
  ke_type :: string
  ke_reason :: string
  ke_message :: string
  ke_object :: "string \<times> string"

text \<open>A request to the events resource of a namespace; a patch has its bytes.\<close>

datatype sink_request =
    Create_Event string k8s_event | Update_Event string k8s_event | Patch_Event string string string

fun request_namespace :: "sink_request \<Rightarrow> string" where
  "request_namespace (Create_Event ns ev) = ns"
| "request_namespace (Update_Event ns ev) = ns"
| "request_namespace (Patch_Event ns n bytes) = ns"

definition events_for :: "k8s_event \<Rightarrow> string" where
  "events_for ev = (let ns = ke_namespace ev in if ns = [] then ''default'' else ns)"

definition sink_create :: "k8s_event \<Rightarrow> sink_request" where
  "sink_create ev = Create_Event (events_for ev) ev"
definition sink_update :: "k8s_event \<Rightarrow> sink_request" where
  "sink_update ev = Update_Event (events_for ev) ev"
definition sink_patch :: "k8s_event \<Rightarrow> string \<Rightarrow> sink_request" where
  "sink_patch old bytes = Patch_Event (events_for old) (ke_name old) bytes"

text \<open>The watchers \<open>NewRecorder\<close> starts: the logger's, and with a client the sink.\<close>

record event_recorder =
  er_component :: string
  er_logger :: logger
  er_sink :: bool

definition new_recorder :: "getenv \<Rightarrow> bool \<Rightarrow> string \<Rightarrow> event_recorder" where
  "new_recorder getenv client component = \<lparr>er_component = component,
     er_logger = new_logger getenv (component @ ''-events'') [], er_sink = client\<rparr>"

definition new_event_recorder :: "getenv \<Rightarrow> bool \<Rightarrow> event_recorder" where
  "new_event_recorder getenv client = new_recorder getenv client ''zen-cleaner''"

definition log_event :: "logger \<Rightarrow> k8s_event option \<Rightarrow> entry list" where
  "log_event lg oe = (case oe of
       None \<Rightarrow> []
     | Some ev \<Rightarrow> log_info lg ''kubernetes event''
         [(''type'', F_String (ke_type ev)), (''reason'', F_String (ke_reason ev)),
          (''object'', F_String (fst (ke_object ev) @ ''/'' @ snd (ke_object ev))),
          (''message'', F_String (ke_message ev))])"

text \<open>What becomes of a new event.\<close>

definition broadcast :: "event_recorder \<Rightarrow> k8s_event \<Rightarrow> entry list \<times> sink_request list" where
  "broadcast er ev = (log_event (er_logger er) (Some ev), if er_sink er then [sink_create ev] else [])"

text \<open>\<open>Event\<close>, and the three events of a policy's life; a nil recorder does nothing.\<close>

definition event :: "bool \<Rightarrow> string \<Rightarrow> string \<Rightarrow> string \<Rightarrow> ('w, unit) prog" where
  "event recorder ty reason msg =
     (if \<not> recorder then State_Monad.return () else emit (Eff_Event ty reason msg))"

definition record_policy_created :: "bool \<Rightarrow> ('w, unit) prog" where
  "record_policy_created recorder = eventf recorder ''Normal'' ''PolicyCreated'' ''ZenCleanerPolicy created''"
definition record_policy_updated :: "bool \<Rightarrow> ('w, unit) prog" where
  "record_policy_updated recorder = eventf recorder ''Normal'' ''PolicyUpdated'' ''ZenCleanerPolicy updated''"
definition record_policy_deleted :: "bool \<Rightarrow> ('w, unit) prog" where
  "record_policy_deleted recorder = eventf recorder ''Normal'' ''PolicyDeleted'' ''ZenCleanerPolicy deleted''"

section \<open>Laws\<close>

text \<open>No request goes to the cluster-scoped route, which the API server rejects.\<close>

lemma events_namespaced:
  "request_namespace (sink_create ev) \<noteq> []" "request_namespace (sink_update ev) \<noteq> []"
  "request_namespace (sink_patch ev bytes) \<noteq> []"
  by (simp_all add: sink_create_def sink_update_def sink_patch_def events_for_def Let_def)

text \<open>An event is logged with or without a client, unless the level of the log is above Info.\<close>

lemma events_logged:
  "map en_msg (fst (broadcast (new_event_recorder getenv client) ev)) =
     (if level_rank (get_log_level getenv []) \<le> level_rank Info_Level then [''kubernetes event''] else [])"
  by (simp add: broadcast_def log_event_def log_info_def log_write_def new_event_recorder_def new_recorder_def
      new_logger_def Let_def)

end
