(* ===== verification/Log_Events.thy ===== *)
theory Log_Events
  imports Log_Context
begin

text \<open>
  The log lines of the audit, performance and monitoring loggers (\<open>internal/logging/audit.go\<close>,
  \<open>performance.go\<close>, \<open>monitoring.go\<close>), and the laws of the logging library: what the masks
  leave, the classes of errors, what travels in trace headers, and that no line shows an
  identity of its context unmasked.
\<close>

section \<open>Audit\<close>

definition str_field :: "string \<Rightarrow> string \<Rightarrow> field" where "str_field key v = (key, F_String v)"

datatype audit_action =
    Audit_Create | Audit_Read | Audit_Update | Audit_Delete | Audit_Login | Audit_Logout
  | Audit_Authorize | Audit_Config_Change | Audit_Data_Access

fun audit_action_string :: "audit_action \<Rightarrow> string" where
  "audit_action_string Audit_Create = ''create''"
| "audit_action_string Audit_Read = ''read''"
| "audit_action_string Audit_Update = ''update''"
| "audit_action_string Audit_Delete = ''delete''"
| "audit_action_string Audit_Login = ''login''"
| "audit_action_string Audit_Logout = ''logout''"
| "audit_action_string Audit_Authorize = ''authorize''"
| "audit_action_string Audit_Config_Change = ''config_change''"
| "audit_action_string Audit_Data_Access = ''data_access''"

datatype audit_result = Audit_Success | Audit_Failure | Audit_Denied

fun audit_result_string :: "audit_result \<Rightarrow> string" where
  "audit_result_string Audit_Success = ''success''"
| "audit_result_string Audit_Failure = ''failure''"
| "audit_result_string Audit_Denied = ''denied''"

text \<open>The end of each audit function: the caller's fields and the user of the context.\<close>

definition audit_tail :: "go_context option \<Rightarrow> field list \<Rightarrow> field list" where
  "audit_tail oc fs =
     fs @ (if get_user_id oc \<noteq> [] then [user_id_field (get_user_id oc) True] else [])"

definition log_user_action ::
  "logger \<Rightarrow> go_context option \<Rightarrow> audit_action \<Rightarrow> string \<Rightarrow> string \<Rightarrow> audit_result \<Rightarrow> field list \<Rightarrow> entry list" where
  "log_user_action lg oc action rtype rid result fs = log_info (with_context_of oc lg) ''Audit: User action''
     ([str_field ''audit_type'' ''user_action'',
       str_field ''audit_action'' (audit_action_string action),
       str_field ''audit_result'' (audit_result_string result),
       resource_type_field rtype,
       resource_id_field rid] @ audit_tail oc fs)"

definition log_login ::
  "logger \<Rightarrow> go_context option \<Rightarrow> audit_result \<Rightarrow> string \<Rightarrow> string \<Rightarrow> field list \<Rightarrow> entry list" where
  "log_login lg oc result ip agent fs = log_info (with_context_of oc lg) ''Audit: Login attempt''
     ([str_field ''audit_type'' ''authentication'',
       str_field ''audit_action'' (audit_action_string Audit_Login),
       str_field ''audit_result'' (audit_result_string result),
       remote_addr_field (mask_ip ip),
       user_agent_field agent] @ audit_tail oc fs)"

definition log_authorization ::
  "logger \<Rightarrow> go_context option \<Rightarrow> string \<Rightarrow> string \<Rightarrow> string \<Rightarrow> audit_result \<Rightarrow> field list \<Rightarrow> entry list" where
  "log_authorization lg oc rtype rid permission result fs = log_info (with_context_of oc lg) ''Audit: Authorization decision''
     ([str_field ''audit_type'' ''authorization'',
       str_field ''audit_action'' (audit_action_string Audit_Authorize),
       str_field ''audit_result'' (audit_result_string result),
       resource_type_field rtype,
       resource_id_field rid,
       str_field ''permission'' permission] @ audit_tail oc fs)"

text \<open>The old and the new value are \<open>interface{}\<close>, possibly nil.\<close>

definition log_config_change ::
  "logger \<Rightarrow> go_context option \<Rightarrow> string \<Rightarrow> field_value option \<Rightarrow> field_value option \<Rightarrow> field list \<Rightarrow> entry list" where
  "log_config_change lg oc config_key old_value new_value fs =
     log_info (with_context_of oc lg) ''Audit: Configuration change''
       ([str_field ''audit_type'' ''config_change'',
         str_field ''audit_action'' (audit_action_string Audit_Config_Change),
         str_field ''audit_result'' (audit_result_string Audit_Success),
         str_field ''config_key'' config_key]
        @ (case old_value of Some v \<Rightarrow> [(''config_old_value'', v)] | None \<Rightarrow> [])
        @ (case new_value of Some v \<Rightarrow> [(''config_new_value'', v)] | None \<Rightarrow> [])
        @ audit_tail oc fs)"

definition log_data_access ::
  "logger \<Rightarrow> go_context option \<Rightarrow> string \<Rightarrow> string \<Rightarrow> field list \<Rightarrow> entry list" where
  "log_data_access lg oc dtype rid fs = log_info (with_context_of oc lg) ''Audit: Data access''
     ([str_field ''audit_type'' ''data_access'',
       str_field ''audit_action'' (audit_action_string Audit_Data_Access),
       str_field ''audit_result'' (audit_result_string Audit_Success),
       str_field ''data_type'' dtype,
       resource_id_field rid] @ audit_tail oc fs)"

definition log_resource_operation ::
  "logger \<Rightarrow> go_context option \<Rightarrow> audit_action \<Rightarrow> string \<Rightarrow> string \<Rightarrow> audit_result \<Rightarrow> field list \<Rightarrow> entry list" where
  "log_resource_operation lg oc action rtype rid result fs = log_info (with_context_of oc lg) ''Audit: Resource operation''
     ([str_field ''audit_type'' ''resource_operation'',
       str_field ''audit_action'' (audit_action_string action),
       str_field ''audit_result'' (audit_result_string result),
       resource_type_field rtype,
       resource_id_field rid] @ audit_tail oc fs)"

section \<open>Performance\<close>

text \<open>The line of an operation with an error result: an Error line or an Info line.\<close>

definition log_result ::
  "getenv \<Rightarrow> string \<Rightarrow> logger \<Rightarrow> go_context option \<Rightarrow> go_error option \<Rightarrow> string \<Rightarrow> string \<Rightarrow> field list \<Rightarrow> entry list" where
  "log_result getenv stack lg oc oe failed completed all_fields =
     (if oe \<noteq> None then log_error getenv stack (with_context_of oc lg) oe failed all_fields
      else log_info (with_context_of oc lg) completed all_fields)"

definition log_request_processed ::
  "logger \<Rightarrow> go_context option \<Rightarrow> string \<Rightarrow> duration \<Rightarrow> int64 \<Rightarrow> int64 \<Rightarrow> int64 \<Rightarrow> field list \<Rightarrow> entry list" where
  "log_request_processed lg oc operation d status request_size response_size fs =
     log_info (with_context_of oc lg) ''Request processed''
       ([operation_field operation, latency_field d, http_status_field status,
         (''request_size_bytes'', F_Int request_size), (''response_size_bytes'', F_Int response_size)] @ fs)"

definition log_db_call ::
  "getenv \<Rightarrow> string \<Rightarrow> logger \<Rightarrow> go_context option \<Rightarrow> string \<Rightarrow> string \<Rightarrow> duration \<Rightarrow> int64 \<Rightarrow> go_error option \<Rightarrow> field list \<Rightarrow> entry list" where
  "log_db_call getenv stack lg oc operation query d rows oe fs =
     log_result getenv stack lg oc oe ''Database operation failed'' ''Database operation completed''
       ([operation_field operation,
         db_query_field query,
         db_duration_field (milliseconds d),
         (''rows_affected'', F_Int rows)] @ fs)"

definition log_cache_operation ::
  "getenv \<Rightarrow> string \<Rightarrow> logger \<Rightarrow> go_context option \<Rightarrow> string \<Rightarrow> string \<Rightarrow> bool \<Rightarrow> duration \<Rightarrow>
   go_error option \<Rightarrow> field list \<Rightarrow> entry list" where
  "log_cache_operation getenv stack lg oc operation key hit d oe fs =
     (let all_fields = [operation_field operation, str_field ''cache_key'' key, cache_hit_field hit,
         latency_field d] @ fs in
      if oe \<noteq> None then log_error getenv stack (with_context_of oc lg) oe ''Cache operation failed'' all_fields
      else log_info (with_context_of oc lg) ''Cache operation completed''
        (all_fields @ [str_field ''cache_status'' (if hit then ''hit'' else ''miss'')]))"

definition log_external_api_call ::
  "getenv \<Rightarrow> string \<Rightarrow> logger \<Rightarrow> go_context option \<Rightarrow> string \<Rightarrow> string \<Rightarrow> string \<Rightarrow> int64 \<Rightarrow> duration \<Rightarrow> int64 \<Rightarrow> int64 \<Rightarrow> go_error option \<Rightarrow> field list \<Rightarrow> entry list" where
  "log_external_api_call getenv stack lg oc service endpoint method status d request_size response_size oe fs =
     log_result getenv stack lg oc oe ''External API call failed'' ''External API call completed''
       ([operation_field ''external_api_call'',
         str_field ''external_service'' service,
         str_field ''external_endpoint'' endpoint,
         http_method_field method,
         http_status_field status,
         latency_field d,
         (''request_size_bytes'', F_Int request_size),
         (''response_size_bytes'', F_Int response_size)] @ fs)"

definition log_message_queue_operation ::
  "getenv \<Rightarrow> string \<Rightarrow> logger \<Rightarrow> go_context option \<Rightarrow> string \<Rightarrow> string \<Rightarrow> int64 \<Rightarrow> duration \<Rightarrow> go_error option \<Rightarrow> field list \<Rightarrow> entry list" where
  "log_message_queue_operation getenv stack lg oc operation queue n d oe fs =
     log_result getenv stack lg oc oe ''Message queue operation failed'' ''Message queue operation completed''
       ([operation_field operation,
         str_field ''queue_name'' queue,
         (''message_count'', F_Int n),
         latency_field d] @ fs)"

definition log_file_operation ::
  "getenv \<Rightarrow> string \<Rightarrow> logger \<Rightarrow> go_context option \<Rightarrow> string \<Rightarrow> string \<Rightarrow> int64 \<Rightarrow> duration \<Rightarrow> go_error option \<Rightarrow> field list \<Rightarrow> entry list" where
  "log_file_operation getenv stack lg oc operation path bytes d oe fs =
     log_result getenv stack lg oc oe ''File operation failed'' ''File operation completed''
       ([operation_field operation,
         str_field ''file_path'' path,
         (''file_size_bytes'', F_Int bytes),
         latency_field d] @ fs)"

text \<open>The measured function is its result; \<open>d\<close> is the time it took.\<close>

definition measure_duration_with_fields ::
  "getenv \<Rightarrow> string \<Rightarrow> logger \<Rightarrow> go_context option \<Rightarrow> string \<Rightarrow> field list \<Rightarrow> duration \<Rightarrow> go_error option \<Rightarrow>
   go_error option \<times> entry list" where
  "measure_duration_with_fields getenv stack lg oc operation fs d oe =
     (oe, log_result getenv stack lg oc oe ''Operation failed'' ''Operation completed''
        ([operation_field operation, latency_field d] @ fs))"

definition measure_duration ::
  "getenv \<Rightarrow> string \<Rightarrow> logger \<Rightarrow> go_context option \<Rightarrow> string \<Rightarrow> duration \<Rightarrow> go_error option \<Rightarrow>
   go_error option \<times> entry list" where
  "measure_duration getenv stack lg oc operation d oe =
     (oe, log_result getenv stack lg oc oe ''Operation failed'' ''Operation completed''
        [operation_field operation, latency_field d])"

section \<open>Monitoring\<close>

definition metric_name_field :: "string \<Rightarrow> field" where "metric_name_field v = (''metric_name'', F_String v)"
definition metric_value_field :: "64 word \<Rightarrow> field" where "metric_value_field v = (''metric_value'', F_Float v)"
definition metric_unit_field :: "string \<Rightarrow> field" where "metric_unit_field v = (''metric_unit'', F_String v)"
definition health_check_name_field :: "string \<Rightarrow> field" where "health_check_name_field v = (''health_check_name'', F_String v)"
definition health_check_healthy_field :: "bool \<Rightarrow> field" where "health_check_healthy_field v = (''health_check_healthy'', F_Bool v)"
definition event_type_field :: "string \<Rightarrow> field" where "event_type_field v = (''event_type'', F_String v)"
definition alert_flag_field :: "bool \<Rightarrow> field" where "alert_flag_field v = (''alert'', F_Bool v)"
definition severity_field :: "string \<Rightarrow> field" where "severity_field v = (''severity'', F_String v)"

definition log_metric ::
  "logger \<Rightarrow> go_context option \<Rightarrow> string \<Rightarrow> 64 word \<Rightarrow> string \<Rightarrow> field list \<Rightarrow> entry list" where
  "log_metric lg oc name v unit_name fs = log_info (with_context_of oc lg) ''Metric event''
       ([str_field ''metric_name'' name,
         (''metric_value'', F_Float v),
         str_field ''metric_unit'' unit_name,
         str_field ''event_type'' ''metric''] @ fs)"

definition log_counter ::
  "logger \<Rightarrow> go_context option \<Rightarrow> string \<Rightarrow> int64 \<Rightarrow> field list \<Rightarrow> entry list" where
  "log_counter lg oc name increment fs = log_info (with_context_of oc lg) ''Counter event''
       ([str_field ''counter_name'' name,
         (''counter_increment'', F_Int increment),
         str_field ''event_type'' ''counter''] @ fs)"

definition log_histogram ::
  "logger \<Rightarrow> go_context option \<Rightarrow> string \<Rightarrow> 64 word \<Rightarrow> string \<Rightarrow> field list \<Rightarrow> entry list" where
  "log_histogram lg oc name v bucket fs = log_info (with_context_of oc lg) ''Histogram event''
       ([str_field ''histogram_name'' name,
         (''histogram_value'', F_Float v),
         str_field ''histogram_bucket'' bucket,
         str_field ''event_type'' ''histogram''] @ fs)"

definition log_gauge ::
  "logger \<Rightarrow> go_context option \<Rightarrow> string \<Rightarrow> 64 word \<Rightarrow> field list \<Rightarrow> entry list" where
  "log_gauge lg oc name v fs = log_info (with_context_of oc lg) ''Gauge event''
       ([str_field ''gauge_name'' name,
         (''gauge_value'', F_Float v),
         str_field ''event_type'' ''gauge''] @ fs)"

definition log_health_check ::
  "getenv \<Rightarrow> string \<Rightarrow> logger \<Rightarrow> go_context option \<Rightarrow> string \<Rightarrow> bool \<Rightarrow> duration \<Rightarrow> go_error option \<Rightarrow>
   field list \<Rightarrow> entry list" where
  "log_health_check getenv stack lg oc name healthy d oe fs =
     (let all_fields = [str_field ''health_check_name'' name, (''health_check_healthy'', F_Bool healthy),
         latency_field d, str_field ''event_type'' ''health_check''] @ fs in
      case oe of
        Some e \<Rightarrow> log_error getenv stack (with_context_of oc lg) oe ''Health check failed''
          (all_fields @ [str_field ''health_check_error'' (error_string e)])
      | None \<Rightarrow> log_info (with_context_of oc lg) ''Health check completed'' all_fields)"

definition log_critical_event ::
  "getenv \<Rightarrow> string \<Rightarrow> logger \<Rightarrow> go_context option \<Rightarrow> string \<Rightarrow> string \<Rightarrow> field list \<Rightarrow> entry list" where
  "log_critical_event getenv stack lg oc name severity fs =
     log_error getenv stack (with_context_of oc lg) None ''Critical event''
       ([str_field ''critical_event_name'' name, str_field ''critical_event_severity'' severity,
         str_field ''event_type'' ''critical_event'', (''alert'', F_Bool True)] @ fs)"

section \<open>Laws\<close>

lemma mask_uuid_eq: "mask_uuid uuid = take 8 uuid @ (if length uuid > 8 then ''...'' else [])"
  by (simp add: mask_uuid_def)

lemma get_value_update [simp]:
  "get_value key (Some (with_value k v ctx)) = (if key = k then v else get_value key (Some ctx))"
  by (simp add: get_value_def with_value_def update_conv')

definition empty_context :: go_context where
  "empty_context = \<lparr>cx_values = [], cx_otel_trace = None, cx_otel_span = None\<rparr>"

text \<open>Without a span of OpenTelemetry all IDs are values of the context.\<close>

lemma get_id_values:
  "get_trace_id (Some c) = (case cx_otel_trace c of None \<Rightarrow> get_value ''trace_id'' (Some c) | Some t \<Rightarrow> t)"
  "get_span_id (Some c) = (case cx_otel_span c of None \<Rightarrow> get_value ''span_id'' (Some c) | Some t \<Rightarrow> t)"
  "get_request_id = get_value ''request_id''"
  by (auto simp: get_trace_id_def get_span_id_def get_request_id_def get_value_def split: option.split)

lemma with_id_values:
  "with_trace_id = with_value ''trace_id''" "with_span_id = with_value ''span_id''"
  "with_request_id = with_value ''request_id''"
  "cx_otel_trace (with_value k v c) = cx_otel_trace c" "cx_otel_span (with_value k v c) = cx_otel_span c"
  by (simp_all add: with_trace_id_def with_span_id_def with_request_id_def with_value_def)

text \<open>A field that shows no identity: its key is neither \<open>user_id\<close> nor \<open>tenant_id\<close>, it was given by
  the caller, or it is the masked value of the context.\<close>

definition discreet :: "go_context option \<Rightarrow> field list \<Rightarrow> field \<Rightarrow> bool" where
  "discreet oc given f \<longleftrightarrow> fst f \<notin> {''user_id'', ''tenant_id''} \<or> f \<in> set given \<or>
     snd f = F_String (mask_uuid (get_value (fst f) oc))"

text \<open>What an audit function writes: nothing above the level Info, else one discreet line that
  names its type, action and result.\<close>

definition audit_line :: "logger \<Rightarrow> go_context option \<Rightarrow> field list \<Rightarrow> entry list \<Rightarrow> bool" where
  "audit_line lg oc fs es \<longleftrightarrow>
     (if lg_level lg \<in> {Warn_Level, Error_Level} then es = []
      else (\<exists>e. es = [e] \<and> en_level e = Info_Level \<and>
        list_all (discreet oc (lg_fields lg @ fs)) (en_fields e) \<and>
        {''audit_type'', ''audit_action'', ''audit_result''} \<subseteq> fst ` set (en_fields e)))"

lemmas field_defs = str_field_def resource_type_field_def resource_id_field_def remote_addr_field_def
  user_agent_field_def request_id_field_def trace_id_field_def span_id_field_def cluster_id_field_def

lemma first_category_range: "first_category msg rules \<in> insert Cat_Internal (fst ` set rules)"
  by (induction msg rules rule: first_category.induct) auto

lemma category_range:
  "categorize_error (Some e) \<in> {Cat_Internal, Cat_NotFound, Cat_Conflict, Cat_Authentication,
     Cat_Authorization, Cat_Validation, Cat_Timeout, Cat_RateLimit, Cat_Network, Cat_Database, Cat_Config}"
proof -
  have "fst ` set error_category_rules = {Cat_NotFound, Cat_Conflict, Cat_Authentication,
     Cat_Authorization, Cat_Validation, Cat_Timeout, Cat_RateLimit, Cat_Network, Cat_Database, Cat_Config}"
    unfolding error_category_rules_def list.set image_insert image_empty fst_conv by (rule refl)
  then show ?thesis
    using first_category_range [of "to_lower (error_string e)" error_category_rules]
    by (simp add: categorize_error_def)
qed

lemma context_fields_discreet: "list_all (discreet oc given) (context_fields oc)"
  by (simp add: context_fields_def discreet_def field_defs tenant_id_field_def user_id_field_def
      get_user_id_def get_tenant_id_def)

lemma given_discreet: "set fs \<subseteq> set given \<Longrightarrow> list_all (discreet oc given) fs"
  by (auto simp: discreet_def list_all_iff)

lemma tail_discreet: "list_all (discreet oc (lg @ fs)) (audit_tail oc fs)"
  by (simp add: audit_tail_def given_discreet discreet_def user_id_field_def get_user_id_def)

lemma with_context_fields:
  "lg_fields (with_context_of oc lg) = lg_fields lg @ (case oc of None \<Rightarrow> [] | Some c \<Rightarrow> context_fields oc)"
  "lg_level (with_context_of oc lg) = lg_level lg"
  by (auto simp: with_context_of_def Let_def split: option.split)

lemma audit_line_intro:
  assumes "list_all (\<lambda>f. fst f \<notin> {''user_id'', ''tenant_id''}) hs"
    "{''audit_type'', ''audit_action'', ''audit_result''} \<subseteq> fst ` set hs"
  shows "audit_line lg oc fs (log_info (with_context_of oc lg) msg (hs @ audit_tail oc fs))"
proof -
  have "list_all (discreet oc (lg_fields lg @ fs)) hs"
    using assms(1) by (auto simp: list_all_iff discreet_def)
  then have "list_all (discreet oc (lg_fields lg @ fs))
      (lg_fields (with_context_of oc lg) @ hs @ audit_tail oc fs)"
    by (cases oc) (simp_all add: with_context_fields given_discreet tail_discreet context_fields_discreet)
  then show ?thesis
    using assms(2)
    by (cases "lg_level lg") (auto simp: audit_line_def log_info_def log_write_def with_context_fields)
qed

section \<open>Properties\<close>

text \<open>The audit trail: each audit function writes one Info line that names its type, action and
  result and in which no user or tenant of the context appears unmasked; a logger at level
  warn or error writes no audit line at all.\<close>

theorem audit_lines_law:
  "audit_line lg oc fs (log_user_action lg oc action rtype rid result fs) \<and>
   audit_line lg oc fs (log_login lg oc result ip agent fs) \<and>
   audit_line lg oc fs (log_authorization lg oc rtype rid permission result fs) \<and>
   audit_line lg oc fs (log_config_change lg oc config_key old_value new_value fs) \<and>
   audit_line lg oc fs (log_data_access lg oc dtype rid fs) \<and>
   audit_line lg oc fs (log_resource_operation lg oc action rtype rid result fs)"
proof (intro conjI)
  show "audit_line lg oc fs (log_config_change lg oc config_key old_value new_value fs)"
    unfolding log_config_change_def append_assoc [symmetric]
    by (rule audit_line_intro) (auto simp: field_defs split: option.split)
qed (unfold log_user_action_def log_login_def log_authorization_def log_data_access_def
    log_resource_operation_def, (rule audit_line_intro; simp add: field_defs)+)

text \<open>Every error belongs to exactly one class of the logging library, a client error, a server
  error or a retryable one, and no error to none; the class is read from the whole text, so
  wrapping a text that names a missing object makes any error a client error.\<close>

theorem error_classes_partition:
  "length (filter id [is_retryable_error oe, is_client_error oe, is_server_error oe]) =
     (if oe = None then 0 else 1) \<and>
   is_client_error (Some (Errorf (a @ ''not found'' @ b) e c)) \<and>
   \<not> is_retryable_error (Some (Errorf (a @ ''not found'' @ b) e c))"
proof -
  have "is_client_error (Some e') \<and> \<not> is_retryable_error (Some e')"
    if "error_string e' = a @ ''not found'' @ b @ error_string e @ c" for e'
  proof -
    have "to_lower (error_string e') = to_lower a @ ''not found'' @ to_lower (b @ error_string e @ c)"
      by (simp add: that to_lower_def char_lower_def)
    then have "contains (to_lower (error_string e')) ''not found''"
      unfolding contains_iff by blast
    then show ?thesis
      by (simp add: is_client_error_def is_retryable_error_def categorize_error_def error_category_rules_def)
  qed
  then have "is_client_error (Some (Errorf (a @ ''not found'' @ b) e c))"
    "\<not> is_retryable_error (Some (Errorf (a @ ''not found'' @ b) e c))"
    by simp_all
  moreover have "length (filter id [is_retryable_error oe, is_client_error oe, is_server_error oe]) =
     (if oe = None then 0 else 1)"
  proof (cases oe)
    case (Some e')
    show ?thesis
      using category_range [of e']
      by (auto simp: Some is_retryable_error_def is_client_error_def is_server_error_def)
  qed (simp add: is_retryable_error_def is_client_error_def is_server_error_def)
  ultimately show ?thesis by blast
qed

text \<open>C40. What crosses a process boundary in the headers, without a span or propagator of
  OpenTelemetry: the request ID always; the trace ID exactly when it has the 32 bytes of the
  W3C format, or is so short that no traceparent is read back.  Any other trace ID, such as a
  UUID, arrives as the 32 bytes after the version, although \<open>X-Trace-ID\<close> carries it whole.\<close>

theorem trace_hop:
  assumes "cx_otel_trace ctx = None" "cx_otel_span ctx = None" "get_trace_id (Some ctx) = t" "t \<noteq> []"
    "span = (if get_span_id (Some ctx) = [] then ''0000000000000000'' else get_span_id (Some ctx))"
  shows "let c = extract_trace_context None (propagate_trace_headers None (Some ctx) []) empty_context in
     get_trace_id (Some c) =
       (if 29 \<le> length t + length span then take 32 (t @ ''-'' @ span @ ''-01'') else t) \<and>
     (get_trace_id (Some c) = t \<longleftrightarrow> length t = 32 \<or> length t + length span < 29) \<and>
     (length t = 32 \<longrightarrow> length span = 16 \<longrightarrow> get_span_id (Some c) = span) \<and>
     get_request_id (Some c) = get_request_id (Some ctx)"
proof -
  let ?tp = "''00-'' @ t @ ''-'' @ span @ ''-01''"
  let ?hs = "propagate_trace_headers None (Some ctx) []"
  let ?c = "extract_trace_context None ?hs empty_context"
  have hs: "lookup_str ?hs ''Traceparent'' = ?tp" "lookup_str ?hs ''X-Trace-ID'' = t"
    "lookup_str ?hs ''X-Request-ID'' = get_request_id (Some ctx)"
    using assms by (simp_all add: propagate_trace_headers_def Let_def lookup_str_def update_conv')
  have len: "length ?tp = length t + length span + 7" by simp
  have tp: "take 32 (drop 3 ?tp) = take 32 (t @ ''-'' @ span @ ''-01'')" by simp
  have empty: "get_value k (Some empty_context) = []" "cx_otel_trace empty_context = None"
    "cx_otel_span empty_context = None" for k
    by (simp_all add: empty_context_def get_value_def)
  have trace: "get_trace_id (Some ?c) =
      (if 29 \<le> length t + length span then take 32 (t @ ''-'' @ span @ ''-01'') else t)"
    using \<open>t \<noteq> []\<close> by (simp add: extract_trace_context_def extract_traceparent_def hs len tp empty get_id_values Let_def
        with_id_values)
  moreover have "take 32 (t @ ''-'' @ span @ ''-01'') = t \<longleftrightarrow> length t = 32" if "29 \<le> length t + length span"
  proof
    assume eq: "take 32 (t @ ''-'' @ span @ ''-01'') = t"
    have "length (take 32 (t @ ''-'' @ span @ ''-01'')) = 32" using that by simp
    with eq show "length t = 32" by simp
  qed simp
  moreover have "get_span_id (Some ?c) = span" if "length t = 32" "length span = 16"
    using that \<open>t \<noteq> []\<close>
    by (simp add: extract_trace_context_def extract_traceparent_def hs len tp empty get_id_values Let_def
        with_id_values)
  moreover have "get_request_id (Some ?c) = get_request_id (Some ctx)"
    using \<open>t \<noteq> []\<close> by (simp add: extract_trace_context_def extract_traceparent_def hs len tp empty get_id_values Let_def
        with_id_values)
  ultimately show ?thesis by (auto simp: Let_def)
qed

theorem trace_hop_witness:
  "get_trace_id (Some (extract_trace_context None (propagate_trace_headers None
     (Some (with_trace_id (replicate 36 CHR ''a'') empty_context)) []) empty_context)) = replicate 32 CHR ''a''"
  using trace_hop [of "with_trace_id (replicate 36 CHR ''a'') empty_context" "replicate 36 CHR ''a''"
      "''0000000000000000''"]
  by (simp add: empty_context_def with_trace_id_def with_value_def get_trace_id_def get_span_id_def Let_def)

text \<open>The order of the three expressions of \<open>SanitizeSQL\<close>: a group of a UUID that is all digits has
  become a question mark before UUIDs are looked for, so the other groups stay.\<close>

lemma uuid_with_digit_group_stays:
  "sanitize_sql ''id = 550e8400-e29b-41d4-a716-446655440000'' = ''id = 550e8400-e29b-41d4-a716-?''"
  "sanitize_sql ''id = 550e8400-e29b-41d4-a716-44665544000a'' = ''id = ?''"
  by code_simp+

lemma sanitize_sql_bounded: "length (sanitize_sql query) \<le> 203"
  by (simp add: sanitize_sql_def Let_def)

end
