(* ===== verification/Log_Sampling.thy ===== *)
theory Log_Sampling
  imports Log_Context
begin

text \<open>
  Sampling and rate limiting of log lines (\<open>internal/logging/sampling.go\<close>).

  The code reads a float64 rate in four ways only: whether it is at least 1, whether it is at
  most 0, and between those \<open>uint64(1.0 / rate)\<close> (which is at least 1) and \<open>int64(rate * 100)\<close>.
  A \<open>rate\<close> is these four answers; counters are 64-bit.  \<open>time.Now()\<close> is an argument of each
  call.
\<close>

section \<open>Sampling\<close>

record rate =
  rate_ge_one :: bool
  rate_le_zero :: bool
  rate_threshold :: "64 word"
  rate_percent :: int64

record sampler =
  sm_info_rate :: rate
  sm_debug_rate :: rate
  sm_success_rate :: rate
  sm_error_rate :: rate
  sm_warn_rate :: rate
  sm_info_counter :: "64 word"
  sm_debug_counter :: "64 word"
  sm_success_counter :: "64 word"

text \<open>The rates 1.0, 0.1 and 0.01, and the sampler of the default configuration.\<close>

definition rate_all :: rate where
  "rate_all = \<lparr>rate_ge_one = True, rate_le_zero = False, rate_threshold = 1, rate_percent = 100\<rparr>"
definition rate_tenth :: rate where
  "rate_tenth = \<lparr>rate_ge_one = False, rate_le_zero = False, rate_threshold = 10, rate_percent = 10\<rparr>"
definition rate_hundredth :: rate where
  "rate_hundredth = \<lparr>rate_ge_one = False, rate_le_zero = False, rate_threshold = 100, rate_percent = 1\<rparr>"

definition default_sampler :: sampler where
  "default_sampler = \<lparr>sm_info_rate = rate_tenth, sm_debug_rate = rate_hundredth,
     sm_success_rate = rate_hundredth, sm_error_rate = rate_all, sm_warn_rate = rate_all,
     sm_info_counter = 0, sm_debug_counter = 0, sm_success_counter = 0\<rparr>"

definition should_sample :: "rate \<Rightarrow> int64 \<Rightarrow> bool" where
  "should_sample r unix_nano =
     (if rate_ge_one r then True
      else if rate_le_zero r then False
      else sint unix_nano smod 100 < sint (rate_percent r))"

definition should_sample_with_counter :: "rate \<Rightarrow> 64 word \<Rightarrow> bool \<times> 64 word" where
  "should_sample_with_counter r counter =
     (if rate_ge_one r then (True, counter)
      else if rate_le_zero r then (False, counter)
      else (let c = counter + 1 in (c mod rate_threshold r = 0, c)))"

text \<open>The levels above Error are \<open>None\<close>.\<close>

definition should_log :: "level option \<Rightarrow> bool \<Rightarrow> int64 \<Rightarrow> sampler \<Rightarrow> bool \<times> sampler" where
  "should_log lvl is_success unix_nano s = (case lvl of
       Some Error_Level \<Rightarrow> (rate_ge_one (sm_error_rate s) \<or> should_sample (sm_error_rate s) unix_nano, s)
     | Some Warn_Level \<Rightarrow> (rate_ge_one (sm_warn_rate s) \<or> should_sample (sm_warn_rate s) unix_nano, s)
     | Some Info_Level \<Rightarrow>
         if is_success then
           (let c = sm_success_counter s + 1 in
            if rate_ge_one (sm_success_rate s) then (True, s\<lparr>sm_success_counter := c\<rparr>)
            else (let (b, c') = should_sample_with_counter (sm_success_rate s) c in
                  (b, s\<lparr>sm_success_counter := c'\<rparr>)))
         else
           (let c = sm_info_counter s + 1 in
            if rate_ge_one (sm_info_rate s) then (True, s\<lparr>sm_info_counter := c\<rparr>)
            else (let (b, c') = should_sample_with_counter (sm_info_rate s) c in
                  (b, s\<lparr>sm_info_counter := c'\<rparr>)))
     | Some Debug_Level \<Rightarrow>
           (let c = sm_debug_counter s + 1 in
            if rate_ge_one (sm_debug_rate s) then (True, s\<lparr>sm_debug_counter := c\<rparr>)
            else (let (b, c') = should_sample_with_counter (sm_debug_rate s) c in
                  (b, s\<lparr>sm_debug_counter := c'\<rparr>)))
     | None \<Rightarrow> (True, s))"

section \<open>Rate limiting\<close>

record log_limiter =
  ll_max :: int
  ll_window :: duration
  ll_entries :: "(string, gotime list) gomap"
  ll_cleanup_interval :: duration
  ll_last_cleanup :: gotime

definition new_log_limiter :: "int \<Rightarrow> duration \<Rightarrow> duration \<Rightarrow> gotime \<Rightarrow> log_limiter" where
  "new_log_limiter max_logs window cleanup_interval now = \<lparr>ll_max = max_logs, ll_window = window,
     ll_entries = [], ll_cleanup_interval = cleanup_interval, ll_last_cleanup = now\<rparr>"

definition default_log_limiter :: "gotime \<Rightarrow> log_limiter" where
  "default_log_limiter = new_log_limiter 10 Second Minute"

definition cleanup_entries :: "gotime \<Rightarrow> log_limiter \<Rightarrow> log_limiter" where
  "cleanup_entries now rl =
     (let window_start = time_add now (- ll_window rl * 2) in
      rl\<lparr>ll_entries := filter (\<lambda>(key, stamps). stamps \<noteq> [])
        (map (\<lambda>(key, stamps). (key, filter (\<lambda>ts. time_after ts window_start) stamps)) (ll_entries rl))\<rparr>)"

text \<open>\<open>Allow\<close> compacts the valid timestamps to the front of the array that the stored slice still
  covers: when it refuses, the map keeps the old slice, with these contents.\<close>

definition allow :: "string \<Rightarrow> gotime \<Rightarrow> log_limiter \<Rightarrow> bool \<times> log_limiter" where
  "allow key now rl =
     (if ll_max rl \<le> 0 then (True, rl)
      else (let rl1 = (if sint (time_sub now (ll_last_cleanup rl)) > sint (ll_cleanup_interval rl)
                       then (cleanup_entries now rl)\<lparr>ll_last_cleanup := now\<rparr> else rl);
                stored = map_of (ll_entries rl1) key;
                stamps = (case stored of Some ts \<Rightarrow> ts | None \<Rightarrow> []);
                window_start = time_add now (- ll_window rl1);
                valid = filter (\<lambda>ts. time_after ts window_start) stamps
            in if int (length valid) \<ge> ll_max rl1
               then (False, if stored = None then rl1
                     else rl1\<lparr>ll_entries := AList.update key (valid @ drop (length valid) stamps) (ll_entries rl1)\<rparr>)
               else (True, rl1\<lparr>ll_entries := AList.update key (valid @ [now]) (ll_entries rl1)\<rparr>)))"

section \<open>The sampled logger\<close>

record sampled_logger =
  sl_logger :: logger
  sl_sampler :: sampler
  sl_limiter :: log_limiter

text \<open>The rate limiter first; then the sampler, but not for warnings and errors.\<close>

definition sampled_info ::
  "gotime \<Rightarrow> int64 \<Rightarrow> string \<Rightarrow> bool \<Rightarrow> string \<Rightarrow> field list \<Rightarrow> sampled_logger \<Rightarrow> entry list \<times> sampled_logger" where
  "sampled_info now unix_nano msg is_success key fs sl =
     (let (ok, rl) = allow key now (sl_limiter sl); sl1 = sl\<lparr>sl_limiter := rl\<rparr> in
      if \<not> ok then ([], sl1)
      else (let (ok2, s) = should_log (Some Info_Level) is_success unix_nano (sl_sampler sl1);
                sl2 = sl1\<lparr>sl_sampler := s\<rparr>
            in if \<not> ok2 then ([], sl2) else (log_info (sl_logger sl2) msg fs, sl2)))"

definition sampled_debug ::
  "gotime \<Rightarrow> int64 \<Rightarrow> string \<Rightarrow> string \<Rightarrow> field list \<Rightarrow> sampled_logger \<Rightarrow> entry list \<times> sampled_logger" where
  "sampled_debug now unix_nano msg key fs sl =
     (let (ok, rl) = allow key now (sl_limiter sl); sl1 = sl\<lparr>sl_limiter := rl\<rparr> in
      if \<not> ok then ([], sl1)
      else (let (ok2, s) = should_log (Some Debug_Level) False unix_nano (sl_sampler sl1);
                sl2 = sl1\<lparr>sl_sampler := s\<rparr>
            in if \<not> ok2 then ([], sl2) else (log_debug (sl_logger sl2) msg fs, sl2)))"

definition sampled_warn ::
  "gotime \<Rightarrow> string \<Rightarrow> string \<Rightarrow> field list \<Rightarrow> sampled_logger \<Rightarrow> entry list \<times> sampled_logger" where
  "sampled_warn now msg key fs sl =
     (let (ok, rl) = allow key now (sl_limiter sl); sl1 = sl\<lparr>sl_limiter := rl\<rparr> in
      if \<not> ok then ([], sl1) else (log_warn (sl_logger sl1) msg fs, sl1))"

definition sampled_error ::
  "getenv \<Rightarrow> string \<Rightarrow> gotime \<Rightarrow> go_error option \<Rightarrow> string \<Rightarrow> string \<Rightarrow> field list \<Rightarrow> sampled_logger \<Rightarrow>
   entry list \<times> sampled_logger" where
  "sampled_error getenv stack now oe msg key fs sl =
     (let (ok, rl) = allow key now (sl_limiter sl); sl1 = sl\<lparr>sl_limiter := rl\<rparr> in
      if \<not> ok then ([], sl1) else (log_error getenv stack (sl_logger sl1) oe msg fs, sl1))"

section \<open>The window law\<close>

definition stamps_of :: "log_limiter \<Rightarrow> string \<Rightarrow> gotime list" where
  "stamps_of rl key = (case map_of (ll_entries rl) key of Some ts \<Rightarrow> ts | None \<Rightarrow> [])"

definition recent :: "int \<Rightarrow> gotime \<Rightarrow> gotime list \<Rightarrow> gotime list" where
  "recent w now ts = filter (\<lambda>t. now - w < t) ts"

lemma recent_Nil [simp]: "recent w now [] = []"
  by (simp add: recent_def)

lemma recent_append [simp]: "recent w now (a @ b) = recent w now a @ recent w now b"
  by (simp add: recent_def)

lemma recent_recent: "now \<le> now' \<Longrightarrow> w \<le> w' \<Longrightarrow> recent w now' (recent w' now ts) = recent w now' ts"
  by (auto simp: recent_def intro!: filter_cong)

lemma length_recent_le: "length (recent w now ts) \<le> length ts"
  by (simp add: recent_def)

lemma time_add_back:
  assumes "0 \<le> sint w" "sint w < 2 ^ 62"
  shows "time_add t (- w) = t - sint w" "time_add t (- (w * 2)) = t - 2 * sint w"
proof -
  define i where "i = sint w"
  have w: "w = word_of_int i" by (simp add: i_def)
  have "- w = word_of_int (- i)" "- (w * 2) = word_of_int (- (2 * i))"
    unfolding w by simp_all
  then have "sint (- w) = - i" "sint (- (w * 2)) = - (2 * i)"
    using assms by (simp_all only: i_def [symmetric]) (subst sint_of_int64; simp)+
  then show "time_add t (- w) = t - sint w" "time_add t (- (w * 2)) = t - 2 * sint w"
    by (simp_all add: time_add_def i_def)
qed

lemma map_of_cleaned:
  assumes "distinct (map fst xs)"
  shows "map_of (filter (\<lambda>(k, ts). ts \<noteq> []) (map (\<lambda>(k, ts). (k, f ts)) xs)) key =
    (case map_of xs key of None \<Rightarrow> None | Some ts \<Rightarrow> if f ts = [] then None else Some (f ts))"
  using assms
  by (induction xs) (auto simp: map_of_eq_None_iff [symmetric] split: option.split)

lemma distinct_cleaned:
  "distinct (map fst xs) \<Longrightarrow>
   distinct (map fst (filter (\<lambda>(k, ts). ts \<noteq> []) (map (\<lambda>(k, ts). (k, f ts)) xs)))"
  by (rule distinct_map_filter) (simp add: comp_def case_prod_unfold)

lemma cleanup_stamps:
  assumes "gomap_ok (ll_entries rl)" "0 \<le> sint (ll_window rl)" "sint (ll_window rl) < 2 ^ 62"
  shows "stamps_of (cleanup_entries now rl) key = recent (2 * sint (ll_window rl)) now (stamps_of rl key)"
    "gomap_ok (ll_entries (cleanup_entries now rl))"
  using assms
  by (auto simp: stamps_of_def cleanup_entries_def Let_def gomap_ok_def map_of_cleaned distinct_cleaned
      recent_def time_after_def time_add_back split: option.split)

text \<open>The calls so far allowed, in order; and what the table knows of them.\<close>

type_synonym allowed = "(string \<times> gotime) list"

definition times_of :: "string \<Rightarrow> allowed \<Rightarrow> gotime list" where
  "times_of key h = map snd (filter (\<lambda>(k, t). k = key) h)"

definition in_window :: "int \<Rightarrow> gotime \<Rightarrow> string \<Rightarrow> allowed \<Rightarrow> nat" where
  "in_window w t key h = length (filter (\<lambda>s. t - w < s \<and> s \<le> t) (times_of key h))"

definition limiter_tracks :: "log_limiter \<Rightarrow> gotime \<Rightarrow> allowed \<Rightarrow> bool" where
  "limiter_tracks rl now h \<longleftrightarrow> gomap_ok (ll_entries rl) \<and> (\<forall>(k, t) \<in> set h. t \<le> now) \<and>
     (\<forall>key. int (length (stamps_of rl key)) \<le> ll_max rl \<and>
        recent (sint (ll_window rl)) now (stamps_of rl key) = recent (sint (ll_window rl)) now (times_of key h)) \<and>
     (\<forall>key t. int (in_window (sint (ll_window rl)) t key h) \<le> ll_max rl)"

fun run_allow :: "(string \<times> gotime) list \<Rightarrow> log_limiter \<Rightarrow> allowed \<Rightarrow> log_limiter \<times> allowed" where
  "run_allow [] rl h = (rl, h)"
| "run_allow ((key, now) # calls) rl h =
     (let (ok, rl') = allow key now rl in run_allow calls rl' (if ok then h @ [(key, now)] else h))"

lemma allow_parameters:
  "ll_max (snd (allow key now rl)) = ll_max rl" "ll_window (snd (allow key now rl)) = ll_window rl"
  by (simp_all add: allow_def cleanup_entries_def Let_def)

lemma times_of_snoc [simp]: "times_of key (h @ [(k, t)]) = times_of key h @ (if k = key then [t] else [])"
  by (simp add: times_of_def)

lemma in_window_bound:
  assumes "now \<le> t" shows "in_window w t key h \<le> length (recent w now (times_of key h))"
proof -
  have "filter (\<lambda>s. t - w < s \<and> s \<le> t) ts = filter (\<lambda>s. t - w < s \<and> s \<le> t) (recent w now ts)" for ts
    using assms by (auto simp: recent_def intro!: filter_cong)
  then show ?thesis
    unfolding in_window_def by (metis length_filter_le)
qed

text \<open>One call: the table after the periodic cleanup, and the answer from it.\<close>

definition cleaned :: "gotime \<Rightarrow> log_limiter \<Rightarrow> log_limiter" where
  "cleaned now rl = (if sint (time_sub now (ll_last_cleanup rl)) > sint (ll_cleanup_interval rl)
     then (cleanup_entries now rl)\<lparr>ll_last_cleanup := now\<rparr> else rl)"

lemma cleaned_parameters [simp]: "ll_max (cleaned now rl) = ll_max rl" "ll_window (cleaned now rl) = ll_window rl"
  by (simp_all add: cleaned_def cleanup_entries_def Let_def)

lemma cleaned_stamps:
  assumes "gomap_ok (ll_entries rl)" "0 \<le> sint (ll_window rl)" "sint (ll_window rl) < 2 ^ 62"
  shows "gomap_ok (ll_entries (cleaned now rl))"
    "length (stamps_of (cleaned now rl) key) \<le> length (stamps_of rl key)"
    "recent (sint (ll_window rl)) now (stamps_of (cleaned now rl) key) =
     recent (sint (ll_window rl)) now (stamps_of rl key)"
proof -
  have [simp]: "stamps_of (r\<lparr>ll_last_cleanup := t\<rparr>) k = stamps_of r k" for r t k
    by (simp add: stamps_of_def)
  show "gomap_ok (ll_entries (cleaned now rl))"
    "length (stamps_of (cleaned now rl) key) \<le> length (stamps_of rl key)"
    "recent (sint (ll_window rl)) now (stamps_of (cleaned now rl) key) =
     recent (sint (ll_window rl)) now (stamps_of rl key)"
    using assms by (simp_all add: cleaned_def cleanup_stamps length_recent_le recent_recent)
qed

lemma allow_eq:
  assumes "0 < ll_max rl" "0 \<le> sint (ll_window rl)" "sint (ll_window rl) < 2 ^ 62"
    "int (length (stamps_of (cleaned now rl) key)) \<le> ll_max rl"
  shows "allow key now rl =
    (let valid = recent (sint (ll_window rl)) now (stamps_of (cleaned now rl) key) in
     if int (length valid) < ll_max rl
     then (True, (cleaned now rl)\<lparr>ll_entries := AList.update key (valid @ [now]) (ll_entries (cleaned now rl))\<rparr>)
     else (False, cleaned now rl))"
proof -
  let ?r = "cleaned now rl"
  let ?valid = "recent (sint (ll_window rl)) now (stamps_of ?r key)"
  have valid: "filter (\<lambda>ts. time_after ts (time_add now (- ll_window rl))) ts = recent (sint (ll_window rl)) now ts" for ts
    using assms by (simp add: recent_def time_after_def time_add_back)
  have full: "?valid = stamps_of ?r key" if "\<not> int (length ?valid) < ll_max rl"
    using that assms(4) length_filter_less [of _ "stamps_of ?r key" "\<lambda>t. now - sint (ll_window rl) < t"]
    by (metis (no_types, lifting) filter_True linorder_not_less nat_int_comparison(2) order_le_less_trans recent_def)
  have stored: "AList.update key ts (ll_entries ?r) = ll_entries ?r" if "map_of (ll_entries ?r) key = Some ts" for ts
    using that by (rule update_triv)
  show ?thesis
    using assms(1) full
    by (auto simp: allow_def cleaned_def [symmetric] Let_def valid stamps_of_def stored split: option.splits)
qed

lemma tracks_later:
  assumes "limiter_tracks rl t0 h" "t0 \<le> now" "0 \<le> sint (ll_window rl)" "sint (ll_window rl) < 2 ^ 62"
  shows "limiter_tracks (cleaned now rl) now h"
proof -
  let ?w = "sint (ll_window rl)"
  have ok: "gomap_ok (ll_entries rl)" and le: "\<forall>(k, t) \<in> set h. t \<le> t0"
    and len: "int (length (stamps_of rl key)) \<le> ll_max rl"
    and rec: "recent ?w t0 (stamps_of rl key) = recent ?w t0 (times_of key h)"
    and win: "int (in_window ?w t key h) \<le> ll_max rl" for key t
    using assms(1) by (simp_all add: limiter_tracks_def)
  have "recent ?w now (stamps_of rl key) = recent ?w now (times_of key h)" for key
    using rec [of key] assms(2) recent_recent [of t0 now ?w ?w] by (metis order_refl)
  moreover have "int (length (stamps_of (cleaned now rl) key)) \<le> ll_max rl" for key
    using len [of key] cleaned_stamps(2) [OF ok assms(3,4), of now key] by linarith
  ultimately show ?thesis
    using le win assms(2) cleaned_stamps [OF ok assms(3,4)]
    by (fastforce simp: limiter_tracks_def)
qed

lemma allow_tracks:
  assumes "limiter_tracks rl t0 h" "t0 \<le> now" "0 < ll_max rl"
    "0 \<le> sint (ll_window rl)" "sint (ll_window rl) < 2 ^ 62"
  shows "limiter_tracks (snd (allow key now rl)) now (if fst (allow key now rl) then h @ [(key, now)] else h)"
proof -
  let ?w = "sint (ll_window rl)" and ?r = "cleaned now rl"
  let ?valid = "recent ?w now (stamps_of ?r key)"
  have tracks: "limiter_tracks ?r now h"
    using tracks_later assms by blast
  then have ok: "gomap_ok (ll_entries ?r)" and le: "\<forall>(k, t) \<in> set h. t \<le> now"
    and len: "int (length (stamps_of ?r k)) \<le> ll_max rl"
    and rec: "recent ?w now (stamps_of ?r k) = recent ?w now (times_of k h)"
    and win: "int (in_window ?w t k h) \<le> ll_max rl" for k t
    by (simp_all add: limiter_tracks_def)
  note eq = allow_eq [OF assms(3-5) len [of key]]
  show ?thesis
  proof (cases "int (length ?valid) < ll_max rl")
    case False
    then show ?thesis using tracks by (simp add: eq Let_def)
  next
    case True
    let ?r' = "?r\<lparr>ll_entries := AList.update key (?valid @ [now]) (ll_entries ?r)\<rparr>"
    let ?h' = "h @ [(key, now)]"
    have stamps: "stamps_of ?r' k = (if k = key then ?valid @ [now] else stamps_of ?r k)" for k
      by (simp add: stamps_of_def update_conv')
    have len': "int (length (stamps_of ?r' k)) \<le> ll_max rl" for k
      using len True by (simp add: stamps)
    have rec': "recent ?w now (stamps_of ?r' k) = recent ?w now (times_of k ?h')" for k
      unfolding stamps using rec by (simp add: recent_recent)
    have win': "int (in_window ?w t k ?h') \<le> ll_max rl" for t k
    proof (cases "k = key \<and> now \<le> t")
      case True
      then have "in_window ?w t k ?h' \<le> length (recent ?w now (times_of key ?h'))"
        using in_window_bound [of now t ?w key ?h'] by blast
      also have "\<dots> \<le> length (stamps_of ?r' key)"
        using rec' [of key] length_recent_le by metis
      finally show ?thesis using len' [of key] True by linarith
    next
      case False
      then have "in_window ?w t k ?h' = in_window ?w t k h"
        by (auto simp: in_window_def)
      then show ?thesis using win by simp
    qed
    have "limiter_tracks ?r' now ?h'"
      using ok le len' rec' win' by (simp add: limiter_tracks_def)
    then show ?thesis using True by (simp add: eq Let_def)
  qed
qed

lemma run_allow_tracks:
  assumes "limiter_tracks rl t0 h" "sorted (t0 # map snd calls)" "0 < ll_max rl"
    "0 \<le> sint (ll_window rl)" "sint (ll_window rl) < 2 ^ 62"
  shows "\<exists>t. limiter_tracks (fst (run_allow calls rl h)) t (snd (run_allow calls rl h)) \<and>
     ll_max (fst (run_allow calls rl h)) = ll_max rl \<and> ll_window (fst (run_allow calls rl h)) = ll_window rl"
  using assms
proof (induction calls arbitrary: rl t0 h)
  case (Cons c calls)
  obtain key now where c: "c = (key, now)" by (cases c)
  obtain ok rl' where a: "allow key now rl = (ok, rl')" by (cases "allow key now rl")
  have same: "ll_max rl' = ll_max rl" "ll_window rl' = ll_window rl"
    using allow_parameters [of key now rl] by (simp_all add: a)
  have "limiter_tracks rl' now (if ok then h @ [(key, now)] else h)"
    using allow_tracks [OF Cons.prems(1), of now key] Cons.prems by (simp add: c a)
  from Cons.IH [OF this] Cons.prems show ?case
    by (simp add: c a same)
qed auto

section \<open>The rate of the sampler\<close>

text \<open>The number of lines that pass in a run of calls at level Info without success.\<close>

fun info_passes :: "nat \<Rightarrow> int64 \<Rightarrow> sampler \<Rightarrow> nat \<times> sampler" where
  "info_passes 0 nano s = (0, s)"
| "info_passes (Suc n) nano s =
     (let (m, s1) = info_passes n nano s; (ok, s2) = should_log (Some Info_Level) False nano s1 in
      (if ok then m + 1 else m, s2))"

lemma dvd_double_iff: "t dvd 2 * k \<longleftrightarrow> t div gcd 2 t dvd k" for t k :: nat
proof (cases "even t")
  case True
  then obtain m where "t = 2 * m" ..
  then show ?thesis by simp
next
  case False
  then have "coprime t 2" by simp
  then show ?thesis
    by (simp add: coprime_dvd_mult_right_iff gcd.commute)
qed

lemma info_passes_eq:
  assumes "\<not> rate_ge_one (sm_info_rate s)" "\<not> rate_le_zero (sm_info_rate s)"
    "sm_info_counter s = 0" "2 * n < 2 ^ 64"
  shows "info_passes n nano s =
    (n div (unat (rate_threshold (sm_info_rate s)) div gcd 2 (unat (rate_threshold (sm_info_rate s)))),
     s\<lparr>sm_info_counter := word_of_nat (2 * n)\<rparr>)"
  using assms(4)
proof (induction n)
  case 0
  then show ?case using assms(3) by simp
next
  case (Suc n)
  let ?t = "rate_threshold (sm_info_rate s)"
  have two: "(word_of_nat (2 * n) :: 64 word) + 1 + 1 = word_of_nat (2 * Suc n)"
    by (simp only: of_nat_mult of_nat_Suc of_nat_numeral) (simp add: algebra_simps)
  have step: "should_log (Some Info_Level) False nano (s\<lparr>sm_info_counter := word_of_nat (2 * n)\<rparr>) =
      (word_of_nat (2 * Suc n) mod ?t = (0 :: 64 word), s\<lparr>sm_info_counter := word_of_nat (2 * Suc n)\<rparr>)"
    using assms(1,2) two by (simp add: should_log_def should_sample_with_counter_def Let_def del: mult_Suc_right of_nat_Suc of_nat_mult)
  have "(word_of_nat (2 * Suc n) :: 64 word) mod ?t = 0 \<longleftrightarrow> unat ?t dvd 2 * Suc n"
  proof -
    have "unat (word_of_nat (2 * Suc n) :: 64 word) = 2 * Suc n"
      using Suc.prems by (simp only: unat_of_nat len_num1 len_bit0 len_num1) (simp add: take_bit_nat_eq_self)
    then show ?thesis
      by (simp only: word_unat_eq_iff unat_mod unat_0 dvd_eq_mod_eq_0)
  qed
  also have "\<dots> \<longleftrightarrow> unat ?t div gcd 2 (unat ?t) dvd Suc n" by (rule dvd_double_iff)
  finally have passes: "(word_of_nat (2 * Suc n) mod ?t = (0 :: 64 word)) =
      (Suc n mod (unat ?t div gcd 2 (unat ?t)) = 0)"
    by (simp only: dvd_eq_mod_eq_0)
  have "info_passes n nano s = (n div (unat ?t div gcd 2 (unat ?t)), s\<lparr>sm_info_counter := word_of_nat (2 * n)\<rparr>)"
    using Suc by simp
  then show ?case
    by (simp only: info_passes.simps step passes div_Suc Let_def split_conv) (simp only: Suc_eq_plus1)
qed

section \<open>Properties\<close>

text \<open>C39. The rate limiter of log lines keeps its promise: whatever the keys and however often the
  table is cleaned up, among the calls at nondecreasing times that it allows no key has more
  than the configured number in any window, at whatever time the window ends.\<close>

theorem log_window_bound:
  assumes "0 < n" "0 \<le> sint w" "sint w < 2 ^ 62" "sorted (t0 # map snd calls)"
  shows "int (in_window (sint w) t key (snd (run_allow calls (new_log_limiter n w interval t0) []))) \<le> n"
proof -
  have "limiter_tracks (new_log_limiter n w interval t0) t0 []"
    using assms(1) by (simp add: limiter_tracks_def new_log_limiter_def gomap_ok_def stamps_of_def
        times_of_def recent_def in_window_def)
  from run_allow_tracks [OF this assms(4)] show ?thesis
    using assms by (auto simp: limiter_tracks_def new_log_limiter_def)
qed

theorem log_window_bound_witness:
  "int (in_window (sint Second) 5 ''k'' (snd (run_allow [(''k'', 3), (''k'', 4), (''k'', 5)]
     (new_log_limiter 2 Second Minute 0) []))) \<le> 2"
  using log_window_bound [of 2 Second 0 "[(''k'', 3), (''k'', 4), (''k'', 5)]" 5 "''k''" Minute]
  by simp

text \<open>The rate a sampler achieves.  A sampled Info line increments its counter twice, so of n
  lines every t-th passes when the threshold t is odd, but every (t/2)-th when it is even: with
  the default configuration a fifth of the lines, not the documented tenth.\<close>

theorem sampling_rate_law:
  assumes "\<not> rate_ge_one (sm_info_rate s)" "\<not> rate_le_zero (sm_info_rate s)"
    "sm_info_counter s = 0" "n < 2 ^ 63" "t = unat (rate_threshold (sm_info_rate s))"
  shows "fst (info_passes n nano s) = (if even t then n div (t div 2) else n div t)"
proof -
  have "gcd 2 t = (if even t then 2 else 1)"
    by (cases "even t") (auto elim: evenE)
  then show ?thesis
    using assms info_passes_eq [of s n nano] by simp
qed

theorem sampling_rate_law_witness: "fst (info_passes 100 7 default_sampler) = 20"
  using sampling_rate_law [of default_sampler 100 10 7]
  by (simp add: default_sampler_def rate_tenth_def)

end
