(* ===== verification/Log_Setup.thy ===== *)
theory Log_Setup
  imports Log_Events Log_Sampling
begin

text \<open>
  How loggers are put together: the configuration of \<open>NewLogger\<close> and what it hands to zap
  (\<open>internal/logging/logging.go\<close>), the loggers of the audit, performance, monitoring and error
  families, the sampled logger, and the single fields these families export.  zap is third-party
  code: an encoder, a core and an option are values that describe the call.
\<close>

section \<open>The logger\<close>

record logger_config =
  lc_component :: string
  lc_development :: bool
  lc_level :: string
  lc_stack_traces :: bool

datatype level_encoder = Capital_Levels | Capital_Color_Levels | Lowercase_Levels
datatype time_encoder = ISO8601_Times
datatype duration_encoder = Seconds_Durations
datatype caller_encoder = Short_Callers

record encoder_config =
  ec_time_key :: string
  ec_level_key :: string
  ec_name_key :: string
  ec_caller_key :: string
  ec_message_key :: string
  ec_stacktrace_key :: string
  ec_line_ending :: string
  ec_encode_level :: level_encoder
  ec_encode_time :: time_encoder
  ec_encode_duration :: duration_encoder
  ec_encode_caller :: caller_encoder

datatype zap_encoder = Console_Encoder encoder_config | JSON_Encoder encoder_config

datatype zap_option = Add_Caller | Add_Stacktrace level

text \<open>What \<open>zap.New\<close> is called with: the core, which writes to the standard output, and the options.\<close>

record zap_setup =
  zs_encoder :: zap_encoder
  zs_level :: level
  zs_options :: "zap_option list"

text \<open>The logger of controller-runtime, which every construction replaces for the whole process.\<close>

record ctrl_logger =
  cz_development :: bool
  cz_encoder :: encoder_config

definition base_encoder_config :: encoder_config where
  "base_encoder_config = \<lparr>ec_time_key = ''ts'', ec_level_key = ''level'', ec_name_key = ''logger'',
     ec_caller_key = ''caller'', ec_message_key = ''msg'', ec_stacktrace_key = ''stacktrace'',
     ec_line_ending = [char_of (10 :: nat)], ec_encode_level = Capital_Levels, ec_encode_time = ISO8601_Times,
     ec_encode_duration = Seconds_Durations, ec_encode_caller = Short_Callers\<rparr>"

definition new_logger_with_config :: "getenv \<Rightarrow> logger_config \<Rightarrow> logger \<times> zap_setup \<times> ctrl_logger" where
  "new_logger_with_config getenv cfg0 =
     (let cfg = (if lc_component cfg0 = [] then cfg0\<lparr>lc_component := ''unknown''\<rparr> else cfg0);
          dev = (if \<not> lc_development cfg then is_development getenv else lc_development cfg);
          log_level = get_log_level getenv (lc_level cfg);
          ec = (if dev then base_encoder_config\<lparr>ec_encode_level := Capital_Color_Levels\<rparr>
                else base_encoder_config\<lparr>ec_encode_level := Lowercase_Levels\<rparr>);
          enc = (if dev then Console_Encoder ec else JSON_Encoder ec);
          opts = (if dev \<or> lc_stack_traces cfg then [Add_Caller] @ [Add_Stacktrace Error_Level] else [Add_Caller])
      in (\<lparr>lg_component = lc_component cfg, lg_level = log_level,
           lg_fields = [component_field (lc_component cfg)]\<rparr>,
          \<lparr>zs_encoder = enc, zs_level = log_level, zs_options = opts\<rparr>,
          \<lparr>cz_development = dev, cz_encoder = ec\<rparr>))"

definition new_default_logger :: "getenv \<Rightarrow> string \<Rightarrow> logger \<times> zap_setup \<times> ctrl_logger" where
  "new_default_logger getenv name =
     (let cfg = \<lparr>lc_component = name, lc_development = is_development getenv, lc_level = [], lc_stack_traces = False\<rparr>
      in new_logger_with_config getenv cfg)"

text \<open>The loggers the other theories write with are the ones constructed here.\<close>

lemma new_logger_constructed:
  "fst (new_logger_with_config getenv cfg) = new_logger getenv (lc_component cfg) (lc_level cfg)"
  "fst (new_default_logger getenv name) = new_logger getenv name []"
  by (simp_all add: new_logger_with_config_def new_default_logger_def new_logger_def Let_def)

text \<open>A logger that prints debug lines because of the environment prints them for people, with stack
  traces; where the level comes from the configuration the lines stay JSON.\<close>

theorem logger_mode_law:
  "let (lg, zs, cz) = new_logger_with_config getenv cfg; dev = (lc_development cfg \<or> is_development getenv) in
     zs_level zs = lg_level lg \<and> cz_development cz = dev \<and>
     (zs_encoder zs = (if dev then Console_Encoder (cz_encoder cz) else JSON_Encoder (cz_encoder cz))) \<and>
     (Add_Stacktrace Error_Level \<in> set (zs_options zs) \<longleftrightarrow> dev \<or> lc_stack_traces cfg) \<and>
     (lc_level cfg = [] \<and> getenv ''LOG_LEVEL'' = ''debug'' \<longrightarrow> dev \<and> lg_level lg = Debug_Level)"
  by (auto simp: new_logger_with_config_def is_development_def get_log_level_def Let_def)

text \<open>In capitals the same level is not the mode of development.\<close>

lemma debug_in_capitals_is_production:
  "let (lg, zs, cz) = new_logger_with_config ((\<lambda>v. [])(''LOG_LEVEL'' := ''DEBUG''))
       \<lparr>lc_component = ''c'', lc_development = False, lc_level = [], lc_stack_traces = False\<rparr> in
     lg_level lg = Debug_Level \<and> \<not> cz_development cz"
  by (simp add: new_logger_with_config_def is_development_def get_log_level_def Let_def)

section \<open>The families\<close>

text \<open>Each holds one logger and delegates to it.\<close>

record family_logger =
  fl_logger :: logger

definition new_audit_logger :: "logger \<Rightarrow> family_logger" where
  "new_audit_logger lg = \<lparr>fl_logger = lg\<rparr>"
definition new_performance_logger :: "logger \<Rightarrow> family_logger" where
  "new_performance_logger lg = \<lparr>fl_logger = lg\<rparr>"
definition new_monitoring_logger :: "logger \<Rightarrow> family_logger" where
  "new_monitoring_logger lg = \<lparr>fl_logger = lg\<rparr>"
definition new_enhanced_error_logger :: "logger \<Rightarrow> family_logger" where
  "new_enhanced_error_logger lg = \<lparr>fl_logger = lg\<rparr>"

record log_limiter_config =
  lcf_max :: int
  lcf_window :: duration
  lcf_cleanup :: duration

text \<open>\<open>NewSampler\<close> starts with the counters at zero; the limiter remembers the time of its creation.\<close>

definition new_sampler :: "rate \<Rightarrow> rate \<Rightarrow> rate \<Rightarrow> rate \<Rightarrow> rate \<Rightarrow> sampler" where
  "new_sampler info_rate debug_rate success_rate error_rate warn_rate =
     \<lparr>sm_info_rate = info_rate, sm_debug_rate = debug_rate, sm_success_rate = success_rate,
      sm_error_rate = error_rate, sm_warn_rate = warn_rate,
      sm_info_counter = 0, sm_debug_counter = 0, sm_success_counter = 0\<rparr>"

definition new_sampled_logger :: "logger \<Rightarrow> sampler \<Rightarrow> log_limiter_config \<Rightarrow> gotime \<Rightarrow> sampled_logger" where
  "new_sampled_logger lg fresh_sampler cfg now = \<lparr>sl_logger = lg, sl_sampler = fresh_sampler,
     sl_limiter = new_log_limiter (lcf_max cfg) (lcf_window cfg) (lcf_cleanup cfg) now\<rparr>"

section \<open>Their fields\<close>

definition request_size_field :: "int64 \<Rightarrow> field" where "request_size_field n = (''request_size_bytes'', F_Int n)"
definition response_size_field :: "int64 \<Rightarrow> field" where "response_size_field n = (''response_size_bytes'', F_Int n)"
definition rows_affected_field :: "int64 \<Rightarrow> field" where "rows_affected_field n = (''rows_affected'', F_Int n)"
definition queue_name_field :: "string \<Rightarrow> field" where "queue_name_field v = (''queue_name'', F_String v)"
definition message_count_field :: "int64 \<Rightarrow> field" where "message_count_field n = (''message_count'', F_Int n)"
definition external_service_field :: "string \<Rightarrow> field" where
  "external_service_field v = (''external_service'', F_String v)"
definition external_endpoint_field :: "string \<Rightarrow> field" where
  "external_endpoint_field v = (''external_endpoint'', F_String v)"
definition file_path_field :: "string \<Rightarrow> field" where "file_path_field v = (''file_path'', F_String v)"
definition file_size_field :: "int64 \<Rightarrow> field" where "file_size_field n = (''file_size_bytes'', F_Int n)"
definition throughput_field :: "64 word \<Rightarrow> field" where
  "throughput_field v = (''throughput_bytes_per_second'', F_Float v)"
definition concurrent_operations_field :: "int64 \<Rightarrow> field" where
  "concurrent_operations_field n = (''concurrent_operations'', F_Int n)"

definition audit_action_field :: "audit_action \<Rightarrow> field" where
  "audit_action_field action = (''audit_action'', F_String (audit_action_string action))"
definition audit_result_field :: "audit_result \<Rightarrow> field" where
  "audit_result_field result = (''audit_result'', F_String (audit_result_string result))"
definition audit_type_field :: "string \<Rightarrow> field" where "audit_type_field v = (''audit_type'', F_String v)"
definition permission_field :: "string \<Rightarrow> field" where "permission_field v = (''permission'', F_String v)"
definition config_key_field :: "string \<Rightarrow> field" where "config_key_field v = (''config_key'', F_String v)"
definition data_type_field :: "string \<Rightarrow> field" where "data_type_field v = (''data_type'', F_String v)"

text \<open>The lines use the very fields that are exported.\<close>

lemma lines_use_exported_fields:
  "log_user_action lg oc action rtype rid result fs = log_info (with_context_of oc lg) ''Audit: User action''
     ([audit_type_field ''user_action'', audit_action_field action, audit_result_field result,
       resource_type_field rtype, resource_id_field rid] @ audit_tail oc fs)"
  "log_request_processed lg oc operation d status n m fs = log_info (with_context_of oc lg) ''Request processed''
     ([operation_field operation, latency_field d, http_status_field status, request_size_field n,
       response_size_field m] @ fs)"
  by (simp_all add: log_user_action_def log_request_processed_def str_field_def audit_type_field_def
      audit_action_field_def audit_result_field_def request_size_field_def response_size_field_def)

end
