(* ===== verification/Go_Heap.thy ===== *)
theory Go_Heap
  imports Policy_Types "HOL-Library.State_Monad"
begin

text \<open>
  An explicit store for the custom resource of \<open>pkg/api/v1alpha1\<close>.  The other theories read a
  policy as a value; here a pointer, a slice and a map are addresses of cells, because what a copy
  shares with its original is the question.

  A struct is a record whose pointer fields are addresses or nil (\<open>None\<close>).  A slice owns the cell
  of its backing array (no code reslices a field of the resource), and a range loop that copies
  the entries of a map gives a map with the same entries.

  The locale \<open>deep_copier\<close> is the contract of a copy: the same value, no write to a cell that was
  there before, and the cells it has in common with its original, exactly.
\<close>

section \<open>The store\<close>

type_synonym addr = nat

record h_field_condition =
  hf_field_path :: string
  hf_operator :: string
  hf_value :: string
  hf_values :: "addr option"

record h_conditions =
  hc_phase :: "addr option"
  hc_has_labels :: "addr option"
  hc_has_annotations :: "addr option"
  hc_and :: "addr option"

record h_field_selector =
  hs_match_fields :: "addr option"

record h_target =
  ht_api_version :: string
  ht_kind :: string
  ht_namespace :: string
  ht_label_selector :: "addr option"
  ht_field_selector :: "addr option"

record h_ttl =
  hl_seconds_after_creation :: "addr option"
  hl_field_path :: string
  hl_mappings :: "addr option"
  hl_default :: "addr option"
  hl_relative_to :: string
  hl_seconds_after :: "addr option"

record h_behavior =
  hb_max_deletions :: int
  hb_batch_size :: int
  hb_dry_run :: bool
  hb_finalizer :: string
  hb_propagation :: string
  hb_grace_period :: "addr option"
  hb_allow_workload :: bool

record h_spec =
  hp_target :: h_target
  hp_ttl :: h_ttl
  hp_conditions :: "addr option"
  hp_behavior :: h_behavior
  hp_interval :: "addr option"
  hp_paused :: bool

record h_status =
  hu_phase :: string
  hu_matched :: int
  hu_deleted :: int
  hu_pending :: int
  hu_last_run :: "addr option"
  hu_next_run :: "addr option"
  hu_refusals :: "addr option"
  hu_conditions :: "addr option"

record type_meta =
  tm_kind :: string
  tm_api_version :: string

record 'f h_policy =
  hy_type_meta :: type_meta
  hy_meta :: 'f
  hy_spec :: h_spec
  hy_status :: h_status

record 'f h_policy_list =
  hq_type_meta :: type_meta
  hq_meta :: 'f
  hq_items :: "addr option"

text \<open>What a cell holds.  A selector of another constructor is not read: Go's types forbid it.\<close>

datatype 'f cell =
    Zeroed
  | Int64_Cell (int64_of: int64)
  | Duration_Cell (duration_of: duration)
  | Int_Map_Cell (int_map_of: "(string, int64) gomap")
  | Count_Map_Cell (count_map_of: "(string, int) gomap")
  | Str_Map_Cell (str_map_of: "(string, string) gomap")
  | Strs_Cell (strs_of: "string list")
  | Labels_Cell (labels_of: "label_condition list")
  | Annotations_Cell (annotations_of: "annotation_condition list")
  | Fields_Cell (fields_of: "h_field_condition list")
  | Label_Condition_Cell (label_condition_of: label_condition)
  | Annotation_Condition_Cell (annotation_condition_of: annotation_condition)
  | Field_Condition_Cell (field_condition_of: h_field_condition)
  | Field_Selector_Cell (field_selector_of: h_field_selector)
  | Conditions_Cell (conditions_of: h_conditions)
  | Target_Cell (target_of: h_target)
  | Ttl_Cell (ttl_of: h_ttl)
  | Behavior_Cell (behavior_of: h_behavior)
  | Spec_Cell (spec_of: h_spec)
  | Status_Cell (status_of: h_status)
  | Policy_Cell (policy_of: "'f h_policy")
  | Policies_Cell (policies_of: "'f h_policy list")
  | Policy_List_Cell (policy_list_of: "'f h_policy_list")
  | Foreign_Cell (foreign_of: 'f)
  | Foreigns_Cell (foreigns_of: "'f list")

record 'f heap =
  cells :: "addr \<Rightarrow> 'f cell"
  limit :: addr

definition load :: "addr \<Rightarrow> ('f heap, 'f cell) state" where
  "load a = State (\<lambda>h. (cells h a, h))"

definition alloc :: "'f cell \<Rightarrow> ('f heap, addr) state" where
  "alloc c = State (\<lambda>h. (limit h, h\<lparr>cells := (cells h)(limit h := c), limit := limit h + 1\<rparr>))"

definition store :: "addr \<Rightarrow> 'f cell \<Rightarrow> ('f heap, unit) state" where
  "store a c = State (\<lambda>h. ((), h\<lparr>cells := (cells h)(a := c)\<rparr>))"

lemma run_load [simp]: "run_state (load a) h = (cells h a, h)"
  by (simp add: load_def)

lemma run_alloc [simp]:
  "run_state (alloc c) h = (limit h, h\<lparr>cells := (cells h)(limit h := c), limit := limit h + 1\<rparr>)"
  by (simp add: alloc_def)

lemma run_store [simp]: "run_state (store a c) h = ((), h\<lparr>cells := (cells h)(a := c)\<rparr>)"
  by (simp add: store_def)

text \<open>Two stores that agree on a set of cells, a store that has grown, a set of allocated cells.\<close>

definition agree :: "addr set \<Rightarrow> 'f heap \<Rightarrow> 'f heap \<Rightarrow> bool" where
  "agree A h h' \<longleftrightarrow> (\<forall>a\<in>A. cells h' a = cells h a)"

definition extends :: "'f heap \<Rightarrow> 'f heap \<Rightarrow> bool" where
  "extends h h' \<longleftrightarrow> limit h \<le> limit h' \<and> agree {..<limit h} h h'"

definition allocated :: "'f heap \<Rightarrow> addr set" where
  "allocated h = {..<limit h}"

lemma agree_mono: "agree B h h' \<Longrightarrow> A \<subseteq> B \<Longrightarrow> agree A h h'"
  by (auto simp: agree_def)

lemma agree_empty [simp]: "agree {} h h'"
  by (simp add: agree_def)

lemma agree_un [simp]: "agree (A \<union> B) h h' \<longleftrightarrow> agree A h h' \<and> agree B h h'"
  by (auto simp: agree_def)

lemma agree_insert [simp]: "agree (insert a A) h h' \<longleftrightarrow> cells h' a = cells h a \<and> agree A h h'"
  by (auto simp: agree_def)

lemma extends_refl [simp]: "extends h h"
  by (simp add: extends_def agree_def)

lemma extends_trans: "extends h h' \<Longrightarrow> extends h' h'' \<Longrightarrow> extends h h''"
  by (auto simp: extends_def agree_def)

lemma extends_agree: "extends h h' \<Longrightarrow> A \<subseteq> allocated h \<Longrightarrow> agree A h h'"
  by (auto simp: extends_def agree_def allocated_def)

lemma extends_allocated: "extends h h' \<Longrightarrow> allocated h \<subseteq> allocated h'"
  by (auto simp: extends_def allocated_def)

lemma narrow: "X \<inter> B = S \<Longrightarrow> A \<subseteq> B \<Longrightarrow> S \<subseteq> A \<Longrightarrow> X \<inter> A = S"
  by auto

section \<open>The contract of a copy\<close>

locale deep_copier =
  fixes copy :: "'r \<Rightarrow> ('f heap, 'r) state"
    and val :: "'f heap \<Rightarrow> 'r \<Rightarrow> 'v"
    and reach :: "'f heap \<Rightarrow> 'r \<Rightarrow> addr set"
    and shared :: "'f heap \<Rightarrow> 'r \<Rightarrow> addr set"
  assumes val_local: "agree (reach h r) h h' \<Longrightarrow> val h' r = val h r"
    and reach_local: "agree (reach h r) h h' \<Longrightarrow> reach h' r = reach h r"
    and shared_local: "agree (reach h r) h h' \<Longrightarrow> shared h' r = shared h r"
    and shared_reach: "shared h r \<subseteq> reach h r"
    and copy_extends: "reach h r \<subseteq> allocated h \<Longrightarrow> run_state (copy r) h = (r', h') \<Longrightarrow> extends h h'"
    and copy_val: "reach h r \<subseteq> allocated h \<Longrightarrow> run_state (copy r) h = (r', h') \<Longrightarrow> val h' r' = val h r"
    and copy_reach: "reach h r \<subseteq> allocated h \<Longrightarrow> run_state (copy r) h = (r', h') \<Longrightarrow>
      reach h' r' \<subseteq> allocated h'"
    and copy_shared: "reach h r \<subseteq> allocated h \<Longrightarrow> run_state (copy r) h = (r', h') \<Longrightarrow>
      reach h' r' \<inter> allocated h = shared h r"
begin

text \<open>A later copy of another struct leaves a struct as it was.\<close>

lemma frame:
  assumes "reach h r \<subseteq> allocated h" "extends h h'"
  shows "val h' r = val h r" "reach h' r = reach h r" "shared h' r = shared h r" "reach h' r \<subseteq> allocated h'"
  using assms extends_agree[OF assms(2,1)] extends_allocated[OF assms(2)]
  by (auto simp: val_local reach_local shared_local)

text \<open>The copy is blind to every write to a cell it does not share with its original, and the
  original to every write to a cell the copy has for itself.\<close>

lemma copy_isolated:
  assumes "reach h r \<subseteq> allocated h" "run_state (copy r) h = (r', h')"
    "agree (- (allocated h - shared h r)) h' h''"
  shows "val h'' r' = val h r"
proof -
  have "reach h' r' \<subseteq> - (allocated h - shared h r)"
    using copy_shared[OF assms(1,2)] by auto
  then show ?thesis
    using val_local[OF agree_mono[OF assms(3)]] copy_val[OF assms(1,2)] by simp
qed

lemma original_isolated:
  assumes "reach h r \<subseteq> allocated h" "run_state (copy r) h = (r', h')" "agree (allocated h) h' h''"
  shows "val h'' r = val h r"
proof -
  have e: "extends h h'" by (rule copy_extends[OF assms(1,2)])
  have "agree (reach h' r) h' h''"
    using agree_mono[OF assms(3)] frame(2)[OF assms(1) e] assms(1) by simp
  then show ?thesis using val_local frame(1)[OF assms(1) e] by simp
qed

end

section \<open>Copies of fields\<close>

text \<open>\<open>out := new(T)\<close> and a copy of a struct into it.  The same steps copy the elements of a
  slice (\<open>make\<close> and a loop) and the entries of a map.\<close>

definition new_copy :: "('r \<Rightarrow> 'f cell) \<Rightarrow> ('r \<Rightarrow> ('f heap, 'r) state) \<Rightarrow> 'r \<Rightarrow> ('f heap, addr) state" where
  "new_copy mk copy r = do {
     out \<leftarrow> alloc Zeroed;
     r' \<leftarrow> copy r;
     store out (mk r');
     State_Monad.return out
   }"

text \<open>A copy of what a pointer, a slice or a map refers to, and nil of nil.\<close>

definition copy_pointer ::
    "('r \<Rightarrow> 'f cell) \<Rightarrow> ('f cell \<Rightarrow> 'r) \<Rightarrow> ('r \<Rightarrow> ('f heap, 'r) state) \<Rightarrow> addr option \<Rightarrow> ('f heap, addr option) state" where
  "copy_pointer mk get copy p = (case p of
       None \<Rightarrow> State_Monad.return None
     | Some a \<Rightarrow> do {
         c \<leftarrow> load a;
         out \<leftarrow> new_copy mk copy (get c);
         State_Monad.return (Some out)
       })"

definition pointer_value :: "('f cell \<Rightarrow> 'r) \<Rightarrow> ('f heap \<Rightarrow> 'r \<Rightarrow> 'v) \<Rightarrow> 'f heap \<Rightarrow> addr option \<Rightarrow> 'v option" where
  "pointer_value get val h p = map_option (\<lambda>a. val h (get (cells h a))) p"

definition pointer_reach :: "('f cell \<Rightarrow> 'r) \<Rightarrow> ('f heap \<Rightarrow> 'r \<Rightarrow> addr set) \<Rightarrow> 'f heap \<Rightarrow> addr option \<Rightarrow> addr set" where
  "pointer_reach get reach h p = (case p of None \<Rightarrow> {} | Some a \<Rightarrow> insert a (reach h (get (cells h a))))"

definition pointer_shared :: "('f cell \<Rightarrow> 'r) \<Rightarrow> ('f heap \<Rightarrow> 'r \<Rightarrow> addr set) \<Rightarrow> 'f heap \<Rightarrow> addr option \<Rightarrow> addr set" where
  "pointer_shared get shared h p = (case p of None \<Rightarrow> {} | Some a \<Rightarrow> shared h (get (cells h a)))"

lemmas pointer_defs = pointer_value_def pointer_reach_def pointer_shared_def

abbreviation no_cells :: "'f heap \<Rightarrow> 'r \<Rightarrow> addr set" where
  "no_cells \<equiv> \<lambda>_ _. {}"

abbreviation plain_value :: "'f heap \<Rightarrow> 'r \<Rightarrow> 'r" where
  "plain_value \<equiv> \<lambda>_ r. r"

text \<open>A plain assignment: of a struct without pointers it is a copy, of a pointer an alias.\<close>

lemma deep_copier_plain: "deep_copier State_Monad.return plain_value no_cells no_cells"
  by unfold_locales auto

lemma deep_copier_alias:
  "deep_copier State_Monad.return (pointer_value get plain_value) (pointer_reach get no_cells) (pointer_reach get no_cells)"
  by unfold_locales (auto simp: pointer_defs agree_def split: option.splits)

lemma alloc_extends: "extends h (h\<lparr>cells := (cells h)(limit h := c), limit := limit h + 1\<rparr>)"
  by (simp add: extends_def agree_def)

lemma store_extends: "extends h h' \<Longrightarrow> limit h \<le> a \<Longrightarrow> extends h (h'\<lparr>cells := (cells h')(a := c)\<rparr>)"
  by (auto simp: extends_def agree_def)

context deep_copier begin

lemma new_copy_run:
  assumes a: "reach h r \<subseteq> allocated h" and run': "run_state (new_copy mk copy r) h = (out, h')"
    and mk: "\<And>x. get (mk x) = x"
  obtains "out = limit h" "val h' (get (cells h' out)) = val h r" "reach h' (get (cells h' out)) \<subseteq> allocated h'"
    "reach h' (get (cells h' out)) \<inter> allocated h = shared h r" "extends h h'" "limit h < limit h'"
proof -
  define h1 where "h1 = h\<lparr>cells := (cells h)(limit h := Zeroed), limit := limit h + 1\<rparr>"
  obtain r' h2 where run: "run_state (copy r) h1 = (r', h2)" by fastforce
  have e1: "extends h h1" unfolding h1_def by (rule alloc_extends)
  note f = frame[OF a e1]
  have e2: "extends h1 h2" by (rule copy_extends[OF f(4) run])
  have p: "out = limit h" "h' = h2\<lparr>cells := (cells h2)(limit h := mk r')\<rparr>"
    using run' run by (auto simp: new_copy_def h1_def)
  have r: "get (cells h' out) = r'" by (simp add: p mk)
  have sh: "reach h2 r' \<inter> allocated h1 = shared h r" using copy_shared[OF f(4) run] f(3) by simp
  have lim: "limit h1 = limit h + 1" by (simp add: h1_def)
  have "limit h \<notin> reach h2 r'"
    using sh shared_reach[of h r] a lim by (force simp: allocated_def)
  then have ag: "agree (reach h2 r') h2 h'" by (auto simp: p agree_def)
  have al: "allocated h' = allocated h2" by (simp add: p allocated_def)
  have r': "reach h' r' = reach h2 r'" by (rule reach_local[OF ag])
  show ?thesis
  proof (rule that[OF p(1)]; (unfold r)?)
    show "val h' r' = val h r" using val_local[OF ag] copy_val[OF f(4) run] f(1) by simp
    show "reach h' r' \<subseteq> allocated h'" using copy_reach[OF f(4) run] by (simp add: r' al)
    show "reach h' r' \<inter> allocated h = shared h r"
      using sh shared_reach[of h r] a lim by (auto simp: r' allocated_def)
    show "extends h h'" unfolding p by (rule store_extends[OF extends_trans[OF e1 e2]]) simp
    show "limit h < limit h'" using e2 lim by (simp add: p extends_def)
  qed
qed

lemma pointer_run:
  assumes "pointer_reach get reach h (Some a) \<subseteq> allocated h"
    and "run_state (copy_pointer mk get copy (Some a)) h = (p', h')"
    and mk: "\<And>x. get (mk x) = x"
  obtains "p' = Some (limit h)" "val h' (get (cells h' (limit h))) = val h (get (cells h a))"
    "reach h' (get (cells h' (limit h))) \<subseteq> allocated h'"
    "reach h' (get (cells h' (limit h))) \<inter> allocated h = shared h (get (cells h a))"
    "extends h h'" "limit h < limit h'"
proof -
  obtain out h2 where n: "run_state (new_copy mk copy (get (cells h a))) h = (out, h2)" by fastforce
  with assms(2) have p: "p' = Some out" "h2 = h'" by (simp_all add: copy_pointer_def)
  have "reach h (get (cells h a)) \<subseteq> allocated h" using assms(1) by (simp add: pointer_defs)
  from this n show ?thesis
    by (rule new_copy_run[where get = get, OF _ _ mk]) (use p that in simp)
qed

lemma pointer:
  assumes mk: "\<And>x. get (mk x) = x"
  shows "deep_copier (copy_pointer mk get copy) (pointer_value get val) (pointer_reach get reach)
    (pointer_shared get shared)"
proof (unfold_locales, goal_cases)
  case (1 h p h') then show ?case by (auto simp: pointer_defs val_local split: option.splits)
next
  case (2 h p h') then show ?case by (auto simp: pointer_defs reach_local split: option.splits)
next
  case (3 h p h') then show ?case by (auto simp: pointer_defs shared_local split: option.splits)
next
  case (4 h p) then show ?case using shared_reach by (auto simp: pointer_defs split: option.splits)
next
  case (5 h p p' h') then show ?case
    by (cases p) (simp add: copy_pointer_def, metis pointer_run mk)
next
  case (6 h p p' h')
  show ?case
  proof (cases p)
    case None then show ?thesis using 6 by (simp add: copy_pointer_def pointer_defs)
  next
    case (Some a) show ?thesis
      by (rule pointer_run[OF 6[unfolded Some] mk]) (simp add: Some pointer_defs mk)
  qed
next
  case (7 h p p' h')
  show ?case
  proof (cases p)
    case None then show ?thesis using 7 by (simp add: copy_pointer_def pointer_defs)
  next
    case (Some a) show ?thesis
      by (rule pointer_run[OF 7[unfolded Some] mk]) (simp add: Some pointer_defs mk allocated_def)
  qed
next
  case (8 h p p' h')
  show ?case
  proof (cases p)
    case None then show ?thesis using 8 by (simp add: copy_pointer_def pointer_defs)
  next
    case (Some a) show ?thesis
      by (rule pointer_run[OF 8[unfolded Some] mk]) (auto simp add: Some pointer_defs mk allocated_def)
  qed
qed

text \<open>The elements of a slice, in order.\<close>

lemma elements:
  "deep_copier (State_Monad.traverse_list copy) (\<lambda>h. map (val h)) (\<lambda>h xs. \<Union>x\<in>set xs. reach h x)
    (\<lambda>h xs. \<Union>x\<in>set xs. shared h x)"
proof -
  have run: "extends h h' \<and> map (val h') ys = map (val h) xs \<and> (\<Union>y\<in>set ys. reach h' y) \<subseteq> allocated h'
      \<and> (\<Union>y\<in>set ys. reach h' y) \<inter> allocated h = (\<Union>x\<in>set xs. shared h x)"
    if "(\<Union>x\<in>set xs. reach h x) \<subseteq> allocated h" "run_state (State_Monad.traverse_list copy xs) h = (ys, h')"
    for xs ys h h'
    using that
  proof (induction xs arbitrary: ys h h')
    case Nil then show ?case by simp
  next
    case (Cons x xs)
    obtain y h1 where y: "run_state (copy x) h = (y, h1)" by fastforce
    obtain zs h2 where zs: "run_state (State_Monad.traverse_list copy xs) h1 = (zs, h2)" by fastforce
    have eq: "ys = y # zs" "h' = h2" using Cons.prems(2) y zs by auto
    have ax: "reach h x \<subseteq> allocated h" and axs: "\<And>z. z \<in> set xs \<Longrightarrow> reach h z \<subseteq> allocated h"
      using Cons.prems(1) by auto
    note e1 = copy_extends[OF ax y]
    have r1: "\<And>z. z \<in> set xs \<Longrightarrow> reach h1 z = reach h z \<and> val h1 z = val h z \<and> shared h1 z = shared h z"
      using frame[OF axs e1] by blast
    have "(\<Union>x\<in>set xs. reach h1 x) \<subseteq> allocated h1"
      using r1 axs extends_allocated[OF e1] by blast
    note IH = Cons.IH[OF this zs]
    have e2: "extends h1 h2" using IH by blast
    note f = frame[OF copy_reach[OF ax y] e2]
    have sh: "(\<Union>x\<in>set xs. shared h1 x) = (\<Union>x\<in>set xs. shared h x)" using r1 by simp
    have sa: "(\<Union>x\<in>set xs. shared h x) \<subseteq> allocated h" using shared_reach axs by (meson UN_least order_trans)
    have low: "(\<Union>z\<in>set zs. reach h2 z) \<inter> allocated h = (\<Union>x\<in>set xs. shared h x)"
      using IH extends_allocated[OF e1] sa unfolding sh by (blast intro: narrow)
    have vs: "map (val h2) zs = map (val h) xs" using IH r1 by simp
    show ?case
      unfolding eq using extends_trans[OF e1 e2] copy_val[OF ax y] f copy_shared[OF ax y] low vs IH
      by (simp add: Int_Un_distrib2)
  qed
  have sub: "agree (\<Union>x\<in>set xs. reach h x) h h' \<Longrightarrow> x \<in> set xs \<Longrightarrow> agree (reach h x) h h'" for h h' xs x
    by (auto elim: agree_mono)
  show ?thesis
  proof (unfold_locales, goal_cases)
    case 1 then show ?case by (auto dest: sub val_local)
  next
    case 2 then show ?case by (auto dest: sub reach_local)
  next
    case 3 then show ?case by (auto dest: sub shared_local)
  next
    case 4 show ?case using shared_reach by (rule UN_mono[OF subset_refl])
  qed (use run in \<open>simp_all only:\<close>)
qed

text \<open>Two fields, one after the other.\<close>

lemma fields:
  assumes dc: "deep_copier copy' val' reach' shared'"
  shows "deep_copier (\<lambda>(r, s). do { r' \<leftarrow> copy r; s' \<leftarrow> copy' s; State_Monad.return (r', s') })
    (\<lambda>h (r, s). (val h r, val' h s)) (\<lambda>h (r, s). reach h r \<union> reach' h s) (\<lambda>h (r, s). shared h r \<union> shared' h s)"
proof -
  note D = deep_copier.val_local[OF dc] deep_copier.reach_local[OF dc] deep_copier.shared_local[OF dc]
  have run: "extends h h' \<and> val h' r' = val h r \<and> val' h' s' = val' h s \<and> reach h' r' \<union> reach' h' s' \<subseteq> allocated h'
      \<and> (reach h' r' \<union> reach' h' s') \<inter> allocated h = shared h r \<union> shared' h s"
    if a: "reach h r \<union> reach' h s \<subseteq> allocated h"
      and r: "run_state (copy r) h = (r', h1)" and s: "run_state (copy' s) h1 = (s', h')" for h h1 h' r r' s s'
  proof -
    have ar: "reach h r \<subseteq> allocated h" and as: "reach' h s \<subseteq> allocated h" using a by auto
    note e1 = copy_extends[OF ar r]
    note f = deep_copier.frame[OF dc as e1]
    note e2 = deep_copier.copy_extends[OF dc f(4) s]
    note g = frame[OF copy_reach[OF ar r] e2]
    have "reach' h' s' \<inter> allocated h1 = shared' h s"
      using deep_copier.copy_shared[OF dc f(4) s] f(3) by simp
    then have low: "reach' h' s' \<inter> allocated h = shared' h s"
      using extends_allocated[OF e1] order_trans[OF deep_copier.shared_reach[OF dc] as] by (rule narrow)
    show ?thesis
      using extends_trans[OF e1 e2] g copy_val[OF ar r] copy_shared[OF ar r] low
        deep_copier.copy_val[OF dc f(4) s] f(1) deep_copier.copy_reach[OF dc f(4) s]
      by (simp add: Int_Un_distrib2)
  qed
  have pair: "extends h h' \<and> (val h' (fst q), val' h' (snd q)) = (val h (fst p), val' h (snd p))
      \<and> reach h' (fst q) \<union> reach' h' (snd q) \<subseteq> allocated h'
      \<and> (reach h' (fst q) \<union> reach' h' (snd q)) \<inter> allocated h = shared h (fst p) \<union> shared' h (snd p)"
    if "reach h (fst p) \<union> reach' h (snd p) \<subseteq> allocated h"
      "run_state (do { r' \<leftarrow> copy (fst p); s' \<leftarrow> copy' (snd p); State_Monad.return (r', s') }) h = (q, h')" for p q h h'
  proof -
    obtain r' h1 where r: "run_state (copy (fst p)) h = (r', h1)" by fastforce
    obtain s' h2 where s: "run_state (copy' (snd p)) h1 = (s', h2)" by fastforce
    have "q = (r', s')" "h2 = h'" using that(2) r s by simp_all
    with run[OF that(1) r] s show ?thesis by simp
  qed
  show ?thesis
  proof (unfold_locales, goal_cases)
    case (1 h r h') then show ?case by (cases r) (auto dest: D val_local)
  next
    case (2 h r h') then show ?case by (cases r) (auto dest: D reach_local)
  next
    case (3 h r h') then show ?case by (cases r) (auto dest: D shared_local)
  next
    case (4 h r) show ?case
      using shared_reach deep_copier.shared_reach[OF dc] by (cases r) (simp add: sup.coboundedI1 sup.coboundedI2)
  qed (use pair in \<open>simp_all only: case_prod_beta\<close>)
qed

text \<open>A struct with these fields, whose other fields are assigned.\<close>

lemma struct:
  assumes "\<And>r. copy' r = do { t \<leftarrow> copy (get r); State_Monad.return (put r t) }"
    and "\<And>r t. get (put r t) = t" "\<And>r. put r (get r) = r"
    and v: "\<And>h h' r t. val h' t = val h (get r) \<Longrightarrow> val' h' (put r t) = val' h r"
    and "\<And>h r. reach' h r = reach h (get r)" "\<And>h r. shared' h r = shared h (get r)"
  shows "deep_copier copy' val' reach' shared'"
proof -
  have v': "val h' (get r) = val h (get r) \<Longrightarrow> val' h' r = val' h r" for h h' r
    using v[of h' "get r" h r] assms(3) by simp
  have run: "run_state (copy' r) h = (r', h') \<Longrightarrow> \<exists>t. run_state (copy (get r)) h = (t, h') \<and> r' = put r t" for h h' r r'
  proof -
    obtain t h1 where t: "run_state (copy (get r)) h = (t, h1)" by fastforce
    assume "run_state (copy' r) h = (r', h')"
    then have "run_state (do { t \<leftarrow> copy (get r); State_Monad.return (put r t) }) h = (r', h')"
      by (subst (asm) assms(1))
    with t show ?thesis by simp
  qed
  show ?thesis
  proof (unfold_locales, goal_cases)
    case 1 then show ?case unfolding assms(5) by (intro v' val_local)
  next
    case 2 then show ?case unfolding assms(5) by (rule reach_local)
  next
    case 3 then show ?case unfolding assms(5,6) by (rule shared_local)
  next
    case 4 show ?case by (simp add: assms(5,6) shared_reach)
  next
    case 5 then show ?case by (auto simp: assms(5) dest!: run intro: copy_extends)
  next
    case (6 h r r' h')
    then obtain t where "run_state (copy (get r)) h = (t, h')" "r' = put r t" using run by blast
    with 6(1) show ?case unfolding assms(5) by (auto intro: v copy_val)
  next
    case (7 h r r' h')
    then obtain t where "run_state (copy (get r)) h = (t, h')" "r' = put r t" using run by blast
    with 7(1) show ?case by (simp add: assms(2,5) copy_reach)
  next
    case (8 h r r' h')
    then obtain t where "run_state (copy (get r)) h = (t, h')" "r' = put r t" using run by blast
    with 8(1) show ?case by (simp add: assms(2,5,6) copy_shared)
  qed
qed

end

lemma pointer_shared_none [simp]: "pointer_shared get no_cells = no_cells"
  by (auto simp: pointer_shared_def fun_eq_iff split: option.splits)

interpretation plain: deep_copier State_Monad.return plain_value no_cells no_cells
  by (rule deep_copier_plain)

text \<open>A pointer to, or a slice or map of, plain data.\<close>

definition copy_plain :: "('r \<Rightarrow> 'f cell) \<Rightarrow> ('f cell \<Rightarrow> 'r) \<Rightarrow> addr option \<Rightarrow> ('f heap, addr option) state" where
  "copy_plain mk get = copy_pointer mk get State_Monad.return"

abbreviation plain_pointer :: "('f cell \<Rightarrow> 'r) \<Rightarrow> 'f heap \<Rightarrow> addr option \<Rightarrow> 'r option" where
  "plain_pointer get \<equiv> pointer_value get plain_value"

abbreviation plain_cells :: "('f cell \<Rightarrow> 'r) \<Rightarrow> 'f heap \<Rightarrow> addr option \<Rightarrow> addr set" where
  "plain_cells get \<equiv> pointer_reach get no_cells"

lemma copy_plain:
  assumes "\<And>x. get (mk x) = x"
  shows "deep_copier (copy_plain mk get) (plain_pointer get) (plain_cells get) no_cells"
  using plain.pointer[of get mk, OF assms] by (simp add: copy_plain_def)

text \<open>The value of a slice or map that may be nil.\<close>

definition or_empty :: "'a list option \<Rightarrow> 'a list" where
  "or_empty p = (case p of None \<Rightarrow> [] | Some xs \<Rightarrow> xs)"

end
