(* ===== verification/Deep_Copy.thy ===== *)
theory Deep_Copy
  imports Go_Heap
begin

text \<open>
  The generated copies of the custom resource (\<open>pkg/api/v1alpha1/zz_generated.deepcopy.go\<close>) on
  the store of \<open>Go_Heap\<close>.  \<open>DeepCopyInto\<close> takes the struct and returns what it writes to \<open>*out\<close>, a
  variable of its caller that nothing else reads before it returns.  Copies of types of
  apimachinery (\<open>ObjectMeta\<close>, \<open>ListMeta\<close>, \<open>LabelSelector\<close>, \<open>Condition\<close>, \<open>Time\<close>) are the parameter
  \<open>apimachinery\<close>.  Every copy is an interpretation of \<open>deep_copier\<close>, put together from those of
  its fields.
\<close>

section \<open>The parts of a specification\<close>

definition field_condition_deep_copy_into :: "h_field_condition \<Rightarrow> ('f heap, h_field_condition) state" where
  "field_condition_deep_copy_into r = do {
     vs \<leftarrow> copy_plain Strs_Cell strs_of (hf_values r);
     State_Monad.return (r\<lparr>hf_values := vs\<rparr>)
   }"

definition field_condition_value :: "'f heap \<Rightarrow> h_field_condition \<Rightarrow> field_condition" where
  "field_condition_value h r = \<lparr>fc_field_path = hf_field_path r, fc_operator = hf_operator r,
     fc_value = hf_value r, fc_values = or_empty (plain_pointer strs_of h (hf_values r))\<rparr>"

definition field_condition_reach :: "'f heap \<Rightarrow> h_field_condition \<Rightarrow> addr set" where
  "field_condition_reach h r = plain_cells strs_of h (hf_values r)"

definition label_condition_deep_copy_into :: "label_condition \<Rightarrow> ('f heap, label_condition) state" where
  "label_condition_deep_copy_into r = State_Monad.return r"

definition annotation_condition_deep_copy_into :: "annotation_condition \<Rightarrow> ('f heap, annotation_condition) state" where
  "annotation_condition_deep_copy_into r = State_Monad.return r"

definition conditions_deep_copy_into :: "h_conditions \<Rightarrow> ('f heap, h_conditions) state" where
  "conditions_deep_copy_into r = do {
     phase \<leftarrow> copy_plain Strs_Cell strs_of (hc_phase r);
     labels \<leftarrow> copy_plain Labels_Cell labels_of (hc_has_labels r);
     annots \<leftarrow> copy_plain Annotations_Cell annotations_of (hc_has_annotations r);
     conj \<leftarrow> copy_pointer Fields_Cell fields_of (State_Monad.traverse_list field_condition_deep_copy_into) (hc_and r);
     State_Monad.return (r\<lparr>hc_phase := phase, hc_has_labels := labels, hc_has_annotations := annots, hc_and := conj\<rparr>)
   }"

definition conditions_value :: "'f heap \<Rightarrow> h_conditions \<Rightarrow> conditions_spec" where
  "conditions_value h r = \<lparr>cs_phase = or_empty (plain_pointer strs_of h (hc_phase r)),
     cs_has_labels = or_empty (plain_pointer labels_of h (hc_has_labels r)),
     cs_has_annotations = or_empty (plain_pointer annotations_of h (hc_has_annotations r)),
     cs_and = or_empty (pointer_value fields_of (\<lambda>h. map (field_condition_value h)) h (hc_and r))\<rparr>"

definition conditions_reach :: "'f heap \<Rightarrow> h_conditions \<Rightarrow> addr set" where
  "conditions_reach h r = plain_cells strs_of h (hc_phase r) \<union> (plain_cells labels_of h (hc_has_labels r) \<union>
     (plain_cells annotations_of h (hc_has_annotations r) \<union>
      pointer_reach fields_of (\<lambda>h fs. \<Union>f\<in>set fs. field_condition_reach h f) h (hc_and r)))"

definition field_selector_deep_copy_into :: "h_field_selector \<Rightarrow> ('f heap, h_field_selector) state" where
  "field_selector_deep_copy_into r = do {
     m \<leftarrow> copy_plain Str_Map_Cell str_map_of (hs_match_fields r);
     State_Monad.return (r\<lparr>hs_match_fields := m\<rparr>)
   }"

definition field_selector_value :: "'f heap \<Rightarrow> h_field_selector \<Rightarrow> (string, string) gomap" where
  "field_selector_value h r = or_empty (plain_pointer str_map_of h (hs_match_fields r))"

definition field_selector_reach :: "'f heap \<Rightarrow> h_field_selector \<Rightarrow> addr set" where
  "field_selector_reach h r = plain_cells str_map_of h (hs_match_fields r)"

definition ttl_deep_copy_into :: "h_ttl \<Rightarrow> ('f heap, h_ttl) state" where
  "ttl_deep_copy_into r = do {
     sac \<leftarrow> copy_plain Int64_Cell int64_of (hl_seconds_after_creation r);
     m \<leftarrow> copy_plain Int_Map_Cell int_map_of (hl_mappings r);
     def \<leftarrow> copy_plain Int64_Cell int64_of (hl_default r);
     sa \<leftarrow> copy_plain Int64_Cell int64_of (hl_seconds_after r);
     State_Monad.return (r\<lparr>hl_seconds_after_creation := sac, hl_mappings := m, hl_default := def, hl_seconds_after := sa\<rparr>)
   }"

definition ttl_value :: "'f heap \<Rightarrow> h_ttl \<Rightarrow> ttl_spec" where
  "ttl_value h r = \<lparr>ttl_seconds_after_creation = plain_pointer int64_of h (hl_seconds_after_creation r),
     ttl_field_path = hl_field_path r, ttl_mappings = or_empty (plain_pointer int_map_of h (hl_mappings r)),
     ttl_default = plain_pointer int64_of h (hl_default r), ttl_relative_to = hl_relative_to r,
     ttl_seconds_after = plain_pointer int64_of h (hl_seconds_after r)\<rparr>"

definition ttl_reach :: "'f heap \<Rightarrow> h_ttl \<Rightarrow> addr set" where
  "ttl_reach h r = plain_cells int64_of h (hl_seconds_after_creation r) \<union> (plain_cells int_map_of h (hl_mappings r) \<union>
     (plain_cells int64_of h (hl_default r) \<union> plain_cells int64_of h (hl_seconds_after r)))"

definition behavior_deep_copy_into :: "h_behavior \<Rightarrow> ('f heap, h_behavior) state" where
  "behavior_deep_copy_into r = do {
     grace \<leftarrow> copy_plain Int64_Cell int64_of (hb_grace_period r);
     State_Monad.return (r\<lparr>hb_grace_period := grace\<rparr>)
   }"

definition behavior_value :: "'f heap \<Rightarrow> h_behavior \<Rightarrow> behavior_spec" where
  "behavior_value h r = \<lparr>bh_max_deletions = hb_max_deletions r, bh_batch_size = hb_batch_size r,
     bh_dry_run = hb_dry_run r, bh_finalizer = hb_finalizer r, bh_propagation = hb_propagation r,
     bh_grace_period = plain_pointer int64_of h (hb_grace_period r), bh_allow_workload = hb_allow_workload r\<rparr>"

definition behavior_reach :: "'f heap \<Rightarrow> h_behavior \<Rightarrow> addr set" where
  "behavior_reach h r = plain_cells int64_of h (hb_grace_period r)"

lemmas spec_part_defs = field_condition_deep_copy_into_def field_condition_value_def field_condition_reach_def
  conditions_deep_copy_into_def conditions_value_def conditions_reach_def field_selector_deep_copy_into_def
  field_selector_value_def field_selector_reach_def ttl_deep_copy_into_def ttl_value_def ttl_reach_def
  behavior_deep_copy_into_def behavior_value_def behavior_reach_def

interpretation field_condition_copy:
  deep_copier field_condition_deep_copy_into field_condition_value field_condition_reach no_cells
  by (rule deep_copier.struct[OF copy_plain[of strs_of Strs_Cell], where get = hf_values
        and put = "\<lambda>r t. r\<lparr>hf_values := t\<rparr>"]) (simp_all add: spec_part_defs)

interpretation field_selector_copy:
  deep_copier field_selector_deep_copy_into field_selector_value field_selector_reach no_cells
  by (rule deep_copier.struct[OF copy_plain[of str_map_of Str_Map_Cell], where get = hs_match_fields
        and put = "\<lambda>r t. r\<lparr>hs_match_fields := t\<rparr>"]) (simp_all add: spec_part_defs)

interpretation behavior_copy: deep_copier behavior_deep_copy_into behavior_value behavior_reach no_cells
  by (rule deep_copier.struct[OF copy_plain[of int64_of Int64_Cell], where get = hb_grace_period
        and put = "\<lambda>r t. r\<lparr>hb_grace_period := t\<rparr>"]) (simp_all add: spec_part_defs)

lemma field_conditions_copy:
  "deep_copier (copy_pointer Fields_Cell fields_of (State_Monad.traverse_list field_condition_deep_copy_into))
    (pointer_value fields_of (\<lambda>h. map (field_condition_value h)))
    (pointer_reach fields_of (\<lambda>h fs. \<Union>f\<in>set fs. field_condition_reach h f)) no_cells"
  using deep_copier.pointer[OF field_condition_copy.elements, of fields_of Fields_Cell] by simp

interpretation ttl_copy: deep_copier ttl_deep_copy_into ttl_value ttl_reach no_cells
  by (rule deep_copier.struct[OF deep_copier.fields[OF copy_plain[of int64_of Int64_Cell]
          deep_copier.fields[OF copy_plain[of int_map_of Int_Map_Cell]
          deep_copier.fields[OF copy_plain[of int64_of Int64_Cell] copy_plain[of int64_of Int64_Cell]]]],
        where get = "\<lambda>r. (hl_seconds_after_creation r, hl_mappings r, hl_default r, hl_seconds_after r)"
        and put = "\<lambda>r (a, b, c, d). r\<lparr>hl_seconds_after_creation := a, hl_mappings := b, hl_default := c, hl_seconds_after := d\<rparr>"])
    (simp_all add: spec_part_defs split: prod.splits)

interpretation conditions_copy: deep_copier conditions_deep_copy_into conditions_value conditions_reach no_cells
  by (rule deep_copier.struct[OF deep_copier.fields[OF copy_plain[of strs_of Strs_Cell]
          deep_copier.fields[OF copy_plain[of labels_of Labels_Cell]
          deep_copier.fields[OF copy_plain[of annotations_of Annotations_Cell] field_conditions_copy]]],
        where get = "\<lambda>r. (hc_phase r, hc_has_labels r, hc_has_annotations r, hc_and r)"
        and put = "\<lambda>r (a, b, c, d). r\<lparr>hc_phase := a, hc_has_labels := b, hc_has_annotations := c, hc_and := d\<rparr>"])
    (simp_all add: spec_part_defs split: prod.splits)

section \<open>The types of apimachinery\<close>

record object_meta =
  om_namespace :: string
  om_name :: string
  om_uid :: string
  om_generation :: int
  om_annotations :: "(string, string) gomap"

datatype foreign =
    Meta_Value (meta_value: object_meta)
  | List_Meta_Value (list_meta_value: string)
  | Selector_Value (selector_value: label_selector)
  | Condition_Value (condition_value: condition)
  | Time_Value (time_value: gotime)

text \<open>What a struct of apimachinery in a store means, the cells that belong to it, its
  \<open>DeepCopyInto\<close>.\<close>

record 'f apimachinery =
  am_copy_into :: "'f \<Rightarrow> ('f heap, 'f) state"
  am_read :: "'f heap \<Rightarrow> 'f \<Rightarrow> foreign"
  am_reach :: "'f heap \<Rightarrow> 'f \<Rightarrow> addr set"

definition copies_foreign :: "'f apimachinery \<Rightarrow> bool" where
  "copies_foreign am \<longleftrightarrow> deep_copier (am_copy_into am) (am_read am) (am_reach am) no_cells"

section \<open>The policy\<close>

abbreviation copy_foreign :: "'f apimachinery \<Rightarrow> addr option \<Rightarrow> ('f heap, addr option) state" where
  "copy_foreign am \<equiv> copy_pointer Foreign_Cell foreign_of (am_copy_into am)"

abbreviation foreign_pointer :: "'f apimachinery \<Rightarrow> 'f heap \<Rightarrow> addr option \<Rightarrow> foreign option" where
  "foreign_pointer am \<equiv> pointer_value foreign_of (am_read am)"

abbreviation foreign_cells :: "'f apimachinery \<Rightarrow> 'f heap \<Rightarrow> addr option \<Rightarrow> addr set" where
  "foreign_cells am \<equiv> pointer_reach foreign_of (am_reach am)"

definition target_deep_copy_into :: "'f apimachinery \<Rightarrow> h_target \<Rightarrow> ('f heap, h_target) state" where
  "target_deep_copy_into am r = do {
     labels \<leftarrow> copy_foreign am (ht_label_selector r);
     fields \<leftarrow> copy_pointer Field_Selector_Cell field_selector_of field_selector_deep_copy_into (ht_field_selector r);
     State_Monad.return (r\<lparr>ht_label_selector := labels, ht_field_selector := fields\<rparr>)
   }"

definition target_value :: "'f apimachinery \<Rightarrow> 'f heap \<Rightarrow> h_target \<Rightarrow> target_resource" where
  "target_value am h r = \<lparr>tr_api_version = ht_api_version r, tr_kind = ht_kind r, tr_namespace = ht_namespace r,
     tr_label_selector = map_option selector_value (foreign_pointer am h (ht_label_selector r)),
     tr_field_selector = pointer_value field_selector_of field_selector_value h (ht_field_selector r)\<rparr>"

definition target_reach :: "'f apimachinery \<Rightarrow> 'f heap \<Rightarrow> h_target \<Rightarrow> addr set" where
  "target_reach am h r = foreign_cells am h (ht_label_selector r)
     \<union> pointer_reach field_selector_of field_selector_reach h (ht_field_selector r)"

text \<open>\<open>EvaluationInterval\<close> is assigned with the struct and never copied.\<close>

definition spec_deep_copy_into :: "'f apimachinery \<Rightarrow> h_spec \<Rightarrow> ('f heap, h_spec) state" where
  "spec_deep_copy_into am r = do {
     target \<leftarrow> target_deep_copy_into am (hp_target r);
     ttl \<leftarrow> ttl_deep_copy_into (hp_ttl r);
     conds \<leftarrow> copy_pointer Conditions_Cell conditions_of conditions_deep_copy_into (hp_conditions r);
     behavior \<leftarrow> behavior_deep_copy_into (hp_behavior r);
     State_Monad.return (r\<lparr>hp_target := target, hp_ttl := ttl, hp_conditions := conds, hp_behavior := behavior\<rparr>)
   }"

definition spec_value :: "'f apimachinery \<Rightarrow> 'f heap \<Rightarrow> h_spec \<Rightarrow> policy_spec" where
  "spec_value am h r = \<lparr>ps_target = target_value am h (hp_target r), ps_ttl = ttl_value h (hp_ttl r),
     ps_conditions = pointer_value conditions_of conditions_value h (hp_conditions r),
     ps_behavior = behavior_value h (hp_behavior r),
     ps_interval = plain_pointer duration_of h (hp_interval r), ps_paused = hp_paused r\<rparr>"

definition spec_reach :: "'f apimachinery \<Rightarrow> 'f heap \<Rightarrow> h_spec \<Rightarrow> addr set" where
  "spec_reach am h r = target_reach am h (hp_target r) \<union> (ttl_reach h (hp_ttl r) \<union>
     (pointer_reach conditions_of conditions_reach h (hp_conditions r) \<union>
     (behavior_reach h (hp_behavior r) \<union> plain_cells duration_of h (hp_interval r))))"

definition spec_shared :: "'f heap \<Rightarrow> h_spec \<Rightarrow> addr set" where
  "spec_shared h r = set_option (hp_interval r)"

text \<open>\<open>LastCycleRefusals\<close> is assigned with the struct and never copied.\<close>

definition status_deep_copy_into :: "'f apimachinery \<Rightarrow> h_status \<Rightarrow> ('f heap, h_status) state" where
  "status_deep_copy_into am r = do {
     last_run \<leftarrow> copy_foreign am (hu_last_run r);
     next_run \<leftarrow> copy_foreign am (hu_next_run r);
     conds \<leftarrow> copy_pointer Foreigns_Cell foreigns_of (State_Monad.traverse_list (am_copy_into am)) (hu_conditions r);
     State_Monad.return (r\<lparr>hu_last_run := last_run, hu_next_run := next_run, hu_conditions := conds\<rparr>)
   }"

definition status_value :: "'f apimachinery \<Rightarrow> 'f heap \<Rightarrow> h_status \<Rightarrow> policy_status" where
  "status_value am h r = \<lparr>st_phase = hu_phase r, st_matched = hu_matched r, st_deleted = hu_deleted r,
     st_pending = hu_pending r, st_last_run = map_option time_value (foreign_pointer am h (hu_last_run r)),
     st_next_run = map_option time_value (foreign_pointer am h (hu_next_run r)),
     st_refusals = or_empty (plain_pointer count_map_of h (hu_refusals r)),
     st_conditions = map condition_value
       (or_empty (pointer_value foreigns_of (\<lambda>h. map (am_read am h)) h (hu_conditions r)))\<rparr>"

definition status_reach :: "'f apimachinery \<Rightarrow> 'f heap \<Rightarrow> h_status \<Rightarrow> addr set" where
  "status_reach am h r = foreign_cells am h (hu_last_run r) \<union> (foreign_cells am h (hu_next_run r) \<union>
     (pointer_reach foreigns_of (\<lambda>h fs. \<Union>f\<in>set fs. am_reach am h f) h (hu_conditions r)
      \<union> plain_cells count_map_of h (hu_refusals r)))"

definition status_shared :: "'f heap \<Rightarrow> h_status \<Rightarrow> addr set" where
  "status_shared h r = set_option (hu_refusals r)"

definition policy_deep_copy_into :: "'f apimachinery \<Rightarrow> 'f h_policy \<Rightarrow> ('f heap, 'f h_policy) state" where
  "policy_deep_copy_into am r = do {
     meta \<leftarrow> am_copy_into am (hy_meta r);
     spec \<leftarrow> spec_deep_copy_into am (hy_spec r);
     status \<leftarrow> status_deep_copy_into am (hy_status r);
     State_Monad.return (r\<lparr>hy_meta := meta, hy_spec := spec, hy_status := status\<rparr>)
   }"

definition policy_value :: "'f apimachinery \<Rightarrow> 'f heap \<Rightarrow> 'f h_policy \<Rightarrow> type_meta \<times> policy" where
  "policy_value am h r = (let m = meta_value (am_read am h (hy_meta r)) in
     (hy_type_meta r, \<lparr>p_namespace = om_namespace m, p_name = om_name m, p_uid = om_uid m,
        p_generation = om_generation m, p_annotations = om_annotations m,
        p_spec = spec_value am h (hy_spec r), p_status = status_value am h (hy_status r)\<rparr>))"

definition policy_reach :: "'f apimachinery \<Rightarrow> 'f heap \<Rightarrow> 'f h_policy \<Rightarrow> addr set" where
  "policy_reach am h r = am_reach am h (hy_meta r) \<union> (spec_reach am h (hy_spec r) \<union> status_reach am h (hy_status r))"

definition policy_shared :: "'f heap \<Rightarrow> 'f h_policy \<Rightarrow> addr set" where
  "policy_shared h r = set_option (hp_interval (hy_spec r)) \<union> set_option (hu_refusals (hy_status r))"

definition policy_list_deep_copy_into :: "'f apimachinery \<Rightarrow> 'f h_policy_list \<Rightarrow> ('f heap, 'f h_policy_list) state" where
  "policy_list_deep_copy_into am r = do {
     meta \<leftarrow> am_copy_into am (hq_meta r);
     items \<leftarrow> copy_pointer Policies_Cell policies_of (State_Monad.traverse_list (policy_deep_copy_into am)) (hq_items r);
     State_Monad.return (r\<lparr>hq_meta := meta, hq_items := items\<rparr>)
   }"

definition policy_list_value :: "'f apimachinery \<Rightarrow> 'f heap \<Rightarrow> 'f h_policy_list \<Rightarrow> type_meta \<times> string \<times> (type_meta \<times> policy) list option" where
  "policy_list_value am h r = (hq_type_meta r, list_meta_value (am_read am h (hq_meta r)),
     pointer_value policies_of (\<lambda>h. map (policy_value am h)) h (hq_items r))"

definition policy_list_reach :: "'f apimachinery \<Rightarrow> 'f heap \<Rightarrow> 'f h_policy_list \<Rightarrow> addr set" where
  "policy_list_reach am h r = am_reach am h (hq_meta r)
     \<union> pointer_reach policies_of (\<lambda>h ps. \<Union>p\<in>set ps. policy_reach am h p) h (hq_items r)"

definition policy_list_shared :: "'f heap \<Rightarrow> 'f h_policy_list \<Rightarrow> addr set" where
  "policy_list_shared h r = pointer_shared policies_of (\<lambda>h ps. \<Union>p\<in>set ps. policy_shared h p) h (hq_items r)"

text \<open>The copies that allocate.\<close>

definition policy_deep_copy :: "'f apimachinery \<Rightarrow> addr option \<Rightarrow> ('f heap, addr option) state" where
  "policy_deep_copy am = copy_pointer Policy_Cell policy_of (policy_deep_copy_into am)"

definition policy_list_deep_copy :: "'f apimachinery \<Rightarrow> addr option \<Rightarrow> ('f heap, addr option) state" where
  "policy_list_deep_copy am = copy_pointer Policy_List_Cell policy_list_of (policy_list_deep_copy_into am)"

definition spec_deep_copy :: "'f apimachinery \<Rightarrow> addr option \<Rightarrow> ('f heap, addr option) state" where
  "spec_deep_copy am = copy_pointer Spec_Cell spec_of (spec_deep_copy_into am)"

definition status_deep_copy :: "'f apimachinery \<Rightarrow> addr option \<Rightarrow> ('f heap, addr option) state" where
  "status_deep_copy am = copy_pointer Status_Cell status_of (status_deep_copy_into am)"

definition target_deep_copy :: "'f apimachinery \<Rightarrow> addr option \<Rightarrow> ('f heap, addr option) state" where
  "target_deep_copy am = copy_pointer Target_Cell target_of (target_deep_copy_into am)"

definition ttl_deep_copy :: "addr option \<Rightarrow> ('f heap, addr option) state" where
  "ttl_deep_copy = copy_pointer Ttl_Cell ttl_of ttl_deep_copy_into"

definition conditions_deep_copy :: "addr option \<Rightarrow> ('f heap, addr option) state" where
  "conditions_deep_copy = copy_pointer Conditions_Cell conditions_of conditions_deep_copy_into"

definition behavior_deep_copy :: "addr option \<Rightarrow> ('f heap, addr option) state" where
  "behavior_deep_copy = copy_pointer Behavior_Cell behavior_of behavior_deep_copy_into"

definition field_selector_deep_copy :: "addr option \<Rightarrow> ('f heap, addr option) state" where
  "field_selector_deep_copy = copy_pointer Field_Selector_Cell field_selector_of field_selector_deep_copy_into"

definition label_condition_deep_copy :: "addr option \<Rightarrow> ('f heap, addr option) state" where
  "label_condition_deep_copy = copy_pointer Label_Condition_Cell label_condition_of label_condition_deep_copy_into"

definition annotation_condition_deep_copy :: "addr option \<Rightarrow> ('f heap, addr option) state" where
  "annotation_condition_deep_copy =
     copy_pointer Annotation_Condition_Cell annotation_condition_of annotation_condition_deep_copy_into"

definition field_condition_deep_copy :: "addr option \<Rightarrow> ('f heap, addr option) state" where
  "field_condition_deep_copy = copy_pointer Field_Condition_Cell field_condition_of field_condition_deep_copy_into"

text \<open>An interface value holds a type and a pointer; a nil pointer becomes the nil interface.\<close>

datatype runtime_object = Policy_Object addr | Policy_List_Object addr

definition policy_deep_copy_object :: "'f apimachinery \<Rightarrow> addr option \<Rightarrow> ('f heap, runtime_object option) state" where
  "policy_deep_copy_object am p = do {
     c \<leftarrow> policy_deep_copy am p;
     State_Monad.return (case c of Some a \<Rightarrow> Some (Policy_Object a) | None \<Rightarrow> None)
   }"

definition policy_list_deep_copy_object :: "'f apimachinery \<Rightarrow> addr option \<Rightarrow> ('f heap, runtime_object option) state" where
  "policy_list_deep_copy_object am p = do {
     c \<leftarrow> policy_list_deep_copy am p;
     State_Monad.return (case c of Some a \<Rightarrow> Some (Policy_List_Object a) | None \<Rightarrow> None)
   }"

section \<open>What the copies share with their originals\<close>

lemma plain_cells_alone: "plain_cells get h p = set_option p"
  by (cases p) (simp_all add: pointer_reach_def)

lemma copy_alias: "deep_copier State_Monad.return (plain_pointer get) (plain_cells get) (\<lambda>h. set_option)"
  using deep_copier_alias[of get] by (simp add: plain_cells_alone[abs_def])

lemma field_selector_pointer:
  "deep_copier (copy_pointer Field_Selector_Cell field_selector_of field_selector_deep_copy_into)
     (pointer_value field_selector_of field_selector_value) (pointer_reach field_selector_of field_selector_reach) no_cells"
  using field_selector_copy.pointer[of field_selector_of Field_Selector_Cell] by simp

lemma conditions_pointer:
  "deep_copier (copy_pointer Conditions_Cell conditions_of conditions_deep_copy_into)
     (pointer_value conditions_of conditions_value) (pointer_reach conditions_of conditions_reach) no_cells"
  using conditions_copy.pointer[of conditions_of Conditions_Cell] by simp

lemma foreign_pointer:
  "copies_foreign am \<Longrightarrow> deep_copier (copy_foreign am) (foreign_pointer am) (foreign_cells am) no_cells"
  unfolding copies_foreign_def by (drule deep_copier.pointer[where get = foreign_of and mk = Foreign_Cell]) simp_all

lemma foreigns_pointer:
  "copies_foreign am \<Longrightarrow> deep_copier (copy_pointer Foreigns_Cell foreigns_of (State_Monad.traverse_list (am_copy_into am)))
     (pointer_value foreigns_of (\<lambda>h. map (am_read am h)))
     (pointer_reach foreigns_of (\<lambda>h fs. \<Union>f\<in>set fs. am_reach am h f)) no_cells"
  unfolding copies_foreign_def
  by (drule deep_copier.elements, drule deep_copier.pointer[where get = foreigns_of and mk = Foreigns_Cell]) simp_all

lemma target_copy:
  assumes "copies_foreign am"
  shows "deep_copier (target_deep_copy_into am) (target_value am) (target_reach am) no_cells"
  by (rule deep_copier.struct[OF deep_copier.fields[OF foreign_pointer[OF assms] field_selector_pointer],
        where get = "\<lambda>r. (ht_label_selector r, ht_field_selector r)"
        and put = "\<lambda>r (a, b). r\<lparr>ht_label_selector := a, ht_field_selector := b\<rparr>"])
    (simp_all add: target_deep_copy_into_def target_value_def target_reach_def split: prod.splits)

lemma spec_copy:
  assumes "copies_foreign am"
  shows "deep_copier (spec_deep_copy_into am) (spec_value am) (spec_reach am) spec_shared"
  by (rule deep_copier.struct[OF deep_copier.fields[OF target_copy[OF assms]
          deep_copier.fields[OF ttl_copy.deep_copier_axioms
          deep_copier.fields[OF conditions_pointer
          deep_copier.fields[OF behavior_copy.deep_copier_axioms copy_alias[of duration_of]]]]],
        where get = "\<lambda>r. (hp_target r, hp_ttl r, hp_conditions r, hp_behavior r, hp_interval r)"
        and put = "\<lambda>r (a, b, c, d, e). r\<lparr>hp_target := a, hp_ttl := b, hp_conditions := c, hp_behavior := d, hp_interval := e\<rparr>"])
    (simp_all add: spec_deep_copy_into_def spec_value_def spec_reach_def spec_shared_def split: prod.splits)

lemma status_copy:
  assumes "copies_foreign am"
  shows "deep_copier (status_deep_copy_into am) (status_value am) (status_reach am) status_shared"
  by (rule deep_copier.struct[OF deep_copier.fields[OF foreign_pointer[OF assms]
          deep_copier.fields[OF foreign_pointer[OF assms]
          deep_copier.fields[OF foreigns_pointer[OF assms] copy_alias[of count_map_of]]]],
        where get = "\<lambda>r. (hu_last_run r, hu_next_run r, hu_conditions r, hu_refusals r)"
        and put = "\<lambda>r (a, b, c, d). r\<lparr>hu_last_run := a, hu_next_run := b, hu_conditions := c, hu_refusals := d\<rparr>"])
    (simp_all add: status_deep_copy_into_def status_value_def status_reach_def status_shared_def split: prod.splits)

lemma policy_copy:
  assumes "copies_foreign am"
  shows "deep_copier (policy_deep_copy_into am) (policy_value am) (policy_reach am) policy_shared"
  by (rule deep_copier.struct[OF deep_copier.fields[OF assms[unfolded copies_foreign_def]
          deep_copier.fields[OF spec_copy[OF assms] status_copy[OF assms]]],
        where get = "\<lambda>r. (hy_meta r, hy_spec r, hy_status r)"
        and put = "\<lambda>r (a, b, c). r\<lparr>hy_meta := a, hy_spec := b, hy_status := c\<rparr>"])
    (simp_all add: policy_deep_copy_into_def policy_value_def policy_reach_def policy_shared_def
      spec_shared_def status_shared_def Let_def split: prod.splits)

lemma policies_pointer:
  assumes "copies_foreign am"
  shows "deep_copier (copy_pointer Policies_Cell policies_of (State_Monad.traverse_list (policy_deep_copy_into am)))
     (pointer_value policies_of (\<lambda>h. map (policy_value am h)))
     (pointer_reach policies_of (\<lambda>h ps. \<Union>p\<in>set ps. policy_reach am h p))
     (pointer_shared policies_of (\<lambda>h ps. \<Union>p\<in>set ps. policy_shared h p))"
  by (rule deep_copier.pointer[OF deep_copier.elements[OF policy_copy[OF assms]]]) simp

lemma policy_list_copy:
  assumes "copies_foreign am"
  shows "deep_copier (policy_list_deep_copy_into am) (policy_list_value am) (policy_list_reach am) policy_list_shared"
  by (rule deep_copier.struct[OF deep_copier.fields[OF assms[unfolded copies_foreign_def] policies_pointer[OF assms]],
        where get = "\<lambda>r. (hq_meta r, hq_items r)"
        and put = "\<lambda>r (a, b). r\<lparr>hq_meta := a, hq_items := b\<rparr>"])
    (simp_all add: policy_list_deep_copy_into_def policy_list_value_def policy_list_reach_def policy_list_shared_def
      split: prod.splits)

lemma policy_pointer:
  assumes "copies_foreign am"
  shows "deep_copier (policy_deep_copy am) (pointer_value policy_of (policy_value am))
    (pointer_reach policy_of (policy_reach am)) (pointer_shared policy_of policy_shared)"
  unfolding policy_deep_copy_def by (rule deep_copier.pointer[OF policy_copy[OF assms]]) simp

lemma spec_pointer:
  assumes "copies_foreign am"
  shows "deep_copier (spec_deep_copy am) (pointer_value spec_of (spec_value am))
    (pointer_reach spec_of (spec_reach am)) (pointer_shared spec_of spec_shared)"
  unfolding spec_deep_copy_def by (rule deep_copier.pointer[OF spec_copy[OF assms]]) simp

text \<open>C29. A copy of a policy made by \<open>DeepCopy\<close> is a new object with the same value, no cell of the
  original changes, and what the two have in common are exactly the cell of the evaluation
  interval and the map of the last refusals: the fields the generated code does not know.\<close>
theorem policy_deep_copy_law:
  assumes "copies_foreign am" and "a < limit h" and "policy_reach am h (policy_of (cells h a)) \<subseteq> allocated h"
    and "run_state (policy_deep_copy am (Some a)) h = (q, h')"
  shows "\<exists>b. q = Some b \<and> limit h \<le> b
    \<and> policy_value am h' (policy_of (cells h' b)) = policy_value am h (policy_of (cells h a))
    \<and> agree (allocated h) h h'
    \<and> policy_reach am h' (policy_of (cells h' b)) \<inter> allocated h
      = set_option (hp_interval (hy_spec (policy_of (cells h a))))
        \<union> set_option (hu_refusals (hy_status (policy_of (cells h a))))"
proof -
  have "pointer_reach policy_of (policy_reach am) h (Some a) \<subseteq> allocated h"
    using assms(2,3) by (simp add: pointer_reach_def allocated_def)
  then show ?thesis
    by (rule deep_copier.pointer_run[OF policy_copy[OF assms(1)] _ assms(4)[unfolded policy_deep_copy_def]])
      (auto simp: policy_shared_def extends_def allocated_def)
qed

section \<open>An example\<close>

text \<open>Structs of apimachinery that hold their data behind a pointer.\<close>

datatype boxed = Plain foreign | Boxed addr

fun boxed_copy :: "boxed \<Rightarrow> (boxed heap, boxed) state" where
  "boxed_copy (Plain v) = State_Monad.return (Plain v)"
| "boxed_copy (Boxed a) = do { c \<leftarrow> load a; out \<leftarrow> alloc c; State_Monad.return (Boxed out) }"

fun boxed_read :: "boxed heap \<Rightarrow> boxed \<Rightarrow> foreign" where
  "boxed_read h (Plain v) = v"
| "boxed_read h (Boxed a) = (case cells h a of Foreign_Cell (Plain v) \<Rightarrow> v | _ \<Rightarrow> List_Meta_Value [])"

fun boxed_reach :: "boxed heap \<Rightarrow> boxed \<Rightarrow> addr set" where
  "boxed_reach h (Plain v) = {}"
| "boxed_reach h (Boxed a) = {a}"

definition boxed_am :: "boxed apimachinery" where
  "boxed_am = \<lparr>am_copy_into = boxed_copy, am_read = boxed_read, am_reach = boxed_reach\<rparr>"

lemma copies_boxed: "copies_foreign boxed_am"
  unfolding copies_foreign_def
proof (unfold_locales, goal_cases)
  case (1 h r h') then show ?case by (cases r) (simp_all add: boxed_am_def)
next
  case (2 h r h') then show ?case by (cases r) (simp_all add: boxed_am_def)
next
  case (5 h r) then show ?case by (cases r) (auto simp: boxed_am_def extends_def agree_def)
next
  case (6 h r) then show ?case by (cases r) (auto simp: boxed_am_def)
next
  case (7 h r) then show ?case by (cases r) (auto simp: boxed_am_def allocated_def)
next
  case (8 h r) then show ?case by (cases r) (auto simp: boxed_am_def allocated_def)
qed simp_all

text \<open>A policy with an interval of a minute, a label selector and counts of refusals.\<close>

definition ex_h_spec :: h_spec where
  "ex_h_spec = \<lparr>hp_target = \<lparr>ht_api_version = ''v1'', ht_kind = ''ConfigMap'', ht_namespace = ''apps'',
       ht_label_selector = Some 3, ht_field_selector = None\<rparr>,
     hp_ttl = \<lparr>hl_seconds_after_creation = Some 4, hl_field_path = [], hl_mappings = None, hl_default = None,
       hl_relative_to = [], hl_seconds_after = None\<rparr>,
     hp_conditions = None,
     hp_behavior = \<lparr>hb_max_deletions = 0, hb_batch_size = 0, hb_dry_run = False, hb_finalizer = [],
       hb_propagation = [], hb_grace_period = None, hb_allow_workload = False\<rparr>,
     hp_interval = Some 1, hp_paused = False\<rparr>"

definition ex_h_policy :: "boxed h_policy" where
  "ex_h_policy = \<lparr>hy_type_meta = \<lparr>tm_kind = ''ZenCleanerPolicy'', tm_api_version = []\<rparr>, hy_meta = Boxed 5,
     hy_spec = ex_h_spec,
     hy_status = \<lparr>hu_phase = [], hu_matched = 0, hu_deleted = 0, hu_pending = 0, hu_last_run = None,
       hu_next_run = None, hu_refusals = Some 2, hu_conditions = None\<rparr>\<rparr>"

definition ex_heap :: "boxed heap" where
  "ex_heap = \<lparr>cells = (\<lambda>_. Zeroed)(0 := Policy_Cell ex_h_policy, 1 := Duration_Cell 60000000000,
       2 := Count_Map_Cell [(''paused'', 1)], 3 := Foreign_Cell (Plain (Selector_Value
         \<lparr>ls_match_labels = [(''app'', ''x'')], ls_match_expressions = []\<rparr>)),
       4 := Int64_Cell 60, 5 := Foreign_Cell (Plain (Meta_Value \<lparr>om_namespace = ''ops'', om_name = ''sweep'',
         om_uid = ''policy-1'', om_generation = 1, om_annotations = []\<rparr>))), limit = 6\<rparr>"

lemmas ex_heap_defs = ex_heap_def ex_h_policy_def ex_h_spec_def

lemma ex_spec_reach: "spec_reach boxed_am ex_heap ex_h_spec = {1, 3, 4}"
  by (auto simp: spec_reach_def target_reach_def ttl_reach_def behavior_reach_def pointer_reach_def ex_heap_defs
      boxed_am_def)

lemma ex_policy_reach: "policy_reach boxed_am ex_heap ex_h_policy = {1, 2, 3, 4, 5}"
  by (auto simp: policy_reach_def spec_reach_def status_reach_def target_reach_def ttl_reach_def behavior_reach_def
      pointer_reach_def ex_heap_defs boxed_am_def)

lemma policy_deep_copy_law_witness:
  "\<exists>b h'. run_state (policy_deep_copy boxed_am (Some 0)) ex_heap = (Some b, h') \<and> 6 \<le> b
    \<and> policy_reach boxed_am h' (policy_of (cells h' b)) \<inter> {..<6} = {1, 2}"
proof -
  obtain q h' where run: "run_state (policy_deep_copy boxed_am (Some 0)) ex_heap = (q, h')" by fastforce
  have cell: "policy_of (cells ex_heap 0) = ex_h_policy" by (simp add: ex_heap_def)
  have al: "allocated ex_heap = {..<6}" "limit ex_heap = 6" by (simp_all add: allocated_def ex_heap_def)
  have "(0::nat) < limit ex_heap" "policy_reach boxed_am ex_heap (policy_of (cells ex_heap 0)) \<subseteq> allocated ex_heap"
    unfolding cell ex_policy_reach al by auto
  from policy_deep_copy_law[OF copies_boxed this run] run show ?thesis
    unfolding cell al by (auto simp: ex_h_policy_def ex_h_spec_def)
qed

text \<open>A write through the original that its copy sees: the interval of a recorded specification
  follows the object it was taken from.\<close>

lemma interval_leaks:
  "\<exists>b h'. run_state (policy_deep_copy boxed_am (Some 0)) ex_heap = (Some b, h')
    \<and> ps_interval (p_spec (snd (policy_value boxed_am (h'\<lparr>cells := (cells h')(1 := Duration_Cell 1)\<rparr>)
        (policy_of (cells h' b))))) = Some 1
    \<and> ps_interval (p_spec (snd (policy_value boxed_am h' (policy_of (cells h' b))))) = Some 60000000000"
  by (simp add: policy_deep_copy_def copy_pointer_def new_copy_def ex_heap_defs policy_deep_copy_into_def
      boxed_am_def spec_deep_copy_into_def target_deep_copy_into_def ttl_deep_copy_into_def
      behavior_deep_copy_into_def status_deep_copy_into_def copy_plain_def policy_value_def spec_value_def
      pointer_value_def Let_def)

end
