(* ===== verification/Tracked_Specs.thy ===== *)
theory Tracked_Specs
  imports Informers Deep_Copy
begin

text \<open>
  The table of recorded specifications (\<open>policySpecs\<close> of \<open>reconciler_lifecycle.go\<close>) on the store:
  the entries are pointers, the policy a reconcile is handed is an object its caller owns.  The
  other theories keep the specification itself as the entry; here this is justified: recording
  refines their operation, and the decision to recreate an informer does not depend on what
  happens later to the objects that existed when the specification was recorded.
\<close>

type_synonym spec_table = "(string, addr) gomap"

definition track_policy_spec_ref ::
    "'f apimachinery \<Rightarrow> string \<Rightarrow> h_spec \<Rightarrow> spec_table \<Rightarrow> ('f heap, spec_table) state" where
  "track_policy_spec_ref am uid spec specs = do {
     spec_copy \<leftarrow> new_copy Spec_Cell (spec_deep_copy_into am) spec;
     State_Monad.return (AList.update uid spec_copy specs)
   }"

text \<open>The table read as the other theories have it.\<close>

definition specs_value :: "'f apimachinery \<Rightarrow> 'f heap \<Rightarrow> spec_table \<Rightarrow> (string, policy_spec) gomap" where
  "specs_value am h specs = map (\<lambda>(uid, a). (uid, spec_value am h (spec_of (cells h a)))) specs"

definition table_ok :: "'f apimachinery \<Rightarrow> 'f heap \<Rightarrow> spec_table \<Rightarrow> bool" where
  "table_ok am h specs \<longleftrightarrow> (\<forall>(uid, a)\<in>set specs.
     a < limit h \<and> spec_reach am h (spec_of (cells h a)) \<subseteq> allocated h)"

lemma specs_value_update:
  "specs_value am h (AList.update uid a specs) =
    AList.update uid (spec_value am h (spec_of (cells h a))) (specs_value am h specs)"
  by (induction specs) (auto simp: specs_value_def)

lemma map_of_specs_value:
  "map_of (specs_value am h specs) uid = map_option (\<lambda>a. spec_value am h (spec_of (cells h a))) (map_of specs uid)"
  by (induction specs) (auto simp: specs_value_def)

lemma specs_value_frame:
  assumes am: "copies_foreign am" and "table_ok am h specs" "extends h h'"
  shows "specs_value am h' specs = specs_value am h specs"
proof -
  have "spec_value am h' (spec_of (cells h' a)) = spec_value am h (spec_of (cells h a))"
    if "(uid, a) \<in> set specs" for uid a
  proof -
    have a: "a < limit h" "spec_reach am h (spec_of (cells h a)) \<subseteq> allocated h"
      using that assms(2) by (auto simp: table_ok_def)
    have "cells h' a = cells h a" using a(1) assms(3) by (simp add: extends_def agree_def)
    then show ?thesis
      using deep_copier.frame(1)[OF spec_copy[OF am] a(2) assms(3)] by simp
  qed
  then show ?thesis by (auto simp: specs_value_def)
qed

text \<open>Without the interval a copy shares nothing.\<close>

abbreviation no_interval :: "h_spec \<Rightarrow> h_spec" where
  "no_interval r \<equiv> r\<lparr>hp_interval := None\<rparr>"

lemma copy_no_interval:
  "run_state (spec_deep_copy_into am r) h = (r', h') \<Longrightarrow>
    run_state (spec_deep_copy_into am (no_interval r)) h = (no_interval r', h')"
  by (auto simp: spec_deep_copy_into_def split: prod.splits)

lemma no_interval_reach: "spec_reach am h (no_interval r) \<subseteq> spec_reach am h r"
  by (auto simp: spec_reach_def pointer_reach_def)

lemma target_reach_no_interval: "target_reach am h (hp_target r) \<subseteq> spec_reach am h (no_interval r)"
  by (auto simp: spec_reach_def)

text \<open>What is written later to objects that existed does not reach the recorded target.\<close>

lemma recorded_target:
  assumes am: "copies_foreign am" and ok: "spec_reach am h r \<subseteq> allocated h"
    and run: "run_state (new_copy Spec_Cell (spec_deep_copy_into am) r) h = (a, h')"
    and later: "agree (- allocated h) h' h''"
  shows "ps_target (spec_value am h'' (spec_of (cells h'' a))) = ps_target (spec_value am h r)"
proof -
  note dc = spec_copy[OF am] and tc = target_copy[OF am]
  define h1 where "h1 = h\<lparr>cells := (cells h)(limit h := Zeroed), limit := limit h + 1\<rparr>"
  obtain r' h2 where r': "run_state (spec_deep_copy_into am r) h1 = (r', h2)" by fastforce
  have h': "a = limit h" "h' = h2\<lparr>cells := (cells h2)(limit h := Spec_Cell r')\<rparr>"
    using run r' by (auto simp: new_copy_def h1_def)
  have e: "extends h h1" unfolding h1_def by (rule alloc_extends)
  have al: "allocated h1 = insert (limit h) (allocated h)" by (auto simp: h1_def allocated_def)
  note f = deep_copier.frame[OF dc ok e]
  have "spec_reach am h1 (no_interval r) \<subseteq> allocated h1" using no_interval_reach f(4) by (rule order_trans)
  from deep_copier.copy_shared[OF dc this copy_no_interval[OF r']]
  have fresh: "target_reach am h2 (hp_target r') \<inter> insert (limit h) (allocated h) = {}"
    using target_reach_no_interval[of am h2 r'] by (auto simp: spec_shared_def al)
  have "agree (target_reach am h2 (hp_target r')) h2 h''"
    unfolding agree_def
  proof
    fix x assume "x \<in> target_reach am h2 (hp_target r')"
    with fresh have "x \<in> - allocated h" "x \<noteq> limit h" by auto
    with later show "cells h'' x = cells h2 x" by (simp add: agree_def h')
  qed
  then have "target_value am h'' (hp_target r') = target_value am h2 (hp_target r')"
    by (rule deep_copier.val_local[OF tc])
  moreover have "cells h'' a = Spec_Cell r'" using later by (simp add: agree_def h' allocated_def)
  moreover have "spec_value am h2 r' = spec_value am h r"
    using deep_copier.copy_val[OF dc f(4) r'] f(1) by simp
  ultimately show ?thesis by (simp add: spec_value_def)
qed

text \<open>C23. Recording a specification through a pointer refines recording its value, and whatever is
  written afterwards to objects that existed before (the policy the reconcile was handed, its
  selectors), the decision to recreate the informer of that policy stays the one the recorded
  value gives.\<close>
theorem tracked_spec_isolated:
  assumes am: "copies_foreign am" and spec: "spec_reach am h r \<subseteq> allocated h" and specs: "table_ok am h specs"
    and run: "run_state (track_policy_spec_ref am (p_uid p) r specs) h = (specs', h')"
    and later: "agree (- allocated h) h' h''"
  shows "specs_value am h' specs' =
      sy_specs (snd (run_state (track_policy_spec (p_uid p) (spec_value am h r)) (s\<lparr>sy_specs := specs_value am h specs\<rparr>)))
    \<and> fst (run_state (should_recreate_informer p) (s\<lparr>sy_specs := specs_value am h'' specs'\<rparr>)) =
      fst (run_state (should_recreate_informer p) (s\<lparr>sy_specs := specs_value am h' specs'\<rparr>))"
proof -
  note dc = spec_copy[OF am]
  obtain a h2 where new: "run_state (new_copy Spec_Cell (spec_deep_copy_into am) r) h = (a, h2)" by fastforce
  have eq: "h2 = h'" "specs' = AList.update (p_uid p) a specs"
    using run new by (simp_all add: track_policy_spec_ref_def)
  note new = new[unfolded eq(1)]
  have v: "spec_value am h' (spec_of (cells h' a)) = spec_value am h r" and e: "extends h h'"
    by (rule deep_copier.new_copy_run[OF dc spec new, where get = spec_of]; simp)+
  have "specs_value am h' specs' = AList.update (p_uid p) (spec_value am h r) (specs_value am h specs)"
    by (simp add: eq specs_value_update v specs_value_frame[OF am specs e])
  moreover have "map_option ps_target (map_of (specs_value am h'' specs') (p_uid p)) =
      map_option ps_target (map_of (specs_value am h' specs') (p_uid p))"
    using recorded_target[OF am spec new later] v by (simp add: map_of_specs_value eq update_conv)
  ultimately show ?thesis
    by (auto simp: track_policy_spec_def should_recreate_informer_def Let_def split: option.splits)
qed

text \<open>The reconcile of the example policy, whose selector and namespace are then overwritten.\<close>

lemma ex_target_kept:
  "\<not> fst (run_state (should_recreate_informer (ex_policy\<lparr>p_spec := spec_value boxed_am ex_heap ex_h_spec\<rparr>))
      (s\<lparr>sy_specs := [(p_uid ex_policy, spec_value boxed_am ex_heap ex_h_spec)]\<rparr>))"
  by (simp add: should_recreate_informer_def ex_policy_def spec_value_def target_value_def pointer_value_def
      ex_heap_defs boxed_am_def label_selectors_equal_def match_labels_equal_def match_expressions_equal_def
      lookup_str_def Let_def)

lemma tracked_spec_isolated_witness:
  "\<forall>s :: unit sys. \<exists>specs' h'.
    run_state (track_policy_spec_ref boxed_am (p_uid ex_policy) ex_h_spec []) ex_heap = (specs', h')
    \<and> \<not> fst (run_state (should_recreate_informer (ex_policy\<lparr>p_spec := spec_value boxed_am ex_heap ex_h_spec\<rparr>))
        (s\<lparr>sy_specs := specs_value boxed_am (h'\<lparr>cells := (cells h')(3 := Zeroed)\<rparr>) specs'\<rparr>))"
proof
  fix s :: "unit sys"
  let ?p = "ex_policy\<lparr>p_spec := spec_value boxed_am ex_heap ex_h_spec\<rparr>"
  obtain specs' h' where run: "run_state (track_policy_spec_ref boxed_am (p_uid ?p) ex_h_spec []) ex_heap = (specs', h')"
    by fastforce
  have al: "allocated ex_heap = {..<6}" by (simp add: allocated_def ex_heap_def)
  have r: "spec_reach boxed_am ex_heap ex_h_spec \<subseteq> allocated ex_heap" using ex_spec_reach al by simp
  have t: "table_ok boxed_am ex_heap []" by (simp add: table_ok_def)
  have "agree (- allocated ex_heap) h' (h'\<lparr>cells := (cells h')(3 := Zeroed)\<rparr>)"
    by (auto simp: agree_def al)
  note law = tracked_spec_isolated[OF copies_boxed r t run this, of s]
  then have "specs_value boxed_am h' specs' = [(p_uid ex_policy, spec_value boxed_am ex_heap ex_h_spec)]"
    by (simp add: track_policy_spec_def specs_value_def)
  with law have "\<not> fst (run_state (should_recreate_informer ?p)
      (s\<lparr>sy_specs := specs_value boxed_am (h'\<lparr>cells := (cells h')(3 := Zeroed)\<rparr>) specs'\<rparr>))"
    using ex_target_kept by metis
  with run show "\<exists>specs' h'. run_state (track_policy_spec_ref boxed_am (p_uid ex_policy) ex_h_spec []) ex_heap = (specs', h')
    \<and> \<not> fst (run_state (should_recreate_informer ?p)
        (s\<lparr>sy_specs := specs_value boxed_am (h'\<lparr>cells := (cells h')(3 := Zeroed)\<rparr>) specs'\<rparr>))" by auto
qed

end
