(* ===== verification/Services.thy ===== *)
theory Services
  imports Informers
begin

text \<open>
  How an evaluation service is put together: the interfaces of \<open>interfaces.go\<close>, the constructor of
  \<open>evaluate_policy_refactored.go\<close>, the adapters that let the reconciler provide the interfaces
  (\<open>adapters.go\<close>), their stand-alone providers (\<open>infrastructure.go\<close>), and the injection of a
  service for tests (\<open>reconciler_evaluation.go\<close>).  An interface with one method is a function.
  The other theories use the finished record \<open>reconciler_service\<close>; here it is the result of the
  constructor applied to the adapters.
\<close>

section \<open>Interfaces\<close>

type_synonym 'w resource_lister = "gvr \<Rightarrow> string \<Rightarrow> ('w, go_error + uobj list) prog"
type_synonym selector_matcher = "uobj \<Rightarrow> target_resource \<Rightarrow> bool"
type_synonym condition_matcher = "uobj \<Rightarrow> conditions_spec \<Rightarrow> bool"
type_synonym 'w limiter_source = "policy \<Rightarrow> ('w, limiter option) prog"
type_synonym 'w batch_deleter_core =
  "uobj list \<Rightarrow> policy \<Rightarrow> limiter \<Rightarrow> (string, string) gomap \<Rightarrow> ('w, int \<times> go_error list) prog"

record 'w policy_evaluator_core =
  pe_lister :: "'w resource_lister"
  pe_selectors :: selector_matcher
  pe_conditions :: condition_matcher
  pe_limiters :: "'w limiter_source"
  pe_deleter :: "'w batch_deleter_core"

text \<open>An informer and a factory of informers.  A store is what it lists; a handler may be refused.\<close>

record ('v, 'h) resource_informer =
  ri_get_store :: "'v \<Rightarrow> (string, uobj) gomap \<times> 'v"
  ri_has_synced :: "'v \<Rightarrow> bool \<times> 'v"
  ri_add_handler :: "'h \<Rightarrow> 'v \<Rightarrow> go_error option \<times> 'v"

record ('v, 'h) resource_informer_factory =
  rf_for_resource :: "gvr \<Rightarrow> ('v, 'h) resource_informer"
  rf_start :: "'v \<Rightarrow> 'v"

section \<open>The constructor\<close>

text \<open>The calculator of expirations is stored and never called; a nil logger is replaced by one of
  the component.\<close>

definition new_policy_evaluation_service ::
  "'w policy_evaluator_core \<Rightarrow> controller_config option \<Rightarrow> bool \<Rightarrow> controller_config option
     \<Rightarrow> 'w evaluation_service" where
  "new_policy_evaluation_service core updater recorder config =
     \<lparr>es_list = pe_lister core, es_matches = pe_selectors core, es_meets = pe_conditions core,
      es_limiter = pe_limiters core, es_delete_batch = pe_deleter core, es_status = updater,
      es_gate = None, es_recorder = recorder, es_config = config\<rparr>"

definition set_safety_gate :: "decision option \<Rightarrow> 'w evaluation_service \<Rightarrow> 'w evaluation_service" where
  "set_safety_gate gate svc = svc\<lparr>es_gate := gate\<rparr>"

definition service_batch_size :: "'w evaluation_service \<Rightarrow> policy \<Rightarrow> int" where
  "service_batch_size svc p = resolve_batch_size p (es_config svc)"

text \<open>The status updater: its configuration is never nil.\<close>

definition PolicyGVR :: gvr where
  "PolicyGVR = \<lparr>gvr_group = ''cleaner.zen-mesh.io'', gvr_version = ''v1alpha1'', gvr_resource = ''zencleanerpolicies''\<rparr>"

definition new_status_updater :: controller_config where
  "new_status_updater = new_controller_config"

definition new_status_updater_with_config :: "controller_config option \<Rightarrow> controller_config" where
  "new_status_updater_with_config oc = (case oc of None \<Rightarrow> new_controller_config | Some c \<Rightarrow> c)"

section \<open>The adapters of the reconciler\<close>

definition errInformerStoreNil :: go_error where
  "errInformerStoreNil = Sentinel ''errInformerStoreNil'' ''informer store is nil''"

text \<open>The key of an informer stands for its store; \<open>has_store\<close> tells whether \<open>GetStore\<close> answers one.\<close>

definition resource_lister_for_policy ::
  "'w cluster \<Rightarrow> (string \<Rightarrow> go_error + string \<times> string) \<Rightarrow> (string \<Rightarrow> bool) \<Rightarrow> reconciler \<Rightarrow> policy
     \<Rightarrow> ('w, (go_error + string) run) prog" where
  "resource_lister_for_policy cl pgv has_store r p =
     bind_run (get_or_create_resource_informer cl pgv r p) (\<lambda>x. State_Monad.return (Returned (case x of
         Inl e \<Rightarrow> Inl (Errorf ''failed to get resource informer: '' e [])
       | Inr key \<Rightarrow>
           if \<not> has_store key
           then Inl (Errorf [] errInformerStoreNil ('' for policy '' @ p_namespace p @ ''/'' @ p_name p))
           else Inr key)))"

definition new_informer_store_lister :: "'w cluster \<Rightarrow> string \<Rightarrow> 'w resource_lister" where
  "new_informer_store_lister cl key = list_from_store cl key"

definition adapter_selector_matcher :: "'w cluster \<Rightarrow> selector_matcher" where
  "adapter_selector_matcher cl obj target = matches_selectors (cl_selector cl) obj target"

definition adapter_condition_matcher :: condition_matcher where
  "adapter_condition_matcher obj cs = meets_conditions obj cs"

definition adapter_limiters :: "'w limiter_source" where
  "adapter_limiters p = do { l \<leftarrow> get_or_create_rate_limiter p; State_Monad.return (Some l) }"

definition adapter_batch_deleter :: "'w cluster \<Rightarrow> (string \<Rightarrow> string) \<Rightarrow> reconciler \<Rightarrow> 'w batch_deleter_core" where
  "adapter_batch_deleter cl hash r objs p l reasons = delete_batch cl hash r objs p l reasons"

definition reconciler_adapter ::
  "'w cluster \<Rightarrow> (string \<Rightarrow> string) \<Rightarrow> reconciler \<Rightarrow> 'w resource_lister \<Rightarrow> 'w policy_evaluator_core" where
  "reconciler_adapter cl hash r lister = \<lparr>pe_lister = lister,
     pe_selectors = adapter_selector_matcher cl, pe_conditions = adapter_condition_matcher,
     pe_limiters = adapter_limiters, pe_deleter = adapter_batch_deleter cl hash r\<rparr>"

text \<open>The record the rest of the development calls the service of a reconciler.\<close>

lemma reconciler_service_wiring:
  "reconciler_service cl hash r key = set_safety_gate (rc_decide r)
     (new_policy_evaluation_service (reconciler_adapter cl hash r (new_informer_store_lister cl key))
       (if rc_status r then Some (rc_status_config r) else None) (rc_recorder r) (rc_config r))"
  by (auto simp: reconciler_service_def set_safety_gate_def new_policy_evaluation_service_def
      reconciler_adapter_def adapter_selector_matcher_def adapter_condition_matcher_def adapter_limiters_def
      adapter_batch_deleter_def new_informer_store_lister_def fun_eq_iff)

lemma bind_run_map:
  "bind_run (bind_run m (\<lambda>x. State_Monad.return (Returned (f x)))) g = bind_run m (\<lambda>x. g (f x))"
  by (rule state_ext) (auto simp: bind_run_def split: run.splits prod.splits)

lemma case_sum_map_left:
  "(case (case x of Inl e \<Rightarrow> Inl (w e) | Inr k \<Rightarrow> Inr k) of Inl e \<Rightarrow> f e | Inr k \<Rightarrow> g k) =
    (case x of Inl e \<Rightarrow> f (w e) | Inr k \<Rightarrow> g k)"
  by (cases x) simp_all

text \<open>An informer of client-go always has a store, so creating a service is asking the adapter.\<close>

lemma get_or_create_evaluation_service_adapter:
  "get_or_create_evaluation_service cl pgv r p =
     (let key = evaluation_service_key p in do {
        services \<leftarrow> gets sy_services;
        case map_of services key of
          Some k \<Rightarrow> State_Monad.return (Returned (Inr k))
        | None \<Rightarrow> bind_run (resource_lister_for_policy cl pgv (\<lambda>k. True) r p) (\<lambda>x. case x of
             Inl e \<Rightarrow> State_Monad.return (Returned (Inl (Errorf ''failed to create resource lister: '' e [])))
           | Inr k \<Rightarrow> do {
               modify (\<lambda>s. s\<lparr>sy_services := AList.update key k (sy_services s)\<rparr>);
               State_Monad.return (Returned (Inr k))
             })
      })"
  unfolding get_or_create_evaluation_service_def resource_lister_for_policy_def Let_def bind_run_map
    not_True_eq_False if_False case_sum_map_left by (rule refl)

section \<open>The stand-alone providers\<close>

text \<open>The shared informers of client-go, which the default informer and factory wrap.\<close>

record ('v, 'h) shared_informer =
  sh_get_store :: "'v \<Rightarrow> (string, uobj) gomap \<times> 'v"
  sh_has_synced :: "'v \<Rightarrow> bool \<times> 'v"
  sh_add_handler :: "'h \<Rightarrow> 'v \<Rightarrow> go_error option \<times> 'v"

record ('v, 'h) shared_informer_factory =
  sf_for_resource :: "gvr \<Rightarrow> ('v, 'h) shared_informer"
  sf_start :: "'v \<Rightarrow> 'v"

definition new_default_informer :: "('v, 'h) shared_informer \<Rightarrow> ('v, 'h) resource_informer" where
  "new_default_informer i = \<lparr>ri_get_store = sh_get_store i, ri_has_synced = sh_has_synced i,
     ri_add_handler = sh_add_handler i\<rparr>"

definition new_default_informer_factory :: "('v, 'h) shared_informer_factory \<Rightarrow> ('v, 'h) resource_informer_factory" where
  "new_default_informer_factory f = \<lparr>rf_for_resource = (\<lambda>g. new_default_informer (sf_for_resource f g)),
     rf_start = sf_start f\<rparr>"

definition default_selector_matcher :: "'w cluster \<Rightarrow> selector_matcher" where
  "default_selector_matcher cl obj target = matches_selectors (cl_selector cl) obj target"

definition default_condition_matcher :: condition_matcher where
  "default_condition_matcher obj cs = meets_conditions obj cs"

lemma default_matchers:
  "default_selector_matcher = adapter_selector_matcher" "default_condition_matcher = adapter_condition_matcher"
  by (simp_all add: fun_eq_iff default_selector_matcher_def adapter_selector_matcher_def
      default_condition_matcher_def adapter_condition_matcher_def)

section \<open>A service injected for a test\<close>

text \<open>The cached services with their pointers, which the injection may leave nil (\<open>None\<close>).  The
  method of a nil service dereferences it.\<close>

type_synonym 'w service_cache = "(string, 'w evaluation_service option) gomap"

definition evaluate_cached ::
  "('w evaluation_service \<Rightarrow> policy \<Rightarrow> ('w, go_error option run) prog) \<Rightarrow>
   ('w service_cache \<Rightarrow> policy \<Rightarrow> ('w, go_error option run \<times> 'w service_cache) prog) \<Rightarrow>
   'w service_cache \<Rightarrow> policy \<Rightarrow> ('w, go_error option run \<times> 'w service_cache) prog" where
  "evaluate_cached eval create services p = (case map_of services (evaluation_service_key p) of
       None \<Rightarrow> create services p
     | Some None \<Rightarrow>
         State_Monad.return (Panicked ''invalid memory address or nil pointer dereference'', services)
     | Some (Some svc) \<Rightarrow> do { x \<leftarrow> eval svc p; State_Monad.return (x, services) })"

text \<open>The zero value of a missing entry is a nil service; a panic skips the restoring.\<close>

definition evaluate_policy_for_testing ::
  "('w evaluation_service \<Rightarrow> policy \<Rightarrow> ('w, go_error option run) prog) \<Rightarrow>
   ('w service_cache \<Rightarrow> policy \<Rightarrow> ('w, go_error option run \<times> 'w service_cache) prog) \<Rightarrow>
   'w service_cache \<Rightarrow> policy \<Rightarrow> 'w evaluation_service option
     \<Rightarrow> ('w, go_error option run \<times> 'w service_cache) prog" where
  "evaluate_policy_for_testing eval create services p service =
     (let key = evaluation_service_key p;
          old = (case map_of services key of Some svc \<Rightarrow> svc | None \<Rightarrow> None);
          injected = AList.update key service services
      in do {
        (x, services') \<leftarrow> evaluate_cached eval create injected p;
        State_Monad.return (case x of
            Returned e \<Rightarrow> (x, AList.update key old services')
          | _ \<Rightarrow> (x, services'))
      })"

text \<open>The injection serves the policy with the injected service and leaves every other key alone,
  but where no service was cached it leaves a nil one, and the next evaluation of a policy with
  this target panics.\<close>

theorem injected_service_leaves_nil:
  assumes "map_of services (evaluation_service_key p) = None"
    and "fst (run_state (eval svc p) s) = Returned e"
    and "run_state (evaluate_policy_for_testing eval create services p (Some svc)) s = ((x, services'), s')"
    and "evaluation_service_key q = evaluation_service_key p"
  shows "x = Returned e \<and> s' = snd (run_state (eval svc p) s)
    \<and> (\<forall>key. key \<noteq> evaluation_service_key p \<longrightarrow> map_of services' key = map_of services key)
    \<and> run_state (evaluate_cached eval create services' q) t =
        ((Panicked ''invalid memory address or nil pointer dereference'', services'), t)"
  using assms
  by (auto simp: evaluate_policy_for_testing_def evaluate_cached_def update_conv' Let_def split: prod.splits)

text \<open>A policy evaluated with a service that lists nothing.\<close>

definition ex_idle_service :: "unit evaluation_service" where
  "ex_idle_service = \<lparr>es_list = (\<lambda>g ns. State_Monad.return (Inr [])), es_matches = (\<lambda>obj t. True),
     es_meets = (\<lambda>obj cs. True), es_limiter = (\<lambda>p. State_Monad.return None),
     es_delete_batch = (\<lambda>objs p l reasons. State_Monad.return (0, [])), es_status = None, es_gate = None,
     es_recorder = False, es_config = None\<rparr>"

lemma injected_service_leaves_nil_witness:
  "\<forall>s :: unit sys. \<exists>services' s'.
    run_state (evaluate_policy_for_testing (\<lambda>svc p. State_Monad.return (Returned None))
      (\<lambda>services p. State_Monad.return (Returned None, services)) [] ex_policy (Some ex_idle_service)) s
      = ((Returned None, services'), s')
    \<and> fst (fst (run_state (evaluate_cached (\<lambda>svc p. State_Monad.return (Returned None))
        (\<lambda>services p. State_Monad.return (Returned None, services)) services' ex_policy) s'))
      = Panicked ''invalid memory address or nil pointer dereference''"
proof
  fix s :: "unit sys"
  let ?eval = "\<lambda>svc p. State_Monad.return (Returned None) :: (unit, go_error option run) prog"
  let ?create = "\<lambda>services p. State_Monad.return (Returned None, services)
    :: (unit, go_error option run \<times> unit service_cache) prog"
  obtain x services' s' where run:
    "run_state (evaluate_policy_for_testing ?eval ?create [] ex_policy (Some ex_idle_service)) s = ((x, services'), s')"
    by (metis surj_pair)
  from injected_service_leaves_nil[where eval = ?eval, OF _ _ run, of None ex_policy s'] run
  show "\<exists>services' s'. run_state (evaluate_policy_for_testing ?eval ?create [] ex_policy (Some ex_idle_service)) s
      = ((Returned None, services'), s')
    \<and> fst (fst (run_state (evaluate_cached ?eval ?create services' ex_policy) s'))
      = Panicked ''invalid memory address or nil pointer dereference''" by auto
qed

end
