(* ===== verification/Test_Doubles.thy ===== *)
theory Test_Doubles
  imports Services
begin

text \<open>
  The test doubles of \<open>pkg/controller/testing/mocks.go\<close>: each keeps what the test has set and
  answers it.  They implement the interfaces of \<open>Services\<close>, so a service can be built from them;
  the limiters of the provider are the environment of the programs.  The doubles meet the
  contracts the evaluation rests on, with no DELETE at all.
\<close>

definition resource_key :: "uobj \<Rightarrow> string" where
  "resource_key obj = u_namespace obj @ ''/'' @ u_name obj"

section \<open>Informers\<close>

text \<open>\<open>key_func\<close> is \<open>MetaNamespaceKeyFunc\<close> of client-go, by which its stores hold objects.\<close>

record 'h mock_informer =
  mi_store :: "(string, uobj) gomap"
  mi_synced :: bool
  mi_handler :: "'h option"

definition new_mock_informer :: "(uobj \<Rightarrow> string) \<Rightarrow> uobj list \<Rightarrow> 'h mock_informer" where
  "new_mock_informer key_func objs = \<lparr>mi_store = foldl (\<lambda>m obj. AList.update (key_func obj) obj m) [] objs,
     mi_synced = True, mi_handler = None\<rparr>"

definition mi_set_synced :: "bool \<Rightarrow> 'h mock_informer \<Rightarrow> 'h mock_informer" where
  "mi_set_synced b m = m\<lparr>mi_synced := b\<rparr>"

definition mi_add_event_handler :: "'h \<Rightarrow> 'h mock_informer \<Rightarrow> (go_error option) \<times> 'h mock_informer" where
  "mi_add_event_handler h m = (None, m\<lparr>mi_handler := Some h\<rparr>)"

type_synonym 'h mock_informer_factory = "(gvr, 'h mock_informer) gomap"

definition new_mock_informer_factory :: "'h mock_informer_factory" where
  "new_mock_informer_factory = []"

definition mf_set_informer :: "gvr \<Rightarrow> 'h mock_informer \<Rightarrow> 'h mock_informer_factory \<Rightarrow> 'h mock_informer_factory" where
  "mf_set_informer g m f = AList.update g m f"

definition mf_for_resource :: "(uobj \<Rightarrow> string) \<Rightarrow> 'h mock_informer_factory \<Rightarrow> gvr \<Rightarrow> 'h mock_informer" where
  "mf_for_resource key_func f g = (case map_of f g of Some m \<Rightarrow> m | None \<Rightarrow> new_mock_informer key_func [])"

text \<open>The doubles as implementations of the interfaces; the environment holds the informers of the
  factory, and one for a resource that has none is made anew at each call.\<close>

definition mi_get_store :: "'h mock_informer \<Rightarrow> (string, uobj) gomap" where
  "mi_get_store m = mi_store m"

definition mi_has_synced :: "'h mock_informer \<Rightarrow> bool" where
  "mi_has_synced m = mi_synced m"

definition mock_resource_informer :: "('h mock_informer, 'h) resource_informer" where
  "mock_resource_informer = \<lparr>ri_get_store = (\<lambda>m. (mi_get_store m, m)), ri_has_synced = (\<lambda>m. (mi_has_synced m, m)),
     ri_add_handler = mi_add_event_handler\<rparr>"

definition mf_start :: "'h mock_informer_factory \<Rightarrow> 'h mock_informer_factory" where
  "mf_start f = f"

text \<open>An informer made of objects lists, under each key, the last object that has it, and is in sync; a
  handler changes neither.\<close>

lemma foldl_update_map_of:
  "map_of (foldl (\<lambda>m obj. AList.update (key_func obj) obj m) acc objs) k =
    (case find (\<lambda>obj. key_func obj = k) (rev objs) of Some obj \<Rightarrow> Some obj | None \<Rightarrow> map_of acc k)"
  by (induction objs rule: rev_induct) (auto simp: update_conv')

lemma new_mock_informer_law:
  "map_of (fst (ri_get_store mock_resource_informer (new_mock_informer key_func objs))) k =
     find (\<lambda>obj. key_func obj = k) (rev objs)"
  "fst (ri_has_synced mock_resource_informer (new_mock_informer key_func objs))"
  "fst (ri_get_store mock_resource_informer (snd (ri_add_handler mock_resource_informer h m))) =
     fst (ri_get_store mock_resource_informer m)"
  by (simp_all add: mock_resource_informer_def mi_get_store_def mi_has_synced_def mi_add_event_handler_def
      new_mock_informer_def foldl_update_map_of split: option.split)

lemma mock_factory_law:
  "mf_for_resource key_func (mf_set_informer g m f) g' = (if g' = g then m else mf_for_resource key_func f g')"
  "mi_get_store (mf_for_resource key_func (new_mock_informer_factory :: 'h mock_informer_factory) g) = []"
  by (simp_all add: mf_for_resource_def mf_set_informer_def update_conv' new_mock_informer_factory_def
      mi_get_store_def new_mock_informer_def)

section \<open>Lister and matchers\<close>

record mock_lister =
  ml_resources :: "(string, (string, uobj list) gomap) gomap"
  ml_err :: "go_error option"

definition new_mock_lister :: mock_lister where
  "new_mock_lister = \<lparr>ml_resources = [], ml_err = None\<rparr>"

definition ml_set_resources ::
  "(gvr \<Rightarrow> string) \<Rightarrow> gvr \<Rightarrow> string \<Rightarrow> uobj list \<Rightarrow> mock_lister \<Rightarrow> mock_lister" where
  "ml_set_resources gvr_string g ns objs l =
     (let key = gvr_string g;
          inner = (case map_of (ml_resources l) key of Some m \<Rightarrow> m | None \<Rightarrow> [])
      in l\<lparr>ml_resources := AList.update key (AList.update ns objs inner) (ml_resources l)\<rparr>)"

definition ml_set_error :: "go_error option \<Rightarrow> mock_lister \<Rightarrow> mock_lister" where
  "ml_set_error e l = l\<lparr>ml_err := e\<rparr>"

definition ml_list :: "(gvr \<Rightarrow> string) \<Rightarrow> mock_lister \<Rightarrow> gvr \<Rightarrow> string \<Rightarrow> go_error + uobj list" where
  "ml_list gvr_string l g ns = (case ml_err l of
       Some e \<Rightarrow> Inl e
     | None \<Rightarrow> Inr (case map_of (ml_resources l) (gvr_string g) of
         Some m \<Rightarrow> (case map_of m ns of Some objs \<Rightarrow> objs | None \<Rightarrow> [])
       | None \<Rightarrow> []))"

text \<open>Both matchers map the key of a resource to an answer, and say yes to the others.\<close>

type_synonym mock_matcher = "(string, bool) gomap"

definition new_mock_selector_matcher :: mock_matcher where
  "new_mock_selector_matcher = []"

definition ms_set_match :: "uobj \<Rightarrow> bool \<Rightarrow> mock_matcher \<Rightarrow> mock_matcher" where
  "ms_set_match obj b m = AList.update (resource_key obj) b m"

definition ms_matches :: "mock_matcher \<Rightarrow> selector_matcher" where
  "ms_matches m obj target = (case map_of m (resource_key obj) of Some b \<Rightarrow> b | None \<Rightarrow> True)"

definition new_mock_condition_matcher :: mock_matcher where
  "new_mock_condition_matcher = []"

definition mc_set_meets :: "uobj \<Rightarrow> bool \<Rightarrow> mock_matcher \<Rightarrow> mock_matcher" where
  "mc_set_meets obj b m = AList.update (resource_key obj) b m"

definition mc_meets :: "mock_matcher \<Rightarrow> condition_matcher" where
  "mc_meets m obj cs = (case map_of m (resource_key obj) of Some b \<Rightarrow> b | None \<Rightarrow> True)"

section \<open>Limiters, deletions and the status\<close>

type_synonym mock_provider = "(string, limiter) gomap"

definition new_mock_provider :: mock_provider where
  "new_mock_provider = []"

definition mp_get_or_create :: "mock_provider \<Rightarrow> policy \<Rightarrow> limiter \<times> mock_provider" where
  "mp_get_or_create m p = (case map_of m (p_uid p) of
       Some l \<Rightarrow> (l, m)
     | None \<Rightarrow> (let l = new_rate_limiter 100 in (l, AList.update (p_uid p) l m)))"

text \<open>The answer set for a resource: nil (\<open>None\<close>) or an error.\<close>

type_synonym mock_deleter = "(string, go_error option) gomap"

definition new_mock_deleter :: mock_deleter where
  "new_mock_deleter = []"

definition md_set_result :: "uobj \<Rightarrow> go_error option \<Rightarrow> mock_deleter \<Rightarrow> mock_deleter" where
  "md_set_result obj e m = AList.update (resource_key obj) e m"

fun md_loop :: "mock_deleter \<Rightarrow> int \<Rightarrow> go_error list \<Rightarrow> uobj list \<Rightarrow> int \<times> go_error list" where
  "md_loop m deleted errs [] = (deleted, errs)"
| "md_loop m deleted errs (obj # rest) = (case map_of m (resource_key obj) of
       Some (Some e) \<Rightarrow> md_loop m deleted (errs @ [e]) rest
     | Some None \<Rightarrow> md_loop m (deleted + 1) errs rest
     | None \<Rightarrow> md_loop m (deleted + 1) errs rest)"

definition md_delete_batch :: "mock_deleter \<Rightarrow> 'w batch_deleter_core" where
  "md_delete_batch m objs p l reasons = State_Monad.return (md_loop m 0 [] objs)"

type_synonym mock_status_updater = "go_error option"

definition new_mock_status_updater :: mock_status_updater where
  "new_mock_status_updater = None"

definition mu_set_error :: "go_error option \<Rightarrow> mock_status_updater \<Rightarrow> mock_status_updater" where
  "mu_set_error e u = e"

definition mu_update_status :: "mock_status_updater \<Rightarrow> policy \<Rightarrow> int \<Rightarrow> int \<Rightarrow> int \<Rightarrow> go_error option" where
  "mu_update_status u p matched deleted pending = u"

section \<open>A service of doubles\<close>

definition mock_core ::
  "(gvr \<Rightarrow> string) \<Rightarrow> mock_lister \<Rightarrow> mock_matcher \<Rightarrow> mock_matcher \<Rightarrow> mock_deleter \<Rightarrow> mock_provider policy_evaluator_core" where
  "mock_core gvr_string l sel cond del = \<lparr>
     pe_lister = (\<lambda>g ns. State_Monad.return (ml_list gvr_string l g ns)),
     pe_selectors = ms_matches sel, pe_conditions = mc_meets cond,
     pe_limiters = (\<lambda>p. do { l \<leftarrow> ask (\<lambda>m. mp_get_or_create m p); State_Monad.return (Some l) }),
     pe_deleter = md_delete_batch del\<rparr>"

abbreviation mock_service ::
  "(gvr \<Rightarrow> string) \<Rightarrow> mock_lister \<Rightarrow> mock_matcher \<Rightarrow> mock_matcher \<Rightarrow> mock_deleter \<Rightarrow> controller_config option
     \<Rightarrow> mock_provider evaluation_service" where
  "mock_service gvr_string l sel cond del cfg \<equiv>
     new_policy_evaluation_service (mock_core gvr_string l sel cond del) None False cfg"

section \<open>Laws\<close>

text \<open>What was set is what is answered.\<close>

lemma ml_list_set:
  assumes "ml_err l = None"
  shows "ml_list gvr_string (ml_set_resources gvr_string g ns objs l) g' ns' =
    (if gvr_string g' = gvr_string g \<and> ns' = ns then Inr objs else ml_list gvr_string l g' ns')"
  using assms by (auto simp: ml_list_def ml_set_resources_def update_conv' Let_def split: option.splits)

lemma matchers_set:
  "ms_matches (ms_set_match obj b m) obj' t = (if resource_key obj' = resource_key obj then b else ms_matches m obj' t)"
  "mc_meets (mc_set_meets obj b m) obj' cs = (if resource_key obj' = resource_key obj then b else mc_meets m obj' cs)"
  by (simp_all add: ms_matches_def ms_set_match_def mc_meets_def mc_set_meets_def update_conv')

interpretation mock_limiters: rate_limiter_provider mp_get_or_create map_of
proof
  fix m :: mock_provider and p
  assume "\<And>uid l. map_of m uid = Some l \<Longrightarrow> 1 \<le> lim_limit l"
  then show "1 \<le> lim_limit (fst (mp_get_or_create m p))"
    using new_rate_limiter_positive by (auto simp: mp_get_or_create_def Let_def split: option.split)
qed (auto simp: mp_get_or_create_def Let_def update_conv' split: option.splits)

lemma md_loop_sizes: "fst (md_loop m d es objs) + int (length (snd (md_loop m d es objs))) = d + int (length es) + int (length objs)
    \<and> d \<le> fst (md_loop m d es objs)"
proof (induction objs arbitrary: d es)
  case (Cons obj rest)
  show ?case using Cons[of "d + 1" es] Cons[of d "es @ [the (the (map_of m (resource_key obj)))]"]
    by (auto split: option.split)
qed simp

interpretation mock_evaluation:
  evaluation_deps "mock_service gvr_string l sel cond del cfg" "\<lambda>p obj ns n uid. False" 0
  for gvr_string l sel cond del cfg
proof unfold_locales
  show "only (\<lambda>e. \<not> is_delete e) (es_list (mock_service gvr_string l sel cond del cfg) g ns)" for g ns
    by (auto simp: new_policy_evaluation_service_def mock_core_def intro!: only_rules)
  show "only (\<lambda>e. \<not> is_delete e) (es_limiter (mock_service gvr_string l sel cond del cfg) p)" for p
    by (auto simp: new_policy_evaluation_service_def mock_core_def intro!: only_rules)
  show "emits (es_delete_batch (mock_service gvr_string l sel cond del cfg) objs p lim reasons) (\<lambda>res es.
      deletes_ok (\<lambda>ns n uid. \<exists>obj \<in> set objs. False) es \<and> ndel es \<le> 0 * length objs \<and> 0 \<le> fst res
      \<and> fst res + int (length (snd res)) \<le> int (length objs))" for objs p lim reasons
    using md_loop_sizes[of del 0 "[]" objs]
    by (auto simp: new_policy_evaluation_service_def mock_core_def md_delete_batch_def deletes_ok_none ndel_def
        intro!: emits_return)
qed

end
