(* ===== verification/Election.thy ===== *)
theory Election
  imports Replica
begin

text \<open>
  The rest of \<open>internal/election/election.go\<close>: the lock that reports every operation to an
  observer, the lease the lock is made of, and the \<open>Runner\<close> around an elector.  The lock of
  client-go is a record of functions over an environment \<open>'w\<close>, the lock operations its API calls
  make; an elector of client-go is a function from the calls it makes (\<open>election_event\<close>), applied
  to the callbacks it was configured with.  \<open>Replica\<close> reads the same calls.
\<close>

section \<open>The lock\<close>

type_synonym lease_record = "string \<times> string list"

record 'w lock =
  lk_get :: "'w \<Rightarrow> (string option \<times> string \<times> go_error option) \<times> 'w"
  lk_create :: "string \<Rightarrow> 'w \<Rightarrow> go_error option \<times> 'w"
  lk_update :: "string \<Rightarrow> 'w \<Rightarrow> go_error option \<times> 'w"
  lk_record_event :: "string \<Rightarrow> 'w \<Rightarrow> 'w"
  lk_describe :: "'w \<Rightarrow> string"
  lk_identity :: "'w \<Rightarrow> string"

text \<open>\<open>observedLock\<close>: the observer may be nil.\<close>

type_synonym 'w observer = "bool \<Rightarrow> go_error option \<Rightarrow> 'w \<Rightarrow> 'w"

definition report :: "'w observer option \<Rightarrow> go_error option \<Rightarrow> 'w \<Rightarrow> 'w" where
  "report obs oe w = (case obs of None \<Rightarrow> w | Some f \<Rightarrow> f (lock_reachable oe) oe w)"

definition observed_get :: "'w observer option \<Rightarrow> 'w lock \<Rightarrow> 'w \<Rightarrow> (string option \<times> string \<times> go_error option) \<times> 'w" where
  "observed_get obs l w = (let ((rec, raw, oe), w') = lk_get l w in ((rec, raw, oe), report obs oe w'))"

definition observed_create :: "'w observer option \<Rightarrow> 'w lock \<Rightarrow> string \<Rightarrow> 'w \<Rightarrow> go_error option \<times> 'w" where
  "observed_create obs l ler w = (let (oe, w') = lk_create l ler w in (oe, report obs oe w'))"

definition observed_update :: "'w observer option \<Rightarrow> 'w lock \<Rightarrow> string \<Rightarrow> 'w \<Rightarrow> go_error option \<times> 'w" where
  "observed_update obs l ler w = (let (oe, w') = lk_update l ler w in (oe, report obs oe w'))"

definition observed_record_event :: "'w lock \<Rightarrow> string \<Rightarrow> 'w \<Rightarrow> 'w" where
  "observed_record_event l = lk_record_event l"

definition observed_describe :: "'w lock \<Rightarrow> 'w \<Rightarrow> string" where
  "observed_describe l = lk_describe l"

definition observed_identity :: "'w lock \<Rightarrow> 'w \<Rightarrow> string" where
  "observed_identity l = lk_identity l"

definition observed_lock :: "'w observer option \<Rightarrow> 'w lock \<Rightarrow> 'w lock" where
  "observed_lock obs l = \<lparr>lk_get = observed_get obs l, lk_create = observed_create obs l,
     lk_update = observed_update obs l, lk_record_event = observed_record_event l,
     lk_describe = observed_describe l, lk_identity = observed_identity l\<rparr>"

lemmas observed_defs = observed_lock_def observed_get_def observed_create_def observed_update_def
  observed_record_event_def observed_describe_def observed_identity_def

section \<open>The lease\<close>

record lease_lock =
  lease_name :: string
  lease_namespace :: string
  lease_identity :: string

text \<open>\<open>os.Hostname\<close> is the parameter: a name, or an error.\<close>

definition get_pod_name :: "go_error + string \<Rightarrow> string" where
  "get_pod_name hostname = (case hostname of Inr h \<Rightarrow> h | Inl e \<Rightarrow> ''unknown'')"

definition new_lease_lock :: "go_error + string \<Rightarrow> string option \<Rightarrow> election_config \<Rightarrow> lease_lock" where
  "new_lease_lock hostname get_identity c =
     (let identity = (case get_identity of None \<Rightarrow> get_pod_name hostname | Some i \<Rightarrow> i) in
      \<lparr>lease_name = el_lease_name c, lease_namespace = el_namespace c, lease_identity = identity\<rparr>)"

text \<open>The signals that cancel the context of the process.\<close>

datatype os_signal = SIGINT | SIGTERM | SIGHUP | SIGQUIT

definition shutdown_signals :: "os_signal list" where
  "shutdown_signals = [SIGINT, SIGTERM]"

definition shutdown_context :: "string \<Rightarrow> os_signal list \<Rightarrow> bool" where
  "shutdown_context name received = list_ex (\<lambda>s. s \<in> set shutdown_signals) received"

section \<open>Electors and runners\<close>

text \<open>Callbacks on a state \<open>'s\<close> of the program.\<close>

record 's callbacks =
  cb_started_leading :: "'s \<Rightarrow> 's"
  cb_stopped_leading :: "'s \<Rightarrow> 's"
  cb_new_leader :: "string \<Rightarrow> 's \<Rightarrow> 's"

fun call_back :: "'s callbacks \<Rightarrow> election_event \<Rightarrow> 's \<Rightarrow> 's" where
  "call_back cb Started_Leading s = cb_started_leading cb s"
| "call_back cb Stopped_Leading s = cb_stopped_leading cb s"
| "call_back cb (New_Leader identity) s = cb_new_leader cb identity s"
| "call_back cb (Lock_Operation oe) s = s"

definition silent_callbacks :: "'s callbacks" where
  "silent_callbacks = \<lparr>cb_started_leading = (\<lambda>s. s), cb_stopped_leading = (\<lambda>s. s), cb_new_leader = (\<lambda>i s. s)\<rparr>"

record 's elector_config =
  ec_lock :: lease_lock
  ec_lease_duration :: duration
  ec_renew_deadline :: duration
  ec_retry_period :: duration
  ec_callbacks :: "'s callbacks"
  ec_name :: string

text \<open>\<open>LeaderElector\<close>: how a run that sees the given calls changes the state, and its error.\<close>

type_synonym 's elector = "election_event list \<Rightarrow> 's \<Rightarrow> 's \<times> go_error option"

definition elector_adapter :: "'s elector_config \<Rightarrow> 's elector" where
  "elector_adapter ec events s = (foldl (\<lambda>s e. call_back (ec_callbacks ec) e s) s events, None)"

text \<open>\<open>check\<close> is the validation of client-go.\<close>

definition new_leader_elector ::
  "('s elector_config \<Rightarrow> go_error option) \<Rightarrow> go_error + string \<Rightarrow> string option \<Rightarrow> election_config
     \<Rightarrow> go_error + 's elector" where
  "new_leader_elector check hostname get_identity c =
     (let ec = \<lparr>ec_lock = new_lease_lock hostname get_identity c, ec_lease_duration = el_lease_duration c,
                ec_renew_deadline = el_renew_deadline c, ec_retry_period = el_retry_period c,
                ec_callbacks = silent_callbacks, ec_name = el_id c\<rparr>
      in case check ec of Some e \<Rightarrow> Inl e | None \<Rightarrow> Inr (elector_adapter ec))"

record 's runner =
  ru_elector :: "'s elector option"
  ru_callbacks :: "'s callbacks"
  ru_election_id :: string

definition new_runner :: "'s elector option \<Rightarrow> 's callbacks \<Rightarrow> string \<Rightarrow> 's runner" where
  "new_runner el cb election_id = \<lparr>ru_elector = el, ru_callbacks = cb, ru_election_id = election_id\<rparr>"

definition runner_run :: "'s runner \<Rightarrow> election_event list \<Rightarrow> 's \<Rightarrow> 's \<times> go_error option" where
  "runner_run r events s = (case ru_elector r of None \<Rightarrow> (s, None) | Some el \<Rightarrow> el events s)"

section \<open>Laws\<close>

text \<open>A sequence of operations on a lock, as client-go makes them.\<close>

datatype lock_op = Op_Get | Op_Create string | Op_Update string

fun lock_op_run :: "'w lock \<Rightarrow> lock_op \<Rightarrow> 'w \<Rightarrow> (string option \<times> string \<times> go_error option) \<times> 'w" where
  "lock_op_run l Op_Get w = lk_get l w"
| "lock_op_run l (Op_Create r) w = (let (oe, w') = lk_create l r w in ((None, [], oe), w'))"
| "lock_op_run l (Op_Update r) w = (let (oe, w') = lk_update l r w in ((None, [], oe), w'))"

fun lock_run :: "'w lock \<Rightarrow> lock_op list \<Rightarrow> 'w \<Rightarrow> (string option \<times> string \<times> go_error option) list \<times> 'w" where
  "lock_run l [] w = ([], w)"
| "lock_run l (op # ops) w =
     (let (a, w1) = lock_op_run l op w; (as, w2) = lock_run l ops w1 in (a # as, w2))"

text \<open>A lock that also keeps a replica, which it does not touch, and the observer of \<open>main\<close>, which
  works on the replica alone.\<close>

definition beside :: "'w lock \<Rightarrow> ('w \<times> 'r) lock" where
  "beside l = \<lparr>lk_get = (\<lambda>(w, r). let (a, w') = lk_get l w in (a, (w', r))),
     lk_create = (\<lambda>ler (w, r). let (a, w') = lk_create l ler w in (a, (w', r))),
     lk_update = (\<lambda>ler (w, r). let (a, w') = lk_update l ler w in (a, (w', r))),
     lk_record_event = (\<lambda>s (w, r). (lk_record_event l s w, r)),
     lk_describe = (\<lambda>(w, r). lk_describe l w), lk_identity = (\<lambda>(w, r). lk_identity l w)\<rparr>"

definition replica_observer :: "getenv \<Rightarrow> ('w \<times> replica) observer" where
  "replica_observer getenv reachable oe = (\<lambda>(w, r). (w, on_api_observation getenv reachable oe r))"

lemma observed_op:
  "lock_op_run (observed_lock (Some (replica_observer getenv)) (beside l)) op (w, r) =
     (let (a, w') = lock_op_run l op w in
      (a, (w', on_api_observation getenv (lock_reachable (snd (snd a))) (snd (snd a)) r)))"
  by (cases op) (auto simp: observed_defs beside_def report_def replica_observer_def split: prod.split)

text \<open>C25. Whatever client-go does with the lock, the observed lock gives it the answers of the lock it
  wraps, and the replica ends as if it had seen exactly the outcomes of these operations, in
  their order.\<close>
theorem observed_lock_refines:
  assumes "el_on_api_observation c"
  shows "lock_run (observed_lock (Some (replica_observer getenv)) (beside l)) ops (w, r) =
    (fst (lock_run l ops w), snd (lock_run l ops w),
     foldl (\<lambda>r e. election_step getenv c e r) r (map (\<lambda>a. Lock_Operation (snd (snd a))) (fst (lock_run l ops w))))"
  using assms by (induction ops arbitrary: w r) (auto simp: observed_op split: prod.split)

definition ex_lock :: "unit lock" where
  "ex_lock = \<lparr>lk_get = (\<lambda>w. ((None, [], Some (Api_Error [Api_NotFound] ''no lease'')), w)),
     lk_create = (\<lambda>r w. (None, w)), lk_update = (\<lambda>r w. (Some (Net_Error False ''refused''), w)),
     lk_record_event = (\<lambda>s w. w), lk_describe = (\<lambda>w. []), lk_identity = (\<lambda>w. [])\<rparr>"

lemma observed_lock_refines_witness:
  "\<not> ls_api_reachable (rp_leader (snd (snd (lock_run (observed_lock (Some (replica_observer (\<lambda>k. []))) (beside ex_lock))
     [Op_Get, Op_Create [], Op_Update []] ((), new_replica 0)))))"
proof -
  have "el_on_api_observation (main_election_config [] [] True)" by (simp add: main_election_config_def)
  moreover have "\<not> api_is c (Net_Error False ''refused'')" for c by (simp add: api_is_def errors_as_def)
  ultimately show ?thesis
    using observed_lock_refines[of "main_election_config [] [] True" "\<lambda>k. []" ex_lock "[Op_Get, Op_Create [], Op_Update []]" "()" "new_replica 0"]
    by (simp add: ex_lock_def main_election_config_def on_api_observation_def lock_reachable_def new_replica_def
        set_api_reachable_def Let_def)
qed

text \<open>A runner over the package's own elector never calls the callbacks it was given: whatever
  happens, the state is the one before.\<close>

theorem runner_never_calls_back:
  assumes "new_leader_elector check hostname get_identity c = Inr el"
  shows "runner_run (new_runner (Some el) cb election_id) events s = (s, None)"
proof -
  have "foldl (\<lambda>s e. call_back silent_callbacks e s) s events = s"
  proof (induction events arbitrary: s)
    case (Cons e events) then show ?case by (cases e) (simp_all add: silent_callbacks_def)
  qed simp
  then show ?thesis
    using assms by (auto simp: new_leader_elector_def runner_run_def new_runner_def elector_adapter_def Let_def
        split: option.splits)
qed

text \<open>The lease of a configuration without names is the default one in the default namespace.\<close>

lemma default_lease:
  "new_lease_lock hostname None (apply_defaults None) = \<lparr>lease_name = DefaultElectionID,
     lease_namespace = ''default'', lease_identity = get_pod_name hostname\<rparr>"
  by (simp add: new_lease_lock_def apply_defaults_def empty_election_config_def Let_def)

end
