(* ===== verification/Tracing.thy ===== *)
theory Tracing
  imports Commands
begin

text \<open>
  The span producers of \<open>observability/tracing.go\<close>.  A span of OpenTelemetry is the calls made to
  it; the provider that \<open>InitTracing\<close> installs hands them to the exporter, or, without an endpoint,
  nowhere.  No code outside the tests starts a span.
\<close>

datatype attribute = Attr_String string string | Attr_Int string int | Attr_Bool string bool

fun attribute_key :: "attribute \<Rightarrow> string" where
  "attribute_key (Attr_String k v) = k"
| "attribute_key (Attr_Int k n) = k"
| "attribute_key (Attr_Bool k b) = k"

datatype span_call =
    Span_Start string string "attribute list"
  | Span_Record_Error go_error
  | Span_Attributes "attribute list"
  | Span_End

type_synonym span = "span_call list"

definition tracerName :: string where
  "tracerName = ''github.com/zenmesh/zen-cleaner''"

definition start_reconcile_span :: "string \<Rightarrow> string \<Rightarrow> span" where
  "start_reconcile_span ns name = [Span_Start tracerName ''cleaner.reconcile''
     [Attr_String ''zen.cleaner.policy.namespace'' ns, Attr_String ''zen.cleaner.policy.name'' name]]"

definition end_reconcile_span :: "go_error option \<Rightarrow> span \<Rightarrow> span" where
  "end_reconcile_span oe sp =
     (let sp1 = (case oe of None \<Rightarrow> sp
        | Some e \<Rightarrow> (sp @ [Span_Record_Error e]) @ [Span_Attributes [Attr_Bool ''error'' True]])
      in sp1 @ [Span_End])"

definition start_delete_batch_span :: "string \<Rightarrow> string \<Rightarrow> int \<Rightarrow> span" where
  "start_delete_batch_span ns name bs = [Span_Start tracerName ''cleaner.delete.batch''
     [Attr_String ''zen.cleaner.policy.namespace'' ns, Attr_String ''zen.cleaner.policy.name'' name,
      Attr_Int ''zen.cleaner.batch.size'' bs]]"

definition end_delete_batch_span :: "int \<Rightarrow> go_error option \<Rightarrow> span \<Rightarrow> span" where
  "end_delete_batch_span deleted oe sp =
     (let sp1 = sp @ [Span_Attributes [Attr_Int ''zen.cleaner.batch.deleted'' deleted]];
          sp2 = (case oe of None \<Rightarrow> sp1
        | Some e \<Rightarrow> (sp1 @ [Span_Record_Error e]) @ [Span_Attributes [Attr_Bool ''error'' True]])
      in sp2 @ [Span_End])"

section \<open>What a span tells\<close>

text \<open>Without an endpoint the provider is the no-op one.\<close>

definition exported :: "getenv \<Rightarrow> span \<Rightarrow> span" where
  "exported getenv sp = (if getenv ''OTEL_EXPORTER_OTLP_ENDPOINT'' = [] then [] else sp)"

fun span_attributes :: "span \<Rightarrow> attribute list" where
  "span_attributes [] = []"
| "span_attributes (Span_Start tracer name as # sp) = as @ span_attributes sp"
| "span_attributes (Span_Attributes as # sp) = as @ span_attributes sp"
| "span_attributes (c # sp) = span_attributes sp"

definition bounded_keys :: "string set" where
  "bounded_keys = {''zen.cleaner.policy.namespace'', ''zen.cleaner.policy.name'', ''zen.cleaner.batch.size'',
     ''zen.cleaner.batch.deleted'', ''error''}"

lemmas span_defs = start_reconcile_span_def end_reconcile_span_def start_delete_batch_span_def
  end_delete_batch_span_def

text \<open>Both families start once and end once, as the last call, with attributes of five keys; the span
  says of an error that there was one, and, beside the attributes, gives the whole error.\<close>

theorem spans_bounded:
  "let spans = [end_reconcile_span oe (start_reconcile_span ns name),
        end_delete_batch_span deleted oe (start_delete_batch_span ns name bs)] in
   \<forall>sp \<in> set spans. count_list sp Span_End = 1 \<and> last sp = Span_End \<and>
     attribute_key ` set (span_attributes sp) \<subseteq> bounded_keys \<and>
     (Attr_Bool ''error'' True \<in> set (span_attributes sp) \<longleftrightarrow> oe \<noteq> None) \<and>
     (\<forall>e. Span_Record_Error e \<in> set sp \<longleftrightarrow> oe = Some e)"
  by (cases oe) (auto simp: span_defs bounded_keys_def Let_def)

lemma nothing_exported_without_endpoint:
  "getenv ''OTEL_EXPORTER_OTLP_ENDPOINT'' = [] \<Longrightarrow> otel_init getenv exporter = None \<and> exported getenv sp = []"
  by (simp add: otel_init_def exported_def)

end
