(* ===== verification/Spec2Isabelle.thy ===== *)
theory Spec2Isabelle
  imports Observability Progress Commands Settings Declarations Events Receipts Throttle Ttl Backoff Log_Setup
    Tracked_Specs Test_Doubles Election Tracing
begin

text \<open>
  zen-cleaner deletes Kubernetes objects whose time to live has passed, as policies
  (\<open>ZenCleanerPolicy\<close>) say.  A replica loads its configuration, takes part in a leader election
  and, as the leader, reconciles policies: it validates the policy, checks that its target can be
  listed, lists objects from a shared informer, plans the deletions (selectors, safety gate,
  conditions, expiry), deletes them in batches under a rate limit with retries, and writes status,
  events, metrics and receipts.  An admission webhook on every replica applies the same
  validation and gate.

  \<^bold>\<open>Method.\<close>  The definitions translate the Go sources function by function: structs are records,
  enumerations datatypes, Go errors the datatype \<open>go_error\<close>, maps association lists
  (\<open>gomap\<close>), \<open>int64\<close> and durations 64-bit words, times nanoseconds.  Operations with effects are
  programs of the state monad over \<open>sys\<close> (theory \<open>World\<close>): the memory of the
  reconciler (\<open>rateLimiters\<close>, \<open>policySpecs\<close>, informers, services, probe cache, failure counters),
  an arbitrary environment and the trace of effects (API requests, waits, events, metrics).  Code
  outside the repository (API server, informer caches, discovery, clock, context, token bucket,
  time and selector parsing, hashes, signatures) is the record \<open>cluster\<close>, or an argument;
  theorems quantify over it, so they hold for every behaviour of these services.

  \<^bold>\<open>Theories\<close> (each opens with what it models):
  \<^item> \<open>Prelude\<close>, \<open>Go_Errors\<close>, \<open>Policy_Types\<close>, \<open>World\<close>: strings, words, maps; errors, their trees and
    retry classes (\<open>internal/errors\<close>, \<open>pkg/errors\<close>); the API types (\<open>pkg/api/v1alpha1/types.go\<close>);
    the monad with the logics of effects: \<open>emits\<close> (what a program appends to the trace),
    \<open>only\<close> (which kinds of effects), \<open>keeps\<close> and \<open>maintains\<close> (what it leaves of the memory).
  \<^item> \<open>Safety\<close> (\<open>pkg/safety\<close>), \<open>Ttl\<close> (\<open>internal/ttl\<close>), \<open>Backoff\<close> (\<open>internal/backoff\<close>, the target backoff),
    \<open>Env_Config\<close> (\<open>internal/config\<close>, \<open>pkg/config\<close>), \<open>Gvr\<close> (\<open>pkg/validation/gvr.go\<close>, the resolver),
    \<open>Throttle\<close> (\<open>internal/ratelimiter\<close>), \<open>Matching\<close> (selectors, conditions of \<open>shared.go\<close>): the parts
    an evaluation is built from, each with its functional law.
  \<^item> \<open>Deletion\<close> (\<open>shared.go\<close>, \<open>reconciler_deletion.go\<close>, \<open>reconciler_helpers.go\<close>): the choke point every
    DELETE passes, retries, batches; \<open>Receipts\<close> (\<open>execution_receipt.go\<close>, \<open>execution_path.go\<close>);
    \<open>Status\<close> (\<open>status_updater.go\<close>); \<open>Target_Capability\<close> (\<open>target_capability.go\<close>).
  \<^item> \<open>Evaluation\<close> (\<open>evaluate_policy_refactored.go\<close>): the service with its services as a record of
    functions, planning and batching; \<open>Footprint\<close>: an interface for invariants an evaluation keeps.
  \<^item> \<open>Telemetry\<close> (\<open>metrics.go\<close>, \<open>metrics_server.go\<close>): every declared metric and the values a trace gives
    it; \<open>Observability\<close>: what the metrics say in all reachable states; \<open>Events\<close> (\<open>internal/events\<close>,
    \<open>pkg/controller/events.go\<close>): the recorder of events, its log watcher and its sink.
  \<^item> \<open>Validation\<close>, \<open>Webhook\<close>, \<open>Integrity\<close> (\<open>pkg/validation\<close>, \<open>pkg/webhook\<close>, \<open>policyintegrity.go\<close>).
  \<^item> \<open>Informers\<close>, \<open>Reconcile\<close> (\<open>reconciler*.go\<close>, \<open>evaluate_policy_shared.go\<close>, \<open>adapters.go\<close>): the tables of a
    controller and the whole handler; \<open>Operation\<close>: every reconcile returns, the states reachable
    by sequences of reconciles and their invariants, agreement of the two evaluation paths.
    \<open>Settings\<close>: which settings of the configuration a reconcile depends on.  \<open>Interleaving\<close>: the
    controller on an API server that other actors write to between its calls; \<open>Progress\<close>: what is due
    is removed.  \<open>Services\<close> (\<open>interfaces.go\<close>,
    \<open>adapters.go\<close>, \<open>infrastructure.go\<close>): how an evaluation service is built; \<open>Test_Doubles\<close>
    (\<open>pkg/controller/testing/mocks.go\<close>): the mocks, and the contracts of an evaluation they meet.
  \<^item> \<open>Go_Heap\<close>, \<open>Deep_Copy\<close> (\<open>zz_generated.deepcopy.go\<close>): the custom resource on an explicit store with its
    pointers, and every generated copy with what it shares with its original; \<open>Tracked_Specs\<close>: the recorded
    specifications as pointers, which justifies their values in \<open>Informers\<close>.
  \<^item> \<open>Replica\<close> (\<open>internal/health\<close>, \<open>internal/election\<close>, leadership and probes, flags of \<open>main.go\<close>),
    \<open>Election\<close> (the observed lock, the lease, electors and runners of \<open>internal/election\<close>),
    \<open>Operator_Surface\<close> (\<open>internal/mcpserver\<close>, the status verb, the modes of \<open>main.go\<close>), \<open>Commands\<close>
    (\<open>main.go\<close>: how the process starts, fails and ends; \<open>cmd/validate-examples\<close>), \<open>Declarations\<close> (\<open>internal/ops\<close>,
    \<open>pkg/attestation\<close>): the inventory of operations, its published document and the attestation table.
  \<^item> \<open>Logging\<close>, \<open>Log_Context\<close>, \<open>Log_Events\<close>, \<open>Log_Sampling\<close>, \<open>Log_Setup\<close> (\<open>internal/logging\<close>): masks, categories,
    trace headers, loggers and how they are set up, sampling, and the sliding window of the limiter of log
    lines.  \<open>Tracing\<close> (\<open>observability\<close>): the spans, as the calls made to them.
  \<^item> This theory: the controller as \<open>runMain\<close> configures it, and the properties that follow from
    configuration, gate, evaluation and reconciliation together.

  \<^bold>\<open>Interfaces.\<close>  Where a component calls another through an interface, the laws the caller needs
  are a locale (a safe object gate, a batch deleter, a plan builder, the services of an evaluation,
  invariants that a write keeps, a copy), interpreted on the definitions that provide them, and
  where the tests have their own providers on these too.

  \<^bold>\<open>What is shown.\<close>  Safety: every DELETE of a reconcile directly follows a read of the same object
  with the UID decided on and is warranted by a valid, admitted, running policy and by the gate;
  from configuration on, no protected namespace is touched.  Against other actors: where names keep
  their UIDs nothing unwarranted is removed, whatever the interleaving; where they do not, the exact
  condition under which the choke point removes another object.  Progress: in a calm cluster one
  reconcile removes everything it may.  Functional laws: what each part
  computes on every branch, errors included.  Refinement and equivalence: batches are slices of
  the plan, planning is a filter, admission agrees with reconciliation, the two paths agree, the
  observed lock is the lock it wraps, a table of pointers to copies is a table of values.
  Invariants of the controller's memory and of its metrics in all reachable states, through
  the locale \<open>footprint\<close> and its extensions.  The order in which a process starts and stops its
  servers, whatever fails.  Termination of every reconcile
  and the configuration under which it fails.  Bounds and wrap-around of durations and backoffs.

  \<^bold>\<open>Fuel.\<close>  Only the batch loops may run for ever (a batch size of zero); they take fuel and end in
  \<open>Out_Of_Fuel\<close>.  One round per planned object plus one suffices with a positive batch size
  (\<open>batches_refine_slices\<close>), and \<open>reconcile_returns\<close> gives the fuel of a whole reconcile.  A Go
  panic is the outcome \<open>Panicked\<close>.

  \<^bold>\<open>Not modelled.\<close>  Log lines of the controller itself, durations in histograms, goroutines and locks
  (an operation is atomic; reconciles come one after the other, as \<open>SetupWithManager\<close> leaves the
  controller with one worker), sockets, TLS and the shutdown of HTTP servers, what constructors
  of other packages do (their answers are arguments), the event broadcaster, JSON and YAML text,
  the exporter of spans (no code outside the tests starts one), zap's encoders and sinks, and scheme
  registration.
  Go's aliasing is modelled for the custom resource; elsewhere objects are values.
\<close>

section \<open>The controller as main starts it\<close>

text \<open>The reconciler: with a client, a status updater, a recorder and the configuration.\<close>

definition main_reconciler :: "duration \<Rightarrow> controller_config \<Rightarrow> reconciler" where
  "main_reconciler oor c = new_policy_reconciler True True True c oor (Some c)"

lemma main_config_fields:
  assumes "main_config pd getenv f = Inr c"
  shows "0 < cc_batch_size c \<or> ''batch-size'' \<in> set (fl_set f) \<and> cc_batch_size c = fl_batch_size f"
    "''batch-size'' \<in> set (fl_set f) \<Longrightarrow> cc_batch_size c = fl_batch_size f"
    "set (csv_parts (getenv ''ZEN_CLEANER_PROTECTED_NAMESPACES'')) \<subseteq> set (cc_protected_namespaces c)"
    "cc_delete_enabled c \<Longrightarrow> getenv ''ZEN_CLEANER_DELETE_ENABLED'' \<notin> {''false'', ''0'', ''no''}"
    "getenv ''POD_NAMESPACE'' \<noteq> [] \<Longrightarrow> cc_own_namespace c = getenv ''POD_NAMESPACE''"
proof -
  let ?e = "fst (load_from_env pd getenv new_controller_config)"
  have c: "c = apply_flag_overrides f ?e"
    using assms by (auto simp: main_config_def case_prod_beta split: option.splits)
  have "0 < cc_batch_size ?e"
    by (simp add: load_from_env_fields Let_def new_controller_config_def)
  then show "0 < cc_batch_size c \<or> ''batch-size'' \<in> set (fl_set f) \<and> cc_batch_size c = fl_batch_size f"
    "''batch-size'' \<in> set (fl_set f) \<Longrightarrow> cc_batch_size c = fl_batch_size f"
    by (simp_all add: c flag_overrides)
  have "csv_parts [] = []" by (simp add: csv_parts_def)
  then show "set (csv_parts (getenv ''ZEN_CLEANER_PROTECTED_NAMESPACES'')) \<subseteq> set (cc_protected_namespaces c)"
    by (cases "getenv ''ZEN_CLEANER_PROTECTED_NAMESPACES'' = []")
      (simp_all add: c flag_overrides load_from_env_fields)
  show "cc_delete_enabled c \<Longrightarrow> getenv ''ZEN_CLEANER_DELETE_ENABLED'' \<notin> {''false'', ''0'', ''no''}"
    by (auto simp: c flag_overrides load_from_env_fields Let_def)
  have "cc_own_namespace c = cc_own_namespace ?e"
    by (simp add: c apply_flag_overrides_def Let_def with_batch_size_def with_cleanup_interval_def
        with_max_deletions_def with_max_concurrent_def)
  then show "getenv ''POD_NAMESPACE'' \<noteq> [] \<Longrightarrow> cc_own_namespace c = getenv ''POD_NAMESPACE''"
    by (simp add: load_from_env_def Let_def case_prod_beta)
qed

lemma main_reconciler_fields:
  "rc_resolver (main_reconciler oor c)" "rc_config (main_reconciler oor c) = Some c"
  by (simp_all add: main_reconciler_def new_policy_reconciler_def Let_def)

lemma main_gate:
  assumes "gate_allows (main_reconciler oor c) p obj" "u_namespace obj \<noteq> []"
  shows "cc_delete_enabled c" "u_namespace obj \<notin> set protected_namespaces"
    "u_namespace obj \<noteq> cc_own_namespace c"
    "raw \<in> set (cc_protected_namespaces c) \<Longrightarrow> u_namespace obj \<noteq> trim_space raw"
proof -
  let ?g = "new_gate \<lparr>sc_protected_namespaces = cc_protected_namespaces c,
      sc_own_namespace = cc_own_namespace c, sc_deletes_disabled = \<not> cc_delete_enabled c\<rparr>"
  have "fst (evaluate_object ?g (Some obj) (p_behavior p))"
    using assms(1) by (simp add: gate_allows_def main_reconciler_def new_policy_reconciler_def Let_def)
  from evaluate_object_safe [OF this] assms(2)
  have "\<not> sc_deletes_disabled (gt_cfg ?g)" "\<not> is_protected_namespace ?g (u_namespace obj)"
    by (simp_all add: untouchable_def)
  then show "cc_delete_enabled c" "u_namespace obj \<notin> set protected_namespaces"
    "u_namespace obj \<noteq> cc_own_namespace c"
    "raw \<in> set (cc_protected_namespaces c) \<Longrightarrow> u_namespace obj \<noteq> trim_space raw"
    using assms(2) by (simp add: new_gate_def Let_def, auto simp: new_gate_protects)
qed

text \<open>Two command lines, and an environment under which both give a configuration.\<close>

definition no_flags :: flags where
  "no_flags = \<lparr>fl_set = [], fl_cleanup_interval = Minute, fl_max_deletions = 10, fl_batch_size = 50,
     fl_max_concurrent = 5\<rparr>"

definition zero_batch_flag :: flags where
  "zero_batch_flag = no_flags\<lparr>fl_set := [''batch-size''], fl_batch_size := 0\<rparr>"

lemma ex_config: "\<exists>c. main_config (\<lambda>v. None) ex_env f = Inr c"
proof -
  have "snd (load_from_env (\<lambda>v. None) ex_env new_controller_config) = None"
    by code_simp
  then show ?thesis by (simp add: main_config_def case_prod_beta)
qed

section \<open>Properties across components\<close>



text \<open>C16. The controller as main configures it never hangs in a reconcile: unless \<open>--batch-size\<close> is
  given and not positive, every reconcile of every policy returns, from every state and
  whatever the services answer.\<close>

theorem main_reconciles_return:
  assumes "main_config pd getenv f = Inr c" "''batch-size'' \<in> set (fl_set f) \<Longrightarrow> 0 < fl_batch_size f"
  shows "\<exists>n. \<forall>fuel \<ge> n. \<exists>out.
     fst (run_state (reconcile fuel cl pgv k hash cr (main_reconciler oor c) nn) s) = Returned out"
proof (rule reconcile_ends)
  have "0 < cc_batch_size c"
    using main_config_fields(1,2) [OF assms(1)] assms(2) by fastforce
  then show "0 < resolve_batch_size p (rc_config (main_reconciler oor c))" for p
    by (simp add: resolve_batch_size_def main_reconciler_fields)
qed (rule main_reconciler_fields)

theorem main_reconciles_return_witness:
  "\<exists>c n. main_config (\<lambda>v. None) ex_env no_flags = Inr c \<and>
     (\<forall>fuel \<ge> n. \<exists>out. fst (run_state (reconcile fuel ex_cluster ex_pgv ex_checks id ex_crypto
       (main_reconciler 0 c) (''ops'', ''sweep'')) ex_sys) = Returned out)"
proof -
  obtain c where c: "main_config (\<lambda>v. None) ex_env no_flags = Inr c"
    using ex_config by blast
  from main_reconciles_return [OF c, of ex_cluster ex_pgv ex_checks id ex_crypto 0 "(''ops'', ''sweep'')" ex_sys]
  show ?thesis using c by (auto simp: no_flags_def)
qed



text \<open>C15. Two documented settings change nothing: whatever the rate of deletions and the number of
  concurrent evaluations in the configuration (\<open>--max-deletions-per-second\<close>,
  \<open>--max-concurrent-evaluations\<close> and their variables), every reconcile of the controller main
  builds does the same, from every state and with every answer of the services.\<close>

theorem rate_and_concurrency_inert:
  "reconcile fuel cl pgv k hash cr
     (main_reconciler oor (c\<lparr>cc_max_deletions := rate, cc_max_concurrent := workers\<rparr>)) nn =
   reconcile fuel cl pgv k hash cr (main_reconciler oor c) nn"
proof -
  have "inert_reconciler (main_reconciler oor (c\<lparr>cc_max_deletions := rate, cc_max_concurrent := workers\<rparr>)) =
      inert_reconciler (main_reconciler oor c)"
    by (simp add: inert_reconciler_def inert_def main_reconciler_def new_policy_reconciler_def Let_def)
  then show ?thesis by (metis inert_reconcile)
qed

end
